(* ===== verification/GoLib.thy ===== *)
theory GoLib
  imports
    Main
    "HOL-Library.Word"
    "HOL-Library.Char_ord"
    "HOL-Library.List_Lexorder"
    "HOL-Library.Product_Lexorder"
    "HOL-Library.Option_ord"
begin

text \<open>
  The prelude of the development.  It holds what the Go sources use of the Go language and its
  standard library (byte strings, \<^verbatim>\<open>strings.TrimSpace\<close>, \<^verbatim>\<open>strings.ToLower\<close>, \<^verbatim>\<open>encoding/hex\<close>), the
  regular expressions that several services compile, the page normalisation every list operation
  shares, and the generic list lemmas and lemma collections the component theories rely on.

  A Go \<^verbatim>\<open>string\<close> is a byte sequence, so it is a HOL \<open>string\<close> and \<open>length\<close> is Go's \<^verbatim>\<open>len\<close>.
  An instant (\<^verbatim>\<open>time.Time\<close>) is an \<open>int\<close> counting nanoseconds; \<^verbatim>\<open>UTC()\<close> changes the presentation of
  an instant and not the instant, so it is the identity and does not appear.
\<close>

section \<open>Names of the model's types and the lemma collections\<close>

type_synonym ID = string
type_synonym time = int

text \<open>Instants are nanoseconds since the Unix epoch; Go's zero time is the first day of year 1.\<close>

definition zero_time :: time where
  "zero_time = - 62135596800000000000"

named_theorems go_defs \<open>operations of the model, unfolded together\<close>
named_theorems go_keep \<open>rules that push an invariant through a sequence of calls\<close>
named_theorems sql_defs \<open>the statements of the repositories, unfolded together\<close>

section \<open>Byte strings\<close>

definition byte_of :: "char \<Rightarrow> nat" where
  "byte_of c = of_char c"

definition lower_byte :: "char \<Rightarrow> char" where
  "lower_byte c = (if 65 \<le> byte_of c \<and> byte_of c \<le> 90 then char_of (byte_of c + 32) else c)"

text \<open>
  \<^verbatim>\<open>lower\<close> on a text all of whose bytes are ASCII: this is what the \<^verbatim>\<open>uuid\<close> column type does to the
  spelling of an identifier and what SQL's \<^verbatim>\<open>lower\<close> does to an e-mail or a nickname.
\<close>

definition ascii_lower :: "string \<Rightarrow> string" where
  "ascii_lower s = map lower_byte s"

text \<open>
  \<^verbatim>\<open>strings.ToLower\<close>.  Besides the ASCII letters, two runes have an ASCII lower case: U+0130
  (bytes 0xC4 0xB0) maps to \<^verbatim>\<open>i\<close> and U+212A (bytes 0xE2 0x84 0xAA) to \<^verbatim>\<open>k\<close>.  Every other non-ASCII rune maps to
  a non-ASCII rune and is left as it is: the only caller checks the result against an ASCII-only
  regular expression or looks it up in a column that holds ASCII only.
\<close>

fun ToLower :: "string \<Rightarrow> string" where
  "ToLower (a # b # c # r) =
     (if byte_of a = 196 \<and> byte_of b = 176 then CHR ''i'' # ToLower (c # r)
      else if byte_of a = 226 \<and> byte_of b = 132 \<and> byte_of c = 170 then CHR ''k'' # ToLower r
      else lower_byte a # ToLower (b # c # r))"
| "ToLower [a, b] =
     (if byte_of a = 196 \<and> byte_of b = 176 then [CHR ''i''] else [lower_byte a, lower_byte b])"
| "ToLower [a] = [lower_byte a]"
| "ToLower [] = []"

subsection \<open>strings.TrimSpace\<close>

text \<open>
  \<^verbatim>\<open>unicode.IsSpace\<close>: the length in bytes of the white-space rune a string starts with, 0 if it
  starts with none.  The runes are the ASCII ones (9 to 13 and 32), U+0085, U+00A0, U+1680,
  U+2000 to U+200A, U+2028, U+2029, U+202F, U+205F and U+3000, in UTF-8.
\<close>

definition space1 :: "nat \<Rightarrow> bool" where
  "space1 a = (9 \<le> a \<and> a \<le> 13 \<or> a = 32)"

definition space2 :: "nat \<Rightarrow> nat \<Rightarrow> bool" where
  "space2 a b = (a = 194 \<and> (b = 133 \<or> b = 160))"

definition space3 :: "nat \<Rightarrow> nat \<Rightarrow> nat \<Rightarrow> bool" where
  "space3 a b c =
     (a = 225 \<and> b = 154 \<and> c = 128
      \<or> a = 226 \<and> b = 128 \<and> (128 \<le> c \<and> c \<le> 138 \<or> c = 168 \<or> c = 169 \<or> c = 175)
      \<or> a = 226 \<and> b = 129 \<and> c = 159
      \<or> a = 227 \<and> b = 128 \<and> c = 128)"

definition space_len :: "string \<Rightarrow> nat" where
  "space_len s =
     (case s of
        [] \<Rightarrow> 0
      | a # r \<Rightarrow>
          if space1 (byte_of a) then 1
          else (case r of
              [] \<Rightarrow> 0
            | b # r2 \<Rightarrow>
                if space2 (byte_of a) (byte_of b) then 2
                else (case r2 of
                    [] \<Rightarrow> 0
                  | c # _ \<Rightarrow> if space3 (byte_of a) (byte_of b) (byte_of c) then 3 else 0)))"

text \<open>The same for the rune a string ends with, on the reversed string.\<close>

definition space_len_rev :: "string \<Rightarrow> nat" where
  "space_len_rev s =
     (case s of
        [] \<Rightarrow> 0
      | c # r \<Rightarrow>
          if space1 (byte_of c) then 1
          else (case r of
              [] \<Rightarrow> 0
            | b # r2 \<Rightarrow>
                if space2 (byte_of b) (byte_of c) then 2
                else (case r2 of
                    [] \<Rightarrow> 0
                  | a # _ \<Rightarrow> if space3 (byte_of a) (byte_of b) (byte_of c) then 3 else 0)))"

lemma space_len_le: "space_len s \<le> length s"
  by (auto simp: space_len_def split: list.splits)

lemma space_len_rev_le: "space_len_rev s \<le> length s"
  by (auto simp: space_len_rev_def split: list.splits)

lemma space_len_shrinks:
  "space_len s \<noteq> 0 \<Longrightarrow> length (drop (space_len s) s) < length s"
  using space_len_le [of s] by simp

lemma space_len_rev_shrinks:
  "space_len_rev s \<noteq> 0 \<Longrightarrow> length (drop (space_len_rev s) s) < length s"
  using space_len_rev_le [of s] by simp

lemma space_len_Nil [simp]: "space_len [] = 0" "space_len_rev [] = 0"
  by (simp_all add: space_len_def space_len_rev_def)

function trim_left :: "string \<Rightarrow> string" where
  "trim_left s = (if space_len s = 0 then s else trim_left (drop (space_len s) s))"
  by pat_completeness auto
termination
  by (relation "measure length") (auto simp del: length_drop intro: space_len_shrinks)

function trim_left_rev :: "string \<Rightarrow> string" where
  "trim_left_rev s = (if space_len_rev s = 0 then s else trim_left_rev (drop (space_len_rev s) s))"
  by pat_completeness auto
termination
  by (relation "measure length") (auto simp del: length_drop intro: space_len_rev_shrinks)

declare trim_left.simps [simp del] trim_left_rev.simps [simp del]

definition trim_right :: "string \<Rightarrow> string" where
  "trim_right s = rev (trim_left_rev (rev s))"

definition TrimSpace :: "string \<Rightarrow> string" where
  "TrimSpace s = trim_right (trim_left s)"

lemma trim_left_stops: "space_len (trim_left s) = 0"
  by (induction s rule: trim_left.induct) (subst trim_left.simps, simp)

lemma trim_left_id: "space_len s = 0 \<Longrightarrow> trim_left s = s"
  by (subst trim_left.simps) simp

lemma trim_left_suffix: "\<exists>p. s = p @ trim_left s"
proof (induction s rule: trim_left.induct)
  case (1 s)
  show ?case
  proof (cases "space_len s = 0")
    case True
    then show ?thesis by (simp add: trim_left_id)
  next
    case False
    then obtain p where p: "drop (space_len s) s = p @ trim_left (drop (space_len s) s)"
      using 1 by blast
    have "trim_left s = trim_left (drop (space_len s) s)"
      using False by (subst trim_left.simps) simp
    then have "s = (take (space_len s) s @ p) @ trim_left s"
      using p by (metis append.assoc append_take_drop_id)
    then show ?thesis ..
  qed
qed

lemma trim_left_rev_stops: "space_len_rev (trim_left_rev s) = 0"
  by (induction s rule: trim_left_rev.induct) (subst trim_left_rev.simps, simp)

lemma trim_left_rev_id: "space_len_rev s = 0 \<Longrightarrow> trim_left_rev s = s"
  by (subst trim_left_rev.simps) simp

lemma trim_left_rev_suffix: "\<exists>p. s = p @ trim_left_rev s"
proof (induction s rule: trim_left_rev.induct)
  case (1 s)
  show ?case
  proof (cases "space_len_rev s = 0")
    case True
    then show ?thesis by (simp add: trim_left_rev_id)
  next
    case False
    then obtain p where p: "drop (space_len_rev s) s = p @ trim_left_rev (drop (space_len_rev s) s)"
      using 1 by blast
    have "trim_left_rev s = trim_left_rev (drop (space_len_rev s) s)"
      using False by (subst trim_left_rev.simps) simp
    then have "s = (take (space_len_rev s) s @ p) @ trim_left_rev s"
      using p by (metis append.assoc append_take_drop_id)
    then show ?thesis ..
  qed
qed

lemma trim_right_prefix: "\<exists>q. s = trim_right s @ q"
proof -
  obtain p where "rev s = p @ trim_left_rev (rev s)"
    using trim_left_rev_suffix by blast
  then have "s = trim_right s @ rev p"
    by (metis rev_append rev_rev_ident trim_right_def)
  then show ?thesis ..
qed

text \<open>White space at the start of a prefix is white space at the start of the whole string.\<close>

lemma space_len_prefix: "space_len (s @ q) = 0 \<Longrightarrow> space_len s = 0"
  by (auto simp: space_len_def split: list.splits if_splits)

lemma TrimSpace_id:
  "space_len s = 0 \<Longrightarrow> space_len_rev (rev s) = 0 \<Longrightarrow> TrimSpace s = s"
  by (simp add: TrimSpace_def trim_right_def trim_left_id trim_left_rev_id)

lemma TrimSpace_space_free:
  "space_len (TrimSpace s) = 0" "space_len_rev (rev (TrimSpace s)) = 0"
proof -
  obtain q where "trim_left s = TrimSpace s @ q"
    using trim_right_prefix TrimSpace_def by metis
  then show "space_len (TrimSpace s) = 0"
    using trim_left_stops [of s] space_len_prefix by metis
  show "space_len_rev (rev (TrimSpace s)) = 0"
    by (simp add: TrimSpace_def trim_right_def trim_left_rev_stops)
qed

lemma TrimSpace_idem [simp]: "TrimSpace (TrimSpace s) = TrimSpace s"
  by (simp add: TrimSpace_id TrimSpace_space_free)

lemma TrimSpace_Nil [simp]: "TrimSpace [] = []"
  by (simp add: TrimSpace_id)

lemma length_TrimSpace_le: "length (TrimSpace s) \<le> length s"
proof -
  obtain p where "s = p @ trim_left s" using trim_left_suffix by blast
  then have "length (trim_left s) \<le> length s" by (metis length_append le_add2)
  moreover obtain q where "trim_left s = TrimSpace s @ q"
    using trim_right_prefix TrimSpace_def by metis
  then have "length (TrimSpace s) \<le> length (trim_left s)" by (metis length_append le_add1)
  ultimately show ?thesis by simp
qed

section \<open>The identifier regular expression\<close>

text \<open>
  \<^verbatim>\<open>^[0-9a-fA-F]{8}-[0-9a-fA-F]{4}-[0-9a-fA-F]{4}-[0-9a-fA-F]{4}-[0-9a-fA-F]{12}$\<close>, which the
  message, chat and user services each compile: groups of hexadecimal digits of the given lengths,
  separated by hyphens, and nothing after the last group.
\<close>

definition is_hex :: "char \<Rightarrow> bool" where
  "is_hex c =
     (48 \<le> byte_of c \<and> byte_of c \<le> 57 \<or> 65 \<le> byte_of c \<and> byte_of c \<le> 70
      \<or> 97 \<le> byte_of c \<and> byte_of c \<le> 102)"

fun hex_groups :: "nat list \<Rightarrow> string \<Rightarrow> bool" where
  "hex_groups [] s = (s = [])"
| "hex_groups [n] s = (length s = n \<and> list_all is_hex s)"
| "hex_groups (n # ns) s =
     (length (take n s) = n \<and> list_all is_hex (take n s) \<and>
      (case drop n s of [] \<Rightarrow> False | c # r \<Rightarrow> c = CHR ''-'' \<and> hex_groups ns r))"

definition uuid_pattern :: "string \<Rightarrow> bool" where
  "uuid_pattern s = hex_groups [8, 4, 4, 4, 12] s"

text \<open>Bitwise forms of the two character tests, for evaluation.\<close>

lemma is_hex_Char [code]:
  "is_hex (Char b0 b1 b2 b3 b4 b5 b6 b7) =
     (\<not> b7 \<and> (if b6 then \<not> b4 \<and> \<not> b3 \<and> (b0 \<or> b1 \<or> b2) \<and> \<not> (b0 \<and> b1 \<and> b2)
              else b5 \<and> b4 \<and> (\<not> b3 \<or> \<not> b2 \<and> \<not> b1)))"
  by (cases b0; cases b1; cases b2; cases b3; cases b4; cases b5; cases b6; cases b7;
      simp add: is_hex_def byte_of_def)

lemma lower_byte_Char [code]:
  "lower_byte (Char b0 b1 b2 b3 b4 b5 b6 b7) =
     (if \<not> b7 \<and> b6 \<and> \<not> b5 \<and> (b0 \<or> b1 \<or> b2 \<or> b3 \<or> b4) \<and> \<not> (b4 \<and> b3 \<and> (b2 \<or> b1 \<and> b0))
      then Char b0 b1 b2 b3 b4 True b6 b7 else Char b0 b1 b2 b3 b4 b5 b6 b7)"
  by (cases b0; cases b1; cases b2; cases b3; cases b4; cases b5; cases b6; cases b7;
      simp add: lower_byte_def byte_of_def char_of_def bit_0)

lemma is_hex_not_space: "is_hex c \<Longrightarrow> \<not> space1 (byte_of c)"
  by (auto simp: is_hex_def space1_def)

lemma lower_byte_hex [simp]: "is_hex (lower_byte c) = is_hex c"
proof (cases "65 \<le> byte_of c \<and> byte_of c \<le> 90")
  case True
  then have "byte_of (lower_byte c) = byte_of c + 32"
    by (simp add: lower_byte_def byte_of_def)
  with True show ?thesis by (auto simp: is_hex_def)
qed (auto simp: lower_byte_def)

lemma lower_byte_idem [simp]: "lower_byte (lower_byte c) = lower_byte c"
  by (auto simp: lower_byte_def byte_of_def)

lemma lower_byte_hyphen [simp]: "lower_byte c = CHR ''-'' \<longleftrightarrow> c = CHR ''-''"
proof
  assume eq: "lower_byte c = CHR ''-''"
  show "c = CHR ''-''"
  proof (cases "65 \<le> byte_of c \<and> byte_of c \<le> 90")
    case True
    then have "byte_of (lower_byte c) = byte_of c + 32"
      by (simp add: lower_byte_def byte_of_def)
    with True eq show ?thesis by (simp add: byte_of_def)
  next
    case False
    with eq show ?thesis by (auto simp: lower_byte_def)
  qed
qed (simp add: lower_byte_def byte_of_def)

lemma ascii_lower_idem [simp]: "ascii_lower (ascii_lower s) = ascii_lower s"
  by (simp add: ascii_lower_def)

lemma length_ascii_lower [simp]: "length (ascii_lower s) = length s"
  by (simp add: ascii_lower_def)

lemma ascii_lower_Nil [simp]: "ascii_lower s = [] \<longleftrightarrow> s = []" "ascii_lower [] = []"
  by (simp_all add: ascii_lower_def)

lemma hex_groups_lower [simp]: "hex_groups ns (ascii_lower s) = hex_groups ns s"
  unfolding ascii_lower_def
proof (induction ns s rule: hex_groups.induct)
  case (3 n m ns s)
  show ?case
  proof (cases "drop n s")
    case (Cons c r)
    with 3 show ?thesis
      by (auto simp: list.pred_map comp_def take_map drop_map)
  qed (auto simp: drop_map)
qed (auto simp: list.pred_map comp_def)

lemma uuid_pattern_lower [simp]: "uuid_pattern (ascii_lower s) = uuid_pattern s"
  by (simp add: uuid_pattern_def)

lemma hex_groups_chars: "hex_groups ns s \<Longrightarrow> c \<in> set s \<Longrightarrow> is_hex c \<or> c = CHR ''-''"
proof (induction ns s rule: hex_groups.induct)
  case (3 n m ns s)
  from "3.prems"(1) obtain r where r: "drop n s = CHR ''-'' # r"
    and r2: "hex_groups (m # ns) r" and hex: "list_all is_hex (take n s)"
    by (auto split: list.splits)
  have s: "s = take n s @ CHR ''-'' # r" using r by (metis append_take_drop_id)
  have "c \<in> set (take n s) \<or> c = CHR ''-'' \<or> c \<in> set r"
    using "3.prems"(2) by (subst (asm) s) auto
  then show ?case
    using hex "3.IH" [OF r r2] by (auto simp: list_all_iff)
qed (auto simp: list_all_iff)

lemma uuid_chars: "uuid_pattern s \<Longrightarrow> c \<in> set s \<Longrightarrow> is_hex c \<or> c = CHR ''-''"
  unfolding uuid_pattern_def by (rule hex_groups_chars)

lemma uuid_not_Nil [simp]: "uuid_pattern s \<Longrightarrow> s \<noteq> []"
  by (auto simp: uuid_pattern_def)

lemma uuid_char_byte: "is_hex c \<or> c = CHR ''-'' \<Longrightarrow> 45 \<le> byte_of c \<and> byte_of c \<le> 102"
  by (auto simp: is_hex_def byte_of_def)

lemma space_len_ascii_graph:
  "45 \<le> byte_of a \<Longrightarrow> byte_of a \<le> 102 \<Longrightarrow> space_len (a # r) = 0"
  "45 \<le> byte_of a \<Longrightarrow> byte_of a \<le> 102 \<Longrightarrow> space_len_rev (a # r) = 0"
  by (auto simp: space_len_def space_len_rev_def space1_def space2_def space3_def
      split: list.split)

lemma uuid_space_free:
  assumes "uuid_pattern s"
  shows "space_len s = 0" "space_len_rev (rev s) = 0"
proof -
  have byte: "45 \<le> byte_of c \<and> byte_of c \<le> 102" if "c \<in> set s" for c
    using that assms uuid_chars uuid_char_byte by blast
  show "space_len s = 0"
    using byte by (cases s) (simp_all add: space_len_ascii_graph)
  show "space_len_rev (rev s) = 0"
    using byte by (cases s rule: rev_cases) (simp_all add: space_len_ascii_graph)
qed

lemma TrimSpace_uuid [simp]: "uuid_pattern s \<Longrightarrow> TrimSpace s = s"
  by (simp add: TrimSpace_id uuid_space_free)

section \<open>encoding/hex\<close>

definition hex_digit :: "nat \<Rightarrow> char" where
  "hex_digit n = (if n < 10 then char_of (48 + n) else char_of (87 + n))"

definition EncodeToString :: "8 word list \<Rightarrow> string" where
  "EncodeToString bs = concat (map (\<lambda>b. [hex_digit (unat b div 16), hex_digit (unat b mod 16)]) bs)"

text \<open>The digits as a table, for evaluation.\<close>

lemma hex_digit_table [code]:
  "hex_digit n = (if n < 16 then ''0123456789abcdef'' ! n else char_of (87 + n))"
proof (cases "n < 16")
  case True
  then consider "n = 0" | "n = 1" | "n = 2" | "n = 3" | "n = 4" | "n = 5" | "n = 6" | "n = 7" | "n = 8"
    | "n = 9" | "n = 10" | "n = 11" | "n = 12" | "n = 13" | "n = 14" | "n = 15" by atomize_elim arith
  then show ?thesis by cases (simp_all add: hex_digit_def char_of_def bit_numeral_rec bit_0)
qed (simp add: hex_digit_def)

lemma hex_digit_inj: "m < 16 \<Longrightarrow> n < 16 \<Longrightarrow> hex_digit m = hex_digit n \<longleftrightarrow> m = n"
  by (auto simp: hex_digit_def)

lemma length_EncodeToString [simp]: "length (EncodeToString bs) = 2 * length bs"
  by (induction bs) (simp_all add: EncodeToString_def)

lemma EncodeToString_inj: "EncodeToString xs = EncodeToString ys \<Longrightarrow> xs = ys"
proof (induction xs arbitrary: ys)
  case Nil
  then show ?case by (cases ys) (simp_all add: EncodeToString_def)
next
  case (Cons x xs)
  then obtain y zs where ys: "ys = y # zs"
    by (cases ys) (simp_all add: EncodeToString_def)
  have lt: "unat b div 16 < 16" for b :: "8 word"
  proof -
    have "unat b < 2 ^ LENGTH(8)" by (rule unsigned_less)
    then show ?thesis by simp
  qed
  from Cons.prems have "unat x div 16 = unat y div 16" "unat x mod 16 = unat y mod 16"
    and "EncodeToString xs = EncodeToString zs"
    unfolding ys by (auto simp: EncodeToString_def hex_digit_inj lt)
  moreover then have "unat x = unat y" by (metis div_mult_mod_eq)
  ultimately show ?case using Cons.IH ys by (simp add: word_unat_eq_iff)
qed

end
