(* ===== verification/GoText.thy ===== *)
theory GoText
  imports GoLib
begin

text \<open>
  More of the Go standard library the sources use on texts and integers: \<^verbatim>\<open>strings\<close>, \<^verbatim>\<open>strconv.Atoi\<close>,
  \<^verbatim>\<open>net.SplitHostPort\<close>, \<^verbatim>\<open>unicode/utf8\<close>, 64-bit arithmetic of \<^verbatim>\<open>int\<close> and \<^verbatim>\<open>time.Duration\<close>, and the two
  regular expressions for credentials.
\<close>

section \<open>Integers\<close>

text \<open>\<^verbatim>\<open>int\<close>, \<^verbatim>\<open>int64\<close> and \<^verbatim>\<open>time.Duration\<close> are 64-bit two's complement: a result out of range wraps.\<close>

definition int64 :: "int \<Rightarrow> int" where
  "int64 x = (x + 2 ^ 63) mod 2 ^ 64 - 2 ^ 63"

definition maxInt64 :: int where "maxInt64 = 9223372036854775807"

definition Second :: int where "Second = 1000000000"

text \<open>\<^verbatim>\<open>time.Duration(n) * time.Second\<close>\<close>

definition seconds :: "int \<Rightarrow> int" where
  "seconds n = int64 (n * Second)"

lemma int64_id: "- maxInt64 - 1 \<le> x \<Longrightarrow> x \<le> maxInt64 \<Longrightarrow> int64 x = x"
  unfolding int64_def maxInt64_def by simp

lemma seconds_exact: "0 \<le> n \<Longrightarrow> n \<le> 9223372036 \<Longrightarrow> seconds n = n * Second"
  unfolding seconds_def by (rule int64_id) (simp_all add: Second_def maxInt64_def)

section \<open>Searching and splitting\<close>

text \<open>\<^verbatim>\<open>strings.IndexByte\<close> and \<^verbatim>\<open>strings.LastIndexByte\<close>; \<open>None\<close> is -1.\<close>

fun IndexByte :: "string \<Rightarrow> char \<Rightarrow> nat option" where
  "IndexByte [] c = None"
| "IndexByte (x # xs) c = (if x = c then Some 0 else map_option Suc (IndexByte xs c))"

definition LastIndexByte :: "string \<Rightarrow> char \<Rightarrow> nat option" where
  "LastIndexByte s c = map_option (\<lambda>i. length s - Suc i) (IndexByte (rev s) c)"

text \<open>\<^verbatim>\<open>strings.Split\<close> at a one-byte separator.\<close>

fun split_on :: "char \<Rightarrow> string \<Rightarrow> string list" where
  "split_on sep [] = [[]]"
| "split_on sep (c # s) =
     (if c = sep then [] # split_on sep s
      else case split_on sep s of [] \<Rightarrow> [[c]] | p # ps \<Rightarrow> (c # p) # ps)"

definition HasPrefix :: "string \<Rightarrow> string \<Rightarrow> bool" where
  "HasPrefix s prefix = (take (length prefix) s = prefix)"

definition HasSuffix :: "string \<Rightarrow> string \<Rightarrow> bool" where
  "HasSuffix s suffix = (length suffix \<le> length s \<and> drop (length s - length suffix) s = suffix)"

definition TrimPrefix :: "string \<Rightarrow> string \<Rightarrow> string" where
  "TrimPrefix s prefix = (if HasPrefix s prefix then drop (length prefix) s else s)"

text \<open>
  \<^verbatim>\<open>strings.EqualFold\<close> against a word in ASCII.  Only two letters have a case variant outside ASCII, the long s (C5 BF) and
  the Kelvin sign (E2 84 AA).
\<close>

fun fold_text :: "string \<Rightarrow> string" where
  "fold_text [] = []"
| "fold_text (a # s) =
     (if a = CHR 0xC5 \<and> take 1 s = [CHR 0xBF] then CHR ''s'' # fold_text (drop 1 s)
      else if a = CHR 0xE2 \<and> take 2 s = [CHR 0x84, CHR 0xAA] then CHR ''k'' # fold_text (drop 2 s)
      else ascii_lower [a] @ fold_text s)"

definition EqualFold :: "string \<Rightarrow> string \<Rightarrow> bool" where
  "EqualFold s t = (fold_text s = ascii_lower t)"

text \<open>\<^verbatim>\<open>net.SplitHostPort\<close>; the texts of its errors are not looked at.\<close>

definition bracket_host :: "string \<Rightarrow> nat \<Rightarrow> (string \<times> nat \<times> nat) option" where
  "bracket_host hp i =
     (case IndexByte hp (CHR '']'') of
        None \<Rightarrow> None
      | Some e \<Rightarrow> if e + 1 = i then Some (drop 1 (take e hp), 1, e + 1) else None)"

definition SplitHostPort :: "string \<Rightarrow> (string \<times> string) option" where
  "SplitHostPort hp =
     (case LastIndexByte hp (CHR '':'') of
        None \<Rightarrow> None
      | Some i \<Rightarrow>
          (case (if hd hp = CHR ''['' then bracket_host hp i
                 else if IndexByte (take i hp) (CHR '':'') \<noteq> None then None
                 else Some (take i hp, 0, 0)) of
             None \<Rightarrow> None
           | Some (host, j, k) \<Rightarrow>
               if IndexByte (drop j hp) (CHR ''['') \<noteq> None
                  \<or> IndexByte (drop k hp) (CHR '']'') \<noteq> None then None
               else Some (host, drop (Suc i) hp)))"

section \<open>Numbers in texts\<close>

definition is_digit :: "char \<Rightarrow> bool" where
  "is_digit c = (48 \<le> byte_of c \<and> byte_of c \<le> 57)"

definition digits_value :: "string \<Rightarrow> int" where
  "digits_value s = foldl (\<lambda>n c. 10 * n + (int (byte_of c) - 48)) 0 s"

text \<open>\<^verbatim>\<open>strconv.Atoi\<close>: an optional sign, one or more decimal digits, within 64 bits; \<open>None\<close> is the error.\<close>

definition Atoi :: "string \<Rightarrow> int option" where
  "Atoi s =
     (let neg = (s \<noteq> [] \<and> hd s = CHR ''-''); signed = (s \<noteq> [] \<and> (hd s = CHR ''-'' \<or> hd s = CHR ''+''));
          ds = (if signed then tl s else s); n = (if neg then - digits_value ds else digits_value ds)
      in if ds = [] \<or> \<not> list_all is_digit ds then None
         else if n < - maxInt64 - 1 \<or> maxInt64 < n then None
         else Some n)"

text \<open>The verb \<^verbatim>\<open>%d\<close>\<close>

fun nat_digits :: "nat \<Rightarrow> string" where
  "nat_digits n = (if n < 10 then [char_of (48 + n)] else nat_digits (n div 10) @ [char_of (48 + n mod 10)])"

declare nat_digits.simps [simp del]

definition Itoa :: "int \<Rightarrow> string" where
  "Itoa n = (if n < 0 then CHR ''-'' # nat_digits (nat (- n)) else nat_digits (nat n))"

section \<open>UTF-8\<close>

definition cont_byte :: "nat \<Rightarrow> bool" where
  "cont_byte b = (128 \<le> b \<and> b < 192)"

text \<open>
  The length of the well-formed sequence a text starts with, 0 if it starts with none: no overlong
  forms, no surrogates, nothing above U+10FFFF.
\<close>

definition utf8_seq :: "nat list \<Rightarrow> nat" where
  "utf8_seq bs =
     (case bs of
        [] \<Rightarrow> 0
      | a # r \<Rightarrow>
          if a < 128 then 1
          else (case r of
              [] \<Rightarrow> 0
            | b # r2 \<Rightarrow>
                if 194 \<le> a \<and> a < 224 then (if cont_byte b then 2 else 0)
                else (case r2 of
                    [] \<Rightarrow> 0
                  | c # r3 \<Rightarrow>
                      if 224 \<le> a \<and> a < 240 then
                        (if cont_byte b \<and> cont_byte c \<and> (a = 224 \<longrightarrow> 160 \<le> b) \<and> (a = 237 \<longrightarrow> b < 160)
                         then 3 else 0)
                      else (case r3 of
                          [] \<Rightarrow> 0
                        | d # _ \<Rightarrow>
                            if 240 \<le> a \<and> a < 245 \<and> cont_byte b \<and> cont_byte c \<and> cont_byte d
                               \<and> (a = 240 \<longrightarrow> 144 \<le> b) \<and> (a = 244 \<longrightarrow> b < 144)
                            then 4 else 0))))"

fun utf8_valid_bytes :: "nat \<Rightarrow> nat list \<Rightarrow> bool" where
  "utf8_valid_bytes fuel [] = True"
| "utf8_valid_bytes 0 (b # bs) = False"
| "utf8_valid_bytes (Suc n) (b # bs) =
     (let k = utf8_seq (b # bs) in k \<noteq> 0 \<and> utf8_valid_bytes n (drop k (b # bs)))"

text \<open>Every step takes at least one byte, so the length is fuel enough.\<close>

definition utf8_valid :: "string \<Rightarrow> bool" where
  "utf8_valid s = utf8_valid_bytes (length s) (map byte_of s)"

text \<open>
  What \<^verbatim>\<open>encoding/json\<close> writes for a string: each byte that belongs to no well-formed sequence becomes the
  replacement character U+FFFD.
\<close>

definition RuneError :: string where "RuneError = [CHR 0xEF, CHR 0xBF, CHR 0xBD]"

fun json_text :: "string \<Rightarrow> string" where
  "json_text [] = []"
| "json_text (c # s) =
     (case utf8_seq (map byte_of (c # s)) of
        0 \<Rightarrow> RuneError @ json_text s
      | Suc k \<Rightarrow> c # take k s @ json_text (drop k s))"

lemma utf8_seq_ascii [simp]: "a < 128 \<Longrightarrow> utf8_seq (a # bs) = 1"
  by (simp add: utf8_seq_def)

text \<open>A well-formed sequence is recognised whatever follows it.\<close>

lemma utf8_seq_prefix:
  assumes "utf8_seq bs = Suc k"
  shows "utf8_seq (take (Suc k) bs @ r) = Suc k"
  using assms unfolding utf8_seq_def by (auto split: list.splits if_splits)

lemma json_text_Nil_iff [simp]: "json_text s = [] \<longleftrightarrow> s = []"
  by (cases s) (simp_all add: RuneError_def split: nat.split)

lemma json_text_ascii: "\<forall>c \<in> set s. byte_of c < 128 \<Longrightarrow> json_text s = s"
  by (induction s) simp_all

lemma json_text_RuneError: "json_text (RuneError @ s) = RuneError @ json_text s"
proof -
  have "utf8_seq (map byte_of (RuneError @ s)) = 3"
    by (simp add: RuneError_def utf8_seq_def cont_byte_def byte_of_def)
  then show ?thesis by (simp add: RuneError_def numeral_3_eq_3)
qed

lemma json_text_idem [simp]: "json_text (json_text s) = json_text s"
proof (induction s rule: json_text.induct)
  case (2 c s)
  show ?case
  proof (cases "utf8_seq (map byte_of (c # s))")
    case 0
    then show ?thesis using "2.IH"(1) by (simp add: json_text_RuneError)
  next
    case (Suc k)
    let ?r = "json_text (drop k s)"
    have "utf8_seq (map byte_of (c # take k s @ ?r)) = Suc k"
      using utf8_seq_prefix [OF Suc, of "map byte_of ?r"] by (simp add: take_map)
    moreover have "k \<le> length s" using Suc by (auto simp: utf8_seq_def split: list.splits if_splits)
    ultimately show ?thesis using Suc "2.IH"(2) [OF Suc] by simp
  qed
qed simp

text \<open>A text that comes out as ASCII was ASCII.\<close>

lemma json_text_to_ascii: "\<forall>c \<in> set (json_text s). byte_of c < 128 \<Longrightarrow> json_text s = s"
proof (induction s rule: json_text.induct)
  case (2 c s)
  then show ?case
    by (cases "utf8_seq (map byte_of (c # s))") (auto simp: RuneError_def byte_of_def)
qed simp

section \<open>Credentials\<close>

definition is_letter :: "char \<Rightarrow> bool" where
  "is_letter c = (65 \<le> byte_of c \<and> byte_of c \<le> 90 \<or> 97 \<le> byte_of c \<and> byte_of c \<le> 122)"

text \<open>\<^verbatim>\<open>^[a-zA-Z0-9_]{3,32}$\<close>\<close>

definition nickname_pattern :: "string \<Rightarrow> bool" where
  "nickname_pattern s =
     (3 \<le> length s \<and> length s \<le> 32
      \<and> list_all (\<lambda>c. is_letter c \<or> is_digit c \<or> c = CHR ''_'') s)"

text \<open>
  \<^verbatim>\<open>^[a-zA-Z0-9._%+\-]+@[a-zA-Z0-9.\-]+\.[a-zA-Z]{2,}$\<close>.  The class before the at sign does not contain
  it, so a match splits at the first one; the last class has no dot, so it splits at the last dot.
\<close>

definition email_local :: "char \<Rightarrow> bool" where
  "email_local c = (is_letter c \<or> is_digit c \<or> c \<in> set ''._%+-'')"

definition email_domain :: "char \<Rightarrow> bool" where
  "email_domain c = (is_letter c \<or> is_digit c \<or> c \<in> set ''.-'')"

definition email_pattern :: "string \<Rightarrow> bool" where
  "email_pattern s =
     (let user = takeWhile (\<lambda>c. c \<noteq> CHR ''@'') s; host = rev (drop 1 (dropWhile (\<lambda>c. c \<noteq> CHR ''@'') s));
          tld = takeWhile (\<lambda>c. c \<noteq> CHR ''.'') host; dom = dropWhile (\<lambda>c. c \<noteq> CHR ''.'') host
      in user \<noteq> [] \<and> list_all email_local user
         \<and> 2 \<le> length tld \<and> list_all is_letter tld
         \<and> 2 \<le> length dom \<and> list_all email_domain (drop 1 dom))"

end
