(* ===== verification/Json.thy ===== *)
theory Json
  imports GoText
begin

text \<open>
  JSON values and the envelope every WebSocket frame carries
  (\<^verbatim>\<open>backend/internal/transport/ws/events.go\<close>).

  A JSON text is represented by the value it denotes: \<open>RawJSON v\<close> is a byte slice that parses to
  \<open>v\<close>, \<open>RawBad b\<close> one that does not parse, and \<open>RawNil\<close> the empty slice, which the code tests with
  \<^verbatim>\<open>len(raw) == 0\<close>.  White space, escapes and the order in which \<^verbatim>\<open>jsonb\<close> keeps object keys are
  thereby left out.  A timestamp that the code marshals is the leaf \<open>JTime t\<close>, a JSON string with
  the RFC 3339 rendering of the instant \<open>t\<close>.
\<close>

datatype json =
    JNull
  | JBool bool
  | JNum int
  | JStr string
  | JTime time
  | JArr "json list"
  | JObj "(string \<times> json) list"

datatype RawMessage = RawNil | RawJSON json | RawBad string

text \<open>\<^verbatim>\<open>len(raw) == 0\<close>\<close>

definition raw_empty :: "RawMessage \<Rightarrow> bool" where
  "raw_empty r = (case r of RawNil \<Rightarrow> True | RawJSON _ \<Rightarrow> False | RawBad b \<Rightarrow> b = [])"

text \<open>\<^verbatim>\<open>json.Unmarshal\<close> into an \<^verbatim>\<open>any\<close>: \<open>None\<close> is the decoding error.\<close>

fun Unmarshal :: "RawMessage \<Rightarrow> json option" where
  "Unmarshal (RawJSON v) = Some v"
| "Unmarshal RawNil = None"
| "Unmarshal (RawBad _) = None"

definition json_field :: "string \<Rightarrow> json \<Rightarrow> json option" where
  "json_field k v = (case v of JObj kvs \<Rightarrow> map_of kvs k | _ \<Rightarrow> None)"

section \<open>Event names and the envelope\<close>

definition EventPing :: string where "EventPing = ''ping''"
definition EventPong :: string where "EventPong = ''pong''"
definition EventMessageSend :: string where "EventMessageSend = ''message.send''"
definition EventMessageRead :: string where "EventMessageRead = ''message.read''"
definition EventTypingStart :: string where "EventTypingStart = ''typing.start''"
definition EventTypingStop :: string where "EventTypingStop = ''typing.stop''"
definition EventTypingStarted :: string where "EventTypingStarted = ''typing.started''"
definition EventTypingStopped :: string where "EventTypingStopped = ''typing.stopped''"
definition EventError :: string where "EventError = ''error''"

text \<open>
  \<^verbatim>\<open>MarshalEnvelope\<close>: a nil \<^verbatim>\<open>data\<close> or \<^verbatim>\<open>meta\<close> (\<open>None\<close>) becomes an empty object; \<open>data\<close> and \<open>meta\<close> are given
  as the JSON values they encode to.  Marshalling a JSON value does not fail, so the error returns of the source are not reached.
\<close>

definition MarshalEnvelope :: "string \<Rightarrow> json option \<Rightarrow> json option \<Rightarrow> RawMessage" where
  "MarshalEnvelope event data meta =
     RawJSON (JObj
       [(''event'', JStr (json_text event)),
        (''data'', case data of None \<Rightarrow> JObj [] | Some d \<Rightarrow> d),
        (''meta'', case meta of None \<Rightarrow> JObj [] | Some m \<Rightarrow> m)])"

lemma MarshalEnvelope_fields:
  assumes "Unmarshal (MarshalEnvelope event (Some d) meta) = Some v"
  shows "json_field ''event'' v = Some (JStr (json_text event))" and "json_field ''data'' v = Some d"
  using assms by (auto simp: MarshalEnvelope_def json_field_def)

end
