(* ===== verification/AppErr.thy ===== *)
theory AppErr
  imports Json
begin

text \<open>
  The typed application errors of \<^verbatim>\<open>backend/internal/pkg/errors/errors.go\<close> and the other error values
  that travel through the layers: the repository sentinel \<^verbatim>\<open>repository.ErrNotFound\<close>, the driver's
  \<^verbatim>\<open>pgx.ErrNoRows\<close>, a \<^verbatim>\<open>pgconn.PgError\<close> with its SQLSTATE, and opaque errors.  The Go interface \<^verbatim>\<open>error\<close>
  is the datatype \<open>err\<close>; a nil error is the right side of a sum.
\<close>

datatype Kind =
    KindUnauthorized
  | KindForbidden
  | KindNotFound
  | KindValidationFailed
  | KindConflict
  | KindInternal

fun kind_string :: "Kind \<Rightarrow> string" where
  "kind_string KindUnauthorized = ''unauthorized''"
| "kind_string KindForbidden = ''forbidden''"
| "kind_string KindNotFound = ''not_found''"
| "kind_string KindValidationFailed = ''validation_failed''"
| "kind_string KindConflict = ''conflict''"
| "kind_string KindInternal = ''internal''"

text \<open>\<open>AppError k m d c\<close> is \<^verbatim>\<open>*apperr.Error\<close> with its kind, message, details and cause.\<close>

datatype err =
    ErrNotFound
  | ErrNoRows
  | PgError string
  | ErrText string
  | AppError Kind string "json option" "err option"

definition New :: "Kind \<Rightarrow> string \<Rightarrow> err option \<Rightarrow> err" where
  "New kind message cause = AppError kind message None cause"

definition Unauthorized :: "string \<Rightarrow> err" where
  "Unauthorized message = New KindUnauthorized message None"

definition Forbidden :: "string \<Rightarrow> err" where
  "Forbidden message = New KindForbidden message None"

definition NotFound :: "string \<Rightarrow> err" where
  "NotFound message = New KindNotFound message None"

definition Validation :: "string \<Rightarrow> err option \<Rightarrow> err" where
  "Validation message cause = New KindValidationFailed message cause"

definition ValidationDetails :: "string \<Rightarrow> json option \<Rightarrow> err" where
  "ValidationDetails message details = AppError KindValidationFailed message details None"

definition Conflict :: "string \<Rightarrow> err" where
  "Conflict message = New KindConflict message None"

definition Internal :: "string \<Rightarrow> err option \<Rightarrow> err" where
  "Internal message cause = New KindInternal message cause"

lemmas apperr_defs =
  New_def Unauthorized_def Forbidden_def NotFound_def Validation_def ValidationDetails_def
  Conflict_def Internal_def

text \<open>\<^verbatim>\<open>(*Error).Unwrap\<close>; the other errors wrap nothing.\<close>

fun Unwrap :: "err \<Rightarrow> err option" where
  "Unwrap (AppError _ _ _ cause) = cause"
| "Unwrap _ = None"

text \<open>\<^verbatim>\<open>errors.Is\<close> against a sentinel: the error or one of its causes is the sentinel.\<close>

fun errors_Is :: "err \<Rightarrow> err \<Rightarrow> bool" where
  "errors_Is (AppError k m d (Some c)) target = (AppError k m d (Some c) = target \<or> errors_Is c target)"
| "errors_Is e target = (e = target)"

text \<open>\<^verbatim>\<open>As\<close>: the outermost \<^verbatim>\<open>*Error\<close> in the chain, which is the error itself if it is one.\<close>

definition As :: "err \<Rightarrow> err option" where
  "As e = (case e of AppError _ _ _ _ \<Rightarrow> Some e | _ \<Rightarrow> None)"

definition WithDetails :: "err \<Rightarrow> json option \<Rightarrow> err" where
  "WithDetails e details = (case As e of Some (AppError k m _ c) \<Rightarrow> AppError k m details c | _ \<Rightarrow> e)"

fun error_kind :: "err \<Rightarrow> Kind option" where
  "error_kind (AppError k _ _ _) = Some k"
| "error_kind _ = None"

text \<open>\<^verbatim>\<open>Error()\<close>\<close>

fun error_text :: "err \<Rightarrow> string" where
  "error_text ErrNotFound = ''repository: not found''"
| "error_text ErrNoRows = ''no rows in result set''"
| "error_text (PgError code) = ''ERROR (SQLSTATE '' @ code @ '')''"
| "error_text (ErrText s) = s"
| "error_text (AppError _ message _ (Some c)) = message @ '': '' @ error_text c"
| "error_text (AppError _ message _ None) = message"

text \<open>The method \<^verbatim>\<open>(*Error).HTTPStatus\<close>, then the function \<^verbatim>\<open>HTTPStatus\<close> on any error value.\<close>

fun kind_HTTPStatus :: "Kind \<Rightarrow> nat" where
  "kind_HTTPStatus KindUnauthorized = 401"
| "kind_HTTPStatus KindForbidden = 403"
| "kind_HTTPStatus KindNotFound = 404"
| "kind_HTTPStatus KindValidationFailed = 422"
| "kind_HTTPStatus KindConflict = 409"
| "kind_HTTPStatus KindInternal = 500"

definition HTTPStatus :: "err option \<Rightarrow> nat" where
  "HTTPStatus e =
     (case e of
        None \<Rightarrow> 200
      | Some e \<Rightarrow> (case As e of Some (AppError k _ _ _) \<Rightarrow> kind_HTTPStatus k | _ \<Rightarrow> 500))"

lemma apperr_kind [simp]:
  "error_kind (Unauthorized m) = Some KindUnauthorized"
  "error_kind (Forbidden m) = Some KindForbidden"
  "error_kind (NotFound m) = Some KindNotFound"
  "error_kind (Validation m c) = Some KindValidationFailed"
  "error_kind (Conflict m) = Some KindConflict"
  "error_kind (Internal m c) = Some KindInternal"
  by (simp_all add: apperr_defs)

lemma apperr_not_sentinel [simp]:
  "errors_Is (Unauthorized m) ErrNotFound = False"
  "errors_Is (Forbidden m) ErrNotFound = False"
  "errors_Is (NotFound m) ErrNotFound = False"
  "errors_Is (Conflict m) ErrNotFound = False"
  by (simp_all add: apperr_defs)

lemma errors_Is_wrapped [simp]:
  "errors_Is (Internal m (Some c)) ErrNotFound = errors_Is c ErrNotFound"
  by (simp add: apperr_defs)

lemma kind_HTTPStatus_inj: "kind_HTTPStatus a = kind_HTTPStatus b \<longleftrightarrow> a = b"
  by (cases a; cases b) simp_all

lemma HTTPStatus_kind: "error_kind e = Some k \<Longrightarrow> HTTPStatus (Some e) = kind_HTTPStatus k"
  by (cases e) (simp_all add: HTTPStatus_def As_def)

lemma HTTPStatus_other: "error_kind e = None \<Longrightarrow> HTTPStatus (Some e) = 500"
  by (cases e) (simp_all add: HTTPStatus_def As_def)

end
