(* ===== verification/Domain.thy ===== *)
theory Domain
  imports AppErr
begin

text \<open>
  The entities of \<^verbatim>\<open>backend/internal/domain\<close>, the row types and options of
  \<^verbatim>\<open>backend/internal/repository\<close> and the request and response shapes of \<^verbatim>\<open>backend/internal/dto\<close>.
  A struct is a record, a pointer field an option.  Field names carry a prefix for the struct they
  belong to (\<open>m_ID\<close> is \<^verbatim>\<open>Message.ID\<close>).  The string enumerations are datatypes: the tables constrain
  the stored strings to these values by CHECK.
\<close>

section \<open>Enumerations\<close>

datatype ChatType = ChatTypeDirect | ChatTypeGroup

datatype ChatMemberRole = ChatMemberRoleOwner | ChatMemberRoleAdmin | ChatMemberRoleMember

datatype MessageType = MessageTypeText | MessageTypeImage | MessageTypeFile | MessageTypeSystem

fun chat_type_string :: "ChatType \<Rightarrow> string" where
  "chat_type_string ChatTypeDirect = ''direct''"
| "chat_type_string ChatTypeGroup = ''group''"

fun role_string :: "ChatMemberRole \<Rightarrow> string" where
  "role_string ChatMemberRoleOwner = ''owner''"
| "role_string ChatMemberRoleAdmin = ''admin''"
| "role_string ChatMemberRoleMember = ''member''"

fun message_type_string :: "MessageType \<Rightarrow> string" where
  "message_type_string MessageTypeText = ''text''"
| "message_type_string MessageTypeImage = ''image''"
| "message_type_string MessageTypeFile = ''file''"
| "message_type_string MessageTypeSystem = ''system''"

definition EventMessageCreated :: string where "EventMessageCreated = ''message.created''"
definition EventMessageUpdated :: string where "EventMessageUpdated = ''message.updated''"
definition EventMessageDeleted :: string where "EventMessageDeleted = ''message.deleted''"
definition EventMessageReadReceipt :: string where
  "EventMessageReadReceipt = ''message.read_receipt''"
definition AggregateTypeMessage :: string where "AggregateTypeMessage = ''message''"
definition AggregateTypeReadState :: string where "AggregateTypeReadState = ''read_state''"

lemmas event_names =
  EventMessageCreated_def EventMessageUpdated_def EventMessageDeleted_def
  EventMessageReadReceipt_def AggregateTypeMessage_def AggregateTypeReadState_def

section \<open>Entities\<close>

record User =
  u_ID :: ID
  u_Email :: string
  u_PasswordHash :: string
  u_Nickname :: string
  u_FirstName :: "string option"
  u_LastName :: "string option"
  u_AvatarURL :: "string option"
  u_CreatedAt :: time
  u_UpdatedAt :: time
  u_LastSeenAt :: "time option"
  u_IsActive :: bool

record Chat =
  c_ID :: ID
  c_Type :: ChatType
  c_Title :: "string option"
  c_AvatarURL :: "string option"
  c_CreatedBy :: "ID option"
  c_CreatedAt :: time
  c_UpdatedAt :: time
  c_LastMessageID :: "ID option"
  c_LastMessageAt :: "time option"
  c_IsDeleted :: bool
  c_DirectKey :: "string option"

record ChatMember =
  cm_ChatID :: ID
  cm_UserID :: ID
  cm_Role :: ChatMemberRole
  cm_JoinedAt :: time
  cm_LastReadMessageID :: "ID option"
  cm_LastReadAt :: "time option"
  cm_IsMuted :: bool
  cm_IsArchived :: bool
  cm_IsPinned :: bool

record Message =
  m_ID :: ID
  m_ChatID :: ID
  m_SenderID :: ID
  m_Type :: MessageType
  m_Text :: "string option"
  m_ReplyToID :: "ID option"
  m_CreatedAt :: time
  m_UpdatedAt :: time
  m_DeletedAt :: "time option"

record RefreshSession =
  rs_ID :: ID
  rs_UserID :: ID
  rs_TokenHash :: string
  rs_UserAgent :: "string option"
  rs_IPAddress :: "string option"
  rs_ExpiresAt :: time
  rs_CreatedAt :: time
  rs_RevokedAt :: "time option"

section \<open>Repository row types and options\<close>

record Page =
  p_Limit :: int
  p_Offset :: int

record AddChatMember =
  acm_UserID :: ID
  acm_Role :: ChatMemberRole

record ChatListRow =
  clr_Chat :: Chat
  clr_LastPreviewText :: "string option"
  clr_LastPreviewType :: "MessageType option"
  clr_LastPreviewSender :: "ID option"
  clr_LastPreviewAt :: "time option"
  clr_UnreadCount :: int

record MessageListOpts =
  mo_Limit :: int
  mo_BeforeID :: "ID option"
  mo_BeforeTime :: "time option"

record OutboxEnqueue =
  ob_EventID :: ID
  ob_EventType :: string
  ob_AggregateType :: string
  ob_AggregateID :: string
  ob_ChatID :: "ID option"
  ob_OccurredAt :: time
  ob_Version :: int
  ob_Payload :: RawMessage

record OutboxRow =
  r_ID :: int
  r_EventID :: string
  r_EventType :: string
  r_AggregateType :: string
  r_AggregateID :: string
  r_ChatID :: "string option"
  r_OccurredAt :: time
  r_Version :: int
  r_Payload :: RawMessage

text \<open>A row of the table \<^verbatim>\<open>outbox_events\<close>: what the relay reads, and the two columns it does not.\<close>

record OutboxRec = OutboxRow +
  r_PublishedAt :: "time option"
  r_CreatedAt :: time

record UpdateUserProfileParams =
  up_UserID :: ID
  up_Nickname :: "string option"
  up_FirstName :: "string option"
  up_LastName :: "string option"
  up_AvatarURL :: "string option"

section \<open>Requests and responses\<close>

record CreateMessageRequest =
  cmr_Text :: string
  cmr_ReplyToID :: "string option"

record PatchMessageRequest =
  pmr_Text :: string

record MessageDTO =
  md_ID :: string
  md_ChatID :: string
  md_SenderID :: string
  md_Type :: string
  md_Text :: "string option"
  md_ReplyToID :: "string option"
  md_CreatedAt :: time
  md_UpdatedAt :: time

record MessageListResponse =
  ml_Messages :: "MessageDTO list"
  ml_HasMore :: bool

record MarkReadResponse =
  mr_ChatID :: string
  mr_LastReadMessageID :: string

record CreateDirectChatRequest =
  cdr_UserID :: string

record CreateGroupChatRequest =
  cgr_Title :: string
  cgr_AvatarURL :: "string option"
  cgr_MemberIDs :: "string list"

record AddChatMembersRequest =
  amr_UserIDs :: "string list"

record LastMessagePreview =
  lp_ID :: string
  lp_SenderID :: string
  lp_Type :: string
  lp_Text :: "string option"
  lp_CreatedAt :: time

record ChatSummary =
  cs_ID :: string
  cs_Type :: string
  cs_Title :: "string option"
  cs_AvatarURL :: "string option"
  cs_CreatedAt :: time
  cs_UpdatedAt :: time
  cs_LastMessage :: "LastMessagePreview option"
  cs_UnreadCount :: int

record ChatDetail =
  cd_ID :: string
  cd_Type :: string
  cd_Title :: "string option"
  cd_AvatarURL :: "string option"
  cd_CreatedAt :: time
  cd_UpdatedAt :: time

record ChatMemberDTO =
  cmd_UserID :: string
  cmd_Role :: string
  cmd_JoinedAt :: time

end
