(* ===== verification/Hub.thy ===== *)
theory Hub
  imports Json
begin

text \<open>
  The in-process registry of WebSocket clients (\<^verbatim>\<open>backend/internal/transport/ws/hub.go\<close>) and the part
  of a client the hub touches (\<^verbatim>\<open>client.go\<close>: the buffered \<^verbatim>\<open>send\<close> channel and the connection).

  Go's \<^verbatim>\<open>map[domain.ID]map[*Client]struct{}\<close> is a map from user ids to sets of client addresses; the
  clients themselves live in \<open>hub_heap\<close>, from which \<^verbatim>\<open>*Client\<close> pointers are read.  Every method holds
  the hub's mutex while it touches the registry, so each is one step.  The gauge
  \<^verbatim>\<open>ws_active_connections\<close> is kept with the hub, \<open>None\<close> when no metrics are configured.
\<close>

type_synonym client_ref = nat

definition send_cap :: nat where
  "send_cap = 256"

record Client =
  cl_userID :: ID
  cl_send :: "RawMessage list"
  cl_open :: bool

record Hub =
  hub_clients :: "ID \<rightharpoonup> client_ref set"
  hub_heap :: "client_ref \<rightharpoonup> Client"
  hub_WSActive :: "int option"

text \<open>\<^verbatim>\<open>NewHub\<close> and \<^verbatim>\<open>newClient\<close>\<close>

definition NewHub :: "bool \<Rightarrow> Hub" where
  "NewHub met = \<lparr>hub_clients = Map.empty, hub_heap = Map.empty,
                 hub_WSActive = (if met then Some 0 else None)\<rparr>"

definition newClient :: "ID \<Rightarrow> Client" where
  "newClient userID = \<lparr>cl_userID = userID, cl_send = [], cl_open = True\<rparr>"

text \<open>A \<^verbatim>\<open>select\<close> with a default: the payload is queued if the channel has room and dropped if not.\<close>

definition offer :: "RawMessage \<Rightarrow> Client \<Rightarrow> Client" where
  "offer payload c =
     (if length (cl_send c) < send_cap then c\<lparr>cl_send := cl_send c @ [payload]\<rparr> else c)"

definition Register :: "client_ref \<Rightarrow> Client \<Rightarrow> Hub \<Rightarrow> Hub" where
  "Register p c h =
     (let cset = (case hub_clients h (cl_userID c) of None \<Rightarrow> {} | Some cs \<Rightarrow> cs)
      in h\<lparr>hub_clients := (hub_clients h)(cl_userID c \<mapsto> insert p cset),
           hub_heap := (hub_heap h)(p \<mapsto> c),
           hub_WSActive := map_option (\<lambda>n. n + 1) (hub_WSActive h)\<rparr>)"

definition Unregister :: "client_ref \<Rightarrow> Client \<Rightarrow> Hub \<Rightarrow> Hub" where
  "Unregister p c h =
     (case hub_clients h (cl_userID c) of
        None \<Rightarrow> h
      | Some cset \<Rightarrow>
          h\<lparr>hub_clients :=
              (hub_clients h)(cl_userID c := (if cset - {p} = {} then None else Some (cset - {p}))),
            hub_WSActive := map_option (\<lambda>n. n - 1) (hub_WSActive h)\<rparr>)"

definition SendToUser :: "ID \<Rightarrow> RawMessage \<Rightarrow> Hub \<Rightarrow> Hub" where
  "SendToUser userID payload h =
     (let clients = (case hub_clients h userID of None \<Rightarrow> {} | Some cs \<Rightarrow> cs)
      in h\<lparr>hub_heap :=
             (\<lambda>p. if p \<in> clients then map_option (offer payload) (hub_heap h p) else hub_heap h p)\<rparr>)"

definition closeForShutdown :: "Client \<Rightarrow> Client" where
  "closeForShutdown c = c\<lparr>cl_open := False\<rparr>"

lemma closeForShutdown_fields [simp]:
  "cl_userID (closeForShutdown c) = cl_userID c" "cl_send (closeForShutdown c) = cl_send c" "\<not> cl_open (closeForShutdown c)"
  by (simp_all add: closeForShutdown_def)

text \<open>\<^verbatim>\<open>CloseAll\<close>, with \<^verbatim>\<open>closeForShutdown\<close> on every registered client.\<close>

definition CloseAll :: "Hub \<Rightarrow> Hub" where
  "CloseAll h =
     h\<lparr>hub_heap :=
         (\<lambda>p. if \<exists>cs \<in> ran (hub_clients h). p \<in> cs
              then map_option closeForShutdown (hub_heap h p) else hub_heap h p)\<rparr>"

section \<open>What the registry promises\<close>

text \<open>The client \<open>p\<close> is registered, and registered for \<open>u\<close>.\<close>

definition registered :: "Hub \<Rightarrow> ID \<Rightarrow> client_ref \<Rightarrow> bool" where
  "registered h u p = (\<exists>cs. hub_clients h u = Some cs \<and> p \<in> cs)"

definition connections :: "Hub \<Rightarrow> (ID \<times> client_ref) set" where
  "connections h = {(u, p). registered h u p}"

text \<open>
  The registry is well formed: no user has an empty entry, every registered client is in the heap
  under its own user, every channel is within its capacity, and the gauge counts the registered
  connections.
\<close>

definition hub_ok :: "Hub \<Rightarrow> bool" where
  "hub_ok h \<longleftrightarrow>
     finite (connections h) \<and>
     (\<forall>u. hub_clients h u \<noteq> Some {}) \<and>
     (\<forall>u p. registered h u p \<longrightarrow> (\<exists>c. hub_heap h p = Some c \<and> cl_userID c = u)) \<and>
     (\<forall>p c. hub_heap h p = Some c \<longrightarrow> length (cl_send c) \<le> send_cap) \<and>
     (\<forall>n. hub_WSActive h = Some n \<longrightarrow> n = int (card (connections h)))"

lemma hub_okI:
  assumes "finite (connections h)" "\<And>u. hub_clients h u \<noteq> Some {}"
    and "\<And>u p. registered h u p \<Longrightarrow> \<exists>c. hub_heap h p = Some c \<and> cl_userID c = u"
    and "\<And>p c. hub_heap h p = Some c \<Longrightarrow> length (cl_send c) \<le> send_cap"
    and "\<And>n. hub_WSActive h = Some n \<Longrightarrow> n = int (card (connections h))"
  shows "hub_ok h"
  using assms by (simp add: hub_ok_def)

lemma hub_okD:
  assumes "hub_ok h"
  shows "finite (connections h)" "hub_clients h u \<noteq> Some {}"
    and "registered h u p \<Longrightarrow> \<exists>c. hub_heap h p = Some c \<and> cl_userID c = u"
    and "hub_heap h p = Some c \<Longrightarrow> length (cl_send c) \<le> send_cap"
    and "hub_WSActive h = Some n \<Longrightarrow> n = int (card (connections h))"
  using assms by (simp_all add: hub_ok_def)

lemma registered_Register:
  "registered (Register p c h) u q \<longleftrightarrow> (u = cl_userID c \<and> q = p) \<or> registered h u q"
  by (auto simp: registered_def Register_def Let_def split: option.splits)

lemma connections_Register:
  "connections (Register p c h) = insert (cl_userID c, p) (connections h)"
  by (auto simp: connections_def registered_Register)

lemma registered_Unregister:
  "registered (Unregister p c h) u q \<longleftrightarrow> registered h u q \<and> \<not> (u = cl_userID c \<and> q = p)"
  by (auto simp: registered_def Unregister_def split: option.splits)

lemma connections_Unregister:
  "connections (Unregister p c h) = connections h - {(cl_userID c, p)}"
  by (auto simp: connections_def registered_Unregister)

lemma registered_SendToUser [simp]: "registered (SendToUser u m h) v p = registered h v p"
  by (simp add: registered_def SendToUser_def Let_def)

lemma connections_SendToUser [simp]: "connections (SendToUser u m h) = connections h"
  by (simp add: connections_def)

lemma offer_simps [simp]:
  "cl_userID (offer m c) = cl_userID c" "cl_open (offer m c) = cl_open c"
  "length (cl_send c) \<le> send_cap \<Longrightarrow> length (cl_send (offer m c)) \<le> send_cap"
  by (auto simp: offer_def)

lemma heap_SendToUser:
  "hub_heap (SendToUser u m h) p =
     (if registered h u p then map_option (offer m) (hub_heap h p) else hub_heap h p)"
  by (auto simp: SendToUser_def registered_def Let_def split: option.splits)

lemma hub_fields [simp]:
  "hub_heap (Register p c h) = (hub_heap h)(p \<mapsto> c)"
  "hub_WSActive (Register p c h) = map_option (\<lambda>n. n + 1) (hub_WSActive h)"
  "hub_heap (Unregister p c h) = hub_heap h"
  "hub_WSActive (SendToUser u m h) = hub_WSActive h"
  "hub_clients (SendToUser u m h) = hub_clients h"
  by (simp_all add: Register_def Unregister_def SendToUser_def Let_def split: option.splits)

lemma hub_ok_NewHub: "hub_ok (NewHub met)"
  by (rule hub_okI) (auto simp: NewHub_def connections_def registered_def split: if_splits)

lemma hub_ok_Register:
  assumes ok: "hub_ok h" and fresh: "hub_heap h p = None" and room: "length (cl_send c) \<le> send_cap"
  shows "hub_ok (Register p c h)"
proof (rule hub_okI)
  have new: "(cl_userID c, p) \<notin> connections h"
    using hub_okD(3) [OF ok] fresh by (fastforce simp: connections_def)
  show "finite (connections (Register p c h))"
    by (simp add: connections_Register hub_okD(1) [OF ok])
  show "hub_clients (Register p c h) u \<noteq> Some {}" for u
    using hub_okD(2) [OF ok] by (auto simp: Register_def Let_def)
  show "\<exists>d. hub_heap (Register p c h) q = Some d \<and> cl_userID d = u"
    if "registered (Register p c h) u q" for u q
    using that hub_okD(3) [OF ok, of u q] fresh by (auto simp: registered_Register)
  show "length (cl_send d) \<le> send_cap" if "hub_heap (Register p c h) q = Some d" for q d
    using that room hub_okD(4) [OF ok] by (auto split: if_splits)
  show "n = int (card (connections (Register p c h)))"
    if "hub_WSActive (Register p c h) = Some n" for n
    using that new hub_okD(1,5) [OF ok] by (auto simp: connections_Register)
qed

lemma hub_ok_Unregister:
  assumes ok: "hub_ok h" and reg: "registered h (cl_userID c) p"
  shows "hub_ok (Unregister p c h)"
proof (rule hub_okI)
  have mem: "(cl_userID c, p) \<in> connections h" using reg by (simp add: connections_def)
  show "finite (connections (Unregister p c h))"
    by (simp add: connections_Unregister hub_okD(1) [OF ok])
  show "hub_clients (Unregister p c h) u \<noteq> Some {}" for u
    using hub_okD(2) [OF ok] by (auto simp: Unregister_def split: option.splits)
  show "\<exists>d. hub_heap (Unregister p c h) q = Some d \<and> cl_userID d = u"
    if "registered (Unregister p c h) u q" for u q
    using that hub_okD(3) [OF ok] by (auto simp: registered_Unregister)
  show "length (cl_send d) \<le> send_cap" if "hub_heap (Unregister p c h) q = Some d" for q d
    using that hub_okD(4) [OF ok] by simp
  show "n = int (card (connections (Unregister p c h)))"
    if "hub_WSActive (Unregister p c h) = Some n" for n
  proof -
    have "hub_WSActive (Unregister p c h) = map_option (\<lambda>n. n - 1) (hub_WSActive h)"
      using reg by (auto simp: Unregister_def registered_def)
    with that obtain k where "hub_WSActive h = Some k" and n: "n = k - 1"
      by auto
    then have "k = int (card (connections h))" using hub_okD(5) [OF ok] by blast
    moreover have "card (connections h) > 0"
      using mem hub_okD(1) [OF ok] card_gt_0_iff by blast
    ultimately show ?thesis
      using n mem hub_okD(1) [OF ok] by (simp add: connections_Unregister of_nat_diff)
  qed
qed

lemma hub_ok_SendToUser:
  assumes ok: "hub_ok h"
  shows "hub_ok (SendToUser u m h)"
proof (rule hub_okI)
  show "finite (connections (SendToUser u m h))" by (simp add: hub_okD(1) [OF ok])
  show "hub_clients (SendToUser u m h) v \<noteq> Some {}" for v
    using hub_okD(2) [OF ok] by simp
  show "\<exists>c. hub_heap (SendToUser u m h) p = Some c \<and> cl_userID c = v"
    if "registered (SendToUser u m h) v p" for v p
    using hub_okD(3) [OF ok, of v p] that by (auto simp: heap_SendToUser)
  show "length (cl_send c) \<le> send_cap" if "hub_heap (SendToUser u m h) p = Some c" for p c
    using that hub_okD(4) [OF ok] by (auto simp: heap_SendToUser split: if_splits)
  show "n = int (card (connections (SendToUser u m h)))"
    if "hub_WSActive (SendToUser u m h) = Some n" for n
    using that hub_okD(5) [OF ok] by simp
qed

end
