(* ===== verification/GoIO.thy ===== *)
theory GoIO
  imports Domain Hub
begin

text \<open>
  The state the services act on and the shape of a Go function \<^verbatim>\<open>func(...) (T, error)\<close>.

  The shared state is the record \<open>Store\<close>: the PostgreSQL tables, the Redis keys, what was
  published on the Redis chat channels, the Kafka topic, and the state of the database schema: the table
  \<^verbatim>\<open>schema_migrations\<close> (\<open>None\<close> before it exists) and the DDL scripts that have taken effect, in order.
  A process reaches it over the network, one round trip per statement.  The record \<open>World\<close> holds the
  store, the clock, the process's own state (hub, metrics, source of randomness) and the schedule
  \<open>net\<close>: for every round trip, how long it takes, what other clients do to the store before it is
  served (\<open>t_interference\<close>), whether it succeeds, is lost on the way or loses its reply
  (\<open>t_fate\<close>), and the identifier \<^verbatim>\<open>gen_random_uuid()\<close> would draw.  Theorems quantify over the
  schedule, so they speak about every failure and every interleaving of other clients between the
  statements of a call.

  A transaction takes effect as a whole: other clients' changes are let in when it begins and not
  between its statements, an error rolls back everything but the sequences, and a lost reply to
  COMMIT leaves the caller with an error although the transaction took effect.
\<close>

section \<open>State\<close>

record Store =
  users :: "User list"
  chats :: "Chat list"
  chat_members :: "ChatMember list"
  messages :: "Message list"
  refresh_sessions :: "RefreshSession list"
  outbox_events :: "OutboxRec list"
  outbox_seq :: int
  redis_kv :: "string \<rightharpoonup> string \<times> time"
  redis_published :: "(string \<times> RawMessage) list"
  kafka_log :: "(string \<times> RawMessage) list"
  schema_migrations :: "(string \<times> time) list option"
  ddl_log :: "string list"

datatype fate = Delivered | LostRequest string | LostReply string

record Trip =
  t_delay :: nat
  t_interference :: "Store \<Rightarrow> Store"
  t_fate :: fate
  t_uuid :: ID

text \<open>
  The collectors of \<^verbatim>\<open>metrics.M\<close>; one with labels is a function of the label values.  The gauge of active
  connections is kept with the hub; of a histogram the observations are kept.
\<close>

record M =
  HTTPRequests :: "string \<times> string \<times> string \<Rightarrow> nat"
  HTTPDuration :: "string \<times> string \<times> string \<Rightarrow> int list"
  HTTPInflight :: int
  WSInbound :: "string \<Rightarrow> nat"
  WSOutbound :: "string \<Rightarrow> nat"
  WSErrors :: "string \<Rightarrow> nat"
  AuthRegister :: nat
  AuthLogin :: nat
  AuthRefresh :: nat
  AuthFailures :: "string \<Rightarrow> nat"
  MessagesCreate :: nat
  MessagesUpdate :: nat
  MessagesDelete :: nat
  MessagesReadRc :: nat
  OutboxCreated :: nat
  RelayIter :: nat
  RelayPubOK :: nat
  RelayPubFail :: nat
  KafkaHandled :: nat
  KafkaFail :: nat

record World =
  store :: Store
  clock :: time
  net :: "nat \<Rightarrow> Trip"
  trips :: nat
  uuid_src :: "nat \<Rightarrow> ID"
  rand_src :: "nat \<Rightarrow> nat \<Rightarrow> 8 word"
  drawn :: nat
  hub :: Hub
  met :: "M option"

section \<open>Calls\<close>

type_synonym 'a go = "World \<Rightarrow> (err + 'a) \<times> World"

definition ret :: "'a \<Rightarrow> 'a go" where
  "ret x w = (Inr x, w)"

definition raise :: "err \<Rightarrow> 'a go" where
  "raise e w = (Inl e, w)"

text \<open>\<^verbatim>\<open>x, err := m; if err != nil { h }; k\<close>\<close>

definition call :: "'a go \<Rightarrow> (err \<Rightarrow> 'b go) \<Rightarrow> ('a \<Rightarrow> 'b go) \<Rightarrow> 'b go" where
  "call m h k w = (case m w of (Inl e, w') \<Rightarrow> h e w' | (Inr x, w') \<Rightarrow> k x w')"

text \<open>A pure function with an error result.\<close>

definition lift :: "err + 'a \<Rightarrow> 'a go" where
  "lift r w = (r, w)"

text \<open>\<^verbatim>\<open>_ = m\<close>: the effect of a call whose result and error are dropped.\<close>

definition ignore :: "'a go \<Rightarrow> 'b go \<Rightarrow> 'b go" where
  "ignore m k w = k (snd (m w))"

definition time_Now :: "time go" where
  "time_Now w = (Inr (clock w), w)"

definition uuid_NewString :: "ID go" where
  "uuid_NewString w = (Inr (uuid_src w (drawn w)), w\<lparr>drawn := Suc (drawn w)\<rparr>)"

definition rand_Read :: "nat \<Rightarrow> 8 word list go" where
  "rand_Read n w = (Inr (map (rand_src w (drawn w)) [0..<n]), w\<lparr>drawn := Suc (drawn w)\<rparr>)"

definition metric :: "(M \<Rightarrow> M) \<Rightarrow> unit go" where
  "metric f w = (Inr (), w\<lparr>met := map_option f (met w)\<rparr>)"

section \<open>Round trips and transactions\<close>

text \<open>
  A statement sees the time of its transaction, the identifier drawn for it and the store.  When
  it fails, the store it returns differs at most in the numbers a sequence has given out.
\<close>

type_synonym 'a stmt = "time \<Rightarrow> ID \<Rightarrow> Store \<Rightarrow> (err + 'a) \<times> Store"

definition next_trip :: "World \<Rightarrow> Trip" where
  "next_trip w = net w (trips w)"

definition advance :: "World \<Rightarrow> World" where
  "advance w = w\<lparr>clock := clock w + int (t_delay (next_trip w)), trips := Suc (trips w)\<rparr>"

definition interfere :: "World \<Rightarrow> World" where
  "interfere w = w\<lparr>store := t_interference (next_trip w) (store w)\<rparr>"

definition deliver :: "fate \<Rightarrow> World \<Rightarrow> (err + 'a) \<times> Store \<Rightarrow> (err + 'a) \<times> World" where
  "deliver f w rs =
     (case f of
        Delivered \<Rightarrow> (fst rs, w\<lparr>store := snd rs\<rparr>)
      | LostRequest e \<Rightarrow> (Inl (ErrText e), w)
      | LostReply e \<Rightarrow> (Inl (ErrText e), w\<lparr>store := snd rs\<rparr>))"

text \<open>A statement outside a transaction (\<^verbatim>\<open>pool.QueryRow\<close>, \<^verbatim>\<open>pool.Query\<close>, \<^verbatim>\<open>pool.Exec\<close>).\<close>

definition roundtrip :: "'a stmt \<Rightarrow> 'a go" where
  "roundtrip st w =
     (let w1 = advance (interfere w)
      in deliver (t_fate (next_trip w)) w1 (st (clock w1) (t_uuid (next_trip w)) (store w1)))"

text \<open>A statement of a transaction that began at \<open>t0\<close> (\<^verbatim>\<open>tx.QueryRow\<close>, \<^verbatim>\<open>tx.Exec\<close>).\<close>

definition tx_stmt :: "time \<Rightarrow> 'a stmt \<Rightarrow> 'a go" where
  "tx_stmt t0 st w =
     deliver (t_fate (next_trip w)) (advance w) (st t0 (t_uuid (next_trip w)) (store w))"

definition rollback :: "Store \<Rightarrow> World \<Rightarrow> World" where
  "rollback s0 w = w\<lparr>store := s0\<lparr>outbox_seq := max (outbox_seq s0) (outbox_seq (store w))\<rparr>\<rparr>"

definition commit :: "Store \<Rightarrow> 'a \<Rightarrow> 'a go" where
  "commit s0 x w =
     (case t_fate (next_trip w) of
        Delivered \<Rightarrow> (Inr x, advance w)
      | LostRequest e \<Rightarrow> (Inl (ErrText e), rollback s0 (advance w))
      | LostReply e \<Rightarrow> (Inl (ErrText e), advance w))"

text \<open>
  \<^verbatim>\<open>tx := pool.Begin; defer tx.Rollback; body; tx.Commit\<close>.  The body is given the transaction's
  time; an error of the body rolls back.
\<close>

definition tx_begin :: "unit go" where
  "tx_begin = roundtrip (\<lambda>_ _ s. (Inr (), s))"

definition transaction :: "(time \<Rightarrow> 'a go) \<Rightarrow> 'a go" where
  "transaction body w =
     (case tx_begin w of
        (Inl e, w1) \<Rightarrow> (Inl e, w1)
      | (Inr _, w1) \<Rightarrow>
          (case body (clock w1) w1 of
             (Inl e, w2) \<Rightarrow> (Inl e, rollback (store w1) w2)
           | (Inr x, w2) \<Rightarrow> commit (store w1) x w2))"

section \<open>Lemmas\<close>

lemma go_simps [simp]:
  "ret x w = (Inr x, w)"
  "raise e w = (Inl e, w)"
  "lift r w = (r, w)"
  "ignore m k w = k (snd (m w))"
  "time_Now w = (Inr (clock w), w)"
  by (simp_all add: ret_def raise_def lift_def ignore_def time_Now_def)

lemma advance_simps [simp]:
  "store (advance w) = store w" "net (advance w) = net w" "hub (advance w) = hub w"
  "met (advance w) = met w" "trips (advance w) = Suc (trips w)"
  "clock w \<le> clock (advance w)" "drawn (advance w) = drawn w" "uuid_src (advance w) = uuid_src w"
  by (simp_all add: advance_def)

lemma interfere_simps [simp]:
  "store (interfere w) = t_interference (next_trip w) (store w)" "net (interfere w) = net w"
  "hub (interfere w) = hub w" "met (interfere w) = met w" "trips (interfere w) = trips w"
  "clock (interfere w) = clock w" "drawn (interfere w) = drawn w"
  "uuid_src (interfere w) = uuid_src w" "next_trip (interfere w) = next_trip w"
  by (simp_all add: interfere_def next_trip_def)

lemma rollback_simps [simp]:
  "net (rollback s0 w) = net w" "hub (rollback s0 w) = hub w" "met (rollback s0 w) = met w"
  "clock (rollback s0 w) = clock w"
  "store (rollback s0 w) = s0\<lparr>outbox_seq := max (outbox_seq s0) (outbox_seq (store w))\<rparr>"
  by (simp_all add: rollback_def)

lemma call_eq:
  "call m h k w = (case fst (m w) of Inl e \<Rightarrow> h e (snd (m w)) | Inr x \<Rightarrow> k x (snd (m w)))"
  by (cases "m w") (simp add: call_def split: sum.split)

lemma call_Inl [simp]: "m w = (Inl e, w') \<Longrightarrow> call m h k w = h e w'"
  by (simp add: call_def)

lemma call_Inr [simp]: "m w = (Inr x, w') \<Longrightarrow> call m h k w = k x w'"
  by (simp add: call_def)

lemma call_cases:
  assumes "call m h k w = (r, w'')"
  obtains e w' where "m w = (Inl e, w')" "h e w' = (r, w'')"
  | x w' where "m w = (Inr x, w')" "k x w' = (r, w'')"
  using assms by (auto simp: call_def split: prod.splits sum.splits)

lemma call_Inr_cases:
  assumes "call m h k w = (Inr y, w'')" and "\<And>e w'. m w = (Inl e, w') \<Longrightarrow> fst (h e w') \<noteq> Inr y"
  obtains x w' where "m w = (Inr x, w')" "k x w' = (Inr y, w'')"
  using assms(1)
proof (rule call_cases)
  fix e w'
  assume "m w = (Inl e, w')" "h e w' = (Inr y, w'')"
  with assms(2) show thesis by fastforce
qed

text \<open>Calls of pure functions evaluate at once.\<close>

lemma call_lift [simp]:
  "call (lift (Inl e)) h k w = h e w" "call (lift (Inr x)) h k w = k x w"
  "call time_Now h k2 w = k2 (clock w) w"
  by (simp_all add: call_def)

subsection \<open>Invariants\<close>

text \<open>
  A predicate is kept by a call if it holds after the call, whatever the call returns.  The rules
  in \<open>go_keep\<close> take an operation apart the way it is composed.
\<close>

definition keeps :: "(World \<Rightarrow> bool) \<Rightarrow> 'a go \<Rightarrow> bool" where
  "keeps P m = (\<forall>w. P w \<longrightarrow> P (snd (m w)))"

lemma keepsD: "keeps P m \<Longrightarrow> P w \<Longrightarrow> P (snd (m w))"
  by (simp add: keeps_def)

lemma keepsI: "(\<And>w. P w \<Longrightarrow> P (snd (m w))) \<Longrightarrow> keeps P m"
  by (simp add: keeps_def)

lemma keeps_Pair [simp, go_keep]: "keeps P (Pair r)"
  by (simp add: keeps_def)

lemma keeps_ret [go_keep]: "keeps P (ret x)"
  by (simp add: keeps_def)

lemma keeps_raise [go_keep]: "keeps P (raise e)"
  by (simp add: keeps_def)

lemma keeps_lift [go_keep]: "keeps P (lift r)"
  by (simp add: keeps_def)

lemma keeps_time_Now [go_keep]: "keeps P time_Now"
  by (simp add: keeps_def)

lemma keeps_call [go_keep]:
  "keeps P m \<Longrightarrow> (\<And>e. keeps P (h e)) \<Longrightarrow> (\<And>x. keeps P (k x)) \<Longrightarrow> keeps P (call m h k)"
  by (auto simp: keeps_def call_eq split: sum.splits)

lemma keeps_ignore [go_keep]: "keeps P m \<Longrightarrow> keeps P k \<Longrightarrow> keeps P (ignore m k)"
  by (auto simp: keeps_def)

lemma keeps_if [go_keep]:
  "(b \<Longrightarrow> keeps P m) \<Longrightarrow> (\<not> b \<Longrightarrow> keeps P n) \<Longrightarrow> keeps P (if b then m else n)"
  by simp

lemma keeps_case_option [go_keep]:
  "keeps P m \<Longrightarrow> (\<And>x. keeps P (k x)) \<Longrightarrow> keeps P (case v of None \<Rightarrow> m | Some x \<Rightarrow> k x)"
  by (simp split: option.split)

lemma keeps_let [go_keep]: "(\<And>x. keeps P (k x)) \<Longrightarrow> keeps P (let x = v in k x)"
  by simp

text \<open>
  Invariants and evolution.  \<open>J\<close> is a predicate on the store and \<open>G\<close> a relation between an earlier
  and a later store.  Other clients are relied upon to keep \<open>J\<close> and to change the store within \<open>G\<close>,
  and the identifiers the database draws are UUIDs in canonical form.  \<open>holds J G s0\<close> says of a world
  that \<open>J\<close> holds now and that the store has evolved from \<open>s0\<close>.
\<close>

definition canonical :: "ID \<Rightarrow> bool" where
  "canonical i = (uuid_pattern i \<and> ascii_lower i = i)"

definition rely :: "(Store \<Rightarrow> bool) \<Rightarrow> (Store \<Rightarrow> Store \<Rightarrow> bool) \<Rightarrow> (nat \<Rightarrow> Trip) \<Rightarrow> bool" where
  "rely J G n =
     (\<forall>i. canonical (t_uuid (n i)) \<and>
          (\<forall>s. J s \<longrightarrow> J (t_interference (n i) s) \<and> G s (t_interference (n i) s)))"

definition holds :: "(Store \<Rightarrow> bool) \<Rightarrow> (Store \<Rightarrow> Store \<Rightarrow> bool) \<Rightarrow> Store \<Rightarrow> World \<Rightarrow> bool" where
  "holds J G s0 w = (J (store w) \<and> G s0 (store w) \<and> rely J G (net w))"

definition stmt_keeps :: "(Store \<Rightarrow> bool) \<Rightarrow> (Store \<Rightarrow> Store \<Rightarrow> bool) \<Rightarrow> 'a stmt \<Rightarrow> bool" where
  "stmt_keeps J G st =
     (\<forall>now uid s. canonical uid \<longrightarrow> J s \<longrightarrow> J (snd (st now uid s)) \<and> G s (snd (st now uid s)))"

lemma stmt_keepsI:
  "(\<And>now uid s. canonical uid \<Longrightarrow> J s \<Longrightarrow> J (snd (st now uid s)) \<and> G s (snd (st now uid s)))
    \<Longrightarrow> stmt_keeps J G st"
  by (simp add: stmt_keeps_def)

lemma holds_simps [simp]:
  "holds J G s0 (w\<lparr>met := a\<rparr>) = holds J G s0 w" "holds J G s0 (w\<lparr>hub := b\<rparr>) = holds J G s0 w"
  "holds J G s0 (w\<lparr>drawn := c\<rparr>) = holds J G s0 w" "holds J G s0 (advance w) = holds J G s0 w"
  by (simp_all add: holds_def)

lemma holds_canonical: "holds J G s0 w \<Longrightarrow> canonical (t_uuid (next_trip w))"
  by (simp add: holds_def rely_def next_trip_def)

lemma keeps_metric [go_keep]: "keeps (holds J G s0) (metric f)"
  by (simp add: keeps_def metric_def)

lemma keeps_uuid_NewString [go_keep]: "keeps (holds J G s0) uuid_NewString"
  by (simp add: keeps_def uuid_NewString_def)

lemma keeps_rand_Read [go_keep]: "keeps (holds J G s0) (rand_Read n)"
  by (simp add: keeps_def rand_Read_def)

lemma holds_deliver:
  "holds J G s0 w \<Longrightarrow> J (snd rs) \<Longrightarrow> G s0 (snd rs) \<Longrightarrow> holds J G s0 (snd (deliver f w rs))"
  by (auto simp: deliver_def holds_def split: fate.splits)

subsection \<open>What a round trip and a transaction can do\<close>

definition quiet :: "World \<Rightarrow> bool" where
  "quiet w = (\<forall>i s. t_interference (net w i) s = s)"

definition reliable :: "World \<Rightarrow> bool" where
  "reliable w = (\<forall>i. t_fate (net w i) = Delivered)"

lemma quiet_interfere [simp]: "quiet w \<Longrightarrow> interfere w = w"
  by (simp add: quiet_def interfere_def next_trip_def)

lemma reliable_fate [simp]: "reliable w \<Longrightarrow> t_fate (next_trip w) = Delivered"
  by (simp add: reliable_def next_trip_def)

lemma quiet_reliable_fields [simp]:
  "quiet (advance w) = quiet w" "reliable (advance w) = reliable w"
  "quiet (interfere w) = quiet w" "reliable (interfere w) = reliable w"
  "quiet (w\<lparr>store := s\<rparr>) = quiet w" "reliable (w\<lparr>store := s\<rparr>) = reliable w"
  "quiet (w\<lparr>met := a\<rparr>) = quiet w" "reliable (w\<lparr>met := a\<rparr>) = reliable w"
  "quiet (w\<lparr>hub := b\<rparr>) = quiet w" "reliable (w\<lparr>hub := b\<rparr>) = reliable w"
  "quiet (w\<lparr>drawn := c\<rparr>) = quiet w" "reliable (w\<lparr>drawn := c\<rparr>) = reliable w"
  by (simp_all add: quiet_def reliable_def)

lemma roundtrip_reliable:
  assumes "reliable w"
  shows "roundtrip st w =
    (let w1 = advance (interfere w); rs = st (clock w1) (t_uuid (next_trip w)) (store w1)
     in (fst rs, w1\<lparr>store := snd rs\<rparr>))"
  using assms by (simp add: roundtrip_def deliver_def Let_def)

lemma tx_stmt_reliable:
  assumes "reliable w"
  shows "tx_stmt t0 st w =
    (let rs = st t0 (t_uuid (next_trip w)) (store w) in (fst rs, (advance w)\<lparr>store := snd rs\<rparr>))"
  using assms by (simp add: tx_stmt_def deliver_def Let_def)

lemma deliver_fields [simp]:
  "net (snd (deliver f w rs)) = net w" "hub (snd (deliver f w rs)) = hub w"
  "met (snd (deliver f w rs)) = met w" "drawn (snd (deliver f w rs)) = drawn w"
  "clock (snd (deliver f w rs)) = clock w" "uuid_src (snd (deliver f w rs)) = uuid_src w"
  by (simp_all add: deliver_def split: fate.split)

lemma roundtrip_fields [simp]:
  "net (snd (roundtrip st w)) = net w" "hub (snd (roundtrip st w)) = hub w"
  "met (snd (roundtrip st w)) = met w" "drawn (snd (roundtrip st w)) = drawn w"
  "uuid_src (snd (roundtrip st w)) = uuid_src w"
  by (simp_all add: roundtrip_def Let_def)

lemma tx_stmt_fields [simp]:
  "net (snd (tx_stmt t0 st w)) = net w" "hub (snd (tx_stmt t0 st w)) = hub w"
  "met (snd (tx_stmt t0 st w)) = met w" "drawn (snd (tx_stmt t0 st w)) = drawn w"
  by (simp_all add: tx_stmt_def)

text \<open>A statement that only reads changes nothing but what other clients do.\<close>

definition reads_only :: "'a stmt \<Rightarrow> bool" where
  "reads_only st = (\<forall>now uid s. snd (st now uid s) = s)"

lemma store_roundtrip_read:
  "reads_only st \<Longrightarrow> store (snd (roundtrip st w)) = store (interfere w)"
  by (simp add: roundtrip_def Let_def deliver_def reads_only_def split: fate.split)

lemma roundtrip_Inr_cases:
  assumes "roundtrip st w = (Inr x, w')"
  obtains s' where "st (clock w') (t_uuid (next_trip w)) (store (interfere w)) = (Inr x, s')"
    and "w' = (advance (interfere w))\<lparr>store := s'\<rparr>"
  using assms
  by (cases "st (clock (advance (interfere w))) (t_uuid (next_trip w)) (store (interfere w))")
    (auto simp: roundtrip_def Let_def deliver_def split: fate.splits)

lemma tx_stmt_Inr_cases:
  assumes "tx_stmt t0 st w = (Inr x, w')"
  obtains s' where "st t0 (t_uuid (next_trip w)) (store w) = (Inr x, s')"
    and "w' = (advance w)\<lparr>store := s'\<rparr>"
  using assms
  by (cases "st t0 (t_uuid (next_trip w)) (store w)")
    (auto simp: tx_stmt_def deliver_def split: fate.splits)

text \<open>
  All or nothing: after a transaction either the store is the one it began on, up to the numbers a
  sequence has given out, or the whole body has taken effect.  It takes effect whenever it reports
  success, and an error that is not the transport's means it did not.
\<close>

lemma snd_tx_begin [simp]: "snd (tx_begin w) = advance (interfere w)"
  by (simp add: tx_begin_def roundtrip_def Let_def deliver_def split: fate.split)

lemma transaction_eq:
  "transaction body w =
    (let w1 = advance (interfere w)
     in case fst (tx_begin w) of
          Inl e \<Rightarrow> (Inl e, w1)
        | Inr _ \<Rightarrow>
            (case body (clock w1) w1 of
               (Inl e, w2) \<Rightarrow> (Inl e, rollback (store w1) w2)
             | (Inr x, w2) \<Rightarrow> commit (store w1) x w2))"
  using snd_tx_begin [of w]
  by (cases "tx_begin w") (simp add: transaction_def Let_def split: sum.split)

lemma transaction_cases:
  assumes "transaction body w = (r, w')"
  obtains (aborted) e k where "r = Inl e"
    and "store w' = (store (interfere w))\<lparr>outbox_seq := k\<rparr>"
    and "outbox_seq (store (interfere w)) \<le> k"
  | (finished) x w2 where "body (clock (advance (interfere w))) (advance (interfere w)) = (Inr x, w2)"
    and "store w' = store w2" and "r = Inr x \<or> (\<exists>e. r = Inl (ErrText e))"
proof -
  let ?w1 = "advance (interfere w)"
  show thesis
  proof (cases "fst (tx_begin w)")
    case (Inl e)
    then have "r = Inl e" "w' = ?w1"
      using assms by (auto simp: transaction_eq Let_def)
    then show thesis by (intro aborted [of e "outbox_seq (store ?w1)"]) simp_all
  next
    case begun: (Inr u)
    obtain rb w2 where body: "body (clock ?w1) ?w1 = (rb, w2)" by fastforce
    show thesis
    proof (cases rb)
      case (Inl e)
      then show thesis
        using assms begun body by (intro aborted [of e]) (auto simp: transaction_eq Let_def)
    next
      case (Inr x)
      have "(r, w') = commit (store ?w1) x w2"
        using assms begun body Inr by (simp add: transaction_eq Let_def)
      then show thesis
        using aborted finished body Inr by (auto simp: commit_def split: fate.splits)
    qed
  qed
qed

lemma transaction_net [simp]:
  assumes "\<And>t w. net (snd (body t w)) = net w"
  shows "net (snd (transaction body w)) = net w"
  using assms [of "clock (advance (interfere w))" "advance (interfere w)"]
  by (auto simp: transaction_eq Let_def commit_def split: sum.split prod.split fate.split)

lemma transaction_reliable:
  assumes "reliable w" and "body (clock (advance (interfere w))) (advance (interfere w)) = (rb, w2)"
    and "reliable w2"
  shows "transaction body w =
    (case rb of Inl e \<Rightarrow> (Inl e, rollback (store (interfere w)) w2) | Inr x \<Rightarrow> (Inr x, advance w2))"
proof -
  have "fst (tx_begin w) = Inr ()"
    using assms(1) by (simp add: tx_begin_def roundtrip_reliable Let_def)
  then show ?thesis using assms by (simp add: transaction_eq commit_def Let_def split: sum.split)
qed

text \<open>A calm network: it loses nothing and there are no other clients.\<close>

definition calm :: "World \<Rightarrow> bool" where
  "calm w = (quiet w \<and> reliable w)"

lemma calm_fields [simp]:
  "calm (advance w) = calm w" "calm (w\<lparr>store := s\<rparr>) = calm w" "calm (w\<lparr>met := a\<rparr>) = calm w"
  "calm (w\<lparr>hub := b\<rparr>) = calm w" "calm (w\<lparr>drawn := c\<rparr>) = calm w"
  by (simp_all add: calm_def)

lemma calm_interfere [simp]: "calm w \<Longrightarrow> interfere w = w"
  by (simp add: calm_def)

lemma roundtrip_calm:
  "calm w \<Longrightarrow> roundtrip st w =
     (fst (st (clock (advance w)) (t_uuid (next_trip w)) (store w)),
      (advance w)\<lparr>store := snd (st (clock (advance w)) (t_uuid (next_trip w)) (store w))\<rparr>)"
  by (simp add: calm_def roundtrip_reliable Let_def)

lemma advance_store [simp]: "(advance w)\<lparr>store := store w\<rparr> = advance w"
  by (simp add: advance_def)

lemma tx_stmt_calm:
  "calm w \<Longrightarrow> tx_stmt t0 st w =
     (fst (st t0 (t_uuid (next_trip w)) (store w)),
      (advance w)\<lparr>store := snd (st t0 (t_uuid (next_trip w)) (store w))\<rparr>)"
  by (simp add: calm_def tx_stmt_reliable Let_def)

lemma transaction_calm:
  assumes "calm w" and "body (clock (advance w)) (advance w) = (Inr x, w2)" and "calm w2"
  shows "transaction body w = (Inr x, advance w2)"
  using assms transaction_reliable [of w body "Inr x" w2] by (simp add: calm_def)

subsection \<open>Evolution of the store as an interface\<close>

text \<open>
  What an invariant and an evolution relation must satisfy for the rules of calls to apply to them:
  evolution composes, and the numbers given out by a sequence may be given out for good when a
  transaction rolls back.
\<close>

locale store_evolution =
  fixes J :: "Store \<Rightarrow> bool" and G :: "Store \<Rightarrow> Store \<Rightarrow> bool"
  assumes G_refl: "G s s"
    and G_trans: "G s t \<Longrightarrow> G t u \<Longrightarrow> G s u"
    and J_seq: "J s \<Longrightarrow> outbox_seq s \<le> k \<Longrightarrow> J (s\<lparr>outbox_seq := k\<rparr>)"
    and G_seq: "outbox_seq s \<le> k \<Longrightarrow> G s (s\<lparr>outbox_seq := k\<rparr>)"
begin

lemma holds_interfere: "holds J G s0 w \<Longrightarrow> holds J G s0 (interfere w)"
  using G_trans by (auto simp: holds_def rely_def next_trip_def)

lemma holds_restart: "holds J G s0 w \<Longrightarrow> holds J G (store w) w"
  by (simp add: holds_def G_refl)

lemma holds_extend: "G s0 s1 \<Longrightarrow> holds J G s1 w \<Longrightarrow> holds J G s0 w"
  using G_trans by (auto simp: holds_def)

lemma reads_only_keeps: "reads_only st \<Longrightarrow> stmt_keeps J G st"
  by (simp add: reads_only_def stmt_keeps_def G_refl)

lemma keeps_roundtrip: "stmt_keeps J G st \<Longrightarrow> keeps (holds J G s0) (roundtrip st)"
proof (rule keepsI)
  fix w
  assume st: "stmt_keeps J G st" and w: "holds J G s0 w"
  let ?w1 = "advance (interfere w)"
  let ?s' = "snd (st (clock ?w1) (t_uuid (next_trip w)) (store ?w1))"
  have w1: "holds J G s0 ?w1" using w by (simp add: holds_interfere)
  then have "J ?s'" and "G (store ?w1) ?s'"
    using st holds_canonical [OF w] by (simp_all add: stmt_keeps_def holds_def)
  moreover from this have "G s0 ?s'" using w1 G_trans by (auto simp: holds_def)
  ultimately show "holds J G s0 (snd (roundtrip st w))"
    using w1 by (simp add: roundtrip_def Let_def holds_deliver)
qed

lemma keeps_tx_stmt:
  assumes "\<And>now uid s. canonical uid \<Longrightarrow> J s \<Longrightarrow> G s0 s \<Longrightarrow>
             J (snd (st now uid s)) \<and> G s (snd (st now uid s))"
  shows "keeps (holds J G s0) (tx_stmt t0 st)"
proof (rule keepsI)
  fix w
  assume w: "holds J G s0 w"
  then have "J (snd (st t0 (t_uuid (next_trip w)) (store w)))"
    and "G s0 (snd (st t0 (t_uuid (next_trip w)) (store w)))"
    using assms [of "t_uuid (next_trip w)" "store w" t0] holds_canonical [OF w] G_trans
    by (auto simp: holds_def)
  with w show "holds J G s0 (snd (tx_stmt t0 st w))"
    by (simp add: tx_stmt_def holds_deliver)
qed

text \<open>A transaction keeps the invariant if a body that succeeds does, whatever holds in between.\<close>

lemma keeps_transaction:
  assumes net: "\<And>t w. net (snd (body t w)) = net w"
    and ok: "\<And>t w x w'. holds J G s0 w \<Longrightarrow> body t w = (Inr x, w') \<Longrightarrow>
                J (store w') \<and> G (store w) (store w')"
  shows "keeps (holds J G s0) (transaction body)"
proof (rule keepsI)
  fix w
  assume w: "holds J G s0 w"
  obtain r w' where tx: "transaction body w = (r, w')" by fastforce
  let ?w1 = "advance (interfere w)"
  have w1: "holds J G s0 ?w1" using w by (simp add: holds_interfere)
  have "net w' = net w" using transaction_net [of body w] net tx by simp
  moreover from tx have "J (store w') \<and> G s0 (store w')"
  proof (cases rule: transaction_cases)
    case (aborted e k)
    then show ?thesis using w1 J_seq G_seq G_trans by (auto simp: holds_def)
  next
    case (finished x w2)
    then show ?thesis using ok [OF w1] w1 G_trans by (auto simp: holds_def)
  qed
  ultimately show "holds J G s0 (snd (transaction body w))"
    using w tx by (simp add: holds_def)
qed

lemma keeps_transaction_stepwise:
  assumes "\<And>t w. net (snd (body t w)) = net w" and "\<And>t s. keeps (holds J G s) (body t)"
  shows "keeps (holds J G s0) (transaction body)"
proof (rule keeps_transaction)
  fix t w x w'
  assume "holds J G s0 w" and "body t w = (Inr x, w')"
  then have "holds J G (store w) w'"
    using keepsD [OF assms(2) holds_restart] by (metis snd_conv)
  then show "J (store w') \<and> G (store w) (store w')" by (simp add: holds_def)
qed (rule assms(1))

text \<open>What a call learns about the store when it returns may be used by what follows it.\<close>

lemma keeps_call_learn:
  assumes m: "keeps (holds J G s0) m" and h: "\<And>e. keeps (holds J G s0) (h e)"
    and K: "\<And>x w w'. holds J G s0 w \<Longrightarrow> m w = (Inr x, w') \<Longrightarrow> K x (store w')"
    and k: "\<And>x s1. G s0 s1 \<Longrightarrow> J s1 \<Longrightarrow> K x s1 \<Longrightarrow> keeps (holds J G s1) (k x)"
  shows "keeps (holds J G s0) (call m h k)"
proof (rule keepsI)
  fix w
  assume w: "holds J G s0 w"
  obtain r w' where mw: "m w = (r, w')" by fastforce
  with keepsD [OF m w] have w': "holds J G s0 w'" by simp
  show "holds J G s0 (snd (call m h k w))"
  proof (cases r)
    case (Inl e)
    then show ?thesis using mw keepsD [OF h w'] by simp
  next
    case (Inr x)
    have s1: "G s0 (store w')" "J (store w')" using w' by (simp_all add: holds_def)
    have "holds J G (store w') (snd (k x w'))"
      using k [OF s1 K [OF w]] holds_restart [OF w'] mw Inr by (auto dest: keepsD)
    then show ?thesis using mw Inr holds_extend [OF s1(1)] by simp
  qed
qed

end

end
