(* ===== verification/Schema.thy ===== *)
theory Schema
  imports GoIO
begin

text \<open>
  The tables of \<^verbatim>\<open>backend/internal/migration/*.sql\<close> as the SQL statements of the repositories see
  them: parsing of parameters (\<^verbatim>\<open>$1::uuid\<close>, \<^verbatim>\<open>text\<close>), the declared constraints with the SQLSTATE a
  violation raises, and row insertion under those constraints.  Ids are kept in the canonical
  lower-case spelling in which \<^verbatim>\<open>id::text\<close> returns them.
\<close>

section \<open>Parameters\<close>

definition unique_violation :: err where "unique_violation = PgError ''23505''"
definition foreign_key_violation :: err where "foreign_key_violation = PgError ''23503''"
definition check_violation :: err where "check_violation = PgError ''23514''"
definition string_truncation :: err where "string_truncation = PgError ''22001''"
definition invalid_text :: err where "invalid_text = PgError ''22P02''"
definition bad_encoding :: err where "bad_encoding = PgError ''22021''"

lemmas sqlstates =
  unique_violation_def foreign_key_violation_def check_violation_def string_truncation_def
  invalid_text_def bad_encoding_def

text \<open>
  The cast of a parameter to \<^verbatim>\<open>uuid\<close>.  Every id that reaches a statement has passed the identifier
  regular expression or was read back from a table, so only that spelling is accepted here.
\<close>

definition uuid_in :: "string \<Rightarrow> ID option" where
  "uuid_in s = (if uuid_pattern s then Some (ascii_lower s) else None)"

definition with_uuid :: "string \<Rightarrow> (ID \<Rightarrow> 'a stmt) \<Rightarrow> 'a stmt" where
  "with_uuid p k now uid s =
     (case uuid_in p of None \<Rightarrow> (Inl invalid_text, s) | Some i \<Rightarrow> k i now uid s)"

definition with_uuid_opt :: "string option \<Rightarrow> (ID option \<Rightarrow> 'a stmt) \<Rightarrow> 'a stmt" where
  "with_uuid_opt p k =
     (case p of None \<Rightarrow> k None | Some q \<Rightarrow> with_uuid q (\<lambda>i. k (Some i)))"

text \<open>A \<^verbatim>\<open>text\<close> parameter may not hold a zero byte.\<close>

definition pg_text :: "string \<Rightarrow> bool" where
  "pg_text t = list_all (\<lambda>c. byte_of c \<noteq> 0) t"

text \<open>\<^verbatim>\<open>varchar(n)\<close> counts characters: the bytes that do not continue a UTF-8 sequence.\<close>

definition utf8_len :: "string \<Rightarrow> nat" where
  "utf8_len t = length (filter (\<lambda>c. \<not> (128 \<le> byte_of c \<and> byte_of c < 192)) t)"

lemma utf8_len_le: "utf8_len t \<le> length t"
  by (simp add: utf8_len_def)

definition opt_ok :: "('a \<Rightarrow> bool) \<Rightarrow> 'a option \<Rightarrow> bool" where
  "opt_ok P v = (case v of None \<Rightarrow> True | Some x \<Rightarrow> P x)"

section \<open>Keys\<close>

definition user_ids :: "Store \<Rightarrow> ID list" where
  "user_ids s = map u_ID (users s)"

definition chat_ids :: "Store \<Rightarrow> ID list" where
  "chat_ids s = map c_ID (chats s)"

definition message_ids :: "Store \<Rightarrow> ID list" where
  "message_ids s = map m_ID (messages s)"

definition member_key :: "ChatMember \<Rightarrow> ID \<times> ID" where
  "member_key m = (cm_ChatID m, cm_UserID m)"

definition chat_row :: "Store \<Rightarrow> ID \<Rightarrow> Chat option" where
  "chat_row s i = find (\<lambda>c. c_ID c = i) (chats s)"

definition message_row :: "Store \<Rightarrow> ID \<Rightarrow> Message option" where
  "message_row s i = find (\<lambda>m. m_ID m = i) (messages s)"

definition user_row :: "Store \<Rightarrow> ID \<Rightarrow> User option" where
  "user_row s i = find (\<lambda>u. u_ID u = i) (users s)"

definition member_row :: "Store \<Rightarrow> ID \<Rightarrow> ID \<Rightarrow> ChatMember option" where
  "member_row s c u = find (\<lambda>m. cm_ChatID m = c \<and> cm_UserID m = u) (chat_members s)"

text \<open>\<^verbatim>\<open>uq_chats_direct_key\<close>: the direct keys of the live direct chats.\<close>

definition live_direct :: "Chat \<Rightarrow> bool" where
  "live_direct c = (c_Type c = ChatTypeDirect \<and> \<not> c_IsDeleted c)"

definition live_direct_keys :: "Store \<Rightarrow> string option list" where
  "live_direct_keys s = map c_DirectKey (filter live_direct (chats s))"

section \<open>Row insertion\<close>

definition insert_chat_row :: "Chat \<Rightarrow> Store \<Rightarrow> (err + Chat) \<times> Store" where
  "insert_chat_row c s =
     (if \<not> opt_ok pg_text (c_Title c) \<or> \<not> opt_ok pg_text (c_AvatarURL c) then (Inl bad_encoding, s)
      else if \<not> opt_ok (\<lambda>t. utf8_len t \<le> 255) (c_Title c)
           \<or> \<not> opt_ok (\<lambda>k. utf8_len k \<le> 64) (c_DirectKey c) then (Inl string_truncation, s)
      else if (c_Type c = ChatTypeDirect) \<noteq> (c_DirectKey c \<noteq> None) then (Inl check_violation, s)
      else if c_ID c \<in> set (chat_ids s)
           \<or> live_direct c \<and> c_DirectKey c \<in> set (live_direct_keys s) then (Inl unique_violation, s)
      else if \<not> opt_ok (\<lambda>u. u \<in> set (user_ids s)) (c_CreatedBy c)
           then (Inl foreign_key_violation, s)
      else (Inr c, s\<lparr>chats := chats s @ [c]\<rparr>))"

definition insert_message_row :: "Message \<Rightarrow> Store \<Rightarrow> (err + Message) \<times> Store" where
  "insert_message_row m s =
     (if \<not> opt_ok pg_text (m_Text m) then (Inl bad_encoding, s)
      else if m_ID m \<in> set (message_ids s) then (Inl unique_violation, s)
      else if m_ChatID m \<notin> set (chat_ids s) \<or> m_SenderID m \<notin> set (user_ids s)
           \<or> \<not> opt_ok (\<lambda>r. r \<in> set (message_ids s)) (m_ReplyToID m)
           then (Inl foreign_key_violation, s)
      else (Inr m, s\<lparr>messages := messages s @ [m]\<rparr>))"

text \<open>Foreign keys of a membership row.\<close>

definition member_fk :: "Store \<Rightarrow> ChatMember \<Rightarrow> bool" where
  "member_fk s m =
     (cm_ChatID m \<in> set (chat_ids s) \<and> cm_UserID m \<in> set (user_ids s)
      \<and> opt_ok (\<lambda>r. r \<in> set (message_ids s)) (cm_LastReadMessageID m))"

definition insert_member_row :: "ChatMember \<Rightarrow> Store \<Rightarrow> (err + ChatMember) \<times> Store" where
  "insert_member_row m s =
     (if member_key m \<in> set (map member_key (chat_members s)) then (Inl unique_violation, s)
      else if \<not> member_fk s m then (Inl foreign_key_violation, s)
      else (Inr m, s\<lparr>chat_members := chat_members s @ [m]\<rparr>))"

text \<open>\<^verbatim>\<open>ON CONFLICT (chat_id, user_id) DO NOTHING\<close> on a list of rows, each seen by the next.\<close>

fun insert_members_skip :: "ChatMember list \<Rightarrow> ChatMember list \<Rightarrow> ChatMember list" where
  "insert_members_skip [] have_ms = have_ms"
| "insert_members_skip (m # ms) have_ms =
     insert_members_skip ms
       (if member_key m \<in> set (map member_key have_ms) then have_ms else have_ms @ [m])"

definition insert_members_rows :: "ChatMember list \<Rightarrow> Store \<Rightarrow> (err + unit) \<times> Store" where
  "insert_members_rows ms s =
     (let new = insert_members_skip ms (chat_members s)
      in if list_all (member_fk s) (drop (length (chat_members s)) new)
         then (Inr (), s\<lparr>chat_members := new\<rparr>) else (Inl foreign_key_violation, s))"

text \<open>The id is drawn from the \<^verbatim>\<open>bigserial\<close> sequence before the unique index is checked.\<close>

definition insert_outbox_row ::
  "(int \<Rightarrow> OutboxRec) \<Rightarrow> Store \<Rightarrow> (err + unit) \<times> Store" where
  "insert_outbox_row mk s =
     (let r = mk (outbox_seq s)
      in if r_EventID r \<in> set (map r_EventID (outbox_events s)) 
         then (Inl unique_violation, s\<lparr>outbox_seq := outbox_seq s + 1\<rparr>)
         else (Inr (), s\<lparr>outbox_events := outbox_events s @ [r], outbox_seq := outbox_seq s + 1\<rparr>))"

section \<open>The declared constraints as an invariant\<close>

text \<open>Primary keys, unique indexes, CHECK constraints and foreign keys, one predicate per table.\<close>

definition users_ok :: "Store \<Rightarrow> bool" where
  "users_ok s = (distinct (user_ids s) \<and> (\<forall>u \<in> set (users s). canonical (u_ID u))
     \<and> distinct (map (ascii_lower \<circ> u_Email) (users s)))"

definition chats_ok :: "Store \<Rightarrow> bool" where
  "chats_ok s =
     (distinct (chat_ids s) \<and> distinct (live_direct_keys s) \<and>
      (\<forall>c \<in> set (chats s).
         canonical (c_ID c) \<and> ((c_Type c = ChatTypeDirect) = (c_DirectKey c \<noteq> None)) \<and>
         opt_ok (\<lambda>i. i \<in> set (message_ids s)) (c_LastMessageID c) \<and>
         opt_ok (\<lambda>i. i \<in> set (user_ids s)) (c_CreatedBy c)))"

definition members_ok :: "Store \<Rightarrow> bool" where
  "members_ok s =
     (distinct (map member_key (chat_members s)) \<and> (\<forall>m \<in> set (chat_members s). member_fk s m))"

definition message_fk :: "Store \<Rightarrow> Message \<Rightarrow> bool" where
  "message_fk s m =
     (m_ChatID m \<in> set (chat_ids s) \<and> m_SenderID m \<in> set (user_ids s)
      \<and> opt_ok (\<lambda>r. r \<in> set (message_ids s)) (m_ReplyToID m))"

definition messages_ok :: "Store \<Rightarrow> bool" where
  "messages_ok s =
     (distinct (message_ids s) \<and> (\<forall>m \<in> set (messages s). canonical (m_ID m) \<and> message_fk s m))"

definition outbox_ok :: "Store \<Rightarrow> bool" where
  "outbox_ok s =
     (distinct (map r_ID (outbox_events s)) \<and> distinct (map r_EventID (outbox_events s)) \<and>
      (\<forall>r \<in> set (outbox_events s). r_ID r < outbox_seq s))"

definition sessions_ok :: "Store \<Rightarrow> bool" where
  "sessions_ok s =
     (distinct (map rs_ID (refresh_sessions s)) \<and> distinct (map rs_TokenHash (refresh_sessions s)) \<and>
      (\<forall>r \<in> set (refresh_sessions s). canonical (rs_ID r) \<and> rs_UserID r \<in> set (user_ids s)))"

definition tables_ok :: "Store \<Rightarrow> bool" where
  "tables_ok s =
     (users_ok s \<and> chats_ok s \<and> members_ok s \<and> messages_ok s \<and> outbox_ok s \<and> sessions_ok s)"

lemmas tables_defs =
  tables_ok_def users_ok_def chats_ok_def members_ok_def messages_ok_def outbox_ok_def sessions_ok_def

section \<open>Lemmas\<close>

lemma opt_ok_simps [simp]: "opt_ok P None" "opt_ok P (Some x) = P x"
  by (simp_all add: opt_ok_def)

lemma opt_ok_mono: "opt_ok P v \<Longrightarrow> (\<And>x. P x \<Longrightarrow> Q x) \<Longrightarrow> opt_ok Q v"
  by (cases v) simp_all

lemma canonical_uuid_in [simp]: "canonical i \<Longrightarrow> uuid_in i = Some i"
  by (simp add: canonical_def uuid_in_def)

lemma uuid_in_canonical: "uuid_in p = Some i \<Longrightarrow> canonical i"
  by (auto simp: uuid_in_def canonical_def split: if_splits)

lemma uuid_in_Some: "uuid_in p = Some i \<longleftrightarrow> uuid_pattern p \<and> i = ascii_lower p"
  by (auto simp: uuid_in_def)

lemma uuid_in_lower: "uuid_in s = Some i \<Longrightarrow> i = ascii_lower s"
  by (simp add: uuid_in_Some)

lemma canonical_not_Nil: "canonical i \<Longrightarrow> i \<noteq> []"
  by (auto simp: canonical_def)

lemma find_Some_mem: "find P xs = Some x \<Longrightarrow> x \<in> set xs \<and> P x"
  by (induction xs) (auto split: if_splits)

lemma find_None_all: "find P xs = None \<longleftrightarrow> (\<forall>x \<in> set xs. \<not> P x)"
  by (induction xs) auto

lemma find_key_eq:
  "distinct (map f xs) \<Longrightarrow> x \<in> set xs \<Longrightarrow> f x = k \<Longrightarrow> find (\<lambda>y. f y = k) xs = Some x"
  by (induction xs) (auto simp: image_iff)

lemma message_row_Some: "message_row s i = Some m \<Longrightarrow> m \<in> set (messages s) \<and> m_ID m = i"
  by (auto simp: message_row_def dest: find_Some_mem)

lemma chat_row_Some: "chat_row s i = Some c \<Longrightarrow> c \<in> set (chats s) \<and> c_ID c = i"
  by (auto simp: chat_row_def dest: find_Some_mem)

lemma member_row_Some:
  "member_row s c u = Some m \<Longrightarrow> m \<in> set (chat_members s) \<and> cm_ChatID m = c \<and> cm_UserID m = u"
  by (auto simp: member_row_def dest: find_Some_mem)

lemma tables_okD:
  assumes "tables_ok s"
  shows "distinct (message_ids s)" "distinct (chat_ids s)" "distinct (live_direct_keys s)"
    and "distinct (map member_key (chat_members s))"
    and "m \<in> set (messages s) \<Longrightarrow> canonical (m_ID m)"
    and "m \<in> set (messages s) \<Longrightarrow> message_fk s m"
    and "c \<in> set (chats s) \<Longrightarrow> canonical (c_ID c)"
    and "x \<in> set (chat_members s) \<Longrightarrow> member_fk s x"
  using assms by (auto simp: tables_defs)

lemma seq_fields [simp]:
  "chat_ids (s\<lparr>outbox_seq := k\<rparr>) = chat_ids s" "user_ids (s\<lparr>outbox_seq := k\<rparr>) = user_ids s"
  "message_ids (s\<lparr>outbox_seq := k\<rparr>) = message_ids s"
  "live_direct_keys (s\<lparr>outbox_seq := k\<rparr>) = live_direct_keys s"
  "member_fk (s\<lparr>outbox_seq := k\<rparr>) = member_fk s" "message_fk (s\<lparr>outbox_seq := k\<rparr>) = message_fk s"
  by (auto simp: chat_ids_def user_ids_def message_ids_def live_direct_keys_def member_fk_def
      message_fk_def fun_eq_iff)

lemma tables_ok_seq: "tables_ok s \<Longrightarrow> outbox_seq s \<le> k \<Longrightarrow> tables_ok (s\<lparr>outbox_seq := k\<rparr>)"
  by (auto simp: tables_defs)

end
