(* ===== verification/ChatRepo.thy ===== *)
theory ChatRepo
  imports Schema
begin

text \<open>
  The chat repository on PostgreSQL (\<^verbatim>\<open>backend/internal/repository/postgres/chat_repository.go\<close>) and the
  helpers it shares with the others (\<^verbatim>\<open>helpers.go\<close>).  Each method is one round trip with the statement
  its SQL text denotes, except \<^verbatim>\<open>CreateGroupWithMembers\<close>, which is a transaction.  Where SQL leaves
  the order of rows open (ties of ORDER BY), the model keeps insertion order.
\<close>

section \<open>Helpers\<close>

definition mapErr :: "err \<Rightarrow> err" where
  "mapErr e = (if errors_Is e ErrNoRows then ErrNotFound else e)"

definition normPage :: "Page \<Rightarrow> int \<times> int" where
  "normPage p =
     (let limit = p_Limit p;
          limit = (if limit \<le> 0 then 50 else limit);
          limit = (if limit > 200 then 200 else limit);
          offset = p_Offset p;
          offset = (if offset < 0 then 0 else offset)
      in (limit, offset))"

definition normMessageLimit :: "int \<Rightarrow> int" where
  "normMessageLimit n = (if n \<le> 0 then 50 else if n > 200 then 200 else n)"

text \<open>A single-row query: no row is \<^verbatim>\<open>pgx.ErrNoRows\<close>.\<close>

definition one_row :: "'a option \<Rightarrow> Store \<Rightarrow> (err + 'a) \<times> Store" where
  "one_row v s = (case v of None \<Rightarrow> (Inl ErrNoRows, s) | Some x \<Rightarrow> (Inr x, s))"

text \<open>\<^verbatim>\<open>LIMIT l OFFSET o\<close>, and rows by descending key.\<close>

definition page_of :: "int \<times> int \<Rightarrow> 'a list \<Rightarrow> 'a list" where
  "page_of lo xs = take (nat (fst lo)) (drop (nat (snd lo)) xs)"

definition order_desc :: "('a \<Rightarrow> 'k::linorder) \<Rightarrow> 'a list \<Rightarrow> 'a list" where
  "order_desc key xs = rev (sort_key key xs)"

section \<open>Chats\<close>

definition new_chat_row ::
  "ChatType \<Rightarrow> string option \<Rightarrow> string option \<Rightarrow> ID option \<Rightarrow> string option \<Rightarrow> time \<Rightarrow> ID \<Rightarrow> Chat" where
  "new_chat_row ty title avatar cb key now uid =
     \<lparr>c_ID = uid, c_Type = ty, c_Title = title, c_AvatarURL = avatar, c_CreatedBy = cb,
      c_CreatedAt = now, c_UpdatedAt = now, c_LastMessageID = None, c_LastMessageAt = None,
      c_IsDeleted = False, c_DirectKey = key\<rparr>"

definition CreateChat :: "Chat \<Rightarrow> Chat go" where
  "CreateChat c =
     roundtrip (with_uuid_opt (c_CreatedBy c) (\<lambda>cb now uid.
       insert_chat_row
         (new_chat_row (c_Type c) (c_Title c) (c_AvatarURL c) cb (c_DirectKey c) now uid)))"

definition Chat_GetByID :: "ID \<Rightarrow> Chat go" where
  "Chat_GetByID i =
     call (roundtrip (with_uuid i (\<lambda>c _ _ s. one_row (chat_row s c) s)))
       (\<lambda>e. raise (mapErr e)) ret"

definition direct_by_key :: "string \<Rightarrow> Store \<Rightarrow> Chat option" where
  "direct_by_key key s = find (\<lambda>c. c_DirectKey c = Some key \<and> live_direct c) (chats s)"

definition GetDirectByKey :: "string \<Rightarrow> Chat go" where
  "GetDirectByKey key =
     call (roundtrip (\<lambda>_ _ s. one_row (direct_by_key key s) s)) (\<lambda>e. raise (mapErr e)) ret"

text \<open>\<^verbatim>\<open>ORDER BY c.last_message_at DESC NULLS LAST, c.updated_at DESC\<close>: NULL is the least key.\<close>

definition chat_order :: "Chat \<Rightarrow> time option \<times> time" where
  "chat_order c = (c_LastMessageAt c, c_UpdatedAt c)"

definition GetUserChats :: "ID \<Rightarrow> Page \<Rightarrow> Chat list go" where
  "GetUserChats userID page =
     (let lo = normPage page
      in roundtrip (with_uuid userID (\<lambda>u _ _ s.
           (Inr (page_of lo (order_desc chat_order
              (filter (\<lambda>c. member_row s (c_ID c) u \<noteq> None \<and> \<not> c_IsDeleted c) (chats s)))), s))))"

text \<open>
  The correlated sub-query of the chat list: messages of the chat that are not deleted and, when
  the member has a read mark, lie after it in (\<^verbatim>\<open>created_at\<close>, \<^verbatim>\<open>id\<close>) order.
\<close>

definition summary_unread :: "Store \<Rightarrow> Chat \<Rightarrow> ChatMember \<Rightarrow> int" where
  "summary_unread s c mem =
     int (length (filter (\<lambda>mu.
       m_ChatID mu = c_ID c \<and> m_DeletedAt mu = None \<and>
       (cm_LastReadMessageID mem = None \<or>
        list_ex (\<lambda>anchor.
          Some (m_ID anchor) = cm_LastReadMessageID mem \<and> m_ChatID anchor = c_ID c \<and>
          (m_CreatedAt mu > m_CreatedAt anchor
           \<or> m_CreatedAt mu = m_CreatedAt anchor \<and> m_ID mu > m_ID anchor)) (messages s)))
       (messages s)))"

text \<open>\<^verbatim>\<open>LEFT JOIN messages lm ON lm.id = c.last_message_id AND lm.deleted_at IS NULL\<close>\<close>

definition last_preview :: "Store \<Rightarrow> Chat \<Rightarrow> Message option" where
  "last_preview s c =
     (case c_LastMessageID c of
        None \<Rightarrow> None
      | Some i \<Rightarrow>
          (case message_row s i of
             None \<Rightarrow> None
           | Some m \<Rightarrow> if m_DeletedAt m = None then Some m else None))"

text \<open>The row as \<^verbatim>\<open>scanChatListRow\<close> builds it.\<close>

definition scanChatListRow :: "Chat \<Rightarrow> Message option \<Rightarrow> int \<Rightarrow> ChatListRow" where
  "scanChatListRow c lm unread =
     \<lparr>clr_Chat = c,
      clr_LastPreviewText = (case lm of None \<Rightarrow> None | Some m \<Rightarrow> m_Text m),
      clr_LastPreviewType = map_option m_Type lm,
      clr_LastPreviewSender = map_option m_SenderID lm,
      clr_LastPreviewAt = map_option m_CreatedAt lm,
      clr_UnreadCount = unread\<rparr>"

definition ListUserChatsSummary :: "ID \<Rightarrow> Page \<Rightarrow> ChatListRow list go" where
  "ListUserChatsSummary userID page =
     (let lo = normPage page
      in roundtrip (with_uuid userID (\<lambda>u _ _ s.
           (Inr (map (\<lambda>(c, mem). scanChatListRow c (last_preview s c) (summary_unread s c mem))
              (page_of lo (order_desc (chat_order \<circ> fst)
                 [(c, mem). c \<leftarrow> chats s, \<not> c_IsDeleted c,
                            mem \<leftarrow> chat_members s, cm_ChatID mem = c_ID c \<and> cm_UserID mem = u]))), s))))"

section \<open>Members\<close>

definition new_member_row :: "ID \<Rightarrow> ID \<Rightarrow> ChatMemberRole \<Rightarrow> time \<Rightarrow> ChatMember" where
  "new_member_row cid uid role now =
     \<lparr>cm_ChatID = cid, cm_UserID = uid, cm_Role = role, cm_JoinedAt = now,
      cm_LastReadMessageID = None, cm_LastReadAt = None, cm_IsMuted = False, cm_IsArchived = False,
      cm_IsPinned = False\<rparr>"

definition CreateMember :: "ChatMember \<Rightarrow> ChatMember go" where
  "CreateMember m =
     roundtrip (with_uuid (cm_ChatID m) (\<lambda>c. with_uuid (cm_UserID m) (\<lambda>u.
       with_uuid_opt (cm_LastReadMessageID m) (\<lambda>lr now _.
         insert_member_row (m\<lparr>cm_ChatID := c, cm_UserID := u, cm_LastReadMessageID := lr,
                              cm_JoinedAt := now\<rparr>)))))"

definition FindMembership :: "ID \<Rightarrow> ID \<Rightarrow> ChatMember go" where
  "FindMembership chatID userID =
     call (roundtrip (with_uuid chatID (\<lambda>c. with_uuid userID (\<lambda>u _ _ s.
             one_row (member_row s c u) s))))
       (\<lambda>e. raise (mapErr e)) ret"

definition members_of :: "Store \<Rightarrow> ID \<Rightarrow> ChatMember list" where
  "members_of s c = sort_key cm_JoinedAt (filter (\<lambda>m. cm_ChatID m = c) (chat_members s))"

definition GetChatMembers :: "ID \<Rightarrow> ChatMember list go" where
  "GetChatMembers chatID = roundtrip (with_uuid chatID (\<lambda>c _ _ s. (Inr (members_of s c), s)))"

text \<open>The parameters \<^verbatim>\<open>$2::uuid, $3, $4::uuid, \<dots>\<close> of a multi-row INSERT, parsed in order.\<close>

fun member_params :: "ID \<Rightarrow> time \<Rightarrow> AddChatMember list \<Rightarrow> ChatMember list option" where
  "member_params c now [] = Some []"
| "member_params c now (a # as) =
     (case (uuid_in (acm_UserID a), member_params c now as) of
        (Some u, Some ms) \<Rightarrow> Some (new_member_row c u (acm_Role a) now # ms)
      | _ \<Rightarrow> None)"

definition insert_members_stmt :: "ID \<Rightarrow> AddChatMember list \<Rightarrow> unit stmt" where
  "insert_members_stmt chatID members =
     with_uuid chatID (\<lambda>c now _ s.
       case member_params c now members of
         None \<Rightarrow> (Inl invalid_text, s)
       | Some ms \<Rightarrow> insert_members_rows ms s)"

definition AddMembers :: "ID \<Rightarrow> AddChatMember list \<Rightarrow> unit go" where
  "AddMembers chatID members =
     (if members = [] then ret () else roundtrip (insert_members_stmt chatID members))"

definition RemoveMember :: "ID \<Rightarrow> ID \<Rightarrow> unit go" where
  "RemoveMember chatID userID =
     call (roundtrip (with_uuid chatID (\<lambda>c. with_uuid userID (\<lambda>u _ _ s.
             (Inr (length (filter (\<lambda>m. member_key m = (c, u)) (chat_members s))),
              s\<lparr>chat_members := filter (\<lambda>m. member_key m \<noteq> (c, u)) (chat_members s)\<rparr>)))))
       raise
       (\<lambda>affected. if affected = 0 then raise ErrNotFound else ret ())"

text \<open>The loop that drops empty and repeated ids, starting from the ids already seen.\<close>

fun dedup_ids :: "ID list \<Rightarrow> ID list \<Rightarrow> ID list" where
  "dedup_ids seen [] = []"
| "dedup_ids seen (u # us) =
     (if u = '''' then dedup_ids seen us
      else if u \<in> set seen then dedup_ids seen us
      else u # dedup_ids (u # seen) us)"

definition group_body ::
  "string \<Rightarrow> string option \<Rightarrow> ID \<Rightarrow> ID list \<Rightarrow> time \<Rightarrow> Chat go" where
  "group_body title avatarURL creator otherUserIDs t0 =
     call (tx_stmt t0 (with_uuid creator (\<lambda>cb now uid.
             insert_chat_row
               (new_chat_row ChatTypeGroup (Some title) avatarURL (Some cb) None now uid))))
       raise
       (\<lambda>c.
     call (tx_stmt t0 (with_uuid (c_ID c) (\<lambda>cid. with_uuid creator (\<lambda>u now _.
             insert_member_row (new_member_row cid u ChatMemberRoleOwner now)))))
       raise
       (\<lambda>_.
     let toAdd = dedup_ids [creator] otherUserIDs
     in if toAdd \<noteq> []
        then call (tx_stmt t0 (insert_members_stmt (c_ID c)
                    (map (\<lambda>u. \<lparr>acm_UserID = u, acm_Role = ChatMemberRoleMember\<rparr>) toAdd)))
               raise (\<lambda>_. ret c)
        else ret c))"

definition CreateGroupWithMembers ::
  "string \<Rightarrow> string option \<Rightarrow> ID \<Rightarrow> ID list \<Rightarrow> Chat go" where
  "CreateGroupWithMembers title avatarURL creator otherUserIDs =
     transaction (group_body title avatarURL creator otherUserIDs)"

section \<open>Read state and last message\<close>

definition set_last_message :: "ID \<Rightarrow> ID \<Rightarrow> time \<Rightarrow> time \<Rightarrow> Chat \<Rightarrow> Chat" where
  "set_last_message cid mid at now c =
     (if c_ID c = cid
      then c\<lparr>c_LastMessageID := Some mid, c_LastMessageAt := Some at, c_UpdatedAt := now\<rparr> else c)"

definition update_last_stmt :: "ID \<Rightarrow> ID \<Rightarrow> time \<Rightarrow> nat stmt" where
  "update_last_stmt chatID messageID at =
     with_uuid chatID (\<lambda>cid. with_uuid messageID (\<lambda>mid now _ s.
       if cid \<in> set (chat_ids s) \<and> mid \<notin> set (message_ids s) then (Inl foreign_key_violation, s)
       else (Inr (length (filter (\<lambda>c. c_ID c = cid) (chats s))),
             s\<lparr>chats := map (set_last_message cid mid at now) (chats s)\<rparr>)))"

definition UpdateLastMessage :: "ID \<Rightarrow> ID \<Rightarrow> time \<Rightarrow> unit go" where
  "UpdateLastMessage chatID messageID at =
     call (roundtrip (update_last_stmt chatID messageID at)) raise
       (\<lambda>affected. if affected = 0 then raise ErrNotFound else ret ())"

definition set_read :: "ID \<Rightarrow> ID \<Rightarrow> ID \<Rightarrow> time \<Rightarrow> ChatMember \<Rightarrow> ChatMember" where
  "set_read cid uid mid now m =
     (if member_key m = (cid, uid)
      then m\<lparr>cm_LastReadMessageID := Some mid, cm_LastReadAt := Some now\<rparr> else m)"

definition update_read_stmt :: "ID \<Rightarrow> ID \<Rightarrow> ID \<Rightarrow> nat stmt" where
  "update_read_stmt chatID userID messageID =
     with_uuid chatID (\<lambda>cid. with_uuid userID (\<lambda>uid. with_uuid messageID (\<lambda>mid now _ s.
       if member_row s cid uid \<noteq> None \<and> mid \<notin> set (message_ids s)
       then (Inl foreign_key_violation, s)
       else (Inr (length (filter (\<lambda>m. member_key m = (cid, uid)) (chat_members s))),
             s\<lparr>chat_members := map (set_read cid uid mid now) (chat_members s)\<rparr>))))"

definition UpdateMemberRead :: "ID \<Rightarrow> ID \<Rightarrow> ID \<Rightarrow> unit go" where
  "UpdateMemberRead chatID userID messageID =
     call (roundtrip (update_read_stmt chatID userID messageID)) raise
       (\<lambda>affected. if affected = 0 then raise ErrNotFound else ret ())"

end
