(* ===== verification/MessageRepo.thy ===== *)
theory MessageRepo
  imports ChatRepo
begin

text \<open>
  The message repository, the transactional message writer and the outbox repository
  (\<^verbatim>\<open>message_repository.go\<close>, \<^verbatim>\<open>message_writer.go\<close> and \<^verbatim>\<open>outbox_repository.go\<close> under
  \<^verbatim>\<open>backend/internal/repository/postgres\<close>).  The writer changes a message or a read mark and
  enqueues the matching domain event in one transaction.
\<close>

section \<open>Message repository\<close>

definition new_message_row ::
  "ID \<Rightarrow> ID \<Rightarrow> MessageType \<Rightarrow> string option \<Rightarrow> ID option \<Rightarrow> time \<Rightarrow> ID \<Rightarrow> Message" where
  "new_message_row cid sid ty txt reply now uid =
     \<lparr>m_ID = uid, m_ChatID = cid, m_SenderID = sid, m_Type = ty, m_Text = txt, m_ReplyToID = reply,
      m_CreatedAt = now, m_UpdatedAt = now, m_DeletedAt = None\<rparr>"

definition insert_message_stmt :: "Message \<Rightarrow> Message stmt" where
  "insert_message_stmt m =
     with_uuid (m_ChatID m) (\<lambda>cid. with_uuid (m_SenderID m) (\<lambda>sid.
       with_uuid_opt (m_ReplyToID m) (\<lambda>reply now uid.
         insert_message_row (new_message_row cid sid (m_Type m) (m_Text m) reply now uid))))"

definition Message_Create :: "Message \<Rightarrow> Message go" where
  "Message_Create m = roundtrip (insert_message_stmt m)"

definition Message_GetByID :: "ID \<Rightarrow> Message go" where
  "Message_GetByID i =
     call (roundtrip (with_uuid i (\<lambda>mid _ _ s. one_row (message_row s mid) s)))
       (\<lambda>e. raise (mapErr e)) ret"

text \<open>A timestamp parameter is sent with microsecond precision.\<close>

definition pg_timestamptz :: "time \<Rightarrow> time" where
  "pg_timestamptz t = t div 1000 * 1000"

definition msg_key :: "Message \<Rightarrow> time \<times> ID" where
  "msg_key m = (m_CreatedAt m, m_ID m)"

text \<open>
  The cursor condition: strictly before the anchor message of the same chat (no row if there is no
  such anchor, since the comparison with NULL is not true), or strictly before an instant, or no
  condition.
\<close>

definition before_cursor :: "Store \<Rightarrow> ID \<Rightarrow> ID option \<Rightarrow> time option \<Rightarrow> Message \<Rightarrow> bool" where
  "before_cursor s cid beforeID beforeTime m =
     (case beforeID of
        Some b \<Rightarrow>
          (case find (\<lambda>a. m_ID a = b \<and> m_ChatID a = cid) (messages s) of
             None \<Rightarrow> False
           | Some anchor \<Rightarrow> msg_key m < msg_key anchor)
      | None \<Rightarrow>
          (case beforeTime of Some t \<Rightarrow> m_CreatedAt m < pg_timestamptz t | None \<Rightarrow> True))"

definition visible_before :: "Store \<Rightarrow> ID \<Rightarrow> ID option \<Rightarrow> time option \<Rightarrow> Message list" where
  "visible_before s cid beforeID beforeTime =
     filter (\<lambda>m. m_ChatID m = cid \<and> m_DeletedAt m = None \<and> before_cursor s cid beforeID beforeTime m)
       (messages s)"

definition GetChatMessages :: "ID \<Rightarrow> MessageListOpts \<Rightarrow> Message list go" where
  "GetChatMessages chatID opts =
     (let limit = normMessageLimit (mo_Limit opts)
      in roundtrip (with_uuid chatID (\<lambda>cid. with_uuid_opt (mo_BeforeID opts) (\<lambda>beforeID _ _ s.
           (Inr (take (nat limit)
              (order_desc msg_key (visible_before s cid beforeID (mo_BeforeTime opts)))), s)))))"

definition set_text :: "ID \<Rightarrow> ID \<Rightarrow> string \<Rightarrow> time \<Rightarrow> Message \<Rightarrow> Message" where
  "set_text cid mid text now m =
     (if m_ID m = mid \<and> m_ChatID m = cid \<and> m_DeletedAt m = None
      then m\<lparr>m_Text := Some text, m_UpdatedAt := now\<rparr> else m)"

definition live_message :: "ID \<Rightarrow> ID \<Rightarrow> Message \<Rightarrow> bool" where
  "live_message cid mid m = (m_ID m = mid \<and> m_ChatID m = cid \<and> m_DeletedAt m = None)"

definition update_text_stmt :: "ID \<Rightarrow> ID \<Rightarrow> string \<Rightarrow> nat stmt" where
  "update_text_stmt chatID messageID text =
     with_uuid chatID (\<lambda>cid. with_uuid messageID (\<lambda>mid now _ s.
       if \<not> pg_text text then (Inl bad_encoding, s)
       else (Inr (length (filter (live_message cid mid) (messages s))),
             s\<lparr>messages := map (set_text cid mid text now) (messages s)\<rparr>)))"

definition UpdateText :: "ID \<Rightarrow> ID \<Rightarrow> string \<Rightarrow> unit go" where
  "UpdateText chatID messageID text =
     call (roundtrip (update_text_stmt chatID messageID text)) raise
       (\<lambda>affected. if affected = 0 then raise ErrNotFound else ret ())"

definition set_deleted :: "ID \<Rightarrow> ID \<Rightarrow> time \<Rightarrow> Message \<Rightarrow> Message" where
  "set_deleted cid mid now m =
     (if m_ID m = mid \<and> m_ChatID m = cid \<and> m_DeletedAt m = None
      then m\<lparr>m_DeletedAt := Some now, m_UpdatedAt := now\<rparr> else m)"

definition soft_delete_stmt :: "ID \<Rightarrow> ID \<Rightarrow> nat stmt" where
  "soft_delete_stmt chatID messageID =
     with_uuid chatID (\<lambda>cid. with_uuid messageID (\<lambda>mid now _ s.
       (Inr (length (filter (live_message cid mid) (messages s))),
        s\<lparr>messages := map (set_deleted cid mid now) (messages s)\<rparr>)))"

definition SoftDelete :: "ID \<Rightarrow> ID \<Rightarrow> unit go" where
  "SoftDelete chatID messageID =
     call (roundtrip (soft_delete_stmt chatID messageID)) raise
       (\<lambda>affected. if affected = 0 then raise ErrNotFound else ret ())"

definition count_unread :: "Store \<Rightarrow> ID \<Rightarrow> ID option \<Rightarrow> int" where
  "count_unread s cid after =
     int (length (filter (\<lambda>m.
       m_ChatID m = cid \<and> m_DeletedAt m = None \<and>
       (case after of
          None \<Rightarrow> True
        | Some a \<Rightarrow>
            list_ex (\<lambda>anchor.
              m_ID anchor = a \<and> m_ChatID anchor = cid \<and>
              (m_CreatedAt m > m_CreatedAt anchor
               \<or> m_CreatedAt m = m_CreatedAt anchor \<and> m_ID m > m_ID anchor)) (messages s)))
       (messages s)))"

definition CountUnreadAfter :: "ID \<Rightarrow> ID option \<Rightarrow> int go" where
  "CountUnreadAfter chatID afterMessageID =
     roundtrip (with_uuid chatID (\<lambda>cid. with_uuid_opt afterMessageID (\<lambda>after _ _ s.
       (Inr (count_unread s cid after), s))))"

section \<open>Message writer\<close>

definition encodeMessageWireJSON :: "Message \<Rightarrow> RawMessage" where
  "encodeMessageWireJSON m =
     RawJSON (JObj
       ([(''id'', JStr (m_ID m)), (''chat_id'', JStr (m_ChatID m)),
         (''sender_id'', JStr (m_SenderID m)), (''type'', JStr (message_type_string (m_Type m)))]
        @ (case m_Text m of None \<Rightarrow> [] | Some t \<Rightarrow> [(''text'', JStr t)])
        @ (case m_ReplyToID m of None \<Rightarrow> [] | Some r \<Rightarrow> [(''reply_to_id'', JStr r)])
        @ [(''created_at'', JTime (m_CreatedAt m)), (''updated_at'', JTime (m_UpdatedAt m))]))"

text \<open>\<^verbatim>\<open>$8::jsonb\<close>: a payload that is not JSON text is refused; an empty one is stored as \<^verbatim>\<open>{}\<close>.\<close>

definition jsonb_in :: "RawMessage \<Rightarrow> RawMessage option" where
  "jsonb_in r =
     (if raw_empty r then Some (RawJSON (JObj []))
      else case r of RawJSON _ \<Rightarrow> Some r | _ \<Rightarrow> None)"

definition outbox_record ::
  "OutboxEnqueue \<Rightarrow> ID \<Rightarrow> ID option \<Rightarrow> RawMessage \<Rightarrow> time \<Rightarrow> int \<Rightarrow> OutboxRec" where
  "outbox_record ob eid cid payload now i =
     \<lparr>r_ID = i, r_EventID = eid, r_EventType = ob_EventType ob,
      r_AggregateType = ob_AggregateType ob, r_AggregateID = ob_AggregateID ob, r_ChatID = cid,
      r_OccurredAt = pg_timestamptz (ob_OccurredAt ob), r_Version = ob_Version ob, r_Payload = payload,
      r_PublishedAt = None, r_CreatedAt = now\<rparr>"

definition insertOutboxTx :: "time \<Rightarrow> OutboxEnqueue \<Rightarrow> unit go" where
  "insertOutboxTx t0 ob =
     tx_stmt t0 (with_uuid (ob_EventID ob) (\<lambda>eid. with_uuid_opt (ob_ChatID ob) (\<lambda>cid now _ s.
       case jsonb_in (ob_Payload ob) of
         None \<Rightarrow> (Inl invalid_text, s)
       | Some payload \<Rightarrow> insert_outbox_row (outbox_record ob eid cid payload now) s)))"

text \<open>\<^verbatim>\<open>commitOutboxObs\<close>: the counter moves once the transaction has been committed.\<close>

definition commitOutboxObs :: "'a go \<Rightarrow> 'a go" where
  "commitOutboxObs tx =
     call tx raise (\<lambda>x.
     call (metric (\<lambda>m. m\<lparr>OutboxCreated := OutboxCreated m + 1\<rparr>)) raise (\<lambda>_. ret x))"

definition create_body :: "Message \<Rightarrow> OutboxEnqueue \<Rightarrow> time \<Rightarrow> Message go" where
  "create_body m ob t0 =
     call (tx_stmt t0 (insert_message_stmt m)) raise (\<lambda>out.
     let ob2 = ob\<lparr>ob_AggregateID := m_ID out, ob_OccurredAt := m_CreatedAt out\<rparr>;
         ob2 = (if raw_empty (ob_Payload ob2)
                then ob2\<lparr>ob_Payload := encodeMessageWireJSON out\<rparr> else ob2)
     in call (tx_stmt t0 (update_last_stmt (m_ChatID out) (m_ID out) (m_CreatedAt out))) raise
          (\<lambda>affected.
        if affected = 0 then raise ErrNotFound
        else call (insertOutboxTx t0 ob2) raise (\<lambda>_. ret out)))"

definition CreateMessageWithOutbox :: "Message \<Rightarrow> OutboxEnqueue \<Rightarrow> Message go" where
  "CreateMessageWithOutbox m ob = commitOutboxObs (transaction (create_body m ob))"

definition update_text_body ::
  "ID \<Rightarrow> ID \<Rightarrow> string \<Rightarrow> OutboxEnqueue \<Rightarrow> time \<Rightarrow> unit go" where
  "update_text_body chatID messageID text ob t0 =
     call (tx_stmt t0 (update_text_stmt chatID messageID text)) raise (\<lambda>affected.
     if affected = 0 then raise ErrNotFound
     else call (tx_stmt t0 (with_uuid messageID (\<lambda>mid. with_uuid chatID (\<lambda>cid _ _ s.
                  one_row (find (\<lambda>m. m_ID m = mid \<and> m_ChatID m = cid) (messages s)) s)))) raise
            (\<lambda>mUpd.
          let ob2 = (if raw_empty (ob_Payload ob)
                     then ob\<lparr>ob_Payload := encodeMessageWireJSON mUpd\<rparr> else ob);
              ob2 = ob2\<lparr>ob_AggregateID := messageID, ob_OccurredAt := m_UpdatedAt mUpd\<rparr>
          in insertOutboxTx t0 ob2))"

definition UpdateMessageTextWithOutbox ::
  "ID \<Rightarrow> ID \<Rightarrow> string \<Rightarrow> OutboxEnqueue \<Rightarrow> unit go" where
  "UpdateMessageTextWithOutbox chatID messageID text ob =
     commitOutboxObs (transaction (update_text_body chatID messageID text ob))"

definition soft_delete_body :: "ID \<Rightarrow> ID \<Rightarrow> OutboxEnqueue \<Rightarrow> time \<Rightarrow> unit go" where
  "soft_delete_body chatID messageID ob t0 =
     call (tx_stmt t0 (soft_delete_stmt chatID messageID)) raise (\<lambda>affected.
     if affected = 0 then raise ErrNotFound else insertOutboxTx t0 ob)"

definition SoftDeleteMessageWithOutbox :: "ID \<Rightarrow> ID \<Rightarrow> OutboxEnqueue \<Rightarrow> unit go" where
  "SoftDeleteMessageWithOutbox chatID messageID ob =
     commitOutboxObs (transaction (soft_delete_body chatID messageID ob))"

definition read_body :: "ID \<Rightarrow> ID \<Rightarrow> ID \<Rightarrow> OutboxEnqueue \<Rightarrow> time \<Rightarrow> unit go" where
  "read_body chatID userID readUpTo ob t0 =
     call (tx_stmt t0 (update_read_stmt chatID userID readUpTo)) raise (\<lambda>affected.
     if affected = 0 then raise ErrNotFound else insertOutboxTx t0 ob)"

definition UpdateMemberReadWithOutbox :: "ID \<Rightarrow> ID \<Rightarrow> ID \<Rightarrow> OutboxEnqueue \<Rightarrow> unit go" where
  "UpdateMemberReadWithOutbox chatID userID readUpTo ob =
     commitOutboxObs (transaction (read_body chatID userID readUpTo ob))"

section \<open>Outbox repository\<close>

definition norm_fetch_limit :: "int \<Rightarrow> int" where
  "norm_fetch_limit limit = (if limit \<le> 0 then 50 else if limit > 500 then 500 else limit)"

definition pending :: "Store \<Rightarrow> OutboxRec list" where
  "pending s = filter (\<lambda>r. r_PublishedAt r = None) (outbox_events s)"

definition FetchPending :: "int \<Rightarrow> OutboxRow list go" where
  "FetchPending limit =
     roundtrip (\<lambda>_ _ s.
       (Inr (take (nat (norm_fetch_limit limit)) (map OutboxRow.truncate (sort_key r_ID (pending s)))),
        s))"

definition set_published :: "int \<Rightarrow> time \<Rightarrow> OutboxRec \<Rightarrow> OutboxRec" where
  "set_published i now r =
     (if r_ID r = i \<and> r_PublishedAt r = None then r\<lparr>r_PublishedAt := Some now\<rparr> else r)"

definition mark_stmt :: "int \<Rightarrow> nat stmt" where
  "mark_stmt i now _ s =
     (Inr (length (filter (\<lambda>r. r_ID r = i \<and> r_PublishedAt r = None) (outbox_events s))),
      s\<lparr>outbox_events := map (set_published i now) (outbox_events s)\<rparr>)"

definition MarkPublished :: "int \<Rightarrow> unit go" where
  "MarkPublished i =
     call (roundtrip (mark_stmt i)) raise
       (\<lambda>affected. if affected = 0 then raise (ErrText ''outbox: mark published: no row'') else ret ())"

end
