(* ===== verification/UserRepo.thy ===== *)
theory UserRepo
  imports ChatRepo
begin

text \<open>
  The user repository on PostgreSQL (\<^verbatim>\<open>backend/internal/repository/postgres/user_repository.go\<close>).
  \<^verbatim>\<open>lower\<close> and the case folding of ILIKE act on ASCII letters.
\<close>

definition user_widths_ok :: "User \<Rightarrow> bool" where
  "user_widths_ok u =
     (utf8_len (u_Email u) \<le> 320 \<and> utf8_len (u_PasswordHash u) \<le> 255
      \<and> utf8_len (u_Nickname u) \<le> 64
      \<and> opt_ok (\<lambda>n. utf8_len n \<le> 100) (u_FirstName u)
      \<and> opt_ok (\<lambda>n. utf8_len n \<le> 100) (u_LastName u))"

definition user_texts_ok :: "User \<Rightarrow> bool" where
  "user_texts_ok u =
     (pg_text (u_Email u) \<and> pg_text (u_PasswordHash u) \<and> pg_text (u_Nickname u)
      \<and> opt_ok pg_text (u_FirstName u) \<and> opt_ok pg_text (u_LastName u)
      \<and> opt_ok pg_text (u_AvatarURL u))"

definition insert_user_row :: "User \<Rightarrow> Store \<Rightarrow> (err + User) \<times> Store" where
  "insert_user_row u s =
     (if \<not> user_texts_ok u then (Inl bad_encoding, s)
      else if \<not> user_widths_ok u then (Inl string_truncation, s)
      else if u_ID u \<in> set (user_ids s)
           \<or> ascii_lower (u_Email u) \<in> set (map (ascii_lower \<circ> u_Email) (users s))
           then (Inl unique_violation, s)
      else (Inr u, s\<lparr>users := users s @ [u]\<rparr>))"

definition User_Create :: "User \<Rightarrow> User go" where
  "User_Create u =
     roundtrip (\<lambda>now uid.
       insert_user_row (u\<lparr>u_ID := uid, u_CreatedAt := now, u_UpdatedAt := now, u_LastSeenAt := None,
                          u_IsActive := True\<rparr>))"

definition User_GetByID :: "ID \<Rightarrow> User go" where
  "User_GetByID i =
     call (roundtrip (with_uuid i (\<lambda>uid _ _ s. one_row (user_row s uid) s)))
       (\<lambda>e. raise (mapErr e)) ret"

definition User_GetByEmail :: "string \<Rightarrow> User go" where
  "User_GetByEmail email =
     call (roundtrip (\<lambda>_ _ s.
             if \<not> pg_text email then (Inl bad_encoding, s)
             else one_row (find (\<lambda>u. ascii_lower (u_Email u) = ascii_lower email) (users s)) s))
       (\<lambda>e. raise (mapErr e)) ret"

definition User_GetByNickname :: "string \<Rightarrow> User go" where
  "User_GetByNickname nickname =
     call (roundtrip (\<lambda>_ _ s.
             if \<not> pg_text nickname then (Inl bad_encoding, s)
             else one_row (find (\<lambda>u. ascii_lower (u_Nickname u) = ascii_lower nickname) (users s)) s))
       (\<lambda>e. raise (mapErr e)) ret"

text \<open>
  SQL's LIKE: \<^verbatim>\<open>%\<close> matches any text, \<^verbatim>\<open>_\<close> one character (with its UTF-8 continuation bytes) and a
  backslash makes the next pattern character literal.
\<close>

fun sql_like :: "string \<Rightarrow> string \<Rightarrow> bool" where
  "sql_like [] s = (s = [])"
| "sql_like (p # ps) s =
     (if p = CHR ''%'' then sql_like ps s \<or> (case s of [] \<Rightarrow> False | _ # r \<Rightarrow> sql_like (p # ps) r)
      else if p = CHR ''_'' then
        (case s of [] \<Rightarrow> False
         | _ # r \<Rightarrow> sql_like ps (dropWhile (\<lambda>c. 128 \<le> byte_of c \<and> byte_of c < 192) r))
      else if p = CHR 0x5C then
        (case ps of [] \<Rightarrow> False
         | q # qs \<Rightarrow> (case s of [] \<Rightarrow> False | c # r \<Rightarrow> c = q \<and> sql_like qs r))
      else (case s of [] \<Rightarrow> False | c # r \<Rightarrow> c = p \<and> sql_like ps r))"

definition sql_ilike :: "string \<Rightarrow> string \<Rightarrow> bool" where
  "sql_ilike t pattern = sql_like (ascii_lower pattern) (ascii_lower t)"

definition coalesce_text :: "string option \<Rightarrow> string" where
  "coalesce_text v = (case v of None \<Rightarrow> '''' | Some t \<Rightarrow> t)"

definition search_pattern :: "string \<Rightarrow> string" where
  "search_pattern query =
     (let pattern = ''%'' @ TrimSpace query @ ''%'' in if pattern = ''%%'' then ''%'' else pattern)"

text \<open>\<^verbatim>\<open>scanUserSearchRow\<close> leaves the password hash empty.\<close>

definition scanUserSearchRow :: "User \<Rightarrow> User" where
  "scanUserSearchRow u = u\<lparr>u_PasswordHash := ''''\<rparr>"

definition User_Search :: "string \<Rightarrow> Page \<Rightarrow> User list go" where
  "User_Search query page =
     (let lo = normPage page; pattern = search_pattern query
      in roundtrip (\<lambda>_ _ s.
           if \<not> pg_text pattern then (Inl bad_encoding, s)
           else (Inr (map scanUserSearchRow (page_of lo (order_desc u_CreatedAt
                   (filter (\<lambda>u. u_IsActive u \<and>
                      (sql_ilike (u_Nickname u) pattern
                       \<or> sql_ilike (coalesce_text (u_FirstName u)) pattern
                       \<or> sql_ilike (coalesce_text (u_LastName u)) pattern)) (users s))))), s)))"

definition coalesce :: "'a option \<Rightarrow> 'a \<Rightarrow> 'a" where
  "coalesce v d = (case v of None \<Rightarrow> d | Some x \<Rightarrow> x)"

definition apply_profile :: "UpdateUserProfileParams \<Rightarrow> time \<Rightarrow> User \<Rightarrow> User" where
  "apply_profile p now u =
     u\<lparr>u_Nickname := coalesce (up_Nickname p) (u_Nickname u),
       u_FirstName := (case up_FirstName p of None \<Rightarrow> u_FirstName u | Some v \<Rightarrow> Some v),
       u_LastName := (case up_LastName p of None \<Rightarrow> u_LastName u | Some v \<Rightarrow> Some v),
       u_AvatarURL := (case up_AvatarURL p of None \<Rightarrow> u_AvatarURL u | Some v \<Rightarrow> Some v),
       u_UpdatedAt := now\<rparr>"

definition UpdateProfile :: "UpdateUserProfileParams \<Rightarrow> unit go" where
  "UpdateProfile p =
     call (roundtrip (with_uuid (up_UserID p) (\<lambda>i now _ s.
             let hit = filter (\<lambda>u. u_ID u = i) (users s)
             in if list_ex (\<lambda>u. \<not> user_texts_ok (apply_profile p now u)) hit
                then (Inl bad_encoding, s)
                else if list_ex (\<lambda>u. \<not> user_widths_ok (apply_profile p now u)) hit
                then (Inl string_truncation, s)
                else (Inr (length hit),
                      s\<lparr>users := map (\<lambda>u. if u_ID u = i then apply_profile p now u else u) (users s)\<rparr>))))
       raise
       (\<lambda>affected. if affected = 0 then raise ErrNotFound else ret ())"

end
