(* ===== verification/Evolution.thy ===== *)
theory Evolution
  imports MessageRepo UserRepo "HOL-Library.Multiset"
begin

text \<open>
  What the program promises about the shared store beyond the declared constraints: an invariant
  \<open>domain_ok\<close> and a relation \<open>later\<close> that says how the store may change.  The effects of the
  writer's transactions are stated as functions on the store (\<open>post_message\<close>, \<open>edit_message\<close>,
  \<open>erase_message\<close>, \<open>mark_read\<close>, \<open>enqueue\<close>); they are the abstract specification the transactions
  are shown to implement.
\<close>

section \<open>Abstract operations on the store\<close>

definition enqueue :: "OutboxRec \<Rightarrow> Store \<Rightarrow> Store" where
  "enqueue r s = s\<lparr>outbox_events := outbox_events s @ [r], outbox_seq := outbox_seq s + 1\<rparr>"

definition post_message :: "Message \<Rightarrow> Store \<Rightarrow> Store" where
  "post_message m s =
     s\<lparr>messages := messages s @ [m],
       chats := map (set_last_message (m_ChatID m) (m_ID m) (m_CreatedAt m) (m_CreatedAt m)) (chats s)\<rparr>"

definition edit_message :: "ID \<Rightarrow> ID \<Rightarrow> string \<Rightarrow> time \<Rightarrow> Store \<Rightarrow> Store" where
  "edit_message cid mid text now s = s\<lparr>messages := map (set_text cid mid text now) (messages s)\<rparr>"

definition erase_message :: "ID \<Rightarrow> ID \<Rightarrow> time \<Rightarrow> Store \<Rightarrow> Store" where
  "erase_message cid mid now s = s\<lparr>messages := map (set_deleted cid mid now) (messages s)\<rparr>"

definition mark_read :: "ID \<Rightarrow> ID \<Rightarrow> ID \<Rightarrow> time \<Rightarrow> Store \<Rightarrow> Store" where
  "mark_read cid uid mid now s =
     s\<lparr>chat_members := map (set_read cid uid mid now) (chat_members s)\<rparr>"

section \<open>Evolution\<close>

definition grows :: "('a \<Rightarrow> 'a \<Rightarrow> bool) \<Rightarrow> 'a list \<Rightarrow> 'a list \<Rightarrow> bool" where
  "grows R xs ys = (\<forall>x \<in> set xs. \<exists>y \<in> set ys. R x y)"

text \<open>A chat keeps its identity, kind, creator and direct key.\<close>

definition chat_step :: "Chat \<Rightarrow> Chat \<Rightarrow> bool" where
  "chat_step c d =
     (c_ID d = c_ID c \<and> c_Type d = c_Type c \<and> c_CreatedBy d = c_CreatedBy c
      \<and> c_DirectKey d = c_DirectKey c \<and> c_CreatedAt d = c_CreatedAt c)"

text \<open>
  A message keeps everything but its text, its time of change and its deletion mark, and a
  deleted message keeps those as well.
\<close>

definition message_step :: "Message \<Rightarrow> Message \<Rightarrow> bool" where
  "message_step m n =
     (m_ID n = m_ID m \<and> m_ChatID n = m_ChatID m \<and> m_SenderID n = m_SenderID m
      \<and> m_Type n = m_Type m \<and> m_ReplyToID n = m_ReplyToID m \<and> m_CreatedAt n = m_CreatedAt m
      \<and> (m_DeletedAt m \<noteq> None \<longrightarrow> n = m))"

text \<open>An outbox row changes at most once, when it is marked published.\<close>

definition outbox_step :: "OutboxRec \<Rightarrow> OutboxRec \<Rightarrow> bool" where
  "outbox_step r q =
     (q\<lparr>r_PublishedAt := None\<rparr> = r\<lparr>r_PublishedAt := None\<rparr> \<and> (r_PublishedAt r \<noteq> None \<longrightarrow> q = r))"

text \<open>A refresh session changes at most once, when it is revoked.\<close>

definition session_step :: "RefreshSession \<Rightarrow> RefreshSession \<Rightarrow> bool" where
  "session_step a b =
     (b\<lparr>rs_RevokedAt := None\<rparr> = a\<lparr>rs_RevokedAt := None\<rparr> \<and> (rs_RevokedAt a \<noteq> None \<longrightarrow> b = a))"

definition later :: "Store \<Rightarrow> Store \<Rightarrow> bool" where
  "later s t =
     (grows (\<lambda>u v. u_ID v = u_ID u) (users s) (users t) \<and> grows chat_step (chats s) (chats t)
      \<and> grows message_step (messages s) (messages t)
      \<and> grows outbox_step (outbox_events s) (outbox_events t) \<and> outbox_seq s \<le> outbox_seq t
      \<and> grows session_step (refresh_sessions s) (refresh_sessions t)
      \<and> (\<exists>k. kafka_log t = kafka_log s @ k))"

section \<open>Invariant\<close>

text \<open>References between rows stay inside one chat.\<close>

definition in_chat :: "Store \<Rightarrow> ID \<Rightarrow> ID \<Rightarrow> bool" where
  "in_chat s cid mid = (\<exists>m \<in> set (messages s). m_ID m = mid \<and> m_ChatID m = cid)"

definition links_ok :: "Store \<Rightarrow> bool" where
  "links_ok s =
     ((\<forall>m \<in> set (messages s). opt_ok (in_chat s (m_ChatID m)) (m_ReplyToID m))
      \<and> (\<forall>c \<in> set (chats s). opt_ok (in_chat s (c_ID c)) (c_LastMessageID c))
      \<and> (\<forall>x \<in> set (chat_members s). opt_ok (in_chat s (cm_ChatID x)) (cm_LastReadMessageID x)))"

text \<open>
  The owner of a chat is the user who created it, and only group chats have owners; nobody is an
  admin.
\<close>

definition role_ok :: "Store \<Rightarrow> ChatMember \<Rightarrow> bool" where
  "role_ok s x =
     (case cm_Role x of
        ChatMemberRoleOwner \<Rightarrow>
          list_ex (\<lambda>c. c_ID c = cm_ChatID x \<and> c_CreatedBy c = Some (cm_UserID x)
                       \<and> c_Type c = ChatTypeGroup) (chats s)
      | ChatMemberRoleAdmin \<Rightarrow> False
      | ChatMemberRoleMember \<Rightarrow> True)"

text \<open>
  The events of a kind, and the messages: as many events \<^verbatim>\<open>message.created\<close> for a message as there
  are messages with its id (one), and as many \<^verbatim>\<open>message.deleted\<close> as there are deleted messages.
\<close>

definition events :: "string \<Rightarrow> OutboxRec list \<Rightarrow> (string \<times> ID option) multiset" where
  "events ty rs =
     image_mset (\<lambda>r. (r_AggregateID r, r_ChatID r)) (filter_mset (\<lambda>r. r_EventType r = ty) (mset rs))"

definition is_deleted :: "Message \<Rightarrow> bool" where
  "is_deleted m = (m_DeletedAt m \<noteq> None)"

definition message_refs :: "Message list \<Rightarrow> (string \<times> ID option) multiset" where
  "message_refs ms = image_mset (\<lambda>m. (m_ID m, Some (m_ChatID m))) (mset ms)"

definition outbox_complete :: "Store \<Rightarrow> bool" where
  "outbox_complete s =
     (events EventMessageCreated (outbox_events s) = message_refs (messages s)
      \<and> events EventMessageDeleted (outbox_events s)
        = message_refs (filter is_deleted (messages s)))"

definition domain_ok :: "Store \<Rightarrow> bool" where
  "domain_ok s =
     (tables_ok s \<and> links_ok s \<and> list_all (role_ok s) (chat_members s) \<and> outbox_complete s)"

section \<open>Lemmas on evolution\<close>

lemma grows_refl: "(\<And>x. R x x) \<Longrightarrow> grows R xs xs"
  by (auto simp: grows_def)

lemma grows_trans:
  assumes "grows R xs ys" and "grows R ys zs" and "\<And>x y z. R x y \<Longrightarrow> R y z \<Longrightarrow> R x z"
  shows "grows R xs zs"
  using assms by (fastforce simp: grows_def)

lemma grows_append: "(\<And>x. R x x) \<Longrightarrow> grows R xs (xs @ ys)"
  by (auto simp: grows_def)

lemma grows_map: "(\<And>x. R x (f x)) \<Longrightarrow> grows R xs (map f xs)"
  by (auto simp: grows_def)

lemma step_refl [simp]:
  "chat_step c c" "message_step m m" "outbox_step r r" "session_step x x"
  by (simp_all add: chat_step_def message_step_def outbox_step_def session_step_def)

lemma chat_step_trans: "chat_step a b \<Longrightarrow> chat_step b c \<Longrightarrow> chat_step a c"
  by (simp add: chat_step_def)

lemma message_step_trans: "message_step a b \<Longrightarrow> message_step b c \<Longrightarrow> message_step a c"
  by (auto simp: message_step_def)

lemma outbox_step_trans: "outbox_step a b \<Longrightarrow> outbox_step b c \<Longrightarrow> outbox_step a c"
  by (auto simp: outbox_step_def)

lemma session_step_trans: "session_step a b \<Longrightarrow> session_step b c \<Longrightarrow> session_step a c"
  by (auto simp: session_step_def)

lemma update_steps [simp]:
  "chat_step c (set_last_message cid mid at now c)"
  "message_step m (set_text cid2 mid2 text now m)" "message_step m (set_deleted cid3 mid3 now m)"
  "outbox_step r (set_published i now r)"
  by (auto simp: chat_step_def message_step_def outbox_step_def set_last_message_def set_text_def
      set_deleted_def set_published_def)

lemma later_refl [simp]: "later s s"
  by (simp add: later_def grows_refl)

lemma later_trans: "later s t \<Longrightarrow> later t u \<Longrightarrow> later s u"
  unfolding later_def
  by (auto intro: grows_trans chat_step_trans message_step_trans outbox_step_trans session_step_trans)

lemma later_ops [simp]:
  "later s (enqueue r s)" "later s (post_message m s)" "later s (edit_message cid mid text now s)"
  "later s (erase_message cid mid now s)" "later s (mark_read cid uid mid now s)"
  by (simp_all add: later_def enqueue_def post_message_def edit_message_def erase_message_def
      mark_read_def grows_refl grows_append grows_map)

lemma later_seq: "outbox_seq s \<le> k \<Longrightarrow> later s (s\<lparr>outbox_seq := k\<rparr>)"
  by (simp add: later_def grows_refl)

lemma in_chat_later: "in_chat s cid mid \<Longrightarrow> later s t \<Longrightarrow> in_chat t cid mid"
  unfolding in_chat_def later_def grows_def message_step_def by metis

section \<open>Lemmas on the invariant\<close>

text \<open>The tables after each abstract operation.\<close>

lemma enqueue_tables [simp]:
  "users (enqueue r s) = users s"
  "chats (enqueue r s) = chats s"
  "chat_members (enqueue r s) = chat_members s"
  "messages (enqueue r s) = messages s"
  "refresh_sessions (enqueue r s) = refresh_sessions s"
  "outbox_events (enqueue r s) = outbox_events s @ [r]"
  "outbox_seq (enqueue r s) = outbox_seq s + 1"
  "kafka_log (enqueue r s) = kafka_log s"
  by (simp_all add: enqueue_def)

lemma post_message_tables [simp]:
  "users (post_message m s) = users s"
  "chats (post_message m s) = map (set_last_message (m_ChatID m) (m_ID m) (m_CreatedAt m) (m_CreatedAt m)) (chats s)"
  "chat_members (post_message m s) = chat_members s"
  "messages (post_message m s) = messages s @ [m]"
  "refresh_sessions (post_message m s) = refresh_sessions s"
  "outbox_events (post_message m s) = outbox_events s"
  "outbox_seq (post_message m s) = outbox_seq s"
  "kafka_log (post_message m s) = kafka_log s"
  by (simp_all add: post_message_def)

lemma edit_message_tables [simp]:
  "users (edit_message cid mid text now s) = users s"
  "chats (edit_message cid mid text now s) = chats s"
  "chat_members (edit_message cid mid text now s) = chat_members s"
  "messages (edit_message cid mid text now s) = map (set_text cid mid text now) (messages s)"
  "refresh_sessions (edit_message cid mid text now s) = refresh_sessions s"
  "outbox_events (edit_message cid mid text now s) = outbox_events s"
  "outbox_seq (edit_message cid mid text now s) = outbox_seq s"
  "kafka_log (edit_message cid mid text now s) = kafka_log s"
  by (simp_all add: edit_message_def)

lemma erase_message_tables [simp]:
  "users (erase_message cid mid now s) = users s"
  "chats (erase_message cid mid now s) = chats s"
  "chat_members (erase_message cid mid now s) = chat_members s"
  "messages (erase_message cid mid now s) = map (set_deleted cid mid now) (messages s)"
  "refresh_sessions (erase_message cid mid now s) = refresh_sessions s"
  "outbox_events (erase_message cid mid now s) = outbox_events s"
  "outbox_seq (erase_message cid mid now s) = outbox_seq s"
  "kafka_log (erase_message cid mid now s) = kafka_log s"
  by (simp_all add: erase_message_def)

lemma mark_read_tables [simp]:
  "users (mark_read cid uid mid now s) = users s"
  "chats (mark_read cid uid mid now s) = chats s"
  "chat_members (mark_read cid uid mid now s) = map (set_read cid uid mid now) (chat_members s)"
  "messages (mark_read cid uid mid now s) = messages s"
  "refresh_sessions (mark_read cid uid mid now s) = refresh_sessions s"
  "outbox_events (mark_read cid uid mid now s) = outbox_events s"
  "outbox_seq (mark_read cid uid mid now s) = outbox_seq s"
  "kafka_log (mark_read cid uid mid now s) = kafka_log s"
  by (simp_all add: mark_read_def)

text \<open>The key lists after each abstract operation.\<close>

lemma set_keys [simp]:
  "c_ID (set_last_message cid mid at now c) = c_ID c"
  "c_Type (set_last_message cid mid at now c) = c_Type c"
  "c_DirectKey (set_last_message cid mid at now c) = c_DirectKey c"
  "c_CreatedBy (set_last_message cid mid at now c) = c_CreatedBy c"
  "live_direct (set_last_message cid mid at now c) = live_direct c"
  "m_ID (set_text cid mid text now m) = m_ID m" "m_ID (set_deleted cid mid now m) = m_ID m"
  "m_ChatID (set_text cid mid text now m) = m_ChatID m"
  "m_ChatID (set_deleted cid mid now m) = m_ChatID m"
  "m_SenderID (set_text cid mid text now m) = m_SenderID m"
  "m_SenderID (set_deleted cid mid now m) = m_SenderID m"
  "m_ReplyToID (set_text cid mid text now m) = m_ReplyToID m"
  "m_ReplyToID (set_deleted cid mid now m) = m_ReplyToID m"
  "is_deleted (set_text cid mid text now m) = is_deleted m"
  "member_key (set_read cid uid mid now x) = member_key x"
  "cm_ChatID (set_read cid uid mid now x) = cm_ChatID x"
  "cm_UserID (set_read cid uid mid now x) = cm_UserID x"
  "cm_Role (set_read cid uid mid now x) = cm_Role x"
  by (simp_all add: set_last_message_def set_text_def set_deleted_def set_read_def live_direct_def
      member_key_def is_deleted_def)

lemma ids_of_ops [simp]:
  "user_ids (enqueue r s) = user_ids s" "user_ids (post_message m s) = user_ids s"
  "user_ids (edit_message cid mid text now s) = user_ids s"
  "user_ids (erase_message cid mid now s) = user_ids s"
  "user_ids (mark_read cid uid mid now s) = user_ids s"
  "chat_ids (enqueue r s) = chat_ids s" "chat_ids (post_message m s) = chat_ids s"
  "chat_ids (edit_message cid mid text now s) = chat_ids s"
  "chat_ids (erase_message cid mid now s) = chat_ids s"
  "chat_ids (mark_read cid uid mid now s) = chat_ids s"
  "message_ids (enqueue r s) = message_ids s"
  "message_ids (post_message m s) = message_ids s @ [m_ID m]"
  "message_ids (edit_message cid mid text now s) = message_ids s"
  "message_ids (erase_message cid mid now s) = message_ids s"
  "message_ids (mark_read cid uid mid now s) = message_ids s"
  by (simp_all add: user_ids_def chat_ids_def message_ids_def comp_def)

lemma live_keys_of_ops [simp]:
  "live_direct_keys (enqueue r s) = live_direct_keys s"
  "live_direct_keys (post_message m s) = live_direct_keys s"
  "live_direct_keys (edit_message cid mid text now s) = live_direct_keys s"
  "live_direct_keys (erase_message cid mid now s) = live_direct_keys s"
  "live_direct_keys (mark_read cid uid mid now s) = live_direct_keys s"
  by (simp_all add: live_direct_keys_def filter_map comp_def)

lemma in_chat_of_ops:
  "in_chat (enqueue r s) = in_chat s" "in_chat (mark_read cid uid mid now s) = in_chat s"
  "in_chat (edit_message cid mid text now s) = in_chat s"
  "in_chat (erase_message cid mid now s) = in_chat s"
  "in_chat (post_message m s) c i = (in_chat s c i \<or> c = m_ChatID m \<and> i = m_ID m)"
  by (auto simp: in_chat_def fun_eq_iff)

lemma role_of_ops [simp]:
  "role_ok (enqueue r s) = role_ok s" "role_ok (mark_read cid uid mid now s) = role_ok s"
  "role_ok (edit_message cid mid text now s) = role_ok s"
  "role_ok (erase_message cid mid now s) = role_ok s" "role_ok (post_message m s) = role_ok s"
  by (auto simp: role_ok_def fun_eq_iff list_ex_iff split: ChatMemberRole.split)

lemma role_ok_set_read [simp]: "role_ok s (set_read cid uid mid now x) = role_ok s x"
  by (simp add: role_ok_def split: ChatMemberRole.split)

text \<open>The declared constraints.\<close>

lemma tables_ok_enqueue:
  assumes "tables_ok s" and "r_ID r = outbox_seq s"
    and "r_EventID r \<notin> set (map r_EventID (outbox_events s))"
  shows "tables_ok (enqueue r s)"
proof -
  have "outbox_ok (enqueue r s)"
    using assms by (force simp: tables_ok_def outbox_ok_def)
  then show ?thesis
    using assms(1)
    by (simp add: tables_defs member_fk_def message_fk_def)
qed

lemma tables_ok_post:
  assumes s: "tables_ok s" and m: "canonical (m_ID m)" "m_ID m \<notin> set (message_ids s)"
    and fk: "m_ChatID m \<in> set (chat_ids s)" "m_SenderID m \<in> set (user_ids s)"
      "opt_ok (\<lambda>r. r \<in> set (message_ids s)) (m_ReplyToID m)"
  shows "tables_ok (post_message m s)"
proof -
  have "opt_ok (\<lambda>r. r \<in> set (message_ids (post_message m s))) v"
    if "opt_ok (\<lambda>r. r \<in> set (message_ids s)) v" for v
    using that by (rule opt_ok_mono) simp
  note grow = this [simplified]
  have "chats_ok (post_message m s)"
    using s grow by (auto simp: tables_ok_def chats_ok_def comp_def) (auto simp: set_last_message_def)
  moreover have "members_ok (post_message m s)"
    using s grow by (auto simp: tables_ok_def members_ok_def member_fk_def)
  moreover have "messages_ok (post_message m s)"
    using s m fk grow
    by (auto simp: tables_ok_def messages_ok_def message_fk_def)
  ultimately show ?thesis
    using s by (simp add: tables_ok_def users_ok_def outbox_ok_def sessions_ok_def)
qed

lemma tables_ok_edit: "tables_ok s \<Longrightarrow> tables_ok (edit_message cid mid text now s)"
  by (simp add: tables_defs member_fk_def message_fk_def)

lemma tables_ok_erase: "tables_ok s \<Longrightarrow> tables_ok (erase_message cid mid now s)"
  by (simp add: tables_defs member_fk_def message_fk_def)

lemma tables_ok_mark:
  assumes "tables_ok s" and "mid \<in> set (message_ids s)"
  shows "tables_ok (mark_read cid uid mid now s)"
proof -
  have "members_ok (mark_read cid uid mid now s)"
    using assms by (auto simp: tables_ok_def members_ok_def member_fk_def comp_def)
      (auto simp: set_read_def)
  then show ?thesis
    using assms(1)
    by (simp add: tables_ok_def users_ok_def chats_ok_def messages_ok_def message_fk_def outbox_ok_def
        sessions_ok_def)
qed

text \<open>The links inside a chat.\<close>

lemma links_ok_enqueue: "links_ok s \<Longrightarrow> links_ok (enqueue r s)"
  by (simp add: links_ok_def in_chat_of_ops)

lemma links_ok_edit: "links_ok s \<Longrightarrow> links_ok (edit_message cid mid text now s)"
  by (simp add: links_ok_def in_chat_of_ops)

lemma links_ok_erase: "links_ok s \<Longrightarrow> links_ok (erase_message cid mid now s)"
  by (simp add: links_ok_def in_chat_of_ops)

lemma links_ok_mark: "links_ok s \<Longrightarrow> in_chat s cid mid \<Longrightarrow> links_ok (mark_read cid uid mid now s)"
  by (simp add: links_ok_def in_chat_of_ops)
    (auto simp: set_read_def member_key_def)

lemma links_ok_post:
  assumes "links_ok s" and "opt_ok (in_chat s (m_ChatID m)) (m_ReplyToID m)"
  shows "links_ok (post_message m s)"
proof -
  have grow: "opt_ok (in_chat (post_message m s) c) v" if "opt_ok (in_chat s c) v" for c v
    using that by (rule opt_ok_mono) (simp add: in_chat_of_ops)
  show ?thesis
    unfolding links_ok_def
  proof (intro conjI ballI)
    fix x
    assume "x \<in> set (messages (post_message m s))"
    then show "opt_ok (in_chat (post_message m s) (m_ChatID x)) (m_ReplyToID x)"
      using assms grow by (auto simp: links_ok_def)
  next
    fix c
    assume "c \<in> set (chats (post_message m s))"
    then show "opt_ok (in_chat (post_message m s) (c_ID c)) (c_LastMessageID c)"
      using assms grow
      by (auto simp: links_ok_def in_chat_of_ops set_last_message_def)
  next
    fix x
    assume "x \<in> set (chat_members (post_message m s))"
    then show "opt_ok (in_chat (post_message m s) (cm_ChatID x)) (cm_LastReadMessageID x)"
      using assms grow by (auto simp: links_ok_def)
  qed
qed

text \<open>One event per message and one per deletion.\<close>

lemma events_append [simp]:
  "events ty (rs @ [r]) =
     (if r_EventType r = ty then add_mset (r_AggregateID r, r_ChatID r) (events ty rs) else events ty rs)"
  by (simp add: events_def)

lemma refs_append [simp]:
  "message_refs (ms @ [m]) = add_mset (m_ID m, Some (m_ChatID m)) (message_refs ms)"
  by (simp add: message_refs_def)

lemma refs_map [simp]:
  "(\<And>m. m_ID (f m) = m_ID m \<and> m_ChatID (f m) = m_ChatID m) \<Longrightarrow>
     message_refs (map f ms) = message_refs ms"
  by (simp add: message_refs_def image_mset.compositionality comp_def)

lemma deleted_set_text [simp]:
  "message_refs (filter is_deleted (map (set_text cid mid text now) ms))
     = message_refs (filter is_deleted ms)"
  by (simp add: filter_map comp_def)

lemma deleted_set_deleted:
  assumes "distinct (map m_ID ms)" and "filter (live_message cid mid) ms \<noteq> []"
  shows "message_refs (filter is_deleted (map (set_deleted cid mid now) ms))
     = add_mset (mid, Some cid) (message_refs (filter is_deleted ms))"
  using assms
proof (induction ms)
  case (Cons m ms)
  show ?case
  proof (cases "live_message cid mid m")
    case True
    then have "map (set_deleted cid mid now) ms = ms"
      using Cons.prems(1) by (intro map_idI) (auto simp: set_deleted_def live_message_def image_iff)
    then show ?thesis
      using True by (simp add: message_refs_def) (simp add: set_deleted_def live_message_def is_deleted_def)
  next
    case False
    then have "set_deleted cid mid now m = m" by (auto simp: set_deleted_def live_message_def)
    then show ?thesis
      using Cons False by (simp add: message_refs_def)
  qed
qed simp

text \<open>The whole invariant, for the four transactions of the message writer.\<close>

definition event_fits :: "OutboxRec \<Rightarrow> Store \<Rightarrow> bool" where
  "event_fits r s =
     (r_ID r = outbox_seq s \<and> r_EventID r \<notin> set (map r_EventID (outbox_events s)))"

definition event_for :: "string \<Rightarrow> ID \<Rightarrow> ID \<Rightarrow> OutboxRec \<Rightarrow> bool" where
  "event_for ty mid cid r = (r_EventType r = ty \<and> r_AggregateID r = mid \<and> r_ChatID r = Some cid)"

lemma event_fits_of_ops [simp]:
  "event_fits r (post_message m s) = event_fits r s"
  "event_fits r (edit_message cid mid text now s) = event_fits r s"
  "event_fits r (erase_message cid mid now s) = event_fits r s"
  "event_fits r (mark_read cid uid mid now s) = event_fits r s"
  by (simp_all add: event_fits_def)

lemma event_kinds [simp]:
  "EventMessageCreated \<noteq> EventMessageDeleted" "EventMessageUpdated \<noteq> EventMessageCreated"
  "EventMessageUpdated \<noteq> EventMessageDeleted" "EventMessageReadReceipt \<noteq> EventMessageCreated"
  "EventMessageReadReceipt \<noteq> EventMessageDeleted" "EventMessageDeleted \<noteq> EventMessageCreated"
  by (simp_all add: event_names)

lemma in_chat_message: "in_chat s c i \<Longrightarrow> i \<in> set (message_ids s)"
  by (auto simp: in_chat_def message_ids_def)

lemma domain_ok_post:
  assumes "domain_ok s" and "canonical (m_ID m)" and "m_ID m \<notin> set (message_ids s)"
    and "m_ChatID m \<in> set (chat_ids s)" and "m_SenderID m \<in> set (user_ids s)"
    and "\<not> is_deleted m" and reply: "opt_ok (in_chat s (m_ChatID m)) (m_ReplyToID m)"
    and "event_fits r s" and "event_for EventMessageCreated (m_ID m) (m_ChatID m) r"
  shows "domain_ok (enqueue r (post_message m s))"
proof -
  have "opt_ok (\<lambda>r. r \<in> set (message_ids s)) (m_ReplyToID m)"
    using reply by (rule opt_ok_mono) (rule in_chat_message)
  then show ?thesis
    using assms
    by (simp add: domain_ok_def tables_ok_enqueue tables_ok_post links_ok_enqueue links_ok_post
        event_fits_def event_for_def outbox_complete_def)
qed

lemma domain_ok_edit:
  assumes "domain_ok s" and "event_fits r s" and "event_for EventMessageUpdated mid2 cid2 r"
  shows "domain_ok (enqueue r (edit_message cid mid text now s))"
  using assms
  by (simp add: domain_ok_def tables_ok_enqueue tables_ok_edit links_ok_enqueue links_ok_edit
      event_fits_def event_for_def outbox_complete_def)

lemma domain_ok_erase:
  assumes "domain_ok s" and "event_fits r s" and "event_for EventMessageDeleted mid cid r"
    and "filter (live_message cid mid) (messages s) \<noteq> []"
  shows "domain_ok (enqueue r (erase_message cid mid now s))"
proof -
  have "distinct (map m_ID (messages s))"
    using assms(1) by (simp add: domain_ok_def tables_ok_def messages_ok_def message_ids_def)
  from deleted_set_deleted [OF this assms(4)] show ?thesis
    using assms
    by (simp add: domain_ok_def tables_ok_enqueue tables_ok_erase links_ok_enqueue links_ok_erase
        event_fits_def event_for_def outbox_complete_def)
qed

lemma domain_ok_mark:
  assumes "domain_ok s" and "event_fits r s" and "event_for EventMessageReadReceipt aid2 cid2 r"
    and link: "in_chat s cid mid"
  shows "domain_ok (enqueue r (mark_read cid uid mid now s))"
  using assms in_chat_message [OF link]
  by (simp add: domain_ok_def tables_ok_enqueue tables_ok_mark links_ok_enqueue links_ok_mark
      event_fits_def event_for_def outbox_complete_def list_all_iff)

section \<open>Single statements\<close>

text \<open>The parts of the invariant do not look at the other tables.\<close>

lemma frame_simps [simp]:
  "in_chat (s\<lparr>users := x0\<rparr>) = in_chat s"
  "in_chat (s\<lparr>chats := x1\<rparr>) = in_chat s"
  "in_chat (s\<lparr>chat_members := x2\<rparr>) = in_chat s"
  "in_chat (s\<lparr>refresh_sessions := x3\<rparr>) = in_chat s"
  "in_chat (s\<lparr>outbox_events := x4\<rparr>) = in_chat s"
  "in_chat (s\<lparr>outbox_seq := x5\<rparr>) = in_chat s"
  "in_chat (s\<lparr>redis_kv := x6\<rparr>) = in_chat s"
  "in_chat (s\<lparr>redis_published := x7\<rparr>) = in_chat s"
  "in_chat (s\<lparr>kafka_log := x8\<rparr>) = in_chat s"
  "role_ok (s\<lparr>users := y0\<rparr>) = role_ok s"
  "role_ok (s\<lparr>chat_members := y1\<rparr>) = role_ok s"
  "role_ok (s\<lparr>messages := y2\<rparr>) = role_ok s"
  "role_ok (s\<lparr>refresh_sessions := y3\<rparr>) = role_ok s"
  "role_ok (s\<lparr>outbox_events := y4\<rparr>) = role_ok s"
  "role_ok (s\<lparr>outbox_seq := y5\<rparr>) = role_ok s"
  "role_ok (s\<lparr>redis_kv := y6\<rparr>) = role_ok s"
  "role_ok (s\<lparr>redis_published := y7\<rparr>) = role_ok s"
  "role_ok (s\<lparr>kafka_log := y8\<rparr>) = role_ok s"
  by (simp_all add: in_chat_def role_ok_def fun_eq_iff split: ChatMemberRole.split)

lemma domain_ok_seq: "domain_ok s \<Longrightarrow> outbox_seq s \<le> k \<Longrightarrow> domain_ok (s\<lparr>outbox_seq := k\<rparr>)"
  by (simp add: domain_ok_def tables_ok_seq links_ok_def outbox_complete_def)

interpretation evo: store_evolution domain_ok later
proof
  show "later s s" for s by simp
  show "later s t \<Longrightarrow> later t u \<Longrightarrow> later s u" for s t u by (rule later_trans)
  show "domain_ok s \<Longrightarrow> outbox_seq s \<le> k \<Longrightarrow> domain_ok (s\<lparr>outbox_seq := k\<rparr>)" for s k
    by (rule domain_ok_seq)
  show "outbox_seq s \<le> k \<Longrightarrow> later s (s\<lparr>outbox_seq := k\<rparr>)" for s k by (rule later_seq)
qed

text \<open>Statements that only read.\<close>

lemma reads_only_one_row [simp]: "snd (one_row v s) = s"
  by (simp add: one_row_def split: option.split)

lemma reads_only_with_uuid: "(\<And>i. reads_only (k i)) \<Longrightarrow> reads_only (with_uuid p k)"
  by (simp add: reads_only_def with_uuid_def split: option.split)

lemma reads_only_with_uuid_opt: "(\<And>i. reads_only (k i)) \<Longrightarrow> reads_only (with_uuid_opt p k)"
  by (simp add: with_uuid_opt_def reads_only_with_uuid split: option.split)

abbreviation sound :: "Store \<Rightarrow> World \<Rightarrow> bool" where
  "sound \<equiv> holds domain_ok later"

lemma keeps_read: "reads_only st \<Longrightarrow> keeps (sound s0) (roundtrip st)"
  by (intro evo.keeps_roundtrip evo.reads_only_keeps)

lemma with_uuid_keeps:
  "(\<And>i. canonical i \<Longrightarrow> stmt_keeps domain_ok later (k i)) \<Longrightarrow> stmt_keeps domain_ok later (with_uuid p k)"
  by (auto simp: stmt_keeps_def with_uuid_def split: option.split dest: uuid_in_canonical)

lemma with_uuid_opt_keeps:
  assumes "stmt_keeps domain_ok later (k None)"
    and "\<And>i. canonical i \<Longrightarrow> stmt_keeps domain_ok later (k (Some i))"
  shows "stmt_keeps domain_ok later (with_uuid_opt p k)"
  using assms by (simp add: with_uuid_opt_def with_uuid_keeps split: option.split)

text \<open>Statements that add or change rows outside the message tables.\<close>

lemma insert_chat_row_keeps:
  assumes s: "domain_ok s" and c: "canonical (c_ID c)" "c_LastMessageID c = None"
  shows "domain_ok (snd (insert_chat_row c s)) \<and> later s (snd (insert_chat_row c s))"
proof (cases "fst (insert_chat_row c s)")
  case (Inl e)
  then have "snd (insert_chat_row c s) = s" by (auto simp: insert_chat_row_def)
  with s show ?thesis by simp
next
  case (Inr c2)
  let ?s = "s\<lparr>chats := chats s @ [c]\<rparr>"
  have eq: "snd (insert_chat_row c s) = ?s"
    and new: "c_ID c \<notin> set (chat_ids s)"
      "live_direct c \<Longrightarrow> c_DirectKey c \<notin> set (live_direct_keys s)"
      "(c_Type c = ChatTypeDirect) = (c_DirectKey c \<noteq> None)"
      "opt_ok (\<lambda>u. u \<in> set (user_ids s)) (c_CreatedBy c)"
    using Inr by (auto simp: insert_chat_row_def split: if_splits)
  have ids: "chat_ids ?s = chat_ids s @ [c_ID c]" "user_ids ?s = user_ids s"
    "message_ids ?s = message_ids s"
    "live_direct_keys ?s = live_direct_keys s @ (if live_direct c then [c_DirectKey c] else [])"
    by (simp_all add: chat_ids_def user_ids_def message_ids_def live_direct_keys_def)
  have "tables_ok ?s"
    using s c new
    by (auto simp: domain_ok_def tables_defs ids member_fk_def message_fk_def)
  moreover have "links_ok ?s" using s c by (auto simp: domain_ok_def links_ok_def)
  moreover have "list_all (role_ok ?s) (chat_members s)"
    using s by (auto simp: domain_ok_def list_all_iff role_ok_def split: ChatMemberRole.splits)
  ultimately have "domain_ok ?s" using s by (simp add: domain_ok_def outbox_complete_def)
  moreover have "later s ?s" by (simp add: later_def grows_refl grows_append)
  ultimately show ?thesis by (simp add: eq)
qed

text \<open>Membership rows: what may be appended, and that any selection of rows may remain.\<close>

definition member_new :: "Store \<Rightarrow> ChatMember \<Rightarrow> bool" where
  "member_new s x = (member_fk s x \<and> cm_LastReadMessageID x = None \<and> role_ok s x)"

lemma domain_ok_members:
  assumes "domain_ok s" and "distinct (map member_key xs)"
    and "\<And>x. x \<in> set xs \<Longrightarrow> x \<in> set (chat_members s) \<or> member_new s x"
  shows "domain_ok (s\<lparr>chat_members := xs\<rparr>) \<and> later s (s\<lparr>chat_members := xs\<rparr>)"
proof -
  let ?s = "s\<lparr>chat_members := xs\<rparr>"
  have ids: "chat_ids ?s = chat_ids s" "user_ids ?s = user_ids s" "message_ids ?s = message_ids s"
    "live_direct_keys ?s = live_direct_keys s"
    by (simp_all add: chat_ids_def user_ids_def message_ids_def live_direct_keys_def)
  have fk: "member_fk ?s = member_fk s" "message_fk ?s = message_fk s"
    by (simp_all add: member_fk_def message_fk_def ids fun_eq_iff)
  have "member_fk s x" if "x \<in> set xs" for x
    using assms(3) [OF that] assms(1)
    by (auto simp: domain_ok_def tables_ok_def members_ok_def member_new_def)
  then have "tables_ok ?s"
    using assms(1,2) by (simp add: domain_ok_def tables_defs ids fk)
  moreover have "links_ok ?s" using assms by (fastforce simp: domain_ok_def links_ok_def member_new_def)
  moreover have "list_all (role_ok ?s) xs"
    using assms by (auto simp: domain_ok_def list_all_iff member_new_def)
  ultimately show ?thesis
    using assms(1) by (simp add: domain_ok_def outbox_complete_def later_def grows_refl)
qed

lemma set_insert_members_skip:
  "x \<in> set (insert_members_skip ms have_ms) \<Longrightarrow> x \<in> set have_ms \<or> x \<in> set ms"
  by (induction ms have_ms rule: insert_members_skip.induct) (auto split: if_splits)

lemma distinct_insert_members_skip:
  "distinct (map member_key have_ms) \<Longrightarrow> distinct (map member_key (insert_members_skip ms have_ms))"
  by (induction ms have_ms rule: insert_members_skip.induct) auto

lemma insert_members_skip_prefix:
  "\<exists>new. insert_members_skip ms have_ms = have_ms @ new"
  by (induction ms have_ms rule: insert_members_skip.induct) auto

lemma insert_members_rows_keeps:
  assumes s: "domain_ok s"
    and ms: "\<And>x. x \<in> set ms \<Longrightarrow> cm_LastReadMessageID x = None \<and> role_ok s x"
  shows "domain_ok (snd (insert_members_rows ms s)) \<and> later s (snd (insert_members_rows ms s))"
proof -
  let ?xs = "insert_members_skip ms (chat_members s)"
  obtain new where xs: "?xs = chat_members s @ new" using insert_members_skip_prefix by blast
  have "distinct (map member_key ?xs)"
    using s by (intro distinct_insert_members_skip) (simp add: domain_ok_def tables_defs)
  moreover have "x \<in> set (chat_members s) \<or> member_new s x"
    if "x \<in> set ?xs" "list_all (member_fk s) (drop (length (chat_members s)) ?xs)" for x
    using that xs ms set_insert_members_skip [of x ms "chat_members s"]
    by (auto simp: member_new_def list_all_iff)
  ultimately show ?thesis
    using s domain_ok_members [of s ?xs] by (auto simp: insert_members_rows_def Let_def)
qed

lemma member_params_rows:
  "member_params c now as = Some ms \<Longrightarrow> x \<in> set ms \<Longrightarrow>
     cm_ChatID x = c \<and> cm_LastReadMessageID x = None \<and> cm_Role x \<in> acm_Role ` set as"
  by (induction c now as arbitrary: ms rule: member_params.induct)
    (auto simp: new_member_row_def split: option.splits)

lemma insert_members_stmt_keeps:
  assumes "\<And>a. a \<in> set as \<Longrightarrow> acm_Role a = ChatMemberRoleMember"
  shows "stmt_keeps domain_ok later (insert_members_stmt chatID as)"
  unfolding insert_members_stmt_def
proof (rule with_uuid_keeps, rule stmt_keepsI)
  fix c now uid s
  assume s: "domain_ok s"
  have "cm_LastReadMessageID x = None \<and> role_ok s x"
    if "member_params c now as = Some ms" "x \<in> set ms" for ms x
    using member_params_rows [OF that] assms by (auto simp: role_ok_def)
  then show "domain_ok (snd (case member_params c now as of None \<Rightarrow> (Inl invalid_text, s)
        | Some ms \<Rightarrow> insert_members_rows ms s)) \<and>
      later s (snd (case member_params c now as of None \<Rightarrow> (Inl invalid_text, s)
        | Some ms \<Rightarrow> insert_members_rows ms s))"
    using s insert_members_rows_keeps [OF s] by (auto split: option.split)
qed

section \<open>The transactions of the message writer\<close>

text \<open>
  What a body that succeeds has done to the store: one abstract operation and one enqueued event.
  \<open>enqueued ob now s r\<close> says that \<open>r\<close> is the row the request \<open>ob\<close> makes on the store \<open>s\<close>, and
  \<open>posted m now s out\<close> that \<open>out\<close> is a row the draft \<open>m\<close> makes.
\<close>

definition opt_uuid :: "string option \<Rightarrow> ID option \<Rightarrow> bool" where
  "opt_uuid p v = (case p of None \<Rightarrow> v = None | Some q \<Rightarrow> v = uuid_in q \<and> uuid_in q \<noteq> None)"

lemma opt_uuid_simps [simp]:
  "opt_uuid None v = (v = None)"
  "opt_uuid (Some q) v = (\<exists>i. uuid_in q = Some i \<and> v = Some i)"
  by (auto simp: opt_uuid_def)

definition enqueued :: "OutboxEnqueue \<Rightarrow> time \<Rightarrow> Store \<Rightarrow> OutboxRec \<Rightarrow> bool" where
  "enqueued ob now s r =
     (event_fits r s \<and> uuid_in (ob_EventID ob) = Some (r_EventID r)
      \<and> opt_uuid (ob_ChatID ob) (r_ChatID r)
      \<and> jsonb_in (ob_Payload ob) = Some (r_Payload r)
      \<and> r = outbox_record ob (r_EventID r) (r_ChatID r) (r_Payload r) now (r_ID r))"

definition posted :: "Message \<Rightarrow> time \<Rightarrow> Store \<Rightarrow> Message \<Rightarrow> bool" where
  "posted m now s out =
     (uuid_in (m_ChatID m) = Some (m_ChatID out) \<and> uuid_in (m_SenderID m) = Some (m_SenderID out)
      \<and> opt_uuid (m_ReplyToID m) (m_ReplyToID out)
      \<and> opt_ok pg_text (m_Text m) \<and> m_ID out \<notin> set (message_ids s)
      \<and> m_ChatID out \<in> set (chat_ids s) \<and> m_SenderID out \<in> set (user_ids s)
      \<and> opt_ok (\<lambda>q. q \<in> set (message_ids s)) (m_ReplyToID out)
      \<and> out = new_message_row (m_ChatID out) (m_SenderID out) (m_Type m) (m_Text m)
                 (m_ReplyToID out) now (m_ID out))"

lemma with_uuid_Inr:
  "with_uuid p k now uid s = (Inr x, s') \<longleftrightarrow> (\<exists>i. uuid_in p = Some i \<and> k i now uid s = (Inr x, s'))"
  by (simp add: with_uuid_def split: option.split)

lemma with_uuid_opt_Inr:
  "with_uuid_opt p k now uid s = (Inr x, s') \<longleftrightarrow>
     (\<exists>v. opt_uuid p v \<and> k v now uid s = (Inr x, s'))"
  by (auto simp: with_uuid_opt_def with_uuid_Inr split: option.split)

lemma insertOutboxTx_effect:
  assumes "insertOutboxTx t0 ob w = (Inr u, w')"
  shows "\<exists>r. enqueued ob t0 (store w) r \<and> store w' = enqueue r (store w)"
  using assms unfolding insertOutboxTx_def
proof (cases rule: tx_stmt_Inr_cases)
  case (1 s')
  then obtain eid cid payload where eid: "uuid_in (ob_EventID ob) = Some eid"
    and cid: "opt_uuid (ob_ChatID ob) cid"
    and payload: "jsonb_in (ob_Payload ob) = Some payload"
    and ins: "insert_outbox_row (outbox_record ob eid cid payload t0) (store w) = (Inr u, s')"
    by (auto simp: with_uuid_Inr with_uuid_opt_Inr split: option.splits)
  let ?r = "outbox_record ob eid cid payload t0 (outbox_seq (store w))"
  have "s' = enqueue ?r (store w)" "event_fits ?r (store w)"
    using ins
    by (auto simp: insert_outbox_row_def Let_def enqueue_def event_fits_def outbox_record_def
        split: if_splits)
  moreover from this have "enqueued ob t0 (store w) ?r"
    using eid cid payload by (simp add: enqueued_def outbox_record_def)
  ultimately show ?thesis using 1(2) by auto
qed

lemma insert_message_stmt_effect:
  assumes "insert_message_stmt m now uid s = (Inr out, s')"
  shows "posted m now s out \<and> m_ID out = uid \<and> s' = s\<lparr>messages := messages s @ [out]\<rparr>"
  using assms
  by (auto simp: insert_message_stmt_def with_uuid_Inr with_uuid_opt_Inr insert_message_row_def
      posted_def new_message_row_def split: if_splits)

lemma posted_canonical: "posted m now s out \<Longrightarrow> canonical (m_ChatID out)"
  by (auto simp: posted_def dest: uuid_in_canonical)

lemma create_body_effect:
  assumes body: "create_body m ob t0 w = (Inr out, w')" and uid: "canonical (t_uuid (next_trip w))"
  shows "\<exists>r ob2. store w' = enqueue r (post_message out (store w)) \<and> posted m t0 (store w) out
     \<and> canonical (m_ID out)
     \<and> ob2 = ob\<lparr>ob_AggregateID := m_ID out, ob_OccurredAt := m_CreatedAt out,
         ob_Payload := (if raw_empty (ob_Payload ob) then encodeMessageWireJSON out else ob_Payload ob)\<rparr>
     \<and> enqueued ob2 t0 (store w) r"
proof -
  from body obtain out1 w1 where ins: "tx_stmt t0 (insert_message_stmt m) w = (Inr out1, w1)"
    by (auto simp: create_body_def elim!: call_cases)
  then have p: "posted m t0 (store w) out1" and id: "m_ID out1 = t_uuid (next_trip w)"
    and s1: "store w1 = (store w)\<lparr>messages := messages (store w) @ [out1]\<rparr>"
    by (auto elim!: tx_stmt_Inr_cases dest: insert_message_stmt_effect)
  let ?ob = "ob\<lparr>ob_AggregateID := m_ID out1, ob_OccurredAt := m_CreatedAt out1,
    ob_Payload := (if raw_empty (ob_Payload ob) then encodeMessageWireJSON out1 else ob_Payload ob)\<rparr>"
  from body ins obtain n w2 where
    upd: "tx_stmt t0 (update_last_stmt (m_ChatID out1) (m_ID out1) (m_CreatedAt out1)) w1 = (Inr n, w2)"
    and outb: "insertOutboxTx t0 ?ob w2 = (Inr (), w')" and out: "out = out1"
    by (auto simp: create_body_def Let_def elim!: call_cases split: if_splits)
  have can: "canonical (m_ChatID out)" "canonical (m_ID out)"
    using p id uid out by (simp_all add: posted_canonical)
  have "m_CreatedAt out = t0" using p out by (metis new_message_row_def posted_def Message.select_convs(7))
  then have s2: "store w2 = post_message out (store w)"
    using upd s1 can out
    by (auto elim!: tx_stmt_Inr_cases simp: update_last_stmt_def with_uuid_Inr post_message_def
        split: if_splits)
  from insertOutboxTx_effect [OF outb] s2 obtain r
    where "enqueued ?ob t0 (store w2) r" and "store w' = enqueue r (post_message out (store w))" by auto
  moreover from this have "enqueued ?ob t0 (store w) r" using s2 by (simp add: enqueued_def)
  ultimately show ?thesis using p out can by auto
qed

lemma enqueued_of_ops [simp]:
  "enqueued ob now (post_message m s) r = enqueued ob now s r"
  "enqueued ob now (edit_message cid mid text at s) r = enqueued ob now s r"
  "enqueued ob now (erase_message cid mid at s) r = enqueued ob now s r"
  "enqueued ob now (mark_read cid uid mid at s) r = enqueued ob now s r"
  by (simp_all add: enqueued_def)

lemma soft_delete_body_effect:
  assumes "soft_delete_body chatID messageID ob t0 w = (Inr u, w')"
  shows "\<exists>cid mid r. uuid_in chatID = Some cid \<and> uuid_in messageID = Some mid
     \<and> filter (live_message cid mid) (messages (store w)) \<noteq> []
     \<and> store w' = enqueue r (erase_message cid mid t0 (store w)) \<and> enqueued ob t0 (store w) r"
proof -
  from assms obtain n w1 where
    upd: "tx_stmt t0 (soft_delete_stmt chatID messageID) w = (Inr n, w1)" and "n \<noteq> 0"
    and outb: "insertOutboxTx t0 ob w1 = (Inr u, w')"
    by (auto simp: soft_delete_body_def elim!: call_cases split: if_splits)
  moreover from this obtain cid mid where ids: "uuid_in chatID = Some cid" "uuid_in messageID = Some mid"
    and "n = length (filter (live_message cid mid) (messages (store w)))"
    and s1: "store w1 = erase_message cid mid t0 (store w)"
    by (auto elim!: tx_stmt_Inr_cases simp: soft_delete_stmt_def with_uuid_Inr erase_message_def)
  ultimately show ?thesis using insertOutboxTx_effect [OF outb] by fastforce
qed

lemma update_text_body_effect:
  assumes "update_text_body chatID messageID text ob t0 w = (Inr u, w')"
  shows "\<exists>cid mid mUpd r. uuid_in chatID = Some cid \<and> uuid_in messageID = Some mid \<and> pg_text text
     \<and> filter (live_message cid mid) (messages (store w)) \<noteq> []
     \<and> find (\<lambda>m. m_ID m = mid \<and> m_ChatID m = cid)
         (messages (edit_message cid mid text t0 (store w))) = Some mUpd
     \<and> store w' = enqueue r (edit_message cid mid text t0 (store w))
     \<and> enqueued (ob\<lparr>ob_Payload := (if raw_empty (ob_Payload ob) then encodeMessageWireJSON mUpd
            else ob_Payload ob), ob_AggregateID := messageID, ob_OccurredAt := m_UpdatedAt mUpd\<rparr>) t0 (store w) r"
proof -
  from assms obtain n w1 where
    upd: "tx_stmt t0 (update_text_stmt chatID messageID text) w = (Inr n, w1)" and n: "n \<noteq> 0"
    by (auto simp: update_text_body_def elim!: call_cases split: if_splits)
  then obtain cid mid where ids: "uuid_in chatID = Some cid" "uuid_in messageID = Some mid"
    and pgt: "pg_text text"
    and len: "n = length (filter (live_message cid mid) (messages (store w)))"
    and s1: "store w1 = edit_message cid mid text t0 (store w)"
    by (auto elim!: tx_stmt_Inr_cases simp: update_text_stmt_def with_uuid_Inr edit_message_def
        split: if_splits)
  let ?sel = "with_uuid messageID (\<lambda>mid. with_uuid chatID (\<lambda>cid _ _ s.
    one_row (find (\<lambda>m. m_ID m = mid \<and> m_ChatID m = cid) (messages s)) s))"
  from assms upd obtain mUpd w2 where sel: "tx_stmt t0 ?sel w1 = (Inr mUpd, w2)"
    and outb: "insertOutboxTx t0 (ob\<lparr>ob_Payload := (if raw_empty (ob_Payload ob) then encodeMessageWireJSON mUpd
            else ob_Payload ob), ob_AggregateID := messageID, ob_OccurredAt := m_UpdatedAt mUpd\<rparr>) w2 = (Inr u, w')"
    by (auto simp: update_text_body_def Let_def elim!: call_cases split: if_splits)
  from sel ids have found: "find (\<lambda>m. m_ID m = mid \<and> m_ChatID m = cid) (messages (store w1)) = Some mUpd"
    and s2: "store w2 = store w1"
    by (auto elim!: tx_stmt_Inr_cases simp: with_uuid_Inr one_row_def split: option.splits)
  from insertOutboxTx_effect [OF outb] s1 s2 obtain r where
    "enqueued (ob\<lparr>ob_Payload := (if raw_empty (ob_Payload ob) then encodeMessageWireJSON mUpd
            else ob_Payload ob), ob_AggregateID := messageID, ob_OccurredAt := m_UpdatedAt mUpd\<rparr>) t0 (store w) r"
    and "store w' = enqueue r (edit_message cid mid text t0 (store w))" by auto
  with ids pgt len n found s1 show ?thesis by auto
qed

lemma read_body_effect:
  assumes "read_body chatID userID readUpTo ob t0 w = (Inr u, w')"
  shows "\<exists>cid uid mid r. uuid_in chatID = Some cid \<and> uuid_in userID = Some uid
     \<and> uuid_in readUpTo = Some mid \<and> member_row (store w) cid uid \<noteq> None
     \<and> mid \<in> set (message_ids (store w))
     \<and> store w' = enqueue r (mark_read cid uid mid t0 (store w)) \<and> enqueued ob t0 (store w) r"
proof -
  from assms obtain n w1 where
    upd: "tx_stmt t0 (update_read_stmt chatID userID readUpTo) w = (Inr n, w1)" and n: "n \<noteq> 0"
    and outb: "insertOutboxTx t0 ob w1 = (Inr u, w')"
    by (auto simp: read_body_def elim!: call_cases split: if_splits)
  from upd obtain cid uid mid where ids: "uuid_in chatID = Some cid" "uuid_in userID = Some uid"
    "uuid_in readUpTo = Some mid"
    and len: "n = length (filter (\<lambda>m. member_key m = (cid, uid)) (chat_members (store w)))"
    and fk: "member_row (store w) cid uid \<noteq> None \<longrightarrow> mid \<in> set (message_ids (store w))"
    and s1: "store w1 = mark_read cid uid mid t0 (store w)"
    by (auto elim!: tx_stmt_Inr_cases simp: update_read_stmt_def with_uuid_Inr mark_read_def
        split: if_splits)
  have "member_row (store w) cid uid \<noteq> None"
    using n len
    by (auto simp: member_row_def find_None_all filter_empty_conv member_key_def simp del: not_None_eq)
  with ids fk s1 insertOutboxTx_effect [OF outb] show ?thesis by fastforce
qed

text \<open>The writer's methods keep the invariant when what they are given is right.\<close>

lemma net_bodies [simp]:
  "net (snd (create_body m ob t w)) = net w"
  "net (snd (update_text_body chatID messageID text ob t w)) = net w"
  "net (snd (soft_delete_body chatID messageID ob t w)) = net w"
  "net (snd (read_body chatID userID messageID ob t w)) = net w"
  by (auto simp: create_body_def update_text_body_def soft_delete_body_def read_body_def Let_def
      insertOutboxTx_def call_eq split: sum.split)

lemma keeps_commitOutboxObs [go_keep]:
  "keeps (sound s0) tx \<Longrightarrow> keeps (sound s0) (commitOutboxObs tx)"
  unfolding commitOutboxObs_def by (intro go_keep)

lemma enqueued_for:
  assumes "enqueued ob now s r" and "ob_EventType ob = ty" and "ob_AggregateID ob = aid"
    and "ob_ChatID ob = Some c" and "uuid_in c = Some cid"
  shows "event_fits r s" and "event_for ty aid cid r"
proof -
  have r: "r = outbox_record ob (r_EventID r) (r_ChatID r) (r_Payload r) now (r_ID r)"
    and "event_fits r s" and "opt_uuid (ob_ChatID ob) (r_ChatID r)"
    using assms(1) by (simp_all add: enqueued_def)
  then have "r_ChatID r = Some cid" using assms(4,5) by simp
  moreover have "r_EventType r = ob_EventType ob" "r_AggregateID r = ob_AggregateID ob"
    by (subst r, simp add: outbox_record_def)+
  ultimately show "event_for ty aid cid r" using assms(2,3) by (simp add: event_for_def)
  show "event_fits r s" by fact
qed

definition reply_in :: "ID \<Rightarrow> Store \<Rightarrow> string \<Rightarrow> bool" where
  "reply_in cid s q = (\<exists>c i. uuid_in cid = Some c \<and> uuid_in q = Some i \<and> in_chat s c i)"

lemma keeps_CreateMessageWithOutbox:
  assumes ob: "ob_EventType ob = EventMessageCreated" "ob_ChatID ob = Some (m_ChatID m)"
    and reply: "opt_ok (reply_in (m_ChatID m) s0) (m_ReplyToID m)"
  shows "keeps (sound s0) (CreateMessageWithOutbox m ob)"
  unfolding CreateMessageWithOutbox_def
proof (rule keeps_commitOutboxObs, rule evo.keeps_transaction)
  fix t0 w out w'
  assume w: "sound s0 w" and body: "create_body m ob t0 w = (Inr out, w')"
  let ?s = "store w"
  from create_body_effect [OF body holds_canonical [OF w]] obtain r ob2 where
    s': "store w' = enqueue r (post_message out ?s)" and p: "posted m t0 ?s out"
    and can: "canonical (m_ID out)" and r: "enqueued ob2 t0 ?s r"
    and ob2: "ob_EventType ob2 = EventMessageCreated" "ob_ChatID ob2 = Some (m_ChatID m)"
      "ob_AggregateID ob2 = m_ID out"
    using ob by auto
  have cid: "uuid_in (m_ChatID m) = Some (m_ChatID out)" using p by (simp add: posted_def)
  have "opt_ok (in_chat ?s (m_ChatID out)) (m_ReplyToID out)"
  proof (cases "m_ReplyToID m")
    case None
    then show ?thesis using p by (simp add: posted_def)
  next
    case (Some q)
    then obtain i where "m_ReplyToID out = Some i" "in_chat s0 (m_ChatID out) i"
      using p reply cid by (auto simp: posted_def reply_in_def)
    then show ?thesis using w by (auto simp: holds_def intro: in_chat_later)
  qed
  moreover have "\<not> is_deleted out"
    using p by (auto simp: posted_def is_deleted_def) (metis Message.select_convs(9) new_message_row_def option.distinct(1))
  moreover note enqueued_for [OF r ob2(1) ob2(3) ob2(2) cid]
  ultimately have "domain_ok (enqueue r (post_message out ?s))"
    using w p can by (intro domain_ok_post) (auto simp: holds_def posted_def)
  moreover have "later ?s (enqueue r (post_message out ?s))"
    by (rule later_trans [of _ "post_message out ?s"]) simp_all
  ultimately show "domain_ok (store w') \<and> later ?s (store w')" using s' by simp
qed simp

lemma keeps_UpdateMessageTextWithOutbox:
  assumes "ob_EventType ob = EventMessageUpdated" and "ob_ChatID ob = Some chatID"
  shows "keeps (sound s0) (UpdateMessageTextWithOutbox chatID messageID text ob)"
  unfolding UpdateMessageTextWithOutbox_def
proof (rule keeps_commitOutboxObs, rule evo.keeps_transaction)
  fix t0 w x w'
  assume w: "sound s0 w" and body: "update_text_body chatID messageID text ob t0 w = (Inr x, w')"
  let ?s = "store w"
  from update_text_body_effect [OF body] obtain cid mid r ob2 where cid: "uuid_in chatID = Some cid"
    and s': "store w' = enqueue r (edit_message cid mid text t0 ?s)" and r: "enqueued ob2 t0 ?s r"
    and ob2: "ob_EventType ob2 = EventMessageUpdated" "ob_ChatID ob2 = Some chatID"
    using assms by auto
  have "domain_ok (store w')"
    using w s' domain_ok_edit [OF _ enqueued_for [OF r ob2(1) refl ob2(2) cid]] by (simp add: holds_def)
  moreover have "later ?s (store w')"
    unfolding s' by (rule later_trans [of _ "edit_message cid mid text t0 ?s"]) simp_all
  ultimately show "domain_ok (store w') \<and> later ?s (store w')" ..
qed simp

lemma keeps_SoftDeleteMessageWithOutbox:
  assumes "ob_EventType ob = EventMessageDeleted" and "ob_ChatID ob = Some chatID"
    and "uuid_in messageID = Some (ob_AggregateID ob)"
  shows "keeps (sound s0) (SoftDeleteMessageWithOutbox chatID messageID ob)"
  unfolding SoftDeleteMessageWithOutbox_def
proof (rule keeps_commitOutboxObs, rule evo.keeps_transaction)
  fix t0 w x w'
  assume w: "sound s0 w" and body: "soft_delete_body chatID messageID ob t0 w = (Inr x, w')"
  let ?s = "store w"
  from soft_delete_body_effect [OF body] assms(3) obtain cid r where cid: "uuid_in chatID = Some cid"
    and live: "filter (live_message cid (ob_AggregateID ob)) (messages ?s) \<noteq> []"
    and s': "store w' = enqueue r (erase_message cid (ob_AggregateID ob) t0 ?s)"
    and r: "enqueued ob t0 ?s r"
    by auto
  have "domain_ok (store w')"
    using w s' domain_ok_erase [OF _ enqueued_for [OF r assms(1) refl assms(2) cid] live]
    by (simp add: holds_def)
  moreover have "later ?s (store w')"
    unfolding s' by (rule later_trans [of _ "erase_message cid (ob_AggregateID ob) t0 ?s"]) simp_all
  ultimately show "domain_ok (store w') \<and> later ?s (store w')" ..
qed simp

lemma keeps_UpdateMemberReadWithOutbox:
  assumes "ob_EventType ob = EventMessageReadReceipt" and "ob_ChatID ob = Some chatID"
    and link: "\<exists>c i. uuid_in chatID = Some c \<and> uuid_in messageID = Some i \<and> in_chat s0 c i"
  shows "keeps (sound s0) (UpdateMemberReadWithOutbox chatID userID messageID ob)"
  unfolding UpdateMemberReadWithOutbox_def
proof (rule keeps_commitOutboxObs, rule evo.keeps_transaction)
  fix t0 w x w'
  assume w: "sound s0 w" and body: "read_body chatID userID messageID ob t0 w = (Inr x, w')"
  let ?s = "store w"
  from read_body_effect [OF body] link obtain cid uid mid r where cid: "uuid_in chatID = Some cid"
    and s': "store w' = enqueue r (mark_read cid uid mid t0 ?s)" and r: "enqueued ob t0 ?s r"
    and "in_chat s0 cid mid"
    by auto
  then have "in_chat ?s cid mid" using w by (auto simp: holds_def intro: in_chat_later)
  then have "domain_ok (store w')"
    using w s' domain_ok_mark [OF _ enqueued_for [OF r assms(1) refl assms(2) cid]]
    by (simp add: holds_def)
  moreover have "later ?s (store w')"
    unfolding s' by (rule later_trans [of _ "mark_read cid uid mid t0 ?s"]) simp_all
  ultimately show "domain_ok (store w') \<and> later ?s (store w')" ..
qed simp

end
