(* ===== verification/Writer.thy ===== *)
theory Writer
  imports Evolution
begin

text \<open>
  The contract of the message writer (\<^verbatim>\<open>message_writer.go\<close>): each method is one atomic step of the
  abstract machine on the store, together with exactly one outbox row, or has no effect.  The
  contract is a locale; the four methods are its instances.
\<close>

section \<open>The contract\<close>

text \<open>Nothing but numbers of the sequence was used up.\<close>

definition untouched :: "Store \<Rightarrow> Store \<Rightarrow> bool" where
  "untouched s s' = (outbox_seq s \<le> outbox_seq s' \<and> s' = s\<lparr>outbox_seq := outbox_seq s'\<rparr>)"

definition ids_canonical :: "World \<Rightarrow> bool" where
  "ids_canonical w = (\<forall>i. canonical (t_uuid (net w i)))"

text \<open>
  \<open>A t0 s x s'\<close> specifies what a transaction that began at \<open>t0\<close> on \<open>s\<close> returns and leaves.  The
  result of a call is the specified one, or an error; after an error the effect is all or nothing,
  and all only if the reply to COMMIT was lost.
\<close>

locale atomic_op =
  fixes op :: "'a go" and A :: "time \<Rightarrow> Store \<Rightarrow> 'a \<Rightarrow> Store \<Rightarrow> bool"
  assumes atomic: "ids_canonical w \<Longrightarrow> op w = (res, w') \<Longrightarrow>
    (\<exists>e. res = Inl e) \<and> untouched (store (interfere w)) (store w')
    \<or> (\<exists>x. A (clock (advance (interfere w))) (store (interfere w)) x (store w')
           \<and> (res = Inr x \<or> (\<exists>e. res = Inl (ErrText e))))"
begin

lemma success: "ids_canonical w \<Longrightarrow> op w = (Inr x, w') \<Longrightarrow>
    A (clock (advance (interfere w))) (store (interfere w)) x (store w')"
  using atomic [of w "Inr x" w'] by auto

lemma refused:
  "ids_canonical w \<Longrightarrow> op w = (Inl e, w') \<Longrightarrow> (\<And>t. e \<noteq> ErrText t) \<Longrightarrow>
     untouched (store (interfere w)) (store w')"
  using atomic [of w "Inl e" w'] by auto

end

lemma untouched_refl: "untouched s s"
  by (simp add: untouched_def)

lemma atomic_transaction:
  assumes body: "\<And>w x w'. canonical (t_uuid (next_trip w)) \<Longrightarrow> body (clock w) w = (Inr x, w') \<Longrightarrow>
      A (clock w) (store w) x (store w')"
  shows "atomic_op (commitOutboxObs (transaction body)) A"
proof
  fix w res w'
  assume w: "ids_canonical w" and op: "commitOutboxObs (transaction body) w = (res, w')"
  let ?w1 = "advance (interfere w)"
  obtain w2 where tx: "transaction body w = (res, w2)" and s: "store w' = store w2"
    using op
    by (cases "transaction body w") (auto simp: commitOutboxObs_def metric_def elim!: call_cases)
  from tx show "(\<exists>e. res = Inl e) \<and> untouched (store (interfere w)) (store w')
    \<or> (\<exists>x. A (clock ?w1) (store (interfere w)) x (store w') \<and> (res = Inr x \<or> (\<exists>e. res = Inl (ErrText e))))"
  proof (cases rule: transaction_cases)
    case (aborted e k)
    then show ?thesis using s by (auto simp: untouched_def)
  next
    case (finished x w3)
    have "canonical (t_uuid (next_trip ?w1))" using w by (simp add: ids_canonical_def next_trip_def)
    from body [OF this finished(1)] show ?thesis using finished s by auto
  qed
qed

section \<open>The four methods\<close>

text \<open>The outbox request as each method completes it.\<close>

definition payload_or :: "OutboxEnqueue \<Rightarrow> Message \<Rightarrow> RawMessage" where
  "payload_or ob m = (if raw_empty (ob_Payload ob) then encodeMessageWireJSON m else ob_Payload ob)"

definition creates :: "Message \<Rightarrow> OutboxEnqueue \<Rightarrow> time \<Rightarrow> Store \<Rightarrow> Message \<Rightarrow> Store \<Rightarrow> bool" where
  "creates m ob t0 s out s' =
     (posted m t0 s out \<and> canonical (m_ID out) \<and>
      (\<exists>r. enqueued (ob\<lparr>ob_AggregateID := m_ID out, ob_OccurredAt := m_CreatedAt out,
                        ob_Payload := payload_or ob out\<rparr>) t0 s r
           \<and> s' = enqueue r (post_message out s)))"

definition edits :: "ID \<Rightarrow> ID \<Rightarrow> string \<Rightarrow> OutboxEnqueue \<Rightarrow> time \<Rightarrow> Store \<Rightarrow> unit \<Rightarrow> Store \<Rightarrow> bool" where
  "edits chatID messageID text ob t0 s u s' =
     (\<exists>cid mid mUpd r. uuid_in chatID = Some cid \<and> uuid_in messageID = Some mid \<and> pg_text text
        \<and> filter (live_message cid mid) (messages s) \<noteq> []
        \<and> find (\<lambda>m. m_ID m = mid \<and> m_ChatID m = cid) (messages (edit_message cid mid text t0 s)) = Some mUpd
        \<and> enqueued (ob\<lparr>ob_Payload := payload_or ob mUpd, ob_AggregateID := messageID,
                       ob_OccurredAt := m_UpdatedAt mUpd\<rparr>) t0 s r
        \<and> s' = enqueue r (edit_message cid mid text t0 s))"

definition erases :: "ID \<Rightarrow> ID \<Rightarrow> OutboxEnqueue \<Rightarrow> time \<Rightarrow> Store \<Rightarrow> unit \<Rightarrow> Store \<Rightarrow> bool" where
  "erases chatID messageID ob t0 s u s' =
     (\<exists>cid mid r. uuid_in chatID = Some cid \<and> uuid_in messageID = Some mid
        \<and> filter (live_message cid mid) (messages s) \<noteq> []
        \<and> enqueued ob t0 s r \<and> s' = enqueue r (erase_message cid mid t0 s))"

definition marks :: "ID \<Rightarrow> ID \<Rightarrow> ID \<Rightarrow> OutboxEnqueue \<Rightarrow> time \<Rightarrow> Store \<Rightarrow> unit \<Rightarrow> Store \<Rightarrow> bool" where
  "marks chatID userID messageID ob t0 s u s' =
     (\<exists>cid uid mid r. uuid_in chatID = Some cid \<and> uuid_in userID = Some uid
        \<and> uuid_in messageID = Some mid \<and> member_row s cid uid \<noteq> None \<and> mid \<in> set (message_ids s)
        \<and> enqueued ob t0 s r \<and> s' = enqueue r (mark_read cid uid mid t0 s))"

interpretation create_op: atomic_op "CreateMessageWithOutbox m ob" "creates m ob" for m ob
  unfolding CreateMessageWithOutbox_def
proof (rule atomic_transaction)
  fix w out w'
  assume "canonical (t_uuid (next_trip w))" and "create_body m ob (clock w) w = (Inr out, w')"
  then show "creates m ob (clock w) (store w) out (store w')"
    using create_body_effect [of m ob "clock w" w out w'] by (auto simp: creates_def payload_or_def)
qed

interpretation edit_op: atomic_op "UpdateMessageTextWithOutbox chatID messageID text ob"
  "edits chatID messageID text ob" for chatID messageID text ob
  unfolding UpdateMessageTextWithOutbox_def
proof (rule atomic_transaction)
  fix w x w'
  assume "update_text_body chatID messageID text ob (clock w) w = (Inr x, w')"
  from update_text_body_effect [OF this]
  show "edits chatID messageID text ob (clock w) (store w) x (store w')"
    unfolding edits_def payload_or_def by blast
qed

interpretation erase_op: atomic_op "SoftDeleteMessageWithOutbox chatID messageID ob"
  "erases chatID messageID ob" for chatID messageID ob
  unfolding SoftDeleteMessageWithOutbox_def
proof (rule atomic_transaction)
  fix w x w'
  assume "soft_delete_body chatID messageID ob (clock w) w = (Inr x, w')"
  from soft_delete_body_effect [OF this]
  show "erases chatID messageID ob (clock w) (store w) x (store w')"
    unfolding erases_def by blast
qed

interpretation mark_op: atomic_op "UpdateMemberReadWithOutbox chatID userID messageID ob"
  "marks chatID userID messageID ob" for chatID userID messageID ob
  unfolding UpdateMemberReadWithOutbox_def
proof (rule atomic_transaction)
  fix w x w'
  assume "read_body chatID userID messageID ob (clock w) w = (Inr x, w')"
  from read_body_effect [OF this]
  show "marks chatID userID messageID ob (clock w) (store w) x (store w')"
    unfolding marks_def by blast
qed

end
