(* ===== verification/Demo.thy ===== *)
theory Demo
  imports Writer
begin

text \<open>
  A small concrete store and network on which the theorems are exercised: three users, a group chat
  of two of them with two messages, and the outbox rows those messages left.
\<close>

definition demo_id :: "string \<Rightarrow> ID" where
  "demo_id x = ''00000000-0000-0000-0000-0000000000'' @ x"

definition alice :: ID where "alice = demo_id ''a1''"
definition bob :: ID where "bob = demo_id ''b2''"
definition carol :: ID where "carol = demo_id ''c3''"
definition team :: ID where "team = demo_id ''01''"
definition msg1 :: ID where "msg1 = demo_id ''11''"
definition msg2 :: ID where "msg2 = demo_id ''12''"

definition demo_user :: "ID \<Rightarrow> string \<Rightarrow> User" where
  "demo_user i name =
     \<lparr>u_ID = i, u_Email = name @ ''@example.org'', u_PasswordHash = ''x'', u_Nickname = name,
      u_FirstName = None, u_LastName = None, u_AvatarURL = None, u_CreatedAt = 0, u_UpdatedAt = 0,
      u_LastSeenAt = None, u_IsActive = True\<rparr>"

definition demo_chat :: Chat where
  "demo_chat = (new_chat_row ChatTypeGroup (Some ''team'') None (Some alice) None 0 team)
     \<lparr>c_LastMessageID := Some msg2, c_LastMessageAt := Some 2000, c_UpdatedAt := 2000\<rparr>"

definition demo_msg1 :: Message where
  "demo_msg1 = new_message_row team alice MessageTypeText (Some ''hi'') None 1000 msg1"

definition demo_msg2 :: Message where
  "demo_msg2 = new_message_row team bob MessageTypeText (Some ''hello'') (Some msg1) 2000 msg2"

definition demo_event :: "int \<Rightarrow> string \<Rightarrow> Message \<Rightarrow> OutboxRec" where
  "demo_event i eid m =
     \<lparr>r_ID = i, r_EventID = demo_id eid, r_EventType = EventMessageCreated,
      r_AggregateType = AggregateTypeMessage, r_AggregateID = m_ID m, r_ChatID = Some (m_ChatID m),
      r_OccurredAt = m_CreatedAt m, r_Version = 1, r_Payload = encodeMessageWireJSON m,
      r_PublishedAt = None, r_CreatedAt = m_CreatedAt m\<rparr>"

definition demo_store :: Store where
  "demo_store =
     \<lparr>users = [demo_user alice ''alice'', demo_user bob ''bob'', demo_user carol ''carol''],
      chats = [demo_chat],
      chat_members = [new_member_row team alice ChatMemberRoleOwner 0,
                      new_member_row team bob ChatMemberRoleMember 0],
      messages = [demo_msg1, demo_msg2],
      refresh_sessions = [],
      outbox_events = [demo_event 1 ''e1'' demo_msg1, demo_event 2 ''e2'' demo_msg2],
      outbox_seq = 3, redis_kv = Map.empty, redis_published = [], kafka_log = [],
      schema_migrations = None, ddl_log = []\<rparr>"

text \<open>
  A network on which every trip takes a microsecond, nobody interferes and the fate of the \<open>i\<close>-th trip
  is \<open>f i\<close>; the identifiers drawn differ in their last digit for up to sixteen trips.
\<close>

definition last_digit :: "nat \<Rightarrow> string" where
  "last_digit i = [''0123456789abcdef'' ! (i mod 16)]"

definition demo_trip :: "fate \<Rightarrow> nat \<Rightarrow> Trip" where
  "demo_trip f i =
     \<lparr>t_delay = 1000, t_interference = (\<lambda>s. s), t_fate = f,
      t_uuid = ''00000000-0000-0000-0000-00000000f00'' @ last_digit i\<rparr>"

definition demo_world :: "(nat \<Rightarrow> fate) \<Rightarrow> World" where
  "demo_world f =
     \<lparr>store = demo_store, clock = 5000, net = (\<lambda>i. demo_trip (f i) i), trips = 0,
      uuid_src = (\<lambda>n. ''00000000-0000-0000-0000-00000000e00'' @ last_digit n),
      rand_src = (\<lambda>n i. of_nat (n + i)), drawn = 0, hub = NewHub True, met = None\<rparr>"

abbreviation demo :: World where
  "demo \<equiv> demo_world (\<lambda>_. Delivered)"

lemma demo_uuid: "canonical (t_uuid (demo_trip f i))"
proof -
  have "list_all (\<lambda>c. canonical (''00000000-0000-0000-0000-00000000f00'' @ [c])) ''0123456789abcdef''"
    by code_simp
  moreover have "''0123456789abcdef'' ! (i mod 16) \<in> set ''0123456789abcdef''"
    by (rule nth_mem) simp
  ultimately show ?thesis by (simp add: list_all_iff demo_trip_def last_digit_def del: list.set)
qed

lemma demo_ids [simp]: "ids_canonical (demo_world f)"
  by (simp add: ids_canonical_def demo_world_def demo_uuid)

lemma demo_fields [simp]:
  "store (demo_world f) = demo_store" "net (demo_world f) = (\<lambda>i. demo_trip (f i) i)"
  "trips (demo_world f) = 0" "clock (demo_world f) = 5000" "hub (demo_world f) = NewHub True"
  by (simp_all add: demo_world_def)

lemma demo_quiet [simp]: "quiet (demo_world f)"
  by (simp add: quiet_def demo_trip_def)

lemma demo_reliable [simp]: "reliable demo"
  by (simp add: reliable_def demo_trip_def)

lemma demo_rely [simp]: "rely domain_ok later (net (demo_world f))"
  using demo_uuid by (simp add: rely_def) (simp add: demo_trip_def)

lemma demo_tables_ok: "tables_ok demo_store"
  by code_simp

lemma demo_links_ok: "links_ok demo_store"
  by code_simp

lemma demo_roles: "list_all (role_ok demo_store) (chat_members demo_store)"
  by code_simp

lemma demo_outbox: "outbox_complete demo_store"
  by (simp add: outbox_complete_def demo_store_def events_def message_refs_def demo_event_def
     demo_msg1_def demo_msg2_def is_deleted_def new_message_row_def)

lemma demo_domain_ok: "domain_ok demo_store"
  by (simp add: domain_ok_def demo_tables_ok demo_links_ok demo_roles demo_outbox)

lemma demo_sound: "sound demo_store (demo_world f)"
  using demo_rely [of f] demo_domain_ok unfolding holds_def by (simp del: demo_rely)

end
