(* ===== verification/MessageService.thy ===== *)
theory MessageService
  imports MessageRepo
begin

text \<open>
  The message service (\<^verbatim>\<open>backend/internal/service/message_service.go\<close>): listing, creating, reading,
  editing, deleting and marking messages as read, for an authenticated actor.  Every mutation goes
  through the writer, which enqueues the domain event.

  \<open>ms_writer\<close> says whether the service has a writer.  \<open>time_Parse layout value\<close> stands for
  \<^verbatim>\<open>time.Parse\<close>; nothing is assumed of it.
\<close>

record MessageService =
  ms_writer :: bool

definition msgUUIDRe :: "string \<Rightarrow> bool" where
  "msgUUIDRe s = uuid_pattern s"

definition msgTextMaxLen :: nat where "msgTextMaxLen = 8000"
definition msgDefaultLimit :: int where "msgDefaultLimit = 50"
definition msgMaxLimit :: int where "msgMaxLimit = 200"

definition RFC3339Nano :: string where "RFC3339Nano = ''2006-01-02T15:04:05.999999999Z07:00''"
definition RFC3339 :: string where "RFC3339 = ''2006-01-02T15:04:05Z07:00''"

section \<open>Helpers\<close>

definition validateMessageTypeForMVP :: "MessageType \<Rightarrow> err + unit" where
  "validateMessageTypeForMVP t =
     (case t of
        MessageTypeText \<Rightarrow> Inr ()
      | MessageTypeSystem \<Rightarrow> Inr ()
      | _ \<Rightarrow> Inl (Validation ''unsupported message type for MVP (only text and system)'' None))"

definition parseMsgChatID :: "string \<Rightarrow> err + ID" where
  "parseMsgChatID raw =
     (let raw = TrimSpace raw
      in if \<not> msgUUIDRe raw then Inl (Validation ''invalid chat_id'' None) else Inr raw)"

definition parseMsgID :: "string \<Rightarrow> err + ID" where
  "parseMsgID raw =
     (let raw = TrimSpace raw
      in if \<not> msgUUIDRe raw then Inl (Validation ''invalid message_id'' None) else Inr raw)"

definition parseBeforeCursor ::
  "(string \<Rightarrow> string \<Rightarrow> time option) \<Rightarrow> string \<Rightarrow> err + (ID option \<times> time option)" where
  "parseBeforeCursor time_Parse raw =
     (let raw = TrimSpace raw
      in if raw = '''' then Inr (None, None)
         else if msgUUIDRe raw then Inr (Some raw, None)
         else case time_Parse RFC3339Nano raw of
             Some t \<Rightarrow> Inr (None, Some t)
           | None \<Rightarrow>
               (case time_Parse RFC3339 raw of
                  Some t \<Rightarrow> Inr (None, Some t)
                | None \<Rightarrow>
                    Inl (Validation ''invalid before cursor (use message id or RFC3339/RFC3339Nano timestamp)'' None)))"

definition toMessageDTO :: "Message \<Rightarrow> MessageDTO" where
  "toMessageDTO m =
     \<lparr>md_ID = m_ID m, md_ChatID = m_ChatID m, md_SenderID = m_SenderID m,
      md_Type = message_type_string (m_Type m), md_Text = m_Text m, md_ReplyToID = m_ReplyToID m,
      md_CreatedAt = m_CreatedAt m, md_UpdatedAt = m_UpdatedAt m\<rparr>"

definition requireChatMember :: "ID \<Rightarrow> ID \<Rightarrow> unit go" where
  "requireChatMember chatID userID =
     call (FindMembership chatID userID)
       (\<lambda>e. if errors_Is e ErrNotFound then raise (Forbidden ''not a chat member'')
            else raise (Internal ''lookup membership'' (Some e)))
       (\<lambda>_. ret ())"

definition newOutboxEventID :: "ID go" where
  "newOutboxEventID = uuid_NewString"

definition outboxForMessageCreated :: "Message \<Rightarrow> OutboxEnqueue go" where
  "outboxForMessageCreated m =
     call newOutboxEventID raise (\<lambda>eid.
     call time_Now raise (\<lambda>now.
     ret \<lparr>ob_EventID = eid, ob_EventType = EventMessageCreated,
          ob_AggregateType = AggregateTypeMessage, ob_AggregateID = '''',
          ob_ChatID = Some (m_ChatID m), ob_OccurredAt = now, ob_Version = 1, ob_Payload = RawNil\<rparr>))"

definition outboxForMessageUpdated :: "Message \<Rightarrow> string \<Rightarrow> OutboxEnqueue go" where
  "outboxForMessageUpdated m _ =
     call newOutboxEventID raise (\<lambda>eid.
     call time_Now raise (\<lambda>now.
     ret \<lparr>ob_EventID = eid, ob_EventType = EventMessageUpdated,
          ob_AggregateType = AggregateTypeMessage, ob_AggregateID = m_ID m,
          ob_ChatID = Some (m_ChatID m), ob_OccurredAt = now, ob_Version = 1, ob_Payload = RawNil\<rparr>))"

definition outboxForMessageDeleted :: "Message \<Rightarrow> OutboxEnqueue go" where
  "outboxForMessageDeleted m =
     call time_Now raise (\<lambda>now.
     let raw = RawJSON (JObj [(''id'', JStr (m_ID m)), (''chat_id'', JStr (m_ChatID m)),
                              (''deleted_at'', JTime now)])
     in call newOutboxEventID raise (\<lambda>eid.
     ret \<lparr>ob_EventID = eid, ob_EventType = EventMessageDeleted,
          ob_AggregateType = AggregateTypeMessage, ob_AggregateID = m_ID m,
          ob_ChatID = Some (m_ChatID m), ob_OccurredAt = now, ob_Version = 1, ob_Payload = raw\<rparr>))"

definition outboxForReadReceipt :: "ID \<Rightarrow> ID \<Rightarrow> ID \<Rightarrow> OutboxEnqueue go" where
  "outboxForReadReceipt chatID userID messageID =
     (let raw = RawJSON (JObj [(''chat_id'', JStr chatID), (''user_id'', JStr userID),
                               (''last_read_message_id'', JStr messageID)])
      in call newOutboxEventID raise (\<lambda>eid.
         call time_Now raise (\<lambda>now.
         ret \<lparr>ob_EventID = eid, ob_EventType = EventMessageReadReceipt,
              ob_AggregateType = AggregateTypeReadState,
              ob_AggregateID = userID @ '':'' @ messageID,
              ob_ChatID = Some chatID, ob_OccurredAt = now, ob_Version = 1, ob_Payload = raw\<rparr>)))"

section \<open>Operations\<close>

text \<open>The error branch \<^verbatim>\<open>if errors.Is(err, ErrNotFound) { NotFound(nf) }; Internal(other, err)\<close>.\<close>

definition notFoundOr :: "string \<Rightarrow> string \<Rightarrow> err \<Rightarrow> 'a go" where
  "notFoundOr nf other e =
     (if errors_Is e ErrNotFound then raise (NotFound nf) else raise (Internal other (Some e)))"

definition clampMsgLimit :: "int \<Rightarrow> int" where
  "clampMsgLimit limit =
     (let limit = (if limit \<le> 0 then msgDefaultLimit else limit)
      in if limit > msgMaxLimit then msgMaxLimit else limit)"

definition ListByChat ::
  "(string \<Rightarrow> string \<Rightarrow> time option) \<Rightarrow> ID \<Rightarrow> string \<Rightarrow> int \<Rightarrow> string \<Rightarrow> MessageListResponse go" where
  "ListByChat time_Parse actor chatIDRaw limit0 beforeRaw =
     (if actor = '''' then raise (Unauthorized ''missing user'')
      else
      call (lift (parseMsgChatID chatIDRaw)) raise (\<lambda>cid.
      call (requireChatMember cid actor) raise (\<lambda>_.
      let limit = clampMsgLimit limit0
      in call (lift (parseBeforeCursor time_Parse beforeRaw)) raise (\<lambda>(beforeID, beforeTime).
      call (GetChatMessages cid \<lparr>mo_Limit = limit, mo_BeforeID = beforeID, mo_BeforeTime = beforeTime\<rparr>)
        (\<lambda>e. raise (Internal ''list messages'' (Some e)))
        (\<lambda>rows.
      ret \<lparr>ml_Messages = map toMessageDTO rows, ml_HasMore = (int (length rows) = limit)\<rparr>)))))"

text \<open>The reply reference of a create request, checked against the message it names.\<close>

definition resolveReply :: "ID \<Rightarrow> string option \<Rightarrow> ID option go" where
  "resolveReply cid replyTo =
     (case replyTo of
        None \<Rightarrow> ret None
      | Some r \<Rightarrow>
          if TrimSpace r = '''' then ret None
          else let rid = TrimSpace r
            in if \<not> msgUUIDRe rid then raise (Validation ''invalid reply_to_id'' None)
               else
               call (Message_GetByID rid) (notFoundOr ''reply message not found'' ''load reply message'')
                 (\<lambda>rm.
               if m_ChatID rm \<noteq> cid
               then raise (Validation ''reply_to_id must belong to the same chat'' None)
               else if m_DeletedAt rm \<noteq> None
               then raise (Validation ''cannot reply to a deleted message'' None)
               else ret (Some rid)))"

definition draft :: "ID \<Rightarrow> ID \<Rightarrow> string \<Rightarrow> ID option \<Rightarrow> Message" where
  "draft cid actor text reply =
     \<lparr>m_ID = '''', m_ChatID = cid, m_SenderID = actor, m_Type = MessageTypeText, m_Text = Some text,
      m_ReplyToID = reply, m_CreatedAt = zero_time, m_UpdatedAt = zero_time, m_DeletedAt = None\<rparr>"

definition MessageService_Create ::
  "MessageService \<Rightarrow> ID \<Rightarrow> string \<Rightarrow> CreateMessageRequest \<Rightarrow> MessageDTO go" where
  "MessageService_Create svc actor chatIDRaw req =
     (if actor = '''' then raise (Unauthorized ''missing user'')
      else if \<not> ms_writer svc then raise (Internal ''message writer not configured'' None)
      else
      call (lift (parseMsgChatID chatIDRaw)) raise (\<lambda>cid.
      call (requireChatMember cid actor) raise (\<lambda>_.
      let text = TrimSpace (cmr_Text req)
      in if text = '''' then raise (Validation ''text is required'' None)
         else if length text > msgTextMaxLen then raise (Validation ''text too long'' None)
         else
         call (resolveReply cid (cmr_ReplyToID req)) raise (\<lambda>reply.
         let m = draft cid actor text reply
         in call (lift (validateMessageTypeForMVP (m_Type m))) raise (\<lambda>_.
            call (outboxForMessageCreated m) raise (\<lambda>ob.
            call (CreateMessageWithOutbox m ob) (notFoundOr ''chat not found'' ''create message'') (\<lambda>out.
            call (metric (\<lambda>c. c\<lparr>MessagesCreate := MessagesCreate c + 1\<rparr>)) raise (\<lambda>_.
            ret (toMessageDTO out)))))))))"

definition MessageService_Get :: "ID \<Rightarrow> string \<Rightarrow> MessageDTO go" where
  "MessageService_Get actor messageIDRaw =
     (if actor = '''' then raise (Unauthorized ''missing user'')
      else
      call (lift (parseMsgID messageIDRaw)) raise (\<lambda>mid.
      call (Message_GetByID mid) (notFoundOr ''message not found'' ''load message'') (\<lambda>m.
      if m_DeletedAt m \<noteq> None then raise (NotFound ''message not found'')
      else
      call (requireChatMember (m_ChatID m) actor) raise (\<lambda>_.
      ret (toMessageDTO m)))))"

definition MessageService_Patch ::
  "MessageService \<Rightarrow> ID \<Rightarrow> string \<Rightarrow> PatchMessageRequest \<Rightarrow> MessageDTO go" where
  "MessageService_Patch svc actor messageIDRaw req =
     (if actor = '''' then raise (Unauthorized ''missing user'')
      else if \<not> ms_writer svc then raise (Internal ''message writer not configured'' None)
      else
      call (lift (parseMsgID messageIDRaw)) raise (\<lambda>mid.
      call (Message_GetByID mid) (notFoundOr ''message not found'' ''load message'') (\<lambda>m.
      if m_DeletedAt m \<noteq> None then raise (NotFound ''message not found'')
      else if m_SenderID m \<noteq> actor then raise (Forbidden ''only author can edit message'')
      else
      call (requireChatMember (m_ChatID m) actor) raise (\<lambda>_.
      call (lift (validateMessageTypeForMVP (m_Type m))) raise (\<lambda>_.
      let text = TrimSpace (pmr_Text req)
      in if text = '''' then raise (Validation ''text is required'' None)
         else if length text > msgTextMaxLen then raise (Validation ''text too long'' None)
         else
         call (outboxForMessageUpdated m text) raise (\<lambda>ob.
         call (UpdateMessageTextWithOutbox (m_ChatID m) (m_ID m) text ob)
           (notFoundOr ''message not found'' ''update message'') (\<lambda>_.
         call (Message_GetByID (m_ID m)) (\<lambda>e. raise (Internal ''reload message'' (Some e))) (\<lambda>m2.
         call (metric (\<lambda>c. c\<lparr>MessagesUpdate := MessagesUpdate c + 1\<rparr>)) raise (\<lambda>_.
         ret (toMessageDTO m2))))))))))"

definition MessageService_Delete :: "MessageService \<Rightarrow> ID \<Rightarrow> string \<Rightarrow> unit go" where
  "MessageService_Delete svc actor messageIDRaw =
     (if actor = '''' then raise (Unauthorized ''missing user'')
      else if \<not> ms_writer svc then raise (Internal ''message writer not configured'' None)
      else
      call (lift (parseMsgID messageIDRaw)) raise (\<lambda>mid.
      call (Message_GetByID mid) (notFoundOr ''message not found'' ''load message'') (\<lambda>m.
      if m_DeletedAt m \<noteq> None then raise (NotFound ''message not found'')
      else if m_SenderID m \<noteq> actor then raise (Forbidden ''only author can delete message'')
      else
      call (requireChatMember (m_ChatID m) actor) raise (\<lambda>_.
      call (outboxForMessageDeleted m) raise (\<lambda>ob.
      call (SoftDeleteMessageWithOutbox (m_ChatID m) (m_ID m) ob)
        (notFoundOr ''message not found'' ''delete message'') (\<lambda>_.
      metric (\<lambda>c. c\<lparr>MessagesDelete := MessagesDelete c + 1\<rparr>)))))))"

definition MessageService_MarkRead :: "MessageService \<Rightarrow> ID \<Rightarrow> string \<Rightarrow> MarkReadResponse go" where
  "MessageService_MarkRead svc actor messageIDRaw =
     (if actor = '''' then raise (Unauthorized ''missing user'')
      else if \<not> ms_writer svc then raise (Internal ''message writer not configured'' None)
      else
      call (lift (parseMsgID messageIDRaw)) raise (\<lambda>mid.
      call (Message_GetByID mid) (notFoundOr ''message not found'' ''load message'') (\<lambda>m.
      if m_DeletedAt m \<noteq> None then raise (NotFound ''message not found'')
      else
      call (requireChatMember (m_ChatID m) actor) raise (\<lambda>_.
      call (outboxForReadReceipt (m_ChatID m) actor (m_ID m)) raise (\<lambda>ob.
      call (UpdateMemberReadWithOutbox (m_ChatID m) actor (m_ID m) ob)
        (notFoundOr ''membership not found'' ''update read state'') (\<lambda>_.
      call (metric (\<lambda>c. c\<lparr>MessagesReadRc := MessagesReadRc c + 1\<rparr>)) raise (\<lambda>_.
      ret \<lparr>mr_ChatID = m_ChatID m, mr_LastReadMessageID = m_ID m\<rparr>)))))))"

end
