(* ===== verification/WriterProps.thy ===== *)
theory WriterProps
  imports Demo MessageService
begin

text \<open>
  What the message writer guarantees under every schedule of failures, delays and interference:
  the four methods are atomic, and each that takes effect leaves exactly one outbox row.
\<close>

definition demo_draft :: Message where
  "demo_draft = draft team alice ''hey'' (Some msg2)"

definition demo_enqueue :: "string \<Rightarrow> string \<Rightarrow> RawMessage \<Rightarrow> OutboxEnqueue" where
  "demo_enqueue ty aid payload =
     \<lparr>ob_EventID = demo_id ''e9'', ob_EventType = ty, ob_AggregateType = AggregateTypeMessage,
      ob_AggregateID = aid, ob_ChatID = Some team, ob_OccurredAt = 5000, ob_Version = 1,
      ob_Payload = payload\<rparr>"

lemma demo_start: "store (interfere (demo_world f)) = demo_store"
  "clock (advance (demo_world f)) = 6000"
  by (simp_all add: advance_def next_trip_def demo_trip_def interfere_def)

text \<open>
  C1: whatever happens on the network, \<^verbatim>\<open>CreateMessageWithOutbox\<close> either fails and changes nothing
  but the outbox sequence, or has stored one message row (fresh id, given sender, chat, text and
  reply), moved the chat's last-message pointer to it and enqueued one outbox row that names it,
  all together; the second is the case whenever it reports success.
\<close>

theorem create_message_atomic:
  assumes "ids_canonical w" and "CreateMessageWithOutbox m ob w = (res, w')"
  shows "(\<exists>e. res = Inl e) \<and> untouched (store (interfere w)) (store w')
    \<or> (\<exists>out r.
         posted m (clock (advance (interfere w))) (store (interfere w)) out
         \<and> enqueued (ob\<lparr>ob_AggregateID := m_ID out, ob_OccurredAt := m_CreatedAt out,
                        ob_Payload := payload_or ob out\<rparr>)
             (clock (advance (interfere w))) (store (interfere w)) r
         \<and> store w' = enqueue r (post_message out (store (interfere w)))
         \<and> (res = Inr out \<or> (\<exists>e. res = Inl (ErrText e))))"
  using create_op.atomic [OF assms] unfolding creates_def by blast

theorem create_message_atomic_witness:
  "\<exists>out w' r. CreateMessageWithOutbox demo_draft (demo_enqueue EventMessageCreated '''' RawNil) demo
       = (Inr out, w') \<and> store w' = enqueue r (post_message out demo_store)"
proof -
  let ?op = "CreateMessageWithOutbox demo_draft (demo_enqueue EventMessageCreated '''' RawNil) demo"
  have "\<not> isl (fst ?op)" by code_simp
  then obtain out where "?op = (Inr out, snd ?op)" by (cases ?op, cases "fst ?op") auto
  with create_message_atomic [OF demo_ids this] show ?thesis by (auto simp: demo_start)
qed

text \<open>
  C2: \<^verbatim>\<open>UpdateMessageTextWithOutbox\<close> either fails and changes nothing but the outbox sequence, or has
  replaced the text of a message that was in the chat and not deleted and enqueued one event with
  the row as it reads after the change.
\<close>

theorem update_message_atomic:
  assumes "ids_canonical w" and "UpdateMessageTextWithOutbox chatID messageID text ob w = (res, w')"
  shows "(\<exists>e. res = Inl e) \<and> untouched (store (interfere w)) (store w')
    \<or> (\<exists>cid mid mUpd r.
         uuid_in chatID = Some cid \<and> uuid_in messageID = Some mid
         \<and> filter (live_message cid mid) (messages (store (interfere w))) \<noteq> []
         \<and> find (\<lambda>m. m_ID m = mid \<and> m_ChatID m = cid) (messages (store w')) = Some mUpd
         \<and> enqueued (ob\<lparr>ob_Payload := payload_or ob mUpd, ob_AggregateID := messageID,
                        ob_OccurredAt := m_UpdatedAt mUpd\<rparr>)
             (clock (advance (interfere w))) (store (interfere w)) r
         \<and> store w' = enqueue r (edit_message cid mid text (clock (advance (interfere w)))
                                   (store (interfere w)))
         \<and> (res = Inr () \<or> (\<exists>e. res = Inl (ErrText e))))"
  using edit_op.atomic [OF assms] unfolding edits_def by force

theorem update_message_atomic_witness:
  "\<exists>w' r. UpdateMessageTextWithOutbox team msg1 ''bye'' (demo_enqueue EventMessageUpdated msg1 RawNil) demo
       = (Inr (), w') \<and> store w' = enqueue r (edit_message team msg1 ''bye'' 6000 demo_store)"
proof -
  let ?op = "UpdateMessageTextWithOutbox team msg1 ''bye'' (demo_enqueue EventMessageUpdated msg1 RawNil) demo"
  have ids: "uuid_in team = Some team" "uuid_in msg1 = Some msg1" by code_simp+
  have "\<not> isl (fst ?op)" by code_simp
  then have "?op = (Inr (), snd ?op)" by (cases ?op, cases "fst ?op") auto
  with update_message_atomic [OF demo_ids this] ids show ?thesis by (auto simp: demo_start)
qed

text \<open>
  C3: \<^verbatim>\<open>SoftDeleteMessageWithOutbox\<close> either fails and changes nothing but the outbox sequence, or has
  marked deleted a message that was in the chat and not deleted and enqueued the given event.
\<close>

theorem delete_message_atomic:
  assumes "ids_canonical w" and "SoftDeleteMessageWithOutbox chatID messageID ob w = (res, w')"
  shows "(\<exists>e. res = Inl e) \<and> untouched (store (interfere w)) (store w')
    \<or> (\<exists>cid mid r.
         uuid_in chatID = Some cid \<and> uuid_in messageID = Some mid
         \<and> filter (live_message cid mid) (messages (store (interfere w))) \<noteq> []
         \<and> enqueued ob (clock (advance (interfere w))) (store (interfere w)) r
         \<and> store w' = enqueue r (erase_message cid mid (clock (advance (interfere w)))
                                   (store (interfere w)))
         \<and> (res = Inr () \<or> (\<exists>e. res = Inl (ErrText e))))"
  using erase_op.atomic [OF assms] unfolding erases_def by force

theorem delete_message_atomic_witness:
  "\<exists>w' r. SoftDeleteMessageWithOutbox team msg1 (demo_enqueue EventMessageDeleted msg1 (RawJSON JNull)) demo
       = (Inr (), w') \<and> store w' = enqueue r (erase_message team msg1 6000 demo_store)"
proof -
  let ?op = "SoftDeleteMessageWithOutbox team msg1 (demo_enqueue EventMessageDeleted msg1 (RawJSON JNull)) demo"
  have ids: "uuid_in team = Some team" "uuid_in msg1 = Some msg1" by code_simp+
  have "\<not> isl (fst ?op)" by code_simp
  then have "?op = (Inr (), snd ?op)" by (cases ?op, cases "fst ?op") auto
  with delete_message_atomic [OF demo_ids this] ids show ?thesis by (auto simp: demo_start)
qed

text \<open>
  C4: \<^verbatim>\<open>UpdateMemberReadWithOutbox\<close> either fails and changes nothing but the outbox sequence, or has
  set the read mark of an existing membership to an existing message and enqueued the given event.
\<close>

theorem read_mark_atomic:
  assumes "ids_canonical w" and "UpdateMemberReadWithOutbox chatID userID messageID ob w = (res, w')"
  shows "(\<exists>e. res = Inl e) \<and> untouched (store (interfere w)) (store w')
    \<or> (\<exists>cid uid mid r.
         uuid_in chatID = Some cid \<and> uuid_in userID = Some uid \<and> uuid_in messageID = Some mid
         \<and> member_row (store (interfere w)) cid uid \<noteq> None
         \<and> mid \<in> set (message_ids (store (interfere w)))
         \<and> enqueued ob (clock (advance (interfere w))) (store (interfere w)) r
         \<and> store w' = enqueue r (mark_read cid uid mid (clock (advance (interfere w)))
                                   (store (interfere w)))
         \<and> (res = Inr () \<or> (\<exists>e. res = Inl (ErrText e))))"
  using mark_op.atomic [OF assms] unfolding marks_def by force

theorem read_mark_atomic_witness:
  "\<exists>w' r. UpdateMemberReadWithOutbox team bob msg1
         (demo_enqueue EventMessageReadReceipt bob (RawJSON JNull)) demo
       = (Inr (), w') \<and> store w' = enqueue r (mark_read team bob msg1 6000 demo_store)"
proof -
  let ?op = "UpdateMemberReadWithOutbox team bob msg1
    (demo_enqueue EventMessageReadReceipt bob (RawJSON JNull)) demo"
  have ids: "uuid_in team = Some team" "uuid_in bob = Some bob" "uuid_in msg1 = Some msg1" by code_simp+
  have "\<not> isl (fst ?op)" by code_simp
  then have "?op = (Inr (), snd ?op)" by (cases ?op, cases "fst ?op") auto
  with read_mark_atomic [OF demo_ids this] ids show ?thesis by (auto simp: demo_start)
qed

end
