(* ===== verification/ChatService.thy ===== *)
theory ChatService
  imports UserRepo
begin

text \<open>
  The chat service (\<^verbatim>\<open>backend/internal/service/chat_service.go\<close>): direct and group chats, membership
  and who may change it.  \<open>sha256\<close> stands for \<^verbatim>\<open>sha256.Sum256\<close>, which maps a byte string to a list of
  bytes; the theorems that need it to tell the inputs in question apart say so.
\<close>

definition chatUUIDRe :: "string \<Rightarrow> bool" where
  "chatUUIDRe s = uuid_pattern s"

definition chatListDefaultLimit :: int where "chatListDefaultLimit = 30"
definition chatListMaxLimit :: int where "chatListMaxLimit = 100"
definition chatTitleMaxLen :: nat where "chatTitleMaxLen = 255"
definition chatAvatarMaxLen :: nat where "chatAvatarMaxLen = 2048"

section \<open>Helpers\<close>

definition parseChatID :: "string \<Rightarrow> err + ID" where
  "parseChatID raw =
     (let raw = TrimSpace raw
      in if \<not> chatUUIDRe raw then Inl (Validation ''invalid chat_id'' None) else Inr raw)"

definition parseUserIDParam :: "string \<Rightarrow> err + ID" where
  "parseUserIDParam raw =
     (let raw = TrimSpace raw
      in if \<not> chatUUIDRe raw then Inl (Validation ''invalid user_id'' None) else Inr raw)"

definition directKey :: "(string \<Rightarrow> 8 word list) \<Rightarrow> ID \<Rightarrow> ID \<Rightarrow> err + string" where
  "directKey sha256 a b =
     (if a = '''' \<or> b = '''' then Inl (Validation ''invalid user id'' None)
      else let (s1, s2) = (if a > b then (b, a) else (a, b))
           in Inr (EncodeToString (sha256 (s1 @ ''|'' @ s2))))"

text \<open>\<^verbatim>\<open>errors.As(err, &pe) && pe.Code == "23505"\<close>\<close>

fun isUniqueViolation :: "err \<Rightarrow> bool" where
  "isUniqueViolation (PgError code) = (code = ''23505'')"
| "isUniqueViolation (AppError _ _ _ (Some c)) = isUniqueViolation c"
| "isUniqueViolation _ = False"

definition chatDetail :: "Chat \<Rightarrow> ChatDetail" where
  "chatDetail c =
     \<lparr>cd_ID = c_ID c, cd_Type = chat_type_string (c_Type c), cd_Title = c_Title c,
      cd_AvatarURL = c_AvatarURL c, cd_CreatedAt = c_CreatedAt c, cd_UpdatedAt = c_UpdatedAt c\<rparr>"

definition toChatSummary :: "ChatListRow \<Rightarrow> ChatSummary" where
  "toChatSummary row =
     (let c = clr_Chat row
      in \<lparr>cs_ID = c_ID c, cs_Type = chat_type_string (c_Type c), cs_Title = c_Title c,
          cs_AvatarURL = c_AvatarURL c, cs_CreatedAt = c_CreatedAt c, cs_UpdatedAt = c_UpdatedAt c,
          cs_LastMessage =
            (case (c_LastMessageID c, clr_LastPreviewAt row, clr_LastPreviewSender row,
                   clr_LastPreviewType row) of
               (Some i, Some at, Some sender, Some ty) \<Rightarrow>
                 Some \<lparr>lp_ID = i, lp_SenderID = sender, lp_Type = message_type_string ty,
                       lp_Text = clr_LastPreviewText row, lp_CreatedAt = at\<rparr>
             | _ \<Rightarrow> None),
          cs_UnreadCount = clr_UnreadCount row\<rparr>)"

definition requireMemberShip :: "ID \<Rightarrow> ID \<Rightarrow> ChatMember go" where
  "requireMemberShip chatID userID =
     call (FindMembership chatID userID)
       (\<lambda>e. if errors_Is e ErrNotFound then raise (Forbidden ''not a chat member'')
            else raise (Internal ''lookup membership'' (Some e)))
       ret"

definition requireMember :: "ID \<Rightarrow> ID \<Rightarrow> unit go" where
  "requireMember chatID userID =
     call (FindMembership chatID userID)
       (\<lambda>e. if errors_Is e ErrNotFound then raise (Forbidden ''not a chat member'')
            else raise (Internal ''lookup membership'' (Some e)))
       (\<lambda>_. ret ())"

definition assertKickRules :: "ChatMember \<Rightarrow> ChatMember \<Rightarrow> err + unit" where
  "assertKickRules actor target =
     (case cm_Role actor of
        ChatMemberRoleOwner \<Rightarrow>
          if cm_Role target = ChatMemberRoleOwner then Inl (Forbidden ''cannot remove owner'')
          else Inr ()
      | ChatMemberRoleAdmin \<Rightarrow>
          if cm_Role target = ChatMemberRoleMember then Inr ()
          else Inl (Forbidden ''admins can only remove members'')
      | _ \<Rightarrow> Inl (Forbidden ''insufficient role''))"

definition loadErr :: "string \<Rightarrow> string \<Rightarrow> err \<Rightarrow> 'a go" where
  "loadErr nf other e =
     (if errors_Is e ErrNotFound then raise (NotFound nf) else raise (Internal other (Some e)))"

section \<open>Creating chats\<close>

definition direct_members :: "ID \<Rightarrow> ID \<Rightarrow> AddChatMember list" where
  "direct_members actor peer =
     [\<lparr>acm_UserID = actor, acm_Role = ChatMemberRoleMember\<rparr>,
      \<lparr>acm_UserID = peer, acm_Role = ChatMemberRoleMember\<rparr>]"

definition direct_draft :: "string \<Rightarrow> Chat" where
  "direct_draft key =
     \<lparr>c_ID = '''', c_Type = ChatTypeDirect, c_Title = None, c_AvatarURL = None, c_CreatedBy = None,
      c_CreatedAt = zero_time, c_UpdatedAt = zero_time, c_LastMessageID = None, c_LastMessageAt = None,
      c_IsDeleted = False, c_DirectKey = Some key\<rparr>"

text \<open>The retry loop of \<^verbatim>\<open>CreateDirect\<close>, with the number of attempts left.\<close>

fun direct_attempts :: "nat \<Rightarrow> ID \<Rightarrow> ID \<Rightarrow> string \<Rightarrow> ChatDetail go" where
  "direct_attempts 0 actor peer key =
     raise (Conflict ''could not create or resolve direct chat'')"
| "direct_attempts (Suc n) actor peer key =
     call (GetDirectByKey key)
       (\<lambda>e. if \<not> errors_Is e ErrNotFound then raise (Internal ''lookup direct chat'' (Some e))
            else
            call (CreateChat (direct_draft key))
              (\<lambda>e2. if isUniqueViolation e2 then direct_attempts n actor peer key
                    else raise (Internal ''create direct chat'' (Some e2)))
              (\<lambda>chat.
            call (AddMembers (c_ID chat) (direct_members actor peer))
              (\<lambda>e3. raise (Internal ''add direct members'' (Some e3)))
              (\<lambda>_. ret (chatDetail chat))))
       (\<lambda>existing.
          call (requireMember (c_ID existing) actor) raise (\<lambda>_.
          ignore (AddMembers (c_ID existing) (direct_members actor peer))
            (ret (chatDetail existing))))"

definition CreateDirect ::
  "(string \<Rightarrow> 8 word list) \<Rightarrow> ID \<Rightarrow> CreateDirectChatRequest \<Rightarrow> ChatDetail go" where
  "CreateDirect sha256 actor req =
     (if actor = '''' then raise (Unauthorized ''missing user'')
      else let peer = TrimSpace (cdr_UserID req)
        in if peer = '''' then raise (Validation ''user_id is required'' None)
           else if \<not> chatUUIDRe peer then raise (Validation ''invalid user_id'' None)
           else if peer = actor then raise (Validation ''cannot start direct chat with yourself'' None)
           else
           call (User_GetByID peer) (loadErr ''user not found'' ''load peer user'') (\<lambda>_.
           call (lift (directKey sha256 actor peer)) raise (\<lambda>key.
           direct_attempts 3 actor peer key)))"

text \<open>The member list of a group request: trimmed, checked, without the creator and repetitions.\<close>

fun group_members :: "ID \<Rightarrow> ID list \<Rightarrow> string list \<Rightarrow> ID list go" where
  "group_members actor seen [] = ret []"
| "group_members actor seen (raw # raws) =
     (let uid = TrimSpace raw
      in if uid = '''' \<or> \<not> chatUUIDRe uid then raise (Validation ''invalid member_ids entry'' None)
         else if uid = actor then group_members actor seen raws
         else if uid \<in> set seen then group_members actor seen raws
         else
         call (User_GetByID uid) (loadErr ''member user not found'' ''load member user'') (\<lambda>_.
         call (group_members actor (uid # seen) raws) raise (\<lambda>others.
         ret (uid # others))))"

definition group_avatar :: "string option \<Rightarrow> err + string option" where
  "group_avatar raw =
     (case raw of
        None \<Rightarrow> Inr None
      | Some r \<Rightarrow>
          let v = TrimSpace r
          in if length v > chatAvatarMaxLen then Inl (Validation ''avatar_url too long'' None)
             else if v \<noteq> '''' then Inr (Some v) else Inr None)"

definition CreateGroup :: "ID \<Rightarrow> CreateGroupChatRequest \<Rightarrow> ChatDetail go" where
  "CreateGroup actor req =
     (if actor = '''' then raise (Unauthorized ''missing user'')
      else let title = TrimSpace (cgr_Title req)
        in if title = '''' then raise (Validation ''title is required'' None)
           else if length title > chatTitleMaxLen then raise (Validation ''title too long'' None)
           else
           call (lift (group_avatar (cgr_AvatarURL req))) raise (\<lambda>avatar.
           call (group_members actor [actor] (cgr_MemberIDs req)) raise (\<lambda>others.
           call (CreateGroupWithMembers title avatar actor others)
             (\<lambda>e. raise (Internal ''create group chat'' (Some e)))
             (\<lambda>c. ret (chatDetail c)))))"

section \<open>Reading chats\<close>

definition ListMine :: "ID \<Rightarrow> int \<Rightarrow> int \<Rightarrow> ChatSummary list go" where
  "ListMine actor limit0 offset0 =
     (if actor = '''' then raise (Unauthorized ''missing user'')
      else let limit = (if limit0 \<le> 0 then chatListDefaultLimit else limit0);
               limit = (if limit > chatListMaxLimit then chatListMaxLimit else limit);
               offset = (if offset0 < 0 then 0 else offset0)
        in call (ListUserChatsSummary actor \<lparr>p_Limit = limit, p_Offset = offset\<rparr>)
             (\<lambda>e. raise (Internal ''list chats'' (Some e)))
             (\<lambda>rows. ret (map toChatSummary rows)))"

definition ChatService_Get :: "ID \<Rightarrow> string \<Rightarrow> ChatDetail go" where
  "ChatService_Get actor chatID =
     (if actor = '''' then raise (Unauthorized ''missing user'')
      else
      call (lift (parseChatID chatID)) raise (\<lambda>cid.
      call (requireMember cid actor) raise (\<lambda>_.
      call (Chat_GetByID cid) (loadErr ''chat not found'' ''load chat'') (\<lambda>c.
      if c_IsDeleted c then raise (NotFound ''chat not found'') else ret (chatDetail c)))))"

definition memberDTO :: "ChatMember \<Rightarrow> ChatMemberDTO" where
  "memberDTO m =
     \<lparr>cmd_UserID = cm_UserID m, cmd_Role = role_string (cm_Role m), cmd_JoinedAt = cm_JoinedAt m\<rparr>"

definition Members :: "ID \<Rightarrow> string \<Rightarrow> ChatMemberDTO list go" where
  "Members actor chatID =
     (if actor = '''' then raise (Unauthorized ''missing user'')
      else
      call (lift (parseChatID chatID)) raise (\<lambda>cid.
      call (requireMember cid actor) raise (\<lambda>_.
      call (GetChatMembers cid) (\<lambda>e. raise (Internal ''list members'' (Some e))) (\<lambda>members.
      ret (map memberDTO members)))))"

section \<open>Changing membership\<close>

fun added_members :: "ID list \<Rightarrow> string list \<Rightarrow> AddChatMember list go" where
  "added_members seen [] = ret []"
| "added_members seen (raw # raws) =
     (let uid = TrimSpace raw
      in if uid = '''' \<or> \<not> chatUUIDRe uid then raise (Validation ''invalid user_ids entry'' None)
         else if uid \<in> set seen then added_members seen raws
         else
         call (User_GetByID uid) (loadErr ''user not found'' ''load user'') (\<lambda>_.
         call (added_members (uid # seen) raws) raise (\<lambda>adds.
         ret (\<lparr>acm_UserID = uid, acm_Role = ChatMemberRoleMember\<rparr> # adds))))"

definition ChatService_AddMembers ::
  "ID \<Rightarrow> string \<Rightarrow> AddChatMembersRequest \<Rightarrow> ChatMemberDTO list go" where
  "ChatService_AddMembers actor chatID req =
     (if actor = '''' then raise (Unauthorized ''missing user'')
      else
      call (lift (parseChatID chatID)) raise (\<lambda>cid.
      call (Chat_GetByID cid) (loadErr ''chat not found'' ''load chat'') (\<lambda>c.
      if c_IsDeleted c then raise (NotFound ''chat not found'')
      else if c_Type c \<noteq> ChatTypeGroup then raise (Forbidden ''only group chats accept new members'')
      else
      call (requireMemberShip cid actor) raise (\<lambda>actorMem.
      if cm_Role actorMem \<noteq> ChatMemberRoleOwner \<and> cm_Role actorMem \<noteq> ChatMemberRoleAdmin
      then raise (Forbidden ''insufficient role to add members'')
      else
      call (added_members [] (amr_UserIDs req)) raise (\<lambda>adds.
      if length adds = 0 then raise (Validation ''user_ids is required'' None)
      else
      call (AddMembers cid adds) (\<lambda>e. raise (Internal ''add members'' (Some e))) (\<lambda>_.
      Members actor chatID))))))"

definition ChatService_RemoveMember :: "ID \<Rightarrow> string \<Rightarrow> string \<Rightarrow> unit go" where
  "ChatService_RemoveMember actor chatID targetUserID =
     (if actor = '''' then raise (Unauthorized ''missing user'')
      else
      call (lift (parseChatID chatID)) raise (\<lambda>cid.
      call (lift (parseUserIDParam targetUserID)) raise (\<lambda>tid.
      call (Chat_GetByID cid) (loadErr ''chat not found'' ''load chat'') (\<lambda>c.
      if c_IsDeleted c then raise (NotFound ''chat not found'')
      else
      call (requireMemberShip cid actor) raise (\<lambda>actorMem.
      call (FindMembership cid tid) (loadErr ''member not found'' ''lookup target member'') (\<lambda>targetMem.
      if actor = tid
      then call (RemoveMember cid tid) (loadErr ''member not found'' ''remove member'') ret
      else if c_Type c = ChatTypeDirect
      then raise (Forbidden ''cannot remove other user from direct chat'')
      else
      call (lift (assertKickRules actorMem targetMem)) raise (\<lambda>_.
      call (RemoveMember cid tid) (loadErr ''member not found'' ''remove member'') ret)))))))"

end
