(* ===== verification/Broadcast.thy ===== *)
theory Broadcast
  imports ChatRepo GoText
begin

text \<open>
  The broadcaster (\<^verbatim>\<open>backend/internal/transport/ws/broadcaster.go\<close>) and the Redis publisher it uses
  (\<^verbatim>\<open>backend/internal/repository/redis/pubsub_repository.go\<close>).  A broadcaster always has a hub and a chat
  repository; \<open>bc_pub\<close> says whether a publisher is set.
\<close>

record Broadcaster =
  bc_pub :: bool

definition chatChannelPrefix :: string where
  "chatChannelPrefix = ''goflow:chat:''"

definition chatChannel :: "string \<Rightarrow> string" where
  "chatChannel chatID = chatChannelPrefix @ chatID"

definition PublishChatEvent :: "string \<Rightarrow> RawMessage \<Rightarrow> unit go" where
  "PublishChatEvent chatID payload =
     (if TrimSpace chatID = '''' then raise (ErrText ''pubsub: empty chat id'')
      else roundtrip (\<lambda>_ _ s.
        (Inr (), s\<lparr>redis_published := redis_published s @ [(chatChannel chatID, payload)]\<rparr>)))"

text \<open>The loop over the members: the same payload to every connection of each.\<close>

definition send_to_members :: "ChatMember list \<Rightarrow> RawMessage \<Rightarrow> unit go" where
  "send_to_members members payload w =
     (Inr (), w\<lparr>hub := fold (\<lambda>m. SendToUser (cm_UserID m) payload) members (hub w)\<rparr>)"

definition deliverPayload :: "ID \<Rightarrow> RawMessage \<Rightarrow> unit go" where
  "deliverPayload chatID payload =
     call (GetChatMembers chatID) raise (\<lambda>members. send_to_members members payload)"

definition DeliverEnvelopeBytes :: "ID \<Rightarrow> RawMessage \<Rightarrow> unit go" where
  "DeliverEnvelopeBytes chatID payload = deliverPayload chatID payload"

definition PublishToChat ::
  "Broadcaster \<Rightarrow> ID \<Rightarrow> string \<Rightarrow> json option \<Rightarrow> json option \<Rightarrow> unit go" where
  "PublishToChat b chatID event data meta =
     (let payload = MarshalEnvelope event data meta
      in if bc_pub b then PublishChatEvent chatID payload else deliverPayload chatID payload)"

text \<open>
  One message of the subscription loop \<^verbatim>\<open>SubscribeChatEvents\<close>, with the handler \<^verbatim>\<open>StartRedisRelay\<close>
  installs: the chat id is the channel name without its prefix.
\<close>

definition redis_relay_message :: "string \<Rightarrow> RawMessage \<Rightarrow> unit go" where
  "redis_relay_message channel payload =
     (let chatID = TrimPrefix channel chatChannelPrefix
      in if chatID = '''' then ret () else deliverPayload chatID payload)"

text \<open>The subscription loop over the messages of its channel: an error of the handler ends it.\<close>

fun SubscribeChatEvents :: "(string \<times> RawMessage) list \<Rightarrow> unit go" where
  "SubscribeChatEvents [] = ret ()"
| "SubscribeChatEvents ((channel, payload) # msgs) =
     call (redis_relay_message channel payload) raise (\<lambda>_. SubscribeChatEvents msgs)"

section \<open>Lemmas\<close>

lemma TrimPrefix_chatChannel [simp]: "TrimPrefix (chatChannel c) chatChannelPrefix = c"
  by (simp add: TrimPrefix_def HasPrefix_def chatChannel_def)

lemma registered_fold [simp]:
  "registered (fold (\<lambda>m. SendToUser (f m) p) ms h) u q = registered h u q"
  by (induction ms arbitrary: h) simp_all

lemma heap_fold_other:
  assumes "\<And>u. registered h u q \<Longrightarrow> u \<notin> f ` set ms"
  shows "hub_heap (fold (\<lambda>m. SendToUser (f m) p) ms h) q = hub_heap h q"
  using assms
proof (induction ms arbitrary: h)
  case (Cons m ms)
  from Cons.prems have "\<not> registered h (f m) q" by auto
  then have "hub_heap (SendToUser (f m) p h) q = hub_heap h q" by (simp add: heap_SendToUser)
  moreover have "hub_heap (fold (\<lambda>m. SendToUser (f m) p) ms (SendToUser (f m) p h)) q
    = hub_heap (SendToUser (f m) p h) q"
    using Cons.prems by (intro Cons.IH) auto
  ultimately show ?case by simp
qed simp

lemma heap_fold_member:
  assumes "distinct (map f ms)" and "m \<in> set ms" and "registered h (f m) q"
    and unique: "\<And>u. registered h u q \<Longrightarrow> u = f m"
  shows "hub_heap (fold (\<lambda>m. SendToUser (f m) p) ms h) q = map_option (offer p) (hub_heap h q)"
  using assms
proof (induction ms arbitrary: h)
  case (Cons x xs)
  let ?h = "SendToUser (f x) p h"
  show ?case
  proof (cases "x = m")
    case True
    then have "f m \<notin> f ` set xs" using Cons.prems(1) by auto
    then have "u \<notin> f ` set xs" if "registered ?h u q" for u
      using Cons.prems(4) [of u] that by simp
    then have "hub_heap (fold (\<lambda>m. SendToUser (f m) p) xs ?h) q = hub_heap ?h q"
      by (rule heap_fold_other)
    then show ?thesis using Cons.prems(3) True by (simp add: heap_SendToUser)
  next
    case False
    then have "f x \<noteq> f m" using Cons.prems(1,2) by (auto simp: image_iff)
    then have "\<not> registered h (f x) q" using Cons.prems(4) [of "f x"] by blast
    then have "hub_heap ?h q = hub_heap h q" by (simp add: heap_SendToUser)
    moreover have "hub_heap (fold (\<lambda>m. SendToUser (f m) p) xs ?h) q
        = map_option (offer p) (hub_heap ?h q)"
    proof (rule Cons.IH)
      show "distinct (map f xs)" using Cons.prems(1) by simp
      show "m \<in> set xs" using Cons.prems(2) False by simp
      show "registered ?h (f m) q" using Cons.prems(3) by simp
      show "u = f m" if "registered ?h u q" for u using Cons.prems(4) [of u] that by simp
    qed
    ultimately show ?thesis by simp
  qed
qed simp

lemma hub_ok_fold:
  "hub_ok h \<Longrightarrow> hub_ok (fold (\<lambda>m. SendToUser (f m) p) ms h)"
  by (induction ms arbitrary: h) (simp_all add: hub_ok_SendToUser)

end
