(* ===== verification/JsonIn.thy ===== *)
theory JsonIn
  imports Json GoText
begin

text \<open>
  Decoding JSON that a client has sent into a Go struct, as \<^verbatim>\<open>encoding/json\<close> does it: object keys are
  matched to field names up to case, a key that comes again overrides, \<^verbatim>\<open>null\<close> leaves a plain field as
  it is and clears a pointer, and a value of the wrong type is an error although the other fields are
  filled in.  A JSON string that a client sends is a \<open>JStr\<close>.
\<close>

text \<open>
  The case folding of keys: ASCII letters, and the two runes outside ASCII that fold to one, U+212A
  (to k) and U+017F (to s).
\<close>

fun fold_name :: "string \<Rightarrow> string" where
  "fold_name (a # b # c # r) =
     (if byte_of a = 197 \<and> byte_of b = 191 then CHR ''s'' # fold_name (c # r)
      else if byte_of a = 226 \<and> byte_of b = 132 \<and> byte_of c = 170 then CHR ''k'' # fold_name r
      else lower_byte a # fold_name (b # c # r))"
| "fold_name [a, b] =
     (if byte_of a = 197 \<and> byte_of b = 191 then [CHR ''s''] else [lower_byte a, lower_byte b])"
| "fold_name [a] = [lower_byte a]"
| "fold_name [] = []"

text \<open>The values an object gives for a field, in the order of the text; field names are lower case.\<close>

definition values_for :: "string \<Rightarrow> json \<Rightarrow> json list" where
  "values_for k v = (case v of JObj kvs \<Rightarrow> map snd (filter (\<lambda>kv. fold_name (fst kv) = k) kvs) | _ \<Rightarrow> [])"

text \<open>A field of type \<^verbatim>\<open>string\<close>, \<^verbatim>\<open>*string\<close>, \<^verbatim>\<open>[]string\<close> and \<^verbatim>\<open>json.RawMessage\<close>.\<close>

fun fill_str :: "json list \<Rightarrow> string \<Rightarrow> string" where
  "fill_str [] s = s"
| "fill_str (JStr x # vs) s = fill_str vs x"
| "fill_str (_ # vs) s = fill_str vs s"

definition str_type_ok :: "json \<Rightarrow> bool" where
  "str_type_ok v = (case v of JStr _ \<Rightarrow> True | JNull \<Rightarrow> True | _ \<Rightarrow> False)"

fun fill_ptr :: "json list \<Rightarrow> string option \<Rightarrow> string option" where
  "fill_ptr [] p = p"
| "fill_ptr (JStr x # vs) p = fill_ptr vs (Some x)"
| "fill_ptr (JNull # vs) p = fill_ptr vs None"
| "fill_ptr (_ # vs) p = fill_ptr vs p"

definition elem_str :: "json \<Rightarrow> string" where
  "elem_str v = (case v of JStr x \<Rightarrow> x | _ \<Rightarrow> '''')"

fun fill_strs :: "json list \<Rightarrow> string list \<Rightarrow> string list" where
  "fill_strs [] xs = xs"
| "fill_strs (JArr es # vs) xs = fill_strs vs (map elem_str es)"
| "fill_strs (JNull # vs) xs = fill_strs vs []"
| "fill_strs (_ # vs) xs = fill_strs vs xs"

definition strs_type_ok :: "json \<Rightarrow> bool" where
  "strs_type_ok v = (case v of JArr es \<Rightarrow> list_all str_type_ok es | JNull \<Rightarrow> True | _ \<Rightarrow> False)"

fun fill_raw :: "json list \<Rightarrow> RawMessage \<Rightarrow> RawMessage" where
  "fill_raw [] r = r"
| "fill_raw (v # vs) r = fill_raw vs (RawJSON v)"

text \<open>Whether a value can be decoded into a struct at all: an object, or \<^verbatim>\<open>null\<close>, which changes nothing.\<close>

definition struct_type_ok :: "json \<Rightarrow> bool" where
  "struct_type_ok v = (case v of JObj _ \<Rightarrow> True | JNull \<Rightarrow> True | _ \<Rightarrow> False)"

text \<open>\<^verbatim>\<open>DisallowUnknownFields\<close>\<close>

definition known_keys :: "string list \<Rightarrow> json \<Rightarrow> bool" where
  "known_keys names v = (case v of JObj kvs \<Rightarrow> list_all (\<lambda>kv. fold_name (fst kv) \<in> set names) kvs | _ \<Rightarrow> True)"

end
