(* ===== verification/Relay.thy ===== *)
theory Relay
  imports Broadcast MessageRepo JsonIn
begin

text \<open>
  The way of a domain event from the outbox to the clients: the Kafka event and producer
  (\<^verbatim>\<open>backend/internal/kafka\<close>), the outbox relay and the Kafka consumer
  (\<^verbatim>\<open>backend/internal/worker\<close>), and how \<^verbatim>\<open>backend/internal/app/app.go\<close> wires them.
  The Kafka writer is a round trip that appends to the topic.
\<close>

section \<open>Domain events\<close>

record DomainEvent =
  de_EventID :: string
  de_EventType :: string
  de_AggregateType :: string
  de_AggregateID :: string
  de_ChatID :: string
  de_OccurredAt :: time
  de_Version :: int
  de_Payload :: RawMessage

text \<open>
  \<^verbatim>\<open>json.Marshal\<close> of the struct: \<^verbatim>\<open>chat_id\<close> is omitted when empty, a nil \<^verbatim>\<open>json.RawMessage\<close> is written
  as \<^verbatim>\<open>null\<close>, and one that is not JSON text is an error; so is an instant outside the years 0 to 9999 (in UTC, to which
  the relay converts it).  Strings are written as \<open>json_text\<close>.
\<close>

definition json_time_ok :: "time \<Rightarrow> bool" where
  "json_time_ok t = (- 62167219200 * Second \<le> t \<and> t < 253402300800 * Second)"

definition raw_value :: "RawMessage \<Rightarrow> json option" where
  "raw_value r = (case r of RawNil \<Rightarrow> Some JNull | RawJSON v \<Rightarrow> Some v | RawBad _ \<Rightarrow> None)"

definition DomainEvent_Marshal :: "DomainEvent \<Rightarrow> err + RawMessage" where
  "DomainEvent_Marshal e =
     (if \<not> json_time_ok (de_OccurredAt e) then Inl (ErrText ''json: error calling MarshalJSON for type time.Time'')
      else case raw_value (de_Payload e) of
        None \<Rightarrow> Inl (ErrText ''json: error calling MarshalJSON for type json.RawMessage'')
      | Some v \<Rightarrow> Inr (RawJSON (JObj
          ([(''event_id'', JStr (json_text (de_EventID e))), (''event_type'', JStr (json_text (de_EventType e))),
            (''aggregate_type'', JStr (json_text (de_AggregateType e))),
            (''aggregate_id'', JStr (json_text (de_AggregateID e)))]
           @ (if de_ChatID e = '''' then [] else [(''chat_id'', JStr (json_text (de_ChatID e)))])
           @ [(''occurred_at'', JTime (de_OccurredAt e)), (''version'', JNum (de_Version e)),
              (''payload'', v)]))))"

text \<open>
  \<^verbatim>\<open>json.Unmarshal\<close> into the struct: an absent or null field keeps its zero value, a field of
  another JSON type or a version that does not fit an \<^verbatim>\<open>int\<close> is an error, and a raw field keeps its
  text, \<^verbatim>\<open>null\<close> included.
\<close>

fun fill_int :: "json list \<Rightarrow> int \<Rightarrow> int" where
  "fill_int [] n = n"
| "fill_int (JNum x # vs) n = fill_int vs x"
| "fill_int (_ # vs) n = fill_int vs n"

definition int_type_ok :: "json \<Rightarrow> bool" where
  "int_type_ok v =
     (case v of JNum x \<Rightarrow> - (2 ^ 63) \<le> x \<and> x < 2 ^ 63 | JNull \<Rightarrow> True | _ \<Rightarrow> False)"

fun fill_time :: "json list \<Rightarrow> time \<Rightarrow> time" where
  "fill_time [] t = t"
| "fill_time (JTime x # vs) t = fill_time vs x"
| "fill_time (_ # vs) t = fill_time vs t"

definition time_type_ok :: "json \<Rightarrow> bool" where
  "time_type_ok v = (case v of JTime _ \<Rightarrow> True | JNull \<Rightarrow> True | _ \<Rightarrow> False)"

definition event_type_ok :: "json \<Rightarrow> bool" where
  "event_type_ok v =
     (struct_type_ok v
      \<and> list_all (\<lambda>k. list_all str_type_ok (values_for k v))
          [''event_id'', ''event_type'', ''aggregate_type'', ''aggregate_id'', ''chat_id'']
      \<and> list_all time_type_ok (values_for ''occurred_at'' v)
      \<and> list_all int_type_ok (values_for ''version'' v))"

definition decode_event :: "json \<Rightarrow> DomainEvent" where
  "decode_event v =
     \<lparr>de_EventID = fill_str (values_for ''event_id'' v) '''',
      de_EventType = fill_str (values_for ''event_type'' v) '''',
      de_AggregateType = fill_str (values_for ''aggregate_type'' v) '''',
      de_AggregateID = fill_str (values_for ''aggregate_id'' v) '''',
      de_ChatID = fill_str (values_for ''chat_id'' v) '''',
      de_OccurredAt = fill_time (values_for ''occurred_at'' v) zero_time,
      de_Version = fill_int (values_for ''version'' v) 0,
      de_Payload = fill_raw (values_for ''payload'' v) RawNil\<rparr>"

definition DomainEvent_Unmarshal :: "RawMessage \<Rightarrow> err + DomainEvent" where
  "DomainEvent_Unmarshal raw =
     (case Unmarshal raw of
        None \<Rightarrow> Inl (ErrText ''json: invalid'')
      | Some v \<Rightarrow>
          if event_type_ok v then Inr (decode_event v)
          else Inl (ErrText ''json: cannot unmarshal''))"

section \<open>Producer\<close>

record Producer =
  pr_Brokers :: "string list"
  pr_Topic :: string

definition NewProducer :: "string list \<Rightarrow> string \<Rightarrow> Producer option" where
  "NewProducer brokers topic =
     (if length brokers = 0 \<or> topic = '''' then None
      else Some \<lparr>pr_Brokers = brokers, pr_Topic = topic\<rparr>)"

definition Publish :: "Producer option \<Rightarrow> string \<Rightarrow> RawMessage \<Rightarrow> unit go" where
  "Publish p key value =
     (case p of
        None \<Rightarrow> ret ()
      | Some _ \<Rightarrow> roundtrip (\<lambda>_ _ s. (Inr (), s\<lparr>kafka_log := kafka_log s @ [(key, value)]\<rparr>)))"

section \<open>Relay\<close>

text \<open>
  The field \<^verbatim>\<open>Kafka\<close> has an interface type: it is nil, or holds a \<^verbatim>\<open>*kafka.Producer\<close>, which may
  itself be a nil pointer.  The comparison \<^verbatim>\<open>r.Kafka != nil\<close> only tells the first case apart.
\<close>

datatype KafkaPublisher = NilInterface | ProducerRef "Producer option"

record OutboxRelay =
  rl_Kafka :: KafkaPublisher
  rl_Fallback :: bool
  rl_UseKafka :: bool

definition splitBrokers :: "string \<Rightarrow> string list" where
  "splitBrokers s = filter (\<lambda>t. t \<noteq> '''') (map TrimSpace (split_on (CHR '','') s))"

text \<open>The relay as \<^verbatim>\<open>app.New\<close> sets it up from the Kafka section of the configuration.\<close>

definition app_relay :: "bool \<Rightarrow> string \<Rightarrow> string \<Rightarrow> OutboxRelay" where
  "app_relay enabled brokers topic =
     (let relay = \<lparr>rl_Kafka = NilInterface, rl_Fallback = True, rl_UseKafka = enabled\<rparr>
      in if enabled
         then relay\<lparr>rl_Kafka := ProducerRef (NewProducer (splitBrokers brokers) (TrimSpace topic))\<rparr>
         else relay)"

definition row_event :: "OutboxRow \<Rightarrow> DomainEvent" where
  "row_event row =
     \<lparr>de_EventID = r_EventID row, de_EventType = r_EventType row,
      de_AggregateType = r_AggregateType row, de_AggregateID = r_AggregateID row,
      de_ChatID = (case r_ChatID row of None \<Rightarrow> '''' | Some c \<Rightarrow> c),
      de_OccurredAt = r_OccurredAt row, de_Version = r_Version row, de_Payload = r_Payload row\<rparr>"

definition row_key :: "OutboxRow \<Rightarrow> string" where
  "row_key row =
     (let ev = row_event row in if de_ChatID ev = '''' then de_AggregateID ev else de_ChatID ev)"

text \<open>The decoded \<^verbatim>\<open>data\<close>: an empty payload is an empty object, and \<^verbatim>\<open>null\<close> decodes to nil.\<close>

definition event_data :: "RawMessage \<Rightarrow> err + json option" where
  "event_data payload =
     (if raw_empty payload then Inr (Some (JObj []))
      else case Unmarshal payload of
          None \<Rightarrow> Inl (ErrText ''json: invalid'')
        | Some JNull \<Rightarrow> Inr None
        | Some v \<Rightarrow> Inr (Some v))"

definition publishLocal :: "string \<Rightarrow> RawMessage \<Rightarrow> ID \<Rightarrow> unit go" where
  "publishLocal eventType payload chatID =
     call (lift (event_data payload)) raise (\<lambda>data.
     DeliverEnvelopeBytes chatID (MarshalEnvelope eventType data (Some (JObj []))))"

definition publish_row :: "OutboxRelay \<Rightarrow> OutboxRow \<Rightarrow> RawMessage \<Rightarrow> unit go" where
  "publish_row r row b =
     (case (rl_UseKafka r, rl_Kafka r) of
        (True, ProducerRef p) \<Rightarrow> Publish p (row_key row) b
      | _ \<Rightarrow>
          (case (rl_Fallback r, r_ChatID row) of
             (True, Some c) \<Rightarrow> publishLocal (r_EventType row) (r_Payload row) c
           | _ \<Rightarrow> ret ()))"

text \<open>The body of the loop over the rows; both \<^verbatim>\<open>continue\<close> statements end it.\<close>

definition relay_row :: "OutboxRelay \<Rightarrow> OutboxRow \<Rightarrow> unit go" where
  "relay_row r row =
     call (lift (DomainEvent_Marshal (row_event row))) (\<lambda>_. ret ()) (\<lambda>b.
     call (publish_row r row b)
       (\<lambda>_. metric (\<lambda>m. m\<lparr>RelayPubFail := RelayPubFail m + 1\<rparr>))
       (\<lambda>_.
     call (metric (\<lambda>m. m\<lparr>RelayPubOK := RelayPubOK m + 1\<rparr>)) raise (\<lambda>_.
     ignore (MarkPublished (r_ID row)) (ret ()))))"

fun relay_rows :: "OutboxRelay \<Rightarrow> OutboxRow list \<Rightarrow> unit go" where
  "relay_rows r [] = ret ()"
| "relay_rows r (row # rows) = call (relay_row r row) raise (\<lambda>_. relay_rows r rows)"

definition relay_batch :: int where "relay_batch = 100"

definition tick :: "OutboxRelay \<Rightarrow> unit go" where
  "tick r =
     call (metric (\<lambda>m. m\<lparr>RelayIter := RelayIter m + 1\<rparr>)) raise (\<lambda>_.
     call (FetchPending relay_batch) (\<lambda>_. ret ()) (relay_rows r))"

text \<open>The ticker loop of \<^verbatim>\<open>Run\<close>, as the number of ticks before its context ends.\<close>

fun relay_Run :: "nat \<Rightarrow> OutboxRelay \<Rightarrow> unit go" where
  "relay_Run 0 r = ret ()"
| "relay_Run (Suc n) r = call (tick r) raise (\<lambda>_. relay_Run n r)"

section \<open>Consumer\<close>

text \<open>
  \<^verbatim>\<open>FanoutKafkaDomainEvent\<close>.  The error of the delivery is bound by the \<^verbatim>\<open>if\<close> statement only; the
  \<^verbatim>\<open>err\<close> returned after it is the one of \<^verbatim>\<open>MarshalEnvelope\<close>, which is nil there.
\<close>

definition FanoutKafkaDomainEvent :: "RawMessage \<Rightarrow> unit go" where
  "FanoutKafkaDomainEvent raw =
     call (lift (DomainEvent_Unmarshal raw)) raise (\<lambda>ev.
     if de_ChatID ev = '''' then ret ()
     else
     call (lift (event_data (de_Payload ev))) raise (\<lambda>data.
     ignore (DeliverEnvelopeBytes (de_ChatID ev)
               (MarshalEnvelope (de_EventType ev) data (Some (JObj []))))
       (ret ())))"

text \<open>One message of the consumer loop: what was read is counted as handled or failed.\<close>

definition consume :: "RawMessage \<Rightarrow> unit go" where
  "consume raw =
     call (FanoutKafkaDomainEvent raw)
       (\<lambda>_. metric (\<lambda>m. m\<lparr>KafkaFail := KafkaFail m + 1\<rparr>))
       (\<lambda>_. metric (\<lambda>m. m\<lparr>KafkaHandled := KafkaHandled m + 1\<rparr>))"

text \<open>
  The loop, given what \<^verbatim>\<open>ReadMessage\<close> yields until the context is cancelled, whose error \<^verbatim>\<open>Run\<close> then returns; after
  another error of the reader it pauses for 300 ms.
\<close>

record KafkaWSConsumer =
  kw_Brokers :: "string list"
  kw_Topic :: string
  kw_GroupID :: string
  kw_BC :: bool

definition sleep :: "int \<Rightarrow> unit go" where
  "sleep d w = (Inr (), w\<lparr>clock := clock w + d\<rparr>)"

definition context_Canceled :: err where "context_Canceled = ErrText ''context canceled''"

fun consume_loop :: "(err + RawMessage) list \<Rightarrow> unit go" where
  "consume_loop [] = raise context_Canceled"
| "consume_loop (Inl _ # rest) = call (sleep 300000000) raise (\<lambda>_. consume_loop rest)"
| "consume_loop (Inr raw # rest) = call (consume raw) raise (\<lambda>_. consume_loop rest)"

definition consumer_Run :: "KafkaWSConsumer option \<Rightarrow> (err + RawMessage) list \<Rightarrow> unit go" where
  "consumer_Run co msgs =
     (case co of
        None \<Rightarrow> ret ()
      | Some c \<Rightarrow> if length (kw_Brokers c) = 0 \<or> kw_Topic c = '''' \<or> \<not> kw_BC c then ret () else consume_loop msgs)"

end
