(* ===== verification/Guarantee.thy ===== *)
theory Guarantee
  imports Evolution MessageService ChatService Relay
begin

text \<open>
  Every operation of the services, the relay and the Kafka consumer keeps \<open>domain_ok\<close> and changes
  the store within \<open>later\<close>, provided the other clients of the store do: the operations satisfy
  what they rely on.
\<close>

section \<open>Repository methods\<close>

lemma keeps_reads [go_keep]:
  "keeps (sound s0) (Message_GetByID i)" "keeps (sound s0) (GetChatMessages c opts)"
  "keeps (sound s0) (CountUnreadAfter c after)" "keeps (sound s0) (FetchPending n)"
  "keeps (sound s0) (Chat_GetByID i)" "keeps (sound s0) (GetDirectByKey key)"
  "keeps (sound s0) (GetUserChats u page)" "keeps (sound s0) (ListUserChatsSummary u page)"
  "keeps (sound s0) (FindMembership c u)" "keeps (sound s0) (GetChatMembers c)"
  "keeps (sound s0) (User_GetByID i)" "keeps (sound s0) (User_GetByEmail email)"
  "keeps (sound s0) (User_GetByNickname nick)" "keeps (sound s0) (User_Search query page)"
  unfolding Message_GetByID_def GetChatMessages_def CountUnreadAfter_def FetchPending_def
    Chat_GetByID_def GetDirectByKey_def GetUserChats_def ListUserChatsSummary_def FindMembership_def
    GetChatMembers_def User_GetByID_def User_GetByEmail_def User_GetByNickname_def User_Search_def
    Let_def
  by (intro go_keep keeps_read reads_only_with_uuid reads_only_with_uuid_opt;
      simp add: reads_only_def)+

lemma keeps_CreateChat [go_keep]: "keeps (sound s0) (CreateChat c)"
  unfolding CreateChat_def
  by (intro evo.keeps_roundtrip with_uuid_opt_keeps stmt_keepsI insert_chat_row_keeps)
    (simp_all add: new_chat_row_def)

lemma keeps_AddMembers:
  assumes "\<And>a. a \<in> set as \<Longrightarrow> acm_Role a = ChatMemberRoleMember"
  shows "keeps (sound s0) (AddMembers chatID as)"
  unfolding AddMembers_def
  using assms by (intro go_keep evo.keeps_roundtrip insert_members_stmt_keeps) auto

lemma keeps_RemoveMember [go_keep]: "keeps (sound s0) (RemoveMember chatID userID)"
  unfolding RemoveMember_def
proof (intro go_keep evo.keeps_roundtrip with_uuid_keeps stmt_keepsI)
  fix c u :: ID and s
  assume s: "domain_ok s"
  let ?ms = "filter (\<lambda>m. member_key m \<noteq> (c, u)) (chat_members s)"
  have "distinct (map member_key ?ms)"
    using s by (simp add: domain_ok_def tables_defs distinct_map_filter)
  with s show "domain_ok (snd (Inr (length (filter (\<lambda>m. member_key m = (c, u)) (chat_members s))),
        s\<lparr>chat_members := ?ms\<rparr>)) \<and>
      later s (snd (Inr (length (filter (\<lambda>m. member_key m = (c, u)) (chat_members s))),
        s\<lparr>chat_members := ?ms\<rparr>))"
    using domain_ok_members [of s ?ms] by simp
qed

text \<open>Creating a group: the owner's row is right because the chat row names the creator.\<close>

lemma insert_chat_learn:
  assumes "tx_stmt t0 (with_uuid creator (\<lambda>cb now uid.
      insert_chat_row (new_chat_row ChatTypeGroup (Some title) avatarURL (Some cb) None now uid))) w
    = (Inr c, w')"
  shows "c \<in> set (chats (store w')) \<and> c_Type c = ChatTypeGroup
    \<and> (\<exists>cb. uuid_in creator = Some cb \<and> c_CreatedBy c = Some cb)"
  using assms
  by (auto elim!: tx_stmt_Inr_cases simp: with_uuid_Inr insert_chat_row_def new_chat_row_def
      split: if_splits)

lemma insert_owner_keeps:
  assumes s: "domain_ok s" and c: "c \<in> set (chats s1)" "c_Type c = ChatTypeGroup"
    "c_CreatedBy c = Some u" and "later s1 s"
  shows "domain_ok (snd (insert_member_row (new_member_row (c_ID c) u ChatMemberRoleOwner now) s))
    \<and> later s (snd (insert_member_row (new_member_row (c_ID c) u ChatMemberRoleOwner now) s))"
proof -
  let ?x = "new_member_row (c_ID c) u ChatMemberRoleOwner now"
  obtain d where "d \<in> set (chats s)" "chat_step c d"
    using c assms(5) by (auto simp: later_def grows_def)
  then have "role_ok s ?x"
    using c by (auto simp: role_ok_def new_member_row_def chat_step_def list_ex_iff)
  then have "member_new s ?x" if "member_fk s ?x"
    using that by (simp add: member_new_def new_member_row_def)
  moreover have "distinct (map member_key (chat_members s))"
    using s by (simp add: domain_ok_def tables_defs)
  ultimately show ?thesis
    using s domain_ok_members [of s "chat_members s @ [?x]"]
    by (auto simp: insert_member_row_def)
qed

lemma keeps_CreateGroupWithMembers [go_keep]:
  "keeps (sound s0) (CreateGroupWithMembers title avatarURL creator others)"
  unfolding CreateGroupWithMembers_def
proof (rule evo.keeps_transaction_stepwise, goal_cases)
  case (1 t w)
  then show ?case by (auto simp: group_body_def call_eq Let_def split: sum.split)
next
  case (2 t0 s)
  let ?toAdd = "map (\<lambda>u. \<lparr>acm_UserID = u, acm_Role = ChatMemberRoleMember\<rparr>) (dedup_ids [creator] others)"
  have "stmt_keeps domain_ok later (insert_members_stmt i ?toAdd)" for i
    by (rule insert_members_stmt_keeps) auto
  then have add: "keeps (sound s1) (tx_stmt t0 (insert_members_stmt i ?toAdd))" for s1 i
    by (intro evo.keeps_tx_stmt) (simp add: stmt_keeps_def)
  have chat: "keeps (sound s1) (tx_stmt t0 (with_uuid creator (\<lambda>cb now uid.
      insert_chat_row (new_chat_row ChatTypeGroup (Some title) avatarURL (Some cb) None now uid))))" for s1
    by (rule evo.keeps_tx_stmt) (auto simp: with_uuid_def new_chat_row_def insert_chat_row_keeps
        split: option.split)
  show ?case
    unfolding group_body_def
  proof (rule evo.keeps_call_learn [where K = "\<lambda>c s1. c \<in> set (chats s1) \<and> c_Type c = ChatTypeGroup
      \<and> (\<exists>cb. uuid_in creator = Some cb \<and> c_CreatedBy c = Some cb)", OF chat keeps_raise
        insert_chat_learn], assumption)
    fix c s1
    assume s1: "domain_ok s1" and c: "c \<in> set (chats s1) \<and> c_Type c = ChatTypeGroup
      \<and> (\<exists>cb. uuid_in creator = Some cb \<and> c_CreatedBy c = Some cb)"
    then have "canonical (c_ID c)" by (auto simp: domain_ok_def dest: tables_okD(7))
    then have "keeps (sound s1) (tx_stmt t0 (with_uuid (c_ID c) (\<lambda>cid. with_uuid creator (\<lambda>u now _.
        insert_member_row (new_member_row cid u ChatMemberRoleOwner now)))))"
      using c by (intro evo.keeps_tx_stmt) (auto simp: with_uuid_def insert_owner_keeps)
    then show "keeps (sound s1) (call (tx_stmt t0 (with_uuid (c_ID c) (\<lambda>cid. with_uuid creator (\<lambda>u now _.
        insert_member_row (new_member_row cid u ChatMemberRoleOwner now))))) raise
      (\<lambda>_. let toAdd = dedup_ids [creator] others
           in if toAdd \<noteq> [] then call (tx_stmt t0 (insert_members_stmt (c_ID c)
                  (map (\<lambda>u. \<lparr>acm_UserID = u, acm_Role = ChatMemberRoleMember\<rparr>) toAdd)))
                raise (\<lambda>_. ret c)
              else ret c))"
      unfolding Let_def by (intro go_keep add)
  qed
qed

text \<open>Users, the outbox mark and the two brokers.\<close>

lemma domain_ok_users:
  assumes "domain_ok s" and "users_ok (s\<lparr>users := us\<rparr>)" and "set (user_ids s) \<subseteq> set (map u_ID us)"
  shows "domain_ok (s\<lparr>users := us\<rparr>) \<and> later s (s\<lparr>users := us\<rparr>)"
proof -
  let ?s = "s\<lparr>users := us\<rparr>"
  have ids: "chat_ids ?s = chat_ids s" "user_ids ?s = map u_ID us" "message_ids ?s = message_ids s"
    "live_direct_keys ?s = live_direct_keys s"
    by (simp_all add: chat_ids_def user_ids_def message_ids_def live_direct_keys_def)
  have "opt_ok (\<lambda>i. i \<in> set (map u_ID us)) v" if "opt_ok (\<lambda>i. i \<in> set (user_ids s)) v" for v
    using that by (rule opt_ok_mono) (use assms(3) in blast)
  then have "chats_ok ?s" "members_ok ?s" "messages_ok ?s" "sessions_ok ?s"
    using assms(1,3)
    by (auto simp: domain_ok_def tables_ok_def chats_ok_def members_ok_def messages_ok_def
        sessions_ok_def member_fk_def message_fk_def ids)
  moreover have "grows (\<lambda>u v. u_ID v = u_ID u) (users s) us"
    using assms(3) by (fastforce simp: grows_def user_ids_def)
  ultimately show ?thesis
    using assms(1,2)
    by (simp add: domain_ok_def tables_ok_def outbox_ok_def links_ok_def outbox_complete_def later_def
        grows_refl)
qed

lemma keeps_User_Create [go_keep]: "keeps (sound s0) (User_Create u)"
  unfolding User_Create_def
proof (rule evo.keeps_roundtrip, rule stmt_keepsI)
  fix now uid s
  assume uid: "canonical uid" and s: "domain_ok s"
  let ?u = "u\<lparr>u_ID := uid, u_CreatedAt := now, u_UpdatedAt := now, u_LastSeenAt := None, u_IsActive := True\<rparr>"
  have "users_ok (s\<lparr>users := users s @ [?u]\<rparr>)"
    if "uid \<notin> set (user_ids s)" "ascii_lower (u_Email u) \<notin> (ascii_lower \<circ> u_Email) ` set (users s)"
    using that s uid by (auto simp: domain_ok_def tables_ok_def users_ok_def user_ids_def)
  then show "domain_ok (snd (insert_user_row ?u s)) \<and> later s (snd (insert_user_row ?u s))"
    using s domain_ok_users [of s "users s @ [?u]"]
    by (auto simp: insert_user_row_def user_ids_def)
qed

lemma keeps_UpdateProfile [go_keep]: "keeps (sound s0) (UpdateProfile p)"
  unfolding UpdateProfile_def
proof (intro go_keep evo.keeps_roundtrip with_uuid_keeps stmt_keepsI, goal_cases)
  case (1 i now uid s)
  let ?f = "\<lambda>u. if u_ID u = i then apply_profile p now u else u"
  have key: "u_ID (?f u) = u_ID u" "u_Email (?f u) = u_Email u"
    "u_ID (apply_profile p now u) = u_ID u" for u
    by (simp_all add: apply_profile_def)
  have "users_ok (s\<lparr>users := map ?f (users s)\<rparr>)"
    using 1(3) by (auto simp: key comp_def domain_ok_def tables_ok_def users_ok_def user_ids_def)
  then have "domain_ok (s\<lparr>users := map ?f (users s)\<rparr>) \<and> later s (s\<lparr>users := map ?f (users s)\<rparr>)"
    using 1(3) by (intro domain_ok_users) (auto simp: key comp_def user_ids_def image_iff)
  with 1(3) show ?case by (simp add: Let_def)
qed

lemma mark_stmt_keeps: "stmt_keeps domain_ok later (mark_stmt i)"
proof (rule stmt_keepsI)
  fix now uid s
  assume s: "domain_ok s"
  let ?s = "s\<lparr>outbox_events := map (set_published i now) (outbox_events s)\<rparr>"
  have keys: "r_ID (set_published i now r) = r_ID r" "r_EventID (set_published i now r) = r_EventID r"
    "r_EventType (set_published i now r) = r_EventType r" "r_ChatID (set_published i now r) = r_ChatID r"
    "r_AggregateID (set_published i now r) = r_AggregateID r" for r
    by (simp_all add: set_published_def)
  have ids: "chat_ids ?s = chat_ids s" "user_ids ?s = user_ids s" "message_ids ?s = message_ids s"
    "live_direct_keys ?s = live_direct_keys s"
    by (simp_all add: chat_ids_def user_ids_def message_ids_def live_direct_keys_def)
  have "events ty (map (set_published i now) rs) = events ty rs" for ty rs
    by (induction rs) (simp_all add: events_def keys)
  then have "domain_ok ?s"
    using s
    by (simp add: domain_ok_def tables_defs ids keys member_fk_def message_fk_def comp_def links_ok_def
        outbox_complete_def)
  moreover have "later s ?s" by (simp add: later_def grows_refl grows_map)
  ultimately show "domain_ok (snd (mark_stmt i now uid s)) \<and> later s (snd (mark_stmt i now uid s))"
    by (simp add: mark_stmt_def)
qed

lemma keeps_MarkPublished [go_keep]: "keeps (sound s0) (MarkPublished i)"
  unfolding MarkPublished_def by (intro go_keep evo.keeps_roundtrip mark_stmt_keeps)

lemma domain_ok_brokers [simp]:
  "domain_ok (s\<lparr>kafka_log := k\<rparr>) = domain_ok s" "domain_ok (s\<lparr>redis_published := p\<rparr>) = domain_ok s"
  by (simp_all add: domain_ok_def tables_defs links_ok_def outbox_complete_def member_fk_def
      message_fk_def chat_ids_def user_ids_def message_ids_def live_direct_keys_def)

lemma keeps_Publish [go_keep]: "keeps (sound s0) (Publish p key value)"
  unfolding Publish_def
  by (intro go_keep evo.keeps_roundtrip stmt_keepsI) (simp add: later_def grows_refl)

lemma keeps_PublishChatEvent [go_keep]: "keeps (sound s0) (PublishChatEvent c payload)"
  unfolding PublishChatEvent_def
  by (intro go_keep evo.keeps_roundtrip stmt_keepsI) (simp add: later_def grows_refl)

section \<open>Message service\<close>

lemma Message_GetByID_Inr:
  assumes "Message_GetByID i w = (Inr m, w')"
  obtains mid where "uuid_in i = Some mid" "message_row (store w') mid = Some m"
  using assms
  by (auto simp: Message_GetByID_def with_uuid_Inr one_row_def elim!: call_cases roundtrip_Inr_cases
      split: option.splits)

lemma domain_message:
  assumes "domain_ok s" and "m \<in> set (messages s)"
  shows "uuid_in (m_ChatID m) = Some (m_ChatID m)" "uuid_in (m_ID m) = Some (m_ID m)"
    "in_chat s (m_ChatID m) (m_ID m)"
proof -
  have "message_fk s m" "canonical (m_ID m)"
    using assms by (auto simp: domain_ok_def dest: tables_okD)
  then have "m_ChatID m \<in> set (chat_ids s)" by (simp add: message_fk_def)
  then have "canonical (m_ChatID m)"
    using assms(1) by (auto simp: domain_ok_def tables_defs chat_ids_def)
  then show "uuid_in (m_ChatID m) = Some (m_ChatID m)" by simp
  show "uuid_in (m_ID m) = Some (m_ID m)" using \<open>canonical (m_ID m)\<close> by simp
  show "in_chat s (m_ChatID m) (m_ID m)" using assms(2) by (auto simp: in_chat_def)
qed

lemma GetByID_learn:
  "Message_GetByID i w = (Inr m, w') \<Longrightarrow> m \<in> set (messages (store w'))"
  by (auto elim!: Message_GetByID_Inr dest: message_row_Some)

lemma keeps_notFoundOr [go_keep]: "keeps P (notFoundOr nf other e)"
  unfolding notFoundOr_def by (intro go_keep)

lemma keeps_requireChatMember [go_keep]: "keeps (sound s0) (requireChatMember c u)"
  unfolding requireChatMember_def by (intro go_keep)

lemma keeps_outboxFor [go_keep]:
  "keeps (sound s0) (outboxForMessageCreated m)" "keeps (sound s0) (outboxForMessageUpdated m text)"
  "keeps (sound s0) (outboxForMessageDeleted m)" "keeps (sound s0) (outboxForReadReceipt c u i)"
  unfolding outboxForMessageCreated_def outboxForMessageUpdated_def outboxForMessageDeleted_def
    outboxForReadReceipt_def newOutboxEventID_def Let_def
  by (intro go_keep)+

lemma outboxFor_learn:
  "outboxForMessageCreated m w = (Inr ob, w') \<Longrightarrow>
     ob_EventType ob = EventMessageCreated \<and> ob_ChatID ob = Some (m_ChatID m) \<and> ob_Payload ob = RawNil"
  "outboxForMessageUpdated m text w = (Inr ob, w') \<Longrightarrow>
     ob_EventType ob = EventMessageUpdated \<and> ob_ChatID ob = Some (m_ChatID m) \<and> ob_Payload ob = RawNil"
  "outboxForMessageDeleted m w = (Inr ob, w') \<Longrightarrow>
     ob_EventType ob = EventMessageDeleted \<and> ob_ChatID ob = Some (m_ChatID m)
     \<and> ob_AggregateID ob = m_ID m"
  "outboxForReadReceipt c u i w = (Inr ob, w') \<Longrightarrow>
     ob_EventType ob = EventMessageReadReceipt \<and> ob_ChatID ob = Some c"
  by (auto simp: outboxForMessageCreated_def outboxForMessageUpdated_def outboxForMessageDeleted_def
      outboxForReadReceipt_def newOutboxEventID_def uuid_NewString_def Let_def elim!: call_cases)

lemma keeps_resolveReply [go_keep]: "keeps (sound s0) (resolveReply cid r)"
  unfolding resolveReply_def Let_def by (intro go_keep)

lemma resolveReply_learn:
  assumes w: "sound s0 w" and res: "resolveReply cid replyTo w = (Inr reply, w')"
  shows "opt_ok (reply_in cid (store w')) reply"
proof (cases reply)
  case (Some q)
  with res obtain rm w1 where get: "Message_GetByID q w = (Inr rm, w1)"
    and rest: "m_ChatID rm = cid" "w' = w1"
    by (auto simp: resolveReply_def notFoundOr_def Let_def elim!: call_cases
        split: option.splits if_splits)
  from get obtain mid where mid: "uuid_in q = Some mid" "message_row (store w1) mid = Some rm"
    by (rule Message_GetByID_Inr)
  have "domain_ok (store w1)"
    using keepsD [OF keeps_reads(1) w, of q] get by (simp add: holds_def)
  from domain_message [OF this] mid rest show ?thesis
    using Some message_row_Some [OF mid(2)] by (auto simp: reply_in_def)
qed simp

lemma keeps_create_tail:
  assumes "opt_ok (reply_in (m_ChatID m) s0) (m_ReplyToID m)"
  shows "keeps (sound s0) (call (outboxForMessageCreated m) raise (\<lambda>ob.
    call (CreateMessageWithOutbox m ob) (notFoundOr nf other) (\<lambda>out.
    call (metric f) raise (\<lambda>_. ret (g out)))))"
proof (rule evo.keeps_call_learn [where K = "\<lambda>ob _. ob_EventType ob = EventMessageCreated
    \<and> ob_ChatID ob = Some (m_ChatID m)"])
  fix ob :: OutboxEnqueue and s1
  assume s1: "later s0 s1" and ob: "ob_EventType ob = EventMessageCreated \<and> ob_ChatID ob = Some (m_ChatID m)"
  have "opt_ok (reply_in (m_ChatID m) s1) (m_ReplyToID m)"
    using assms by (rule opt_ok_mono) (use s1 in_chat_later in \<open>auto simp: reply_in_def\<close>)
  then have "keeps (sound s1) (CreateMessageWithOutbox m ob)"
    using ob by (intro keeps_CreateMessageWithOutbox) simp_all
  then show "keeps (sound s1) (call (CreateMessageWithOutbox m ob) (notFoundOr nf other) (\<lambda>out.
      call (metric f) raise (\<lambda>_. ret (g out))))"
    by (intro go_keep)
qed (auto intro!: go_keep dest: outboxFor_learn(1))

lemma keeps_MessageService_Create [go_keep]:
  "keeps (sound s0) (MessageService_Create svc actor chatIDRaw req)"
  unfolding MessageService_Create_def Let_def
proof (intro keeps_if keeps_raise keeps_call [OF keeps_lift] keeps_call [OF keeps_requireChatMember],
    goal_cases)
  case (1 cid)
  show ?case
  proof (rule evo.keeps_call_learn [where K = "\<lambda>reply s. opt_ok (reply_in cid s) reply"])
    fix reply s1
    assume "opt_ok (reply_in cid s1) reply"
    then have "opt_ok (reply_in (m_ChatID (draft cid actor (TrimSpace (cmr_Text req)) reply)) s1)
        (m_ReplyToID (draft cid actor (TrimSpace (cmr_Text req)) reply))"
      by (simp add: draft_def)
    from keeps_create_tail [OF this]
    show "keeps (sound s1) (call (lift (validateMessageTypeForMVP
          (m_Type (draft cid actor (TrimSpace (cmr_Text req)) reply)))) raise (\<lambda>_.
        call (outboxForMessageCreated (draft cid actor (TrimSpace (cmr_Text req)) reply)) raise (\<lambda>ob.
        call (CreateMessageWithOutbox (draft cid actor (TrimSpace (cmr_Text req)) reply) ob)
          (notFoundOr ''chat not found'' ''create message'') (\<lambda>out.
        call (metric (\<lambda>c. c\<lparr>MessagesCreate := MessagesCreate c + 1\<rparr>)) raise (\<lambda>_.
        ret (toMessageDTO out))))))"
      by (intro keeps_call [OF keeps_lift] keeps_raise)
  qed (auto intro!: go_keep dest: resolveReply_learn)
qed

lemma keeps_ListByChat [go_keep]: "keeps (sound s0) (ListByChat tp actor chatIDRaw limit beforeRaw)"
  unfolding ListByChat_def Let_def case_prod_beta by (intro go_keep)

lemma keeps_MessageService_Get [go_keep]: "keeps (sound s0) (MessageService_Get actor raw)"
  unfolding MessageService_Get_def by (intro go_keep)

text \<open>The steps before a writer is called; none of them applies to the outbox request.\<close>

lemmas keeps_steps =
  keeps_if keeps_raise keeps_notFoundOr keeps_call [OF keeps_lift] keeps_call [OF keeps_requireChatMember]

lemma keeps_update_tail:
  assumes "\<And>x s1. keeps (sound s1) (k x)"
  shows "keeps (sound s0) (call (outboxForMessageUpdated m text) raise (\<lambda>ob.
     call (UpdateMessageTextWithOutbox (m_ChatID m) i text ob) (notFoundOr nf other) k))"
proof (rule evo.keeps_call_learn [where K = "\<lambda>ob _. ob_EventType ob = EventMessageUpdated
    \<and> ob_ChatID ob = Some (m_ChatID m)"])
  fix ob :: OutboxEnqueue and s1
  assume "ob_EventType ob = EventMessageUpdated \<and> ob_ChatID ob = Some (m_ChatID m)"
  then show "keeps (sound s1) (call (UpdateMessageTextWithOutbox (m_ChatID m) i text ob)
      (notFoundOr nf other) k)"
    using assms by (intro keeps_call keeps_notFoundOr keeps_UpdateMessageTextWithOutbox) simp_all
qed (auto intro!: go_keep dest: outboxFor_learn(2))

lemma keeps_MessageService_Patch [go_keep]: "keeps (sound s0) (MessageService_Patch svc actor raw req)"
  unfolding MessageService_Patch_def Let_def
  by (intro keeps_steps keeps_call [OF keeps_reads(1)] keeps_update_tail) (intro go_keep)

lemma keeps_delete_tail:
  assumes "domain_ok s0" and "m \<in> set (messages s0)" and "\<And>x s1. keeps (sound s1) (k x)"
  shows "keeps (sound s0) (call (outboxForMessageDeleted m) raise (\<lambda>ob.
     call (SoftDeleteMessageWithOutbox (m_ChatID m) (m_ID m) ob) (notFoundOr nf other) k))"
proof (rule evo.keeps_call_learn [where K = "\<lambda>ob _. ob_EventType ob = EventMessageDeleted
    \<and> ob_ChatID ob = Some (m_ChatID m) \<and> ob_AggregateID ob = m_ID m"])
  fix ob :: OutboxEnqueue and s1
  assume "ob_EventType ob = EventMessageDeleted \<and> ob_ChatID ob = Some (m_ChatID m) \<and> ob_AggregateID ob = m_ID m"
  then show "keeps (sound s1) (call (SoftDeleteMessageWithOutbox (m_ChatID m) (m_ID m) ob)
      (notFoundOr nf other) k)"
    using domain_message [OF assms(1,2)] assms(3)
    by (intro keeps_call keeps_notFoundOr keeps_SoftDeleteMessageWithOutbox) simp_all
qed (auto intro!: go_keep dest: outboxFor_learn(3))

lemma keeps_read_tail:
  assumes "domain_ok s0" and "m \<in> set (messages s0)" and "\<And>x s1. keeps (sound s1) (k x)"
  shows "keeps (sound s0) (call (outboxForReadReceipt (m_ChatID m) u (m_ID m)) raise (\<lambda>ob.
     call (UpdateMemberReadWithOutbox (m_ChatID m) u (m_ID m) ob) (notFoundOr nf other) k))"
proof (rule evo.keeps_call_learn [where K = "\<lambda>ob _. ob_EventType ob = EventMessageReadReceipt
    \<and> ob_ChatID ob = Some (m_ChatID m)"])
  fix ob :: OutboxEnqueue and s1
  assume "later s0 s1" and "ob_EventType ob = EventMessageReadReceipt \<and> ob_ChatID ob = Some (m_ChatID m)"
  then show "keeps (sound s1) (call (UpdateMemberReadWithOutbox (m_ChatID m) u (m_ID m) ob)
      (notFoundOr nf other) k)"
    using domain_message [OF assms(1,2)] in_chat_later [of s0 "m_ChatID m" "m_ID m" s1] assms(3)
    by (intro keeps_call keeps_notFoundOr keeps_UpdateMemberReadWithOutbox) auto
qed (auto intro!: go_keep dest: outboxFor_learn(4))

text \<open>A call that has loaded a message goes on with a store that holds it.\<close>

lemmas keeps_load_message =
  evo.keeps_call_learn [where K = "\<lambda>m s. m \<in> set (messages s)" and m = "Message_GetByID i" for i,
    OF keeps_reads(1) keeps_notFoundOr GetByID_learn]

lemma keeps_MessageService_Delete [go_keep]: "keeps (sound s0) (MessageService_Delete svc actor raw)"
  unfolding MessageService_Delete_def Let_def
  by (intro keeps_steps keeps_load_message keeps_delete_tail keeps_metric)

lemma keeps_MessageService_MarkRead [go_keep]: "keeps (sound s0) (MessageService_MarkRead svc actor raw)"
  unfolding MessageService_MarkRead_def Let_def
  by (intro keeps_steps keeps_load_message keeps_read_tail) (assumption | intro go_keep)+

section \<open>Chat service\<close>

lemma keeps_chat_helpers [go_keep]:
  "keeps P (loadErr nf other e)" "keeps (sound s0) (requireMember c u)"
  "keeps (sound s0) (requireMemberShip c u)"
  unfolding loadErr_def requireMember_def requireMemberShip_def by (intro go_keep)+

lemma keeps_direct_members [go_keep]: "keeps (sound s0) (AddMembers c (direct_members a b))"
  by (rule keeps_AddMembers) (auto simp: direct_members_def)

lemma keeps_direct_attempts [go_keep]: "keeps (sound s0) (direct_attempts n actor peer key)"
  by (induction n) (simp_all, intro go_keep)

lemma keeps_CreateDirect [go_keep]: "keeps (sound s0) (CreateDirect sha256 actor req)"
  unfolding CreateDirect_def Let_def by (intro go_keep)

lemma keeps_group_members [go_keep]: "keeps (sound s0) (group_members actor seen raws)"
  by (induction actor seen raws rule: group_members.induct) (auto simp: Let_def intro!: go_keep)

lemma keeps_CreateGroup [go_keep]: "keeps (sound s0) (CreateGroup actor req)"
  unfolding CreateGroup_def Let_def by (intro go_keep)

lemma keeps_chat_reads [go_keep]:
  "keeps (sound s0) (ListMine actor limit offset)" "keeps (sound s0) (ChatService_Get actor c)"
  "keeps (sound s0) (Members actor c)"
  unfolding ListMine_def ChatService_Get_def Members_def Let_def by (intro go_keep)+

lemma keeps_added_members [go_keep]: "keeps (sound s0) (added_members seen raws)"
  by (induction seen raws rule: added_members.induct) (auto simp: Let_def intro!: go_keep)

lemma added_members_role:
  "added_members seen raws w = (Inr adds, w') \<Longrightarrow> a \<in> set adds \<Longrightarrow> acm_Role a = ChatMemberRoleMember"
  by (induction seen raws arbitrary: w adds w' rule: added_members.induct)
    (auto simp: Let_def loadErr_def elim!: call_cases split: if_splits)

lemma keeps_ChatService_AddMembers [go_keep]:
  "keeps (sound s0) (ChatService_AddMembers actor chatID req)"
  unfolding ChatService_AddMembers_def
proof (intro keeps_if keeps_raise keeps_call [OF keeps_lift] keeps_call [OF keeps_reads(5)]
    keeps_call [OF keeps_chat_helpers(3)] keeps_chat_helpers(1), goal_cases)
  case (1 cid c mem)
  show ?case
  proof (rule evo.keeps_call_learn [where K = "\<lambda>adds _. \<forall>a \<in> set adds. acm_Role a = ChatMemberRoleMember"])
    fix adds :: "AddChatMember list" and s1
    assume "\<forall>a \<in> set adds. acm_Role a = ChatMemberRoleMember"
    then have "keeps (sound s1) (AddMembers cid adds)" by (intro keeps_AddMembers) simp
    then show "keeps (sound s1) (if length adds = 0 then raise (Validation ''user_ids is required'' None)
      else call (AddMembers cid adds) (\<lambda>e. raise (Internal ''add members'' (Some e)))
             (\<lambda>_. Members actor chatID))"
      by (intro go_keep)
  qed (auto intro!: go_keep dest: added_members_role)
qed

lemma keeps_ChatService_RemoveMember [go_keep]:
  "keeps (sound s0) (ChatService_RemoveMember actor chatID target)"
  unfolding ChatService_RemoveMember_def by (intro go_keep)

section \<open>Fan-out, relay and consumer\<close>

lemma keeps_send_to_members [go_keep]: "keeps (sound s0) (send_to_members ms payload)"
  by (simp add: keeps_def send_to_members_def)

lemma keeps_deliver [go_keep]:
  "keeps (sound s0) (deliverPayload c payload)" "keeps (sound s0) (DeliverEnvelopeBytes c payload)"
  "keeps (sound s0) (PublishToChat b c event data meta)" "keeps (sound s0) (redis_relay_message ch payload)"
  unfolding DeliverEnvelopeBytes_def PublishToChat_def redis_relay_message_def deliverPayload_def Let_def
  by (intro go_keep)+

lemma keeps_relay_row [go_keep]: "keeps (sound s0) (relay_row r row)"
  unfolding relay_row_def publish_row_def publishLocal_def
  by (intro go_keep; simp split: KafkaPublisher.split bool.split option.split; intro conjI allI impI go_keep)

lemma keeps_relay_rows [go_keep]: "keeps (sound s0) (relay_rows r rows)"
  by (induction rows) (auto intro!: go_keep)

lemma keeps_tick [go_keep]: "keeps (sound s0) (tick r)"
  unfolding tick_def by (intro go_keep)

lemma keeps_relay_Run [go_keep]: "keeps (sound s0) (relay_Run n r)"
  by (induction n) (auto intro!: go_keep)

lemma keeps_consume [go_keep]: "keeps (sound s0) (consume raw)"
  unfolding consume_def FanoutKafkaDomainEvent_def by (intro go_keep)

lemma keeps_sleep [go_keep]: "keeps (sound s0) (sleep d)"
  by (simp add: keeps_def sleep_def holds_def)

lemma keeps_consume_loop [go_keep]: "keeps (sound s0) (consume_loop msgs)"
proof (induction msgs rule: consume_loop.induct)
  case (2 e rest)
  then show ?case unfolding consume_loop.simps by (intro go_keep)
next
  case (3 raw rest)
  then show ?case unfolding consume_loop.simps by (intro go_keep)
qed (simp add: go_keep)

lemma keeps_consumer_Run [go_keep]: "keeps (sound s0) (consumer_Run co msgs)"
  unfolding consumer_Run_def by (intro go_keep)

end
