(* ===== verification/SessionRepo.thy ===== *)
theory SessionRepo
  imports MessageRepo GoText
begin

text \<open>
  The refresh sessions on PostgreSQL (\<^verbatim>\<open>backend/internal/repository/postgres/session_repository.go\<close>).
  A session is found by the hash of its token while it is neither revoked nor expired.
\<close>

text \<open>A \<^verbatim>\<open>text\<close> parameter that comes from a request header may be any byte sequence; the server accepts UTF-8.\<close>

definition pg_header_text :: "string \<Rightarrow> bool" where
  "pg_header_text t = (pg_text t \<and> utf8_valid t)"

definition insert_session_row :: "RefreshSession \<Rightarrow> Store \<Rightarrow> (err + RefreshSession) \<times> Store" where
  "insert_session_row r s =
     (if \<not> pg_text (rs_TokenHash r) \<or> \<not> opt_ok pg_header_text (rs_UserAgent r)
         \<or> \<not> opt_ok pg_header_text (rs_IPAddress r) then (Inl bad_encoding, s)
      else if 128 < utf8_len (rs_TokenHash r) \<or> \<not> opt_ok (\<lambda>a. utf8_len a \<le> 45) (rs_IPAddress r)
           then (Inl string_truncation, s)
      else if rs_ID r \<in> set (map rs_ID (refresh_sessions s))
           \<or> rs_TokenHash r \<in> set (map rs_TokenHash (refresh_sessions s)) then (Inl unique_violation, s)
      else if rs_UserID r \<notin> set (user_ids s) then (Inl foreign_key_violation, s)
      else (Inr r, s\<lparr>refresh_sessions := refresh_sessions s @ [r]\<rparr>))"

definition insert_session_stmt :: "RefreshSession \<Rightarrow> RefreshSession stmt" where
  "insert_session_stmt sess =
     with_uuid (rs_UserID sess) (\<lambda>u now uid.
       insert_session_row (sess\<lparr>rs_ID := uid, rs_UserID := u,
         rs_ExpiresAt := pg_timestamptz (rs_ExpiresAt sess), rs_CreatedAt := now, rs_RevokedAt := None\<rparr>))"

text \<open>The struct passed in is overwritten with the stored row, which is returned here.\<close>

definition Session_Create :: "RefreshSession \<Rightarrow> RefreshSession go" where
  "Session_Create sess = roundtrip (insert_session_stmt sess)"

text \<open>\<^verbatim>\<open>token_hash = $1 AND revoked_at IS NULL AND expires_at > $2\<close>\<close>

definition live_session :: "string \<Rightarrow> time \<Rightarrow> RefreshSession \<Rightarrow> bool" where
  "live_session h t r = (rs_TokenHash r = h \<and> rs_RevokedAt r = None \<and> t < rs_ExpiresAt r)"

definition GetByTokenHash :: "string \<Rightarrow> RefreshSession go" where
  "GetByTokenHash tokenHash =
     call time_Now raise (\<lambda>now.
     call (roundtrip (\<lambda>_ _ s.
             one_row (find (live_session tokenHash (pg_timestamptz now)) (refresh_sessions s)) s))
       (\<lambda>e. raise (mapErr e)) ret)"

definition set_revoked :: "(RefreshSession \<Rightarrow> bool) \<Rightarrow> time \<Rightarrow> RefreshSession \<Rightarrow> RefreshSession" where
  "set_revoked P now r = (if P r then r\<lparr>rs_RevokedAt := Some now\<rparr> else r)"

definition Revoke :: "ID \<Rightarrow> unit go" where
  "Revoke i =
     call (roundtrip (with_uuid i (\<lambda>j now _ s.
             let P = (\<lambda>r. rs_ID r = j \<and> rs_RevokedAt r = None)
             in (Inr (length (filter P (refresh_sessions s))),
                 s\<lparr>refresh_sessions := map (set_revoked P now) (refresh_sessions s)\<rparr>))))
       raise (\<lambda>affected. if affected = 0 then raise ErrNotFound else ret ())"

definition RevokeAllByUser :: "ID \<Rightarrow> unit go" where
  "RevokeAllByUser userID =
     roundtrip (with_uuid userID (\<lambda>u now _ s.
       (Inr (), s\<lparr>refresh_sessions :=
          map (set_revoked (\<lambda>r. rs_UserID r = u \<and> rs_RevokedAt r = None) now) (refresh_sessions s)\<rparr>)))"

text \<open>
  The rotation: the old row is locked, revoked by its id, and the new one inserted, in one
  transaction.
\<close>

definition rotate_body :: "string \<Rightarrow> RefreshSession \<Rightarrow> time \<Rightarrow> RefreshSession go" where
  "rotate_body oldTokenHash newSess t0 =
     call (tx_stmt t0 (\<lambda>now _ s.
             one_row (find (live_session oldTokenHash now) (refresh_sessions s)) s))
       (\<lambda>e. raise (mapErr e)) (\<lambda>old.
     call (tx_stmt t0 (with_uuid (rs_ID old) (\<lambda>j now _ s.
             (Inr (), s\<lparr>refresh_sessions :=
                map (set_revoked (\<lambda>r. rs_ID r = j) now) (refresh_sessions s)\<rparr>))))
       raise (\<lambda>_.
     tx_stmt t0 (insert_session_stmt newSess)))"

definition RotateRefresh :: "string \<Rightarrow> RefreshSession \<Rightarrow> RefreshSession go" where
  "RotateRefresh oldTokenHash newSess = transaction (rotate_body oldTokenHash newSess)"

end
