(* ===== verification/Config.thy ===== *)
theory Config
  imports GoText AppErr
begin

text \<open>
  The configuration (\<^verbatim>\<open>backend/internal/config/config.go\<close>): the YAML file, the overrides from the
  environment, the defaults and the validation.  The environment is a function from names to values
  (an unset variable is the empty text, as \<^verbatim>\<open>os.Getenv\<close> has it), the file system what reading the file
  yields, and the YAML decoder a parameter.
\<close>

record ObservabilityConfig =
  oc_ServiceName :: string
  oc_Env :: string
  oc_LogFormat :: string

record RuntimeConfig =
  rc_RunMigrationsOnStartup :: bool

record KafkaConfig =
  kc_Enabled :: bool
  kc_Brokers :: string
  kc_Topic :: string
  kc_ConsumerGroup :: string

record WSConfig =
  wc_AllowedOrigins :: "string list"
  wc_TicketTTLSeconds :: int

record RateLimitConfig =
  rl_LoginPerMinute :: int
  rl_RegisterPerMinute :: int
  rl_MessageSendPerMinute :: int
  rl_WSConnectPerMinute :: int

record AppConfig =
  ap_Port :: string

record PostgresConfig =
  pc_DSN :: string

record RedisConfig =
  rd_Addr :: string

record JWTConfig =
  jc_Secret :: string
  jc_AccessTTLSeconds :: int
  jc_RefreshTTLSeconds :: int

record Config =
  cf_App :: AppConfig
  cf_Postgres :: PostgresConfig
  cf_Redis :: RedisConfig
  cf_JWT :: JWTConfig
  cf_RateLimit :: RateLimitConfig
  cf_Kafka :: KafkaConfig
  cf_WS :: WSConfig
  cf_Runtime :: RuntimeConfig
  cf_Observability :: ObservabilityConfig

text \<open>\<^verbatim>\<open>&Config{}\<close>\<close>

definition zeroConfig :: Config where
  "zeroConfig =
     \<lparr>cf_App = \<lparr>ap_Port = ''''\<rparr>, cf_Postgres = \<lparr>pc_DSN = ''''\<rparr>, cf_Redis = \<lparr>rd_Addr = ''''\<rparr>,
      cf_JWT = \<lparr>jc_Secret = '''', jc_AccessTTLSeconds = 0, jc_RefreshTTLSeconds = 0\<rparr>,
      cf_RateLimit = \<lparr>rl_LoginPerMinute = 0, rl_RegisterPerMinute = 0, rl_MessageSendPerMinute = 0,
        rl_WSConnectPerMinute = 0\<rparr>,
      cf_Kafka = \<lparr>kc_Enabled = False, kc_Brokers = '''', kc_Topic = '''', kc_ConsumerGroup = ''''\<rparr>,
      cf_WS = \<lparr>wc_AllowedOrigins = [], wc_TicketTTLSeconds = 0\<rparr>,
      cf_Runtime = \<lparr>rc_RunMigrationsOnStartup = False\<rparr>,
      cf_Observability = \<lparr>oc_ServiceName = '''', oc_Env = '''', oc_LogFormat = ''''\<rparr>\<rparr>"

section \<open>Defaults\<close>

text \<open>\<^verbatim>\<open>if v <= 0 { v = d }\<close> and \<^verbatim>\<open>if strings.TrimSpace(v) == "" { v = d }\<close>\<close>

definition positive_or :: "int \<Rightarrow> int \<Rightarrow> int" where
  "positive_or d v = (if v \<le> 0 then d else v)"

definition nonblank_or :: "string \<Rightarrow> string \<Rightarrow> string" where
  "nonblank_or d v = (if TrimSpace v = '''' then d else v)"

definition applyRateLimitDefaults :: "Config \<Rightarrow> Config" where
  "applyRateLimitDefaults c =
     c\<lparr>cf_RateLimit :=
        \<lparr>rl_LoginPerMinute = positive_or 60 (rl_LoginPerMinute (cf_RateLimit c)),
         rl_RegisterPerMinute = positive_or 20 (rl_RegisterPerMinute (cf_RateLimit c)),
         rl_MessageSendPerMinute = positive_or 120 (rl_MessageSendPerMinute (cf_RateLimit c)),
         rl_WSConnectPerMinute = positive_or 30 (rl_WSConnectPerMinute (cf_RateLimit c))\<rparr>\<rparr>"

definition applyKafkaDefaults :: "Config \<Rightarrow> Config" where
  "applyKafkaDefaults c =
     c\<lparr>cf_Kafka := (cf_Kafka c)
          \<lparr>kc_Topic := nonblank_or ''goflow.domain.events'' (kc_Topic (cf_Kafka c)),
           kc_ConsumerGroup := nonblank_or ''goflow-ws-fanout'' (kc_ConsumerGroup (cf_Kafka c))\<rparr>,
       cf_WS := (cf_WS c)\<lparr>wc_TicketTTLSeconds := positive_or 120 (wc_TicketTTLSeconds (cf_WS c))\<rparr>\<rparr>"

definition applyObservabilityDefaults :: "Config \<Rightarrow> Config" where
  "applyObservabilityDefaults c =
     c\<lparr>cf_Observability :=
        \<lparr>oc_ServiceName = nonblank_or ''goflow-backend'' (oc_ServiceName (cf_Observability c)),
         oc_Env = nonblank_or ''development'' (oc_Env (cf_Observability c)),
         oc_LogFormat = nonblank_or ''text'' (oc_LogFormat (cf_Observability c))\<rparr>\<rparr>"

section \<open>Environment\<close>

type_synonym environment = "string \<Rightarrow> string"

text \<open>A variable that is set replaces a text, a number if it parses, a switch, or extends a list.\<close>

definition env_text :: "environment \<Rightarrow> string \<Rightarrow> string \<Rightarrow> string" where
  "env_text env name v = (let s = TrimSpace (env name) in if s \<noteq> '''' then s else v)"

definition env_int :: "environment \<Rightarrow> string \<Rightarrow> int \<Rightarrow> int" where
  "env_int env name v =
     (let s = TrimSpace (env name)
      in if s \<noteq> '''' then (case Atoi s of Some n \<Rightarrow> n | None \<Rightarrow> v) else v)"

definition env_bool :: "environment \<Rightarrow> string \<Rightarrow> bool \<Rightarrow> bool" where
  "env_bool env name v =
     (let s = TrimSpace (env name) in if s \<noteq> '''' then EqualFold s ''true'' \<or> s = ''1'' else v)"

definition env_list :: "environment \<Rightarrow> string \<Rightarrow> string list \<Rightarrow> string list" where
  "env_list env name vs =
     (let s = TrimSpace (env name)
      in if s \<noteq> '''' then vs @ filter (\<lambda>t. t \<noteq> '''') (map TrimSpace (split_on (CHR '','') s)) else vs)"

definition env_jwt :: "environment \<Rightarrow> JWTConfig \<Rightarrow> JWTConfig" where
  "env_jwt env j =
     \<lparr>jc_Secret = env_text env ''JWT_SECRET'' (jc_Secret j),
      jc_AccessTTLSeconds = env_int env ''JWT_ACCESS_TTL_SECONDS'' (jc_AccessTTLSeconds j),
      jc_RefreshTTLSeconds = env_int env ''JWT_REFRESH_TTL_SECONDS'' (jc_RefreshTTLSeconds j)\<rparr>"

definition env_rate_limit :: "environment \<Rightarrow> RateLimitConfig \<Rightarrow> RateLimitConfig" where
  "env_rate_limit env r =
     \<lparr>rl_LoginPerMinute = env_int env ''RATE_LIMIT_LOGIN_PER_MINUTE'' (rl_LoginPerMinute r),
      rl_RegisterPerMinute = env_int env ''RATE_LIMIT_REGISTER_PER_MINUTE'' (rl_RegisterPerMinute r),
      rl_MessageSendPerMinute =
        env_int env ''RATE_LIMIT_MESSAGE_SEND_PER_MINUTE'' (rl_MessageSendPerMinute r),
      rl_WSConnectPerMinute = env_int env ''RATE_LIMIT_WS_CONNECT_PER_MINUTE'' (rl_WSConnectPerMinute r)\<rparr>"

definition env_kafka :: "environment \<Rightarrow> KafkaConfig \<Rightarrow> KafkaConfig" where
  "env_kafka env k =
     \<lparr>kc_Enabled = env_bool env ''KAFKA_ENABLED'' (kc_Enabled k),
      kc_Brokers = env_text env ''KAFKA_BROKERS'' (kc_Brokers k),
      kc_Topic = env_text env ''KAFKA_TOPIC'' (kc_Topic k),
      kc_ConsumerGroup = env_text env ''KAFKA_CONSUMER_GROUP'' (kc_ConsumerGroup k)\<rparr>"

definition env_observability :: "environment \<Rightarrow> ObservabilityConfig \<Rightarrow> ObservabilityConfig" where
  "env_observability env o1 =
     \<lparr>oc_ServiceName = env_text env ''SERVICE_NAME'' (oc_ServiceName o1),
      oc_Env = env_text env ''APP_ENV'' (oc_Env o1),
      oc_LogFormat = env_text env ''LOG_FORMAT'' (oc_LogFormat o1)\<rparr>"

definition applyEnvOverrides :: "environment \<Rightarrow> Config \<Rightarrow> Config" where
  "applyEnvOverrides env c =
     \<lparr>cf_App = \<lparr>ap_Port = env_text env ''HTTP_PORT'' (ap_Port (cf_App c))\<rparr>,
      cf_Postgres = \<lparr>pc_DSN = env_text env ''POSTGRES_DSN'' (pc_DSN (cf_Postgres c))\<rparr>,
      cf_Redis = \<lparr>rd_Addr = env_text env ''REDIS_ADDR'' (rd_Addr (cf_Redis c))\<rparr>,
      cf_JWT = env_jwt env (cf_JWT c),
      cf_RateLimit = env_rate_limit env (cf_RateLimit c),
      cf_Kafka = env_kafka env (cf_Kafka c),
      cf_WS = (cf_WS c)\<lparr>wc_AllowedOrigins := env_list env ''WS_ALLOWED_ORIGINS'' (wc_AllowedOrigins (cf_WS c))\<rparr>,
      cf_Runtime = \<lparr>rc_RunMigrationsOnStartup =
        env_bool env ''RUN_MIGRATIONS_ON_STARTUP'' (rc_RunMigrationsOnStartup (cf_Runtime c))\<rparr>,
      cf_Observability = env_observability env (cf_Observability c)\<rparr>"

section \<open>Validation and loading\<close>

definition Validate_jwt :: "JWTConfig \<Rightarrow> string option" where
  "Validate_jwt j =
     (if TrimSpace (jc_Secret j) = ''''
      then Some ''config: jwt.secret is required (yaml or JWT_SECRET)''
      else if length (TrimSpace (jc_Secret j)) < 16
      then Some ''config: jwt.secret must be at least 16 characters''
      else if jc_AccessTTLSeconds j \<le> 0
      then Some ''config: jwt.access_ttl_seconds must be positive (yaml or JWT_ACCESS_TTL_SECONDS)''
      else if jc_RefreshTTLSeconds j \<le> 0
      then Some ''config: jwt.refresh_ttl_seconds must be positive (yaml or JWT_REFRESH_TTL_SECONDS)''
      else if jc_RefreshTTLSeconds j < jc_AccessTTLSeconds j
      then Some ''config: jwt.refresh_ttl_seconds must be >= access_ttl_seconds''
      else None)"

definition Validate_rate_limit :: "RateLimitConfig \<Rightarrow> string option" where
  "Validate_rate_limit r =
     (if rl_LoginPerMinute r < 0 then Some ''config: rate_limit.login_per_minute must be >= 0''
      else if rl_RegisterPerMinute r < 0 then Some ''config: rate_limit.register_per_minute must be >= 0''
      else if rl_MessageSendPerMinute r < 0
      then Some ''config: rate_limit.message_send_per_minute must be >= 0''
      else if rl_WSConnectPerMinute r < 0 then Some ''config: rate_limit.ws_connect_per_minute must be >= 0''
      else None)"

text \<open>\<open>None\<close> is the nil error.  The receiver is never nil in the program.\<close>

definition Config_Validate :: "Config \<Rightarrow> string option" where
  "Config_Validate c =
     (if TrimSpace (ap_Port (cf_App c)) = ''''
      then Some ''config: app.port is required (yaml or HTTP_PORT)''
      else if TrimSpace (pc_DSN (cf_Postgres c)) = ''''
      then Some ''config: postgres.dsn is required (yaml or POSTGRES_DSN)''
      else if TrimSpace (rd_Addr (cf_Redis c)) = ''''
      then Some ''config: redis.addr is required (yaml or REDIS_ADDR)''
      else case Validate_jwt (cf_JWT c) of Some e \<Rightarrow> Some e
      | None \<Rightarrow> (case Validate_rate_limit (cf_RateLimit c) of Some e \<Rightarrow> Some e
      | None \<Rightarrow>
          if kc_Enabled (cf_Kafka c) \<and> TrimSpace (kc_Brokers (cf_Kafka c)) = ''''
          then Some ''config: kafka.brokers is required when kafka.enabled is true''
          else None))"

text \<open>\<^verbatim>\<open>os.ReadFile\<close>: the bytes, that the file does not exist, or another error.\<close>

datatype file_read = FileBytes string | FileNotExist | FileError string

definition defaultConfigPath :: string where
  "defaultConfigPath = ''configs/local.yaml''"

definition Load ::
  "environment \<Rightarrow> (string \<Rightarrow> file_read) \<Rightarrow> (string \<Rightarrow> Config \<Rightarrow> err + Config) \<Rightarrow> err + Config" where
  "Load env readFile yamlUnmarshal =
     (let p = TrimSpace (env ''CONFIG_PATH''); path = (if p = '''' then defaultConfigPath else p)
      in case (case readFile path of
                 FileError e \<Rightarrow> Inl (ErrText (''read config file '' @ [CHR 0x22] @ path @ [CHR 0x22] @ '': '' @ e))
               | FileNotExist \<Rightarrow> Inr zeroConfig
               | FileBytes data \<Rightarrow>
                   (case yamlUnmarshal data zeroConfig of
                      Inl e \<Rightarrow> Inl (ErrText (''parse yaml: '' @ error_text e))
                    | Inr c \<Rightarrow> Inr c)) of
           Inl e \<Rightarrow> Inl e
         | Inr c \<Rightarrow>
             (let c' = applyObservabilityDefaults (applyKafkaDefaults (applyRateLimitDefaults
                         (applyEnvOverrides env c)))
              in case Config_Validate c' of Some m \<Rightarrow> Inl (ErrText m) | None \<Rightarrow> Inr c'))"

end
