(* ===== verification/AuthService.thy ===== *)
theory AuthService
  imports SessionRepo UserRepo Config
begin

text \<open>
  Authentication: access tokens and password hashes (\<^verbatim>\<open>backend/internal/pkg/auth\<close>) and the service
  that registers users and issues, rotates and revokes sessions
  (\<^verbatim>\<open>backend/internal/service/auth_service.go\<close>).

  The packages \<^verbatim>\<open>golang-jwt/jwt\<close> and \<^verbatim>\<open>x/crypto/bcrypt\<close> are not part of the repository: the functions the
  sources call are the fields of the records \<open>Jwt\<close> and \<open>Bcrypt\<close>, over which every definition is
  parametrised.
\<close>

section \<open>Access tokens\<close>

text \<open>The claims the program sets or reads; the times are the registered claims iat, nbf and exp.\<close>

record AccessClaims =
  ac_UserID :: string
  ac_Subject :: string
  ac_IssuedAt :: "time option"
  ac_NotBefore :: "time option"
  ac_ExpiresAt :: "time option"

text \<open>
  \<open>jwt_SignedString secret claims\<close> signs with HS256.  \<open>jwt_ParseWithClaims token keyfunc now\<close> is given
  the key function, which sees the name of the signing method in the token's header.
\<close>

record Jwt =
  jwt_NewNumericDate :: "time \<Rightarrow> time"
  jwt_SignedString :: "string \<Rightarrow> AccessClaims \<Rightarrow> err + string"
  jwt_ParseWithClaims :: "string \<Rightarrow> (string \<Rightarrow> err + string) \<Rightarrow> time \<Rightarrow> err + AccessClaims"

definition SigningMethodHS256 :: string where "SigningMethodHS256 = ''HS256''"

definition access_claims :: "Jwt \<Rightarrow> string \<Rightarrow> int \<Rightarrow> time \<Rightarrow> AccessClaims" where
  "access_claims j userID ttl now =
     \<lparr>ac_UserID = userID, ac_Subject = userID, ac_IssuedAt = Some (jwt_NewNumericDate j now),
      ac_NotBefore = Some (jwt_NewNumericDate j now),
      ac_ExpiresAt = Some (jwt_NewNumericDate j (now + ttl))\<rparr>"

definition GenerateAccessToken :: "Jwt \<Rightarrow> string \<Rightarrow> string \<Rightarrow> int \<Rightarrow> string go" where
  "GenerateAccessToken j secret userID ttl =
     (if length secret = 0 then raise (ErrText ''auth: empty jwt secret'')
      else if userID = '''' then raise (ErrText ''auth: empty user id'')
      else if ttl \<le> 0 then raise (ErrText ''auth: non-positive ttl'')
      else call time_Now raise (\<lambda>now. lift (jwt_SignedString j secret (access_claims j userID ttl now))))"

definition access_key :: "string \<Rightarrow> string \<Rightarrow> err + string" where
  "access_key secret alg =
     (if alg \<noteq> SigningMethodHS256 then Inl (ErrText (''auth: unexpected signing method '' @ alg))
      else Inr secret)"

definition ParseAccessToken :: "Jwt \<Rightarrow> string \<Rightarrow> string \<Rightarrow> time \<Rightarrow> err + AccessClaims" where
  "ParseAccessToken j secret tokenString now =
     (if length secret = 0 then Inl (ErrText ''auth: empty jwt secret'')
      else if tokenString = '''' then Inl (ErrText ''auth: empty token'')
      else case jwt_ParseWithClaims j tokenString (access_key secret) now of
          Inl e \<Rightarrow> Inl (ErrText (''auth: parse access token: '' @ error_text e))
        | Inr claims \<Rightarrow>
            (let claims' = (if ac_UserID claims = '''' \<and> ac_Subject claims \<noteq> ''''
                            then claims\<lparr>ac_UserID := ac_Subject claims\<rparr> else claims)
             in if ac_UserID claims' = '''' then Inl (ErrText ''auth: missing user_id claim'')
                else Inr claims'))"

section \<open>Passwords\<close>

text \<open>\<open>bc_Generate\<close> is given the random bytes it salts with.\<close>

record Bcrypt =
  bc_DefaultCost :: int
  bc_Generate :: "(nat \<Rightarrow> 8 word) \<Rightarrow> string \<Rightarrow> int \<Rightarrow> err + string"
  bc_Compare :: "string \<Rightarrow> string \<Rightarrow> err option"

definition HashPassword :: "Bcrypt \<Rightarrow> string \<Rightarrow> string go" where
  "HashPassword b password w =
     (if password = '''' then (Inl (ErrText ''auth: empty password''), w)
      else (case bc_Generate b (rand_src w (drawn w)) password (bc_DefaultCost b) of
              Inl e \<Rightarrow> Inl (ErrText (''auth: hash password: '' @ error_text e))
            | Inr h \<Rightarrow> Inr h,
            w\<lparr>drawn := Suc (drawn w)\<rparr>))"

definition ComparePassword :: "Bcrypt \<Rightarrow> string \<Rightarrow> string \<Rightarrow> err + unit" where
  "ComparePassword b hash password =
     (if hash = '''' then Inl (ErrText ''auth: empty hash'')
      else case bc_Compare b hash password of
          Some e \<Rightarrow> Inl (ErrText (''auth: compare password: '' @ error_text e))
        | None \<Rightarrow> Inr ())"

section \<open>Requests and responses\<close>

record RegisterRequest =
  rr_Email :: string
  rr_Nickname :: string
  rr_Password :: string

record LoginRequest =
  lr_Email :: string
  lr_Password :: string

record UserPublic =
  pu_ID :: string
  pu_Email :: string
  pu_Nickname :: string

record TokenPair =
  tk_AccessToken :: string
  tk_RefreshToken :: string
  tk_ExpiresIn :: int
  tk_TokenType :: string

text \<open>\<^verbatim>\<open>RegisterResponse\<close> and \<^verbatim>\<open>LoginResponse\<close> have the same fields; \<^verbatim>\<open>RefreshResponse\<close> those of \<^verbatim>\<open>TokenPair\<close>.\<close>

record AuthResponse =
  ar_User :: UserPublic
  ar_Tokens :: TokenPair

record ClientMeta =
  me_UserAgent :: string
  me_IP :: string

section \<open>Helpers of the service\<close>

definition nicknameRe :: "string \<Rightarrow> bool" where "nicknameRe = nickname_pattern"
definition emailRe :: "string \<Rightarrow> bool" where "emailRe = email_pattern"

definition validateCredentials :: "string \<Rightarrow> string \<Rightarrow> string \<Rightarrow> err + unit" where
  "validateCredentials email nickname password =
     (if email = '''' \<or> nickname = '''' \<or> password = ''''
      then Inl (Validation ''email, nickname and password are required'' None)
      else if length email > 320 then Inl (Validation ''email too long'' None)
      else if \<not> emailRe email then Inl (Validation ''invalid email format'' None)
      else if \<not> nicknameRe nickname
      then Inl (Validation ''nickname must be 3-32 chars: letters, digits, underscore'' None)
      else if length password < 8 \<or> length password > 128
      then Inl (Validation ''password length must be 8-128'' None)
      else Inr ())"

definition hashRefreshToken :: "(string \<Rightarrow> 8 word list) \<Rightarrow> string \<Rightarrow> string" where
  "hashRefreshToken sha256 plain = EncodeToString (sha256 plain)"

definition newRefreshPlain :: "string go" where
  "newRefreshPlain = call (rand_Read 32) raise (\<lambda>b. ret (EncodeToString b))"

definition strOrNil :: "string \<Rightarrow> string option" where
  "strOrNil s = (let t = TrimSpace s in if t = '''' then None else Some t)"

definition trimIP :: "string \<Rightarrow> string" where
  "trimIP ip =
     (let ip = TrimSpace ip; ip = (case SplitHostPort ip of Some (host, _) \<Rightarrow> host | None \<Rightarrow> ip)
      in if length ip > 45 then take 45 ip else ip)"

section \<open>The service\<close>

text \<open>What the service is built from besides the repositories: the libraries and its configuration.\<close>

record AuthService =
  as_sha256 :: "string \<Rightarrow> 8 word list"
  as_jwt :: Jwt
  as_bcrypt :: Bcrypt
  as_cfg :: JWTConfig

definition newAccessToken :: "AuthService \<Rightarrow> string \<Rightarrow> string go" where
  "newAccessToken s userID =
     call (GenerateAccessToken (as_jwt s) (TrimSpace (jc_Secret (as_cfg s))) userID
             (seconds (jc_AccessTTLSeconds (as_cfg s))))
       (\<lambda>e. raise (Internal ''sign access token'' (Some e))) ret"

definition invalid_ttl :: "AuthService \<Rightarrow> err" where
  "invalid_ttl s =
     Internal ''invalid refresh ttl''
       (Some (ErrText (''refresh_ttl_seconds='' @ Itoa (jc_RefreshTTLSeconds (as_cfg s)))))"

definition new_session :: "ID \<Rightarrow> string \<Rightarrow> ClientMeta \<Rightarrow> time \<Rightarrow> RefreshSession" where
  "new_session userID hash meta exp =
     \<lparr>rs_ID = '''', rs_UserID = userID, rs_TokenHash = hash, rs_UserAgent = strOrNil (me_UserAgent meta),
      rs_IPAddress = strOrNil (trimIP (me_IP meta)), rs_ExpiresAt = exp, rs_CreatedAt = zero_time,
      rs_RevokedAt = None\<rparr>"

definition token_pair :: "AuthService \<Rightarrow> string \<Rightarrow> string \<Rightarrow> TokenPair" where
  "token_pair s access plain =
     \<lparr>tk_AccessToken = access, tk_RefreshToken = plain, tk_ExpiresIn = jc_AccessTTLSeconds (as_cfg s),
      tk_TokenType = ''Bearer''\<rparr>"

definition issueTokens :: "AuthService \<Rightarrow> ID \<Rightarrow> ClientMeta \<Rightarrow> TokenPair go" where
  "issueTokens s userID meta =
     call (newAccessToken s userID) raise (\<lambda>access.
     call newRefreshPlain (\<lambda>e. raise (Internal ''generate refresh token'' (Some e))) (\<lambda>plain.
     let hash = hashRefreshToken (as_sha256 s) plain; ttl = seconds (jc_RefreshTTLSeconds (as_cfg s))
     in if ttl \<le> 0 then raise (invalid_ttl s)
        else
        call time_Now raise (\<lambda>now.
        call (Session_Create (new_session userID hash meta (now + ttl)))
          (\<lambda>e. raise (Internal ''create refresh session'' (Some e)))
          (\<lambda>_. ret (token_pair s access plain)))))"

definition user_public :: "User \<Rightarrow> UserPublic" where
  "user_public u = \<lparr>pu_ID = u_ID u, pu_Email = u_Email u, pu_Nickname = u_Nickname u\<rparr>"

text \<open>A lookup that is meant to find nothing: a hit is the conflict, a miss goes on.\<close>

definition must_be_free :: "User go \<Rightarrow> string \<Rightarrow> string \<Rightarrow> 'a go \<Rightarrow> 'a go" where
  "must_be_free look taken failed k =
     call look
       (\<lambda>e. if \<not> errors_Is e ErrNotFound then raise (Internal failed (Some e)) else k)
       (\<lambda>_. raise (Conflict taken))"

definition draft_user :: "string \<Rightarrow> string \<Rightarrow> string \<Rightarrow> User" where
  "draft_user email hash nick =
     \<lparr>u_ID = '''', u_Email = email, u_PasswordHash = hash, u_Nickname = nick, u_FirstName = None,
      u_LastName = None, u_AvatarURL = None, u_CreatedAt = zero_time, u_UpdatedAt = zero_time,
      u_LastSeenAt = None, u_IsActive = False\<rparr>"

definition AuthService_Register :: "AuthService \<Rightarrow> RegisterRequest \<Rightarrow> ClientMeta \<Rightarrow> AuthResponse go" where
  "AuthService_Register s req meta =
     (let email = TrimSpace (ToLower (rr_Email req)); nick = TrimSpace (rr_Nickname req)
      in call (lift (validateCredentials email nick (rr_Password req))) raise (\<lambda>_.
         must_be_free (User_GetByEmail email) ''email already registered'' ''lookup user by email'' (
         must_be_free (User_GetByNickname nick) ''nickname already taken'' ''lookup user by nickname'' (
         call (HashPassword (as_bcrypt s) (rr_Password req))
           (\<lambda>e. raise (Validation ''password'' (Some e))) (\<lambda>hash.
         call (User_Create (draft_user email hash nick))
           (\<lambda>e. raise (Internal ''create user'' (Some e))) (\<lambda>u.
         call (issueTokens s (u_ID u) meta) raise (\<lambda>tokens.
         ret \<lparr>ar_User = user_public u, ar_Tokens = tokens\<rparr>)))))))"

definition AuthService_Login :: "AuthService \<Rightarrow> LoginRequest \<Rightarrow> ClientMeta \<Rightarrow> AuthResponse go" where
  "AuthService_Login s req meta =
     (let email = TrimSpace (ToLower (lr_Email req))
      in if email = '''' \<or> lr_Password req = ''''
         then raise (Validation ''email and password are required'' None)
         else
         call (User_GetByEmail email)
           (\<lambda>e. if errors_Is e ErrNotFound then raise (Unauthorized ''invalid credentials'')
                else raise (Internal ''lookup user'' (Some e))) (\<lambda>u.
         if \<not> u_IsActive u then raise (Forbidden ''account disabled'')
         else
         call (lift (ComparePassword (as_bcrypt s) (u_PasswordHash u) (lr_Password req)))
           (\<lambda>_. raise (Unauthorized ''invalid credentials'')) (\<lambda>_.
         call (issueTokens s (u_ID u) meta) raise (\<lambda>tokens.
         ret \<lparr>ar_User = user_public u, ar_Tokens = tokens\<rparr>))))"

definition sessionErr :: "string \<Rightarrow> err \<Rightarrow> err" where
  "sessionErr failed e =
     (if errors_Is e ErrNotFound then Unauthorized ''invalid refresh token'' else Internal failed (Some e))"

definition AuthService_Refresh :: "AuthService \<Rightarrow> string \<Rightarrow> ClientMeta \<Rightarrow> TokenPair go" where
  "AuthService_Refresh s raw meta =
     (let refreshPlain = TrimSpace raw; oldHash = hashRefreshToken (as_sha256 s) refreshPlain
      in if refreshPlain = '''' then raise (Validation ''refresh_token is required'' None)
         else
         call (GetByTokenHash oldHash) (\<lambda>e. raise (sessionErr ''lookup session'' e)) (\<lambda>sess.
         call (newAccessToken s (rs_UserID sess)) raise (\<lambda>access.
         call newRefreshPlain (\<lambda>e. raise (Internal ''generate refresh token'' (Some e))) (\<lambda>newPlain.
         let newHash = hashRefreshToken (as_sha256 s) newPlain; ttl = seconds (jc_RefreshTTLSeconds (as_cfg s))
         in if ttl \<le> 0 then raise (invalid_ttl s)
            else
            call time_Now raise (\<lambda>now.
            call (RotateRefresh oldHash (new_session (rs_UserID sess) newHash meta (now + ttl)))
              (\<lambda>e. raise (sessionErr ''rotate refresh session'' e))
              (\<lambda>_. ret (token_pair s access newPlain)))))))"

definition AuthService_Logout :: "AuthService \<Rightarrow> string \<Rightarrow> unit go" where
  "AuthService_Logout s raw =
     (let refreshPlain = TrimSpace raw; h = hashRefreshToken (as_sha256 s) refreshPlain
      in if refreshPlain = '''' then raise (Validation ''refresh_token is required'' None)
         else
         call (GetByTokenHash h) (\<lambda>e. raise (sessionErr ''lookup session'' e)) (\<lambda>sess.
         call (Revoke (rs_ID sess)) (\<lambda>e. raise (sessionErr ''revoke session'' e)) ret))"

definition AuthService_LogoutAll :: "ID \<Rightarrow> unit go" where
  "AuthService_LogoutAll userID =
     (if userID = '''' then raise (Unauthorized ''missing user'')
      else call (RevokeAllByUser userID) (\<lambda>e. raise (Internal ''revoke sessions'' (Some e))) ret)"

end
