(* ===== verification/UserService.thy ===== *)
theory UserService
  imports UserRepo GoText
begin

text \<open>
  The profile service (\<^verbatim>\<open>backend/internal/service/user_service.go\<close>) and its transfer objects
  (\<^verbatim>\<open>backend/internal/dto/user.go\<close>).  Copying a pointer to a fresh one is the identity on options.
\<close>

record UserSelf =
  us_ID :: string
  us_Email :: string
  us_Nickname :: string
  us_FirstName :: "string option"
  us_LastName :: "string option"
  us_AvatarURL :: "string option"
  us_IsActive :: bool
  us_CreatedAt :: time
  us_UpdatedAt :: time
  us_LastSeen :: "time option"

record UserCard =
  uc_ID :: string
  uc_Nickname :: string
  uc_FirstName :: "string option"
  uc_LastName :: "string option"
  uc_AvatarURL :: "string option"
  uc_IsActive :: bool

record PatchUserRequest =
  pur_Nickname :: "string option"
  pur_FirstName :: "string option"
  pur_LastName :: "string option"
  pur_AvatarURL :: "string option"

record UserSearchResponse =
  usr_Users :: "UserCard list"

definition userNicknameRe :: "string \<Rightarrow> bool" where "userNicknameRe = nickname_pattern"
definition userUUIDRe :: "string \<Rightarrow> bool" where "userUUIDRe = uuid_pattern"

definition userSearchDefaultLimit :: int where "userSearchDefaultLimit = 20"
definition userSearchMaxLimit :: int where "userSearchMaxLimit = 50"
definition userNameMaxLen :: nat where "userNameMaxLen = 100"
definition userAvatarMaxLen :: nat where "userAvatarMaxLen = 2048"

text \<open>The pointers of a response are copies of those of the row; the values are the same.\<close>

definition copyStrPtr :: "string option \<Rightarrow> string option" where
  "copyStrPtr p = (case p of None \<Rightarrow> None | Some v \<Rightarrow> Some v)"

definition copyTimePtr :: "time option \<Rightarrow> time option" where
  "copyTimePtr t = (case t of None \<Rightarrow> None | Some v \<Rightarrow> Some v)"

definition ptrString :: "string \<Rightarrow> string option" where
  "ptrString s = Some s"

definition toUserSelf :: "User \<Rightarrow> UserSelf" where
  "toUserSelf u =
     \<lparr>us_ID = u_ID u, us_Email = u_Email u, us_Nickname = u_Nickname u, us_FirstName = copyStrPtr (u_FirstName u),
      us_LastName = copyStrPtr (u_LastName u), us_AvatarURL = copyStrPtr (u_AvatarURL u), us_IsActive = u_IsActive u,
      us_CreatedAt = u_CreatedAt u, us_UpdatedAt = u_UpdatedAt u, us_LastSeen = copyTimePtr (u_LastSeenAt u)\<rparr>"

definition toUserCard :: "User \<Rightarrow> UserCard" where
  "toUserCard u =
     \<lparr>uc_ID = u_ID u, uc_Nickname = u_Nickname u, uc_FirstName = copyStrPtr (u_FirstName u),
      uc_LastName = copyStrPtr (u_LastName u), uc_AvatarURL = copyStrPtr (u_AvatarURL u), uc_IsActive = u_IsActive u\<rparr>"

definition userErr :: "err \<Rightarrow> err" where
  "userErr e = (if errors_Is e ErrNotFound then NotFound ''user not found'' else Internal ''load user'' (Some e))"

definition Me :: "ID \<Rightarrow> UserSelf go" where
  "Me userID =
     (if userID = '''' then raise (Unauthorized ''missing user'')
      else call (User_GetByID userID) (\<lambda>e. raise (userErr e)) (\<lambda>u. ret (toUserSelf u)))"

text \<open>The nickname of a patch: trimmed, checked, and free or the user's own.\<close>

definition patch_nickname :: "ID \<Rightarrow> string option \<Rightarrow> string option go" where
  "patch_nickname userID v =
     (case v of
        None \<Rightarrow> ret None
      | Some raw \<Rightarrow>
          (let nick = TrimSpace raw
           in if \<not> userNicknameRe nick
              then raise (Validation ''nickname must be 3-32 chars: letters, digits, underscore'' None)
              else
              call (User_GetByNickname nick)
                (\<lambda>e. if \<not> errors_Is e ErrNotFound then raise (Internal ''lookup nickname'' (Some e))
                     else ret (ptrString nick))
                (\<lambda>other. if u_ID other \<noteq> userID then raise (Conflict ''nickname already taken'')
                         else ret (ptrString nick))))"

text \<open>A text field of a patch: trimmed and bounded.\<close>

definition patch_text :: "nat \<Rightarrow> string \<Rightarrow> string option \<Rightarrow> err + string option" where
  "patch_text bound message v =
     (case v of
        None \<Rightarrow> Inr None
      | Some raw \<Rightarrow>
          (let t = TrimSpace raw
           in if length t > bound then Inl (Validation message None) else Inr (ptrString t)))"

definition UpdateMe :: "ID \<Rightarrow> PatchUserRequest \<Rightarrow> UserSelf go" where
  "UpdateMe userID req =
     (if userID = '''' then raise (Unauthorized ''missing user'')
      else if pur_Nickname req = None \<and> pur_FirstName req = None \<and> pur_LastName req = None
              \<and> pur_AvatarURL req = None
      then raise (Validation ''no fields to update'' None)
      else
      call (patch_nickname userID (pur_Nickname req)) raise (\<lambda>nick.
      call (lift (patch_text userNameMaxLen ''first_name too long'' (pur_FirstName req))) raise (\<lambda>first.
      call (lift (patch_text userNameMaxLen ''last_name too long'' (pur_LastName req))) raise (\<lambda>last.
      call (lift (patch_text userAvatarMaxLen ''avatar_url too long'' (pur_AvatarURL req))) raise (\<lambda>avatar.
      call (UpdateProfile \<lparr>up_UserID = userID, up_Nickname = nick, up_FirstName = first,
              up_LastName = last, up_AvatarURL = avatar\<rparr>)
        (\<lambda>e. if errors_Is e ErrNotFound then raise (NotFound ''user not found'')
             else raise (Internal ''update profile'' (Some e))) (\<lambda>_.
      call (User_GetByID userID) (\<lambda>e. raise (Internal ''reload user'' (Some e))) (\<lambda>u.
      ret (toUserSelf u))))))))"

definition clampSearchLimit :: "int \<Rightarrow> int" where
  "clampSearchLimit limit =
     (let l = (if limit \<le> 0 then userSearchDefaultLimit else limit)
      in if l > userSearchMaxLimit then userSearchMaxLimit else l)"

definition UserService_Search :: "string \<Rightarrow> int \<Rightarrow> int \<Rightarrow> UserSearchResponse go" where
  "UserService_Search raw limit offset =
     (let q = TrimSpace raw
      in if q = '''' then raise (Validation ''q is required'' None)
         else
         call (User_Search q \<lparr>p_Limit = clampSearchLimit limit, p_Offset = (if offset < 0 then 0 else offset)\<rparr>)
           (\<lambda>e. raise (Internal ''search users'' (Some e)))
           (\<lambda>rows. ret \<lparr>usr_Users = map toUserCard rows\<rparr>))"

definition UserService_GetByID :: "string \<Rightarrow> UserCard go" where
  "UserService_GetByID raw =
     (let i = TrimSpace raw
      in if \<not> userUUIDRe i then raise (Validation ''invalid user id'' None)
         else call (User_GetByID i) (\<lambda>e. raise (userErr e)) (\<lambda>u. ret (toUserCard u)))"

end
