(* ===== verification/Ephemeral.thy ===== *)
theory Ephemeral
  imports GoIO GoText
begin

text \<open>
  What is kept in Redis with a time to live: presence, typing indicators and WebSocket tickets
  (\<^verbatim>\<open>backend/internal/repository/redis\<close>), and the two services on top of them
  (\<^verbatim>\<open>presence_service.go\<close>, \<^verbatim>\<open>ws_ticket_service.go\<close>).

  A key holds a value and the instant it expires; a command sees a key only up to that instant.  A nil
  repository or service (the first guard of every method) is \<open>None\<close>; \<open>Some ()\<close> is one that was built.
\<close>

section \<open>Redis commands\<close>

definition redis_get :: "Store \<Rightarrow> time \<Rightarrow> string \<Rightarrow> string option" where
  "redis_get s now key =
     (case redis_kv s key of
        None \<Rightarrow> None | Some (v, expires) \<Rightarrow> if now \<le> expires then Some v else None)"

text \<open>
  The time to live that the client sends: whole milliseconds, and at least one.  (A duration of whole seconds is
  sent in seconds, which is the same.)
\<close>

definition redis_ttl :: "int \<Rightarrow> int" where
  "redis_ttl d = (if d < Second div 1000 then Second div 1000 else d div (Second div 1000) * (Second div 1000))"

definition redis_SET :: "string \<Rightarrow> string \<Rightarrow> int \<Rightarrow> unit stmt" where
  "redis_SET key v ttl now _ s = (Inr (), s\<lparr>redis_kv := (redis_kv s)(key \<mapsto> (v, now + redis_ttl ttl))\<rparr>)"

definition redis_SETNX :: "string \<Rightarrow> string \<Rightarrow> int \<Rightarrow> bool stmt" where
  "redis_SETNX key v ttl now _ s =
     (if redis_get s now key \<noteq> None then (Inr False, s)
      else (Inr True, s\<lparr>redis_kv := (redis_kv s)(key \<mapsto> (v, now + redis_ttl ttl))\<rparr>))"

definition redis_DEL :: "string \<Rightarrow> unit stmt" where
  "redis_DEL key _ _ s = (Inr (), s\<lparr>redis_kv := (redis_kv s)(key := None)\<rparr>)"

definition redis_EXISTS :: "string \<Rightarrow> nat stmt" where
  "redis_EXISTS key now _ s = (Inr (if redis_get s now key = None then 0 else 1), s)"

text \<open>\<^verbatim>\<open>GETDEL\<close>; \<open>None\<close> is \<^verbatim>\<open>goredis.Nil\<close>.\<close>

definition redis_GETDEL :: "string \<Rightarrow> string option stmt" where
  "redis_GETDEL key now _ s = (Inr (redis_get s now key), s\<lparr>redis_kv := (redis_kv s)(key := None)\<rparr>)"

section \<open>Presence\<close>

definition presenceKeyPrefix :: string where "presenceKeyPrefix = ''goflow:presence:user:''"
definition DefaultPresenceTTL :: int where "DefaultPresenceTTL = 45 * Second"

definition presenceKey :: "ID \<Rightarrow> string" where
  "presenceKey userID = presenceKeyPrefix @ userID"

definition Presence_SetOnline :: "unit option \<Rightarrow> ID \<Rightarrow> unit go" where
  "Presence_SetOnline r userID =
     (case r of
        None \<Rightarrow> ret ()
      | Some _ \<Rightarrow>
          if userID = '''' then raise (ErrText ''presence: empty user id'')
          else roundtrip (redis_SET (presenceKey userID) ''1'' DefaultPresenceTTL))"

definition Presence_SetOffline :: "unit option \<Rightarrow> ID \<Rightarrow> unit go" where
  "Presence_SetOffline r userID =
     (case r of
        None \<Rightarrow> ret ()
      | Some _ \<Rightarrow> if userID = '''' then ret () else roundtrip (redis_DEL (presenceKey userID)))"

definition Presence_IsOnline :: "unit option \<Rightarrow> ID \<Rightarrow> bool go" where
  "Presence_IsOnline r userID =
     (case r of
        None \<Rightarrow> ret False
      | Some _ \<Rightarrow>
          if userID = '''' then ret False
          else call (roundtrip (redis_EXISTS (presenceKey userID))) raise (\<lambda>n. ret (n > 0)))"

text \<open>The service: its own nil check and that of its repository; the hooks of a connection drop the error.\<close>

record PresenceService =
  ps_repo :: "unit option"

definition SetOnline :: "PresenceService option \<Rightarrow> ID \<Rightarrow> unit go" where
  "SetOnline s userID =
     (case s of None \<Rightarrow> ret ()
      | Some p \<Rightarrow> if ps_repo p = None then ret () else Presence_SetOnline (ps_repo p) userID)"

definition SetOffline :: "PresenceService option \<Rightarrow> ID \<Rightarrow> unit go" where
  "SetOffline s userID =
     (case s of None \<Rightarrow> ret ()
      | Some p \<Rightarrow> if ps_repo p = None then ret () else Presence_SetOffline (ps_repo p) userID)"

definition IsOnline :: "PresenceService option \<Rightarrow> ID \<Rightarrow> bool go" where
  "IsOnline s userID =
     (case s of None \<Rightarrow> ret False
      | Some p \<Rightarrow> if ps_repo p = None then ret False else Presence_IsOnline (ps_repo p) userID)"

definition Touch :: "PresenceService option \<Rightarrow> ID \<Rightarrow> unit go" where
  "Touch s userID = SetOnline s userID"

definition Connected :: "PresenceService option \<Rightarrow> ID \<Rightarrow> unit go" where
  "Connected s userID = ignore (SetOnline s userID) (ret ())"

definition Disconnected :: "PresenceService option \<Rightarrow> ID \<Rightarrow> unit go" where
  "Disconnected s userID = ignore (SetOffline s userID) (ret ())"

definition Activity :: "PresenceService option \<Rightarrow> ID \<Rightarrow> unit go" where
  "Activity s userID = ignore (Touch s userID) (ret ())"

section \<open>Typing\<close>

definition typingKeyPrefix :: string where "typingKeyPrefix = ''goflow:typing:''"
definition DefaultTypingTTL :: int where "DefaultTypingTTL = 8 * Second"

definition typingKey :: "ID \<Rightarrow> ID \<Rightarrow> string" where
  "typingKey chatID userID = typingKeyPrefix @ chatID @ '':'' @ userID"

definition StartTyping :: "unit option \<Rightarrow> ID \<Rightarrow> ID \<Rightarrow> unit go" where
  "StartTyping r chatID userID =
     (case r of
        None \<Rightarrow> ret ()
      | Some _ \<Rightarrow>
          if chatID = '''' \<or> userID = '''' then raise (ErrText ''typing: empty chat or user id'')
          else roundtrip (redis_SET (typingKey chatID userID) ''1'' DefaultTypingTTL))"

definition StopTyping :: "unit option \<Rightarrow> ID \<Rightarrow> ID \<Rightarrow> unit go" where
  "StopTyping r chatID userID =
     (case r of
        None \<Rightarrow> ret ()
      | Some _ \<Rightarrow>
          if chatID = '''' \<or> userID = '''' then ret ()
          else roundtrip (redis_DEL (typingKey chatID userID)))"

section \<open>Tickets\<close>

definition wsTicketKeyPrefix :: string where "wsTicketKeyPrefix = ''goflow:ws:ticket:''"

text \<open>\<^verbatim>\<open>2 * time.Minute\<close>\<close>

definition two_minutes :: int where "two_minutes = 120 * Second"

definition Ticket_Issue :: "unit option \<Rightarrow> ID \<Rightarrow> int \<Rightarrow> string go" where
  "Ticket_Issue st userID ttl0 =
     (case st of
        None \<Rightarrow> raise (ErrText ''ws ticket: nil client'')
      | Some _ \<Rightarrow>
          (let ttl = (if ttl0 \<le> 0 then two_minutes else ttl0)
           in call (rand_Read 16) raise (\<lambda>raw.
              let ticket = EncodeToString raw
              in call (roundtrip (redis_SETNX (wsTicketKeyPrefix @ ticket) userID ttl)) raise (\<lambda>ok.
                 if \<not> ok then raise (ErrText ''ws ticket: collision'') else ret ticket))))"

definition Ticket_Consume :: "unit option \<Rightarrow> string \<Rightarrow> ID go" where
  "Ticket_Consume st raw =
     (case st of
        None \<Rightarrow> raise (ErrText ''ws ticket: nil client'')
      | Some _ \<Rightarrow>
          (let ticket = TrimSpace raw
           in if ticket = '''' then raise (ErrText ''ws ticket: empty'')
              else
              call (roundtrip (redis_GETDEL (wsTicketKeyPrefix @ ticket))) raise (\<lambda>v.
              case v of
                None \<Rightarrow> raise (ErrText ''invalid or expired ticket'')
              | Some uid \<Rightarrow>
                  if TrimSpace uid = '''' then raise (ErrText ''ws ticket: invalid payload'')
                  else ret (TrimSpace uid))))"

record WSTicketService =
  wt_redis :: "unit option"
  wt_ttl :: int

definition NewWSTicketService :: "unit option \<Rightarrow> int \<Rightarrow> WSTicketService" where
  "NewWSTicketService r ttl = \<lparr>wt_redis = r, wt_ttl = (if ttl \<le> 0 then two_minutes else ttl)\<rparr>"

text \<open>
  The ticket and its lifetime in seconds.  \<^verbatim>\<open>Seconds()\<close> is a float64 that \<^verbatim>\<open>int\<close> truncates; on a
  positive whole number of nanoseconds that is integer division.
\<close>

definition WSTicketService_Issue :: "WSTicketService option \<Rightarrow> ID \<Rightarrow> (string \<times> int) go" where
  "WSTicketService_Issue svc userID =
     (case svc of
        None \<Rightarrow> raise (Internal ''ws ticket store not configured'' None)
      | Some s \<Rightarrow>
          if wt_redis s = None then raise (Internal ''ws ticket store not configured'' None)
          else if userID = '''' then raise (Unauthorized ''missing user'')
          else
          call (Ticket_Issue (wt_redis s) userID (wt_ttl s))
            (\<lambda>e. raise (Internal ''issue ws ticket'' (Some e)))
            (\<lambda>tok. ret (tok, wt_ttl s div Second)))"

end
