(* ===== verification/WsService.thy ===== *)
theory WsService
  imports MessageService Broadcast Ephemeral JsonIn
begin

text \<open>
  Inbound WebSocket events (\<^verbatim>\<open>backend/internal/service/ws_service.go\<close>): the envelope of a frame is
  decoded and its event dispatched to the message service, the typing indicators or the presence
  heartbeat.  The frames returned go to the sender's own connection.
\<close>

record WSService =
  wss_msgs :: MessageService
  wss_typing :: "unit option"
  wss_presence :: "PresenceService option"
  wss_bc :: Broadcaster

record InEnvelope =
  en_Event :: string
  en_Data :: RawMessage
  en_Meta :: RawMessage

text \<open>
  \<^verbatim>\<open>json.Unmarshal(payload, &env)\<close>: whether it succeeds, and what it leaves in \<^verbatim>\<open>env\<close>, which the error
  path reads as well.
\<close>

definition decode_envelope :: "RawMessage \<Rightarrow> bool \<times> InEnvelope" where
  "decode_envelope payload =
     (case Unmarshal payload of
        None \<Rightarrow> (False, \<lparr>en_Event = '''', en_Data = RawNil, en_Meta = RawNil\<rparr>)
      | Some v \<Rightarrow>
          (struct_type_ok v \<and> list_all str_type_ok (values_for ''event'' v),
           \<lparr>en_Event = fill_str (values_for ''event'' v) '''',
            en_Data = fill_raw (values_for ''data'' v) RawNil,
            en_Meta = fill_raw (values_for ''meta'' v) RawNil\<rparr>))"

definition metaOrEmpty :: "RawMessage \<Rightarrow> RawMessage" where
  "metaOrEmpty m = (if raw_empty m then RawJSON (JObj []) else m)"

text \<open>A raw message inside an envelope: its JSON value.\<close>

definition frame :: "string \<Rightarrow> json \<Rightarrow> RawMessage \<Rightarrow> RawMessage" where
  "frame event data meta = MarshalEnvelope event (Some data) (Unmarshal meta)"

definition error_body :: "string \<Rightarrow> string \<Rightarrow> json" where
  "error_body code message = JObj [(''code'', JStr code), (''message'', JStr message)]"

definition error_frame :: "string \<Rightarrow> string \<Rightarrow> RawMessage \<Rightarrow> RawMessage" where
  "error_frame code message meta = frame EventError (error_body code message) meta"

definition wsErrorFrame :: "err \<Rightarrow> RawMessage \<Rightarrow> RawMessage" where
  "wsErrorFrame e meta =
     (case As e of
        Some (AppError k m _ _) \<Rightarrow> error_frame (kind_string k) m (metaOrEmpty meta)
      | _ \<Rightarrow> error_frame ''internal'' (error_text e) (metaOrEmpty meta))"

text \<open>The three data structs: \<open>None\<close> is the decoding error.\<close>

definition decode_send :: "RawMessage \<Rightarrow> (string \<times> string \<times> string option) option" where
  "decode_send data =
     (case Unmarshal data of
        None \<Rightarrow> None
      | Some v \<Rightarrow>
          if struct_type_ok v \<and> list_all str_type_ok (values_for ''chat_id'' v)
             \<and> list_all str_type_ok (values_for ''text'' v) \<and> list_all str_type_ok (values_for ''reply_to_id'' v)
          then Some (fill_str (values_for ''chat_id'' v) '''', fill_str (values_for ''text'' v) '''',
                     fill_ptr (values_for ''reply_to_id'' v) None)
          else None)"

definition decode_one :: "string \<Rightarrow> RawMessage \<Rightarrow> string option" where
  "decode_one name data =
     (case Unmarshal data of
        None \<Rightarrow> None
      | Some v \<Rightarrow>
          if struct_type_ok v \<and> list_all str_type_ok (values_for name v)
          then Some (fill_str (values_for name v) '''') else None)"

definition handleMessageSend :: "WSService \<Rightarrow> ID \<Rightarrow> RawMessage \<Rightarrow> RawMessage \<Rightarrow> RawMessage list go" where
  "handleMessageSend s userID data meta =
     (case decode_send data of
        None \<Rightarrow> ret [error_frame ''validation_failed'' ''invalid message.send data'' (metaOrEmpty meta)]
      | Some (chatID, msg, replyTo) \<Rightarrow>
          call (MessageService_Create (wss_msgs s) userID (TrimSpace chatID)
                  \<lparr>cmr_Text = msg, cmr_ReplyToID = replyTo\<rparr>)
            (\<lambda>e. ret [wsErrorFrame e meta]) (\<lambda>_. ret []))"

definition handleMessageRead :: "WSService \<Rightarrow> ID \<Rightarrow> RawMessage \<Rightarrow> RawMessage \<Rightarrow> RawMessage list go" where
  "handleMessageRead s userID data meta =
     (case decode_one ''message_id'' data of
        None \<Rightarrow> ret [error_frame ''validation_failed'' ''invalid message.read data'' (metaOrEmpty meta)]
      | Some messageID \<Rightarrow>
          call (MessageService_MarkRead (wss_msgs s) userID (TrimSpace messageID))
            (\<lambda>e. ret [wsErrorFrame e meta]) (\<lambda>_. ret []))"

definition typing_payload :: "ID \<Rightarrow> ID \<Rightarrow> json" where
  "typing_payload cid userID = JObj [(''chat_id'', JStr cid), (''user_id'', JStr userID)]"

definition handleTyping :: "WSService \<Rightarrow> ID \<Rightarrow> string \<Rightarrow> RawMessage \<Rightarrow> RawMessage \<Rightarrow> RawMessage list go" where
  "handleTyping s userID event data meta =
     (case decode_one ''chat_id'' data of
        None \<Rightarrow> ret [error_frame ''validation_failed'' ''invalid typing payload'' (metaOrEmpty meta)]
      | Some chatID \<Rightarrow>
          call (lift (parseMsgChatID (TrimSpace chatID))) (\<lambda>e. ret [wsErrorFrame e meta]) (\<lambda>cid.
          call (FindMembership cid userID)
            (\<lambda>e. if errors_Is e ErrNotFound
                 then ret [error_frame ''forbidden'' ''not a chat member'' (metaOrEmpty meta)]
                 else ret [wsErrorFrame e meta])
            (\<lambda>_.
          ignore (if event = EventTypingStop then StopTyping (wss_typing s) cid userID
                  else StartTyping (wss_typing s) cid userID) (
          ignore (PublishToChat (wss_bc s) cid
                    (if event = EventTypingStop then EventTypingStopped else EventTypingStarted)
                    (Some (typing_payload cid userID)) (Unmarshal (metaOrEmpty meta)))
            (ret [])))))"

definition HandleEvent :: "WSService \<Rightarrow> ID \<Rightarrow> RawMessage \<Rightarrow> RawMessage list go" where
  "HandleEvent s userID payload =
     (let (ok, env) = decode_envelope payload; meta = metaOrEmpty (en_Meta env)
      in if \<not> ok then ret [error_frame ''validation_failed'' ''invalid json envelope'' meta]
         else
         ignore (case wss_presence s of None \<Rightarrow> ret () | Some p \<Rightarrow> Activity (Some p) userID) (
         if en_Event env = EventPing then ret [frame EventPong (JObj []) meta]
         else if en_Event env = EventMessageSend then handleMessageSend s userID (en_Data env) meta
         else if en_Event env = EventMessageRead then handleMessageRead s userID (en_Data env) meta
         else if en_Event env = EventTypingStart \<or> en_Event env = EventTypingStop
         then handleTyping s userID (en_Event env) (en_Data env) meta
         else ret [error_frame ''validation_failed'' ''unknown event'' meta]))"

end
