(* ===== verification/SessionGuarantee.thy ===== *)
theory SessionGuarantee
  imports Guarantee AuthService UserService WsService
begin

text \<open>
  The operations on sessions, profiles, presence, typing indicators and tickets keep the invariant of the store and
  its evolution as well: a session once revoked stays revoked, and nothing of the chats is touched.
\<close>

section \<open>Sessions\<close>

lemma domain_ok_sessions:
  assumes "domain_ok s" and "sessions_ok (s\<lparr>refresh_sessions := rs\<rparr>)"
    and "grows session_step (refresh_sessions s) rs"
  shows "domain_ok (s\<lparr>refresh_sessions := rs\<rparr>) \<and> later s (s\<lparr>refresh_sessions := rs\<rparr>)"
proof -
  let ?s = "s\<lparr>refresh_sessions := rs\<rparr>"
  have "chat_ids ?s = chat_ids s" "user_ids ?s = user_ids s" "message_ids ?s = message_ids s"
    "live_direct_keys ?s = live_direct_keys s"
    by (simp_all add: chat_ids_def user_ids_def message_ids_def live_direct_keys_def)
  then show ?thesis
    using assms
    by (simp add: domain_ok_def tables_ok_def users_ok_def chats_ok_def members_ok_def messages_ok_def
        outbox_ok_def member_fk_def message_fk_def links_ok_def outbox_complete_def later_def
        grows_refl)
qed

lemma revoked_keys [simp]:
  "rs_ID (set_revoked P now r) = rs_ID r" "rs_UserID (set_revoked P now r) = rs_UserID r"
  "rs_TokenHash (set_revoked P now r) = rs_TokenHash r"
  "rs_ExpiresAt (set_revoked P now r) = rs_ExpiresAt r"
  by (simp_all add: set_revoked_def)

lemma sessions_ok_revoke:
  "sessions_ok s \<Longrightarrow> sessions_ok (s\<lparr>refresh_sessions := map (set_revoked P now) (refresh_sessions s)\<rparr>)"
  by (simp add: sessions_ok_def comp_def user_ids_def)

lemma revoke_keeps:
  assumes "domain_ok s" and "\<And>r. r \<in> set (refresh_sessions s) \<Longrightarrow> P r \<Longrightarrow> rs_RevokedAt r = None"
  shows "domain_ok (s\<lparr>refresh_sessions := map (set_revoked P now) (refresh_sessions s)\<rparr>)
    \<and> later s (s\<lparr>refresh_sessions := map (set_revoked P now) (refresh_sessions s)\<rparr>)"
proof (rule domain_ok_sessions [OF assms(1) sessions_ok_revoke])
  show "sessions_ok s" using assms(1) by (simp add: domain_ok_def tables_ok_def)
  have "session_step r (set_revoked P now r)" if "r \<in> set (refresh_sessions s)" for r
    using assms(2) [OF that] by (auto simp: session_step_def set_revoked_def)
  then show "grows session_step (refresh_sessions s) (map (set_revoked P now) (refresh_sessions s))"
    by (auto simp: grows_def)
qed

lemma insert_session_keeps:
  assumes "domain_ok s" and "canonical (rs_ID r)"
  shows "domain_ok (snd (insert_session_row r s)) \<and> later s (snd (insert_session_row r s))"
proof -
  have "sessions_ok (s\<lparr>refresh_sessions := refresh_sessions s @ [r]\<rparr>)"
    if "rs_ID r \<notin> set (map rs_ID (refresh_sessions s))"
      "rs_TokenHash r \<notin> set (map rs_TokenHash (refresh_sessions s))" "rs_UserID r \<in> set (user_ids s)"
    using that assms by (auto simp: domain_ok_def tables_ok_def sessions_ok_def user_ids_def)
  then show ?thesis
    using assms(1) domain_ok_sessions [of s "refresh_sessions s @ [r]"]
    by (auto simp: insert_session_row_def grows_append)
qed

lemma insert_session_stmt_keeps: "stmt_keeps domain_ok later (insert_session_stmt sess)"
  unfolding insert_session_stmt_def
  by (intro with_uuid_keeps stmt_keepsI insert_session_keeps) simp_all

lemma keeps_Session_Create [go_keep]: "keeps (sound s0) (Session_Create sess)"
  unfolding Session_Create_def by (rule evo.keeps_roundtrip [OF insert_session_stmt_keeps])

lemma keeps_GetByTokenHash [go_keep]: "keeps (sound s0) (GetByTokenHash h)"
  unfolding GetByTokenHash_def
  by (intro go_keep keeps_read) (simp add: reads_only_def)

lemma keeps_Revoke [go_keep]: "keeps (sound s0) (Revoke i)"
  unfolding Revoke_def Let_def
proof (intro go_keep evo.keeps_roundtrip with_uuid_keeps stmt_keepsI)
  fix j now uid s
  assume "domain_ok s"
  then show "domain_ok (snd (Inr (length (filter (\<lambda>r. rs_ID r = j \<and> rs_RevokedAt r = None) (refresh_sessions s))),
      s\<lparr>refresh_sessions := map (set_revoked (\<lambda>r. rs_ID r = j \<and> rs_RevokedAt r = None) now) (refresh_sessions s)\<rparr>))
    \<and> later s (snd (Inr (length (filter (\<lambda>r. rs_ID r = j \<and> rs_RevokedAt r = None) (refresh_sessions s))),
      s\<lparr>refresh_sessions := map (set_revoked (\<lambda>r. rs_ID r = j \<and> rs_RevokedAt r = None) now) (refresh_sessions s)\<rparr>))"
    unfolding snd_conv by (rule revoke_keeps) simp
qed

lemma keeps_RevokeAllByUser [go_keep]: "keeps (sound s0) (RevokeAllByUser u)"
  unfolding RevokeAllByUser_def
proof (intro evo.keeps_roundtrip with_uuid_keeps stmt_keepsI)
  fix j now uid s
  assume "domain_ok s"
  then show "domain_ok (snd (Inr (), s\<lparr>refresh_sessions :=
        map (set_revoked (\<lambda>r. rs_UserID r = j \<and> rs_RevokedAt r = None) now) (refresh_sessions s)\<rparr>))
    \<and> later s (snd (Inr (), s\<lparr>refresh_sessions :=
        map (set_revoked (\<lambda>r. rs_UserID r = j \<and> rs_RevokedAt r = None) now) (refresh_sessions s)\<rparr>))"
    unfolding snd_conv by (rule revoke_keeps) simp
qed

text \<open>What the rotation does when its body succeeds.\<close>

definition rotated :: "ID \<Rightarrow> time \<Rightarrow> Store \<Rightarrow> Store" where
  "rotated i t0 s = s\<lparr>refresh_sessions := map (set_revoked (\<lambda>r. rs_ID r = i) t0) (refresh_sessions s)\<rparr>"

lemma rotate_body_effect:
  assumes "rotate_body h new t0 w = (Inr out, w')"
  obtains old u i where "find (live_session h t0) (refresh_sessions (store w)) = Some old"
    and "uuid_in (rs_UserID new) = Some u" and "uuid_in (rs_ID old) = Some i"
    and "insert_session_row (new\<lparr>rs_ID := t_uuid (net w (Suc (Suc (trips w)))), rs_UserID := u,
           rs_ExpiresAt := pg_timestamptz (rs_ExpiresAt new), rs_CreatedAt := t0, rs_RevokedAt := None\<rparr>)
         (rotated i t0 (store w)) = (Inr out, store w')"
  using assms
  by (auto simp: rotate_body_def one_row_def insert_session_stmt_def with_uuid_Inr next_trip_def
      rotated_def advance_def
      elim!: call_cases tx_stmt_Inr_cases split: option.splits)

lemma live_session_ok:
  assumes "domain_ok s" and "find (live_session h t) (refresh_sessions s) = Some old"
  shows "old \<in> set (refresh_sessions s)" and "canonical (rs_ID old)"
    and "rs_TokenHash old = h" "rs_RevokedAt old = None" "t < rs_ExpiresAt old"
    and "r \<in> set (refresh_sessions s) \<Longrightarrow> rs_ID r = rs_ID old \<Longrightarrow> r = old"
    and "r \<in> set (refresh_sessions s) \<Longrightarrow> rs_TokenHash r = h \<Longrightarrow> r = old"
proof -
  from find_Some_mem [OF assms(2)] show old: "old \<in> set (refresh_sessions s)"
    and h: "rs_TokenHash old = h" and "rs_RevokedAt old = None" "t < rs_ExpiresAt old"
    by (simp_all add: live_session_def)
  have ok: "inj_on rs_ID (set (refresh_sessions s))" "inj_on rs_TokenHash (set (refresh_sessions s))"
    "\<And>r. r \<in> set (refresh_sessions s) \<Longrightarrow> canonical (rs_ID r)"
    using assms(1) by (simp_all add: domain_ok_def tables_ok_def sessions_ok_def distinct_map)
  show "canonical (rs_ID old)" by (rule ok(3) [OF old])
  show "r = old" if "r \<in> set (refresh_sessions s)" "rs_ID r = rs_ID old"
    using inj_onD [OF ok(1) that(2,1) old] .
  show "r = old" if "r \<in> set (refresh_sessions s)" "rs_TokenHash r = h"
    using inj_onD [OF ok(2) _ that(1) old] that(2) h by simp
qed

lemma rotated_keeps:
  assumes "domain_ok s" and "find (live_session h t) (refresh_sessions s) = Some old"
  shows "domain_ok (rotated (rs_ID old) t s) \<and> later s (rotated (rs_ID old) t s)"
  unfolding rotated_def
proof (rule revoke_keeps [OF assms(1)])
  fix r
  assume "r \<in> set (refresh_sessions s)" "rs_ID r = rs_ID old"
  then have "r = old" by (rule live_session_ok(6) [OF assms])
  then show "rs_RevokedAt r = None" using live_session_ok(4) [OF assms] by simp
qed

lemma net_rotate_body [simp]: "net (snd (rotate_body h new t0 w)) = net w"
  by (simp add: rotate_body_def call_eq split: sum.split)

lemma keeps_RotateRefresh [go_keep]: "keeps (sound s0) (RotateRefresh h new)"
  unfolding RotateRefresh_def
proof (rule evo.keeps_transaction)
  fix t w x w'
  assume w: "sound s0 w" and "rotate_body h new t w = (Inr x, w')"
  then obtain old u i where old: "find (live_session h t) (refresh_sessions (store w)) = Some old"
    and i: "uuid_in (rs_ID old) = Some i"
    and ins: "insert_session_row (new\<lparr>rs_ID := t_uuid (net w (Suc (Suc (trips w)))), rs_UserID := u,
           rs_ExpiresAt := pg_timestamptz (rs_ExpiresAt new), rs_CreatedAt := t, rs_RevokedAt := None\<rparr>)
         (rotated i t (store w)) = (Inr x, store w')"
    by (elim rotate_body_effect)
  have s: "domain_ok (store w)" using w by (simp add: holds_def)
  have "i = rs_ID old" using i live_session_ok(2) [OF s old] by simp
  then have rot: "domain_ok (rotated i t (store w))" "later (store w) (rotated i t (store w))"
    using rotated_keeps [OF s old] by simp_all
  have "canonical (t_uuid (net w (Suc (Suc (trips w)))))"
    using w by (simp add: holds_def rely_def)
  then have "domain_ok (store w') \<and> later (rotated i t (store w)) (store w')"
    using insert_session_keeps [OF rot(1), of "new\<lparr>rs_ID := t_uuid (net w (Suc (Suc (trips w)))),
        rs_UserID := u, rs_ExpiresAt := pg_timestamptz (rs_ExpiresAt new), rs_CreatedAt := t,
        rs_RevokedAt := None\<rparr>"]
    unfolding ins by simp
  then show "domain_ok (store w') \<and> later (store w) (store w')"
    using rot(2) later_trans by blast
qed simp

section \<open>Authentication and profiles\<close>

lemma keeps_HashPassword [go_keep]: "keeps (holds J G s0) (HashPassword b p)"
  by (simp add: keeps_def HashPassword_def)

lemma keeps_must_be_free [go_keep]:
  "keeps P look \<Longrightarrow> keeps P k \<Longrightarrow> keeps P (must_be_free look taken failed k)"
  unfolding must_be_free_def by (intro go_keep)

lemma keeps_newAccessToken [go_keep]: "keeps P (newAccessToken s u)"
  unfolding newAccessToken_def GenerateAccessToken_def by (intro go_keep)

lemma keeps_newRefreshPlain [go_keep]: "keeps (holds J G s0) newRefreshPlain"
  unfolding newRefreshPlain_def by (intro go_keep)

lemma keeps_issueTokens [go_keep]: "keeps (sound s0) (issueTokens s u meta)"
  unfolding issueTokens_def Let_def by (intro go_keep)

lemma keeps_auth_service [go_keep]:
  "keeps (sound s0) (AuthService_Register s req meta)" "keeps (sound s0) (AuthService_Login s lreq meta)"
  "keeps (sound s0) (AuthService_Refresh s raw meta)" "keeps (sound s0) (AuthService_Logout s raw)"
  "keeps (sound s0) (AuthService_LogoutAll u)"
  unfolding AuthService_Register_def AuthService_Login_def AuthService_Refresh_def AuthService_Logout_def
    AuthService_LogoutAll_def Let_def
  by (intro go_keep)+

lemma keeps_user_service [go_keep]:
  "keeps (sound s0) (Me u)" "keeps (sound s0) (UpdateMe u preq)"
  "keeps (sound s0) (UserService_Search q limit offset)" "keeps (sound s0) (UserService_GetByID raw)"
  unfolding Me_def UpdateMe_def patch_nickname_def UserService_Search_def UserService_GetByID_def Let_def
  by (intro go_keep)+

section \<open>Redis\<close>

lemma domain_ok_redis [simp]: "domain_ok (s\<lparr>redis_kv := m\<rparr>) = domain_ok s"
  by (simp add: domain_ok_def tables_defs links_ok_def outbox_complete_def member_fk_def
      message_fk_def chat_ids_def user_ids_def message_ids_def live_direct_keys_def)

lemma later_redis [simp]: "later s (s\<lparr>redis_kv := m\<rparr>)"
  by (simp add: later_def grows_refl)

lemma redis_commands_keep:
  "stmt_keeps domain_ok later (redis_SET key v ttl)" "stmt_keeps domain_ok later (redis_SETNX key v ttl)"
  "stmt_keeps domain_ok later (redis_DEL key)" "stmt_keeps domain_ok later (redis_EXISTS key)"
  "stmt_keeps domain_ok later (redis_GETDEL key)"
  by (simp_all add: stmt_keeps_def redis_SET_def redis_SETNX_def redis_DEL_def redis_EXISTS_def redis_GETDEL_def)

lemmas keeps_redis [go_keep] = redis_commands_keep [THEN evo.keeps_roundtrip]

lemma keeps_ephemeral [go_keep]:
  "keeps (sound s0) (SetOnline p u)" "keeps (sound s0) (SetOffline p u)" "keeps (sound s0) (IsOnline p u)"
  "keeps (sound s0) (StartTyping r c u)" "keeps (sound s0) (StopTyping r c u)"
  "keeps (sound s0) (WSTicketService_Issue svc u)" "keeps (sound s0) (Ticket_Consume st raw)"
  unfolding SetOnline_def SetOffline_def IsOnline_def Presence_SetOnline_def Presence_SetOffline_def
    Presence_IsOnline_def StartTyping_def StopTyping_def WSTicketService_Issue_def Ticket_Issue_def
    Ticket_Consume_def Let_def
  by (intro go_keep)+

lemma keeps_hooks [go_keep]:
  "keeps (sound s0) (Connected p u)" "keeps (sound s0) (Disconnected p u)" "keeps (sound s0) (Activity p u)"
  unfolding Connected_def Disconnected_def Activity_def Touch_def by (intro go_keep)+

lemma keeps_HandleEvent [go_keep]: "keeps (sound s0) (HandleEvent s u payload)"
  unfolding HandleEvent_def handleMessageSend_def handleMessageRead_def handleTyping_def Let_def split_def
  by (intro go_keep)

end
