(* ===== verification/HttpCore.thy ===== *)
theory HttpCore
  imports AuthService JsonIn
begin

text \<open>
  The HTTP layer below the handlers: responses (\<^verbatim>\<open>backend/internal/pkg/response\<close>), violations
  (\<^verbatim>\<open>backend/internal/pkg/validator\<close>), the decoding of request bodies the four handler files share, and
  the middleware (\<^verbatim>\<open>backend/internal/transport/http/middleware\<close>, \<^verbatim>\<open>backend/internal/observability/metrics\<close>).
  A handler is a function of the request and the world.
\<close>

section \<open>Requests and responses\<close>

text \<open>
  A request body as the JSON decoder reads it through \<^verbatim>\<open>http.MaxBytesReader\<close>: what the first and the
  second read of a value yield (a value, the end of the body, a syntax error, or the byte limit), and up to
  which byte of the body each of the two reads.
\<close>

datatype body_read = ReadValue json | ReadEOF | ReadSyntaxError string | ReadTooLarge

record HttpRequest =
  hr_Method :: string
  hr_Pattern :: string
  hr_Path :: string
  hr_PathValue :: "string \<Rightarrow> string"
  hr_Query :: "string \<Rightarrow> string"
  hr_Header :: "string \<Rightarrow> string"
  hr_RemoteAddr :: string
  hr_Body :: "(body_read \<times> nat) \<times> (body_read \<times> nat)"
  hr_UserID :: "ID option"

text \<open>
  What a response carries: JSON, plain text, HTML, an embedded file by its name, the page that the Prometheus library renders from the
  registry, or nothing.
\<close>

datatype http_body = JsonBody json | TextBody string | HtmlBody string | FileBody string | MetricsPage | NoBody

record HttpResponse =
  rp_Status :: nat
  rp_Body :: http_body
  rp_RequestID :: "string option"

type_synonym handler = "HttpRequest \<Rightarrow> World \<Rightarrow> HttpResponse \<times> World"

definition WriteJSON :: "nat \<Rightarrow> json \<Rightarrow> HttpResponse" where
  "WriteJSON status v = \<lparr>rp_Status = status, rp_Body = JsonBody v, rp_RequestID = None\<rparr>"

text \<open>\<^verbatim>\<open>SuccessBody\<close>; \<open>None\<close> is a nil \<^verbatim>\<open>Data\<close>, which is omitted.\<close>

definition SuccessBody :: "json option \<Rightarrow> json" where
  "SuccessBody data = JObj ((''ok'', JBool True) # (case data of None \<Rightarrow> [] | Some d \<Rightarrow> [(''data'', d)]))"

definition WriteSuccess :: "nat \<Rightarrow> json option \<Rightarrow> HttpResponse" where
  "WriteSuccess status data = WriteJSON (if status = 0 then 200 else status) (SuccessBody data)"

definition normalizeDetails :: "json option \<Rightarrow> json" where
  "normalizeDetails d = (case d of None \<Rightarrow> JObj [] | Some x \<Rightarrow> x)"

definition api_error :: "string \<Rightarrow> string \<Rightarrow> json option \<Rightarrow> json" where
  "api_error code message details =
     JObj [(''error'', JObj [(''code'', JStr code), (''message'', JStr message),
                             (''details'', normalizeDetails details)])]"

definition writeAPIError :: "nat \<Rightarrow> string \<Rightarrow> string \<Rightarrow> json option \<Rightarrow> HttpResponse" where
  "writeAPIError status code message details = WriteJSON status (api_error code message details)"

definition WriteError :: "err option \<Rightarrow> HttpResponse" where
  "WriteError e =
     (case e of
        None \<Rightarrow> WriteJSON 200 (SuccessBody None)
      | Some e \<Rightarrow>
          (case As e of
             Some (AppError k m d _) \<Rightarrow> writeAPIError (HTTPStatus (Some e)) (kind_string k) m d
           | _ \<Rightarrow> writeAPIError (HTTPStatus (Some e)) ''internal'' ''internal server error'' None))"

definition WriteErrorWithDetails :: "err option \<Rightarrow> json option \<Rightarrow> HttpResponse" where
  "WriteErrorWithDetails e details =
     (case e of
        None \<Rightarrow> WriteSuccess 200 None
      | Some e \<Rightarrow>
          (case As e of
             Some (AppError k m d _) \<Rightarrow>
               writeAPIError (HTTPStatus (Some e)) (kind_string k) m (if d \<noteq> None then d else details)
           | _ \<Rightarrow> writeAPIError (HTTPStatus (Some e)) ''internal'' ''internal server error'' details))"

definition response_Is :: "err \<Rightarrow> Kind \<Rightarrow> bool" where
  "response_Is e kind = (case As e of Some (AppError k _ _ _) \<Rightarrow> k = kind | _ \<Rightarrow> False)"

section \<open>Violations\<close>

record Violation =
  vi_Field :: string
  vi_Message :: string

definition violation_json :: "Violation \<Rightarrow> json" where
  "violation_json v = JObj [(''field'', JStr (vi_Field v)), (''message'', JStr (vi_Message v))]"

definition Details :: "Violation list \<Rightarrow> json" where
  "Details vs = JObj [(''fields'', JArr (map violation_json vs))]"

definition Violation_Add :: "Violation list \<Rightarrow> string \<Rightarrow> string \<Rightarrow> bool \<Rightarrow> Violation list" where
  "Violation_Add vs field message cond =
     (if \<not> cond then vs else vs @ [\<lparr>vi_Field = field, vi_Message = message\<rparr>])"

definition NonEmpty :: "Violation list \<Rightarrow> string \<Rightarrow> string \<Rightarrow> Violation list" where
  "NonEmpty vs field v =
     (if TrimSpace v = '''' then vs @ [\<lparr>vi_Field = field, vi_Message = ''is required''\<rparr>] else vs)"

section \<open>Bodies and parameters\<close>

text \<open>
  What the four decoding functions of the handlers have in common: one JSON value that the given decoder accepts, and
  nothing after it.
\<close>

definition decode_single :: "(json \<Rightarrow> 'a option) \<Rightarrow> body_read \<times> body_read \<Rightarrow> err + 'a" where
  "decode_single dec b =
     (case fst b of
        ReadTooLarge \<Rightarrow> Inl (Validation ''request body too large'' (Some (ErrText ''http: request body too large'')))
      | ReadEOF \<Rightarrow> Inl (Validation ''invalid json body'' (Some (ErrText ''EOF'')))
      | ReadSyntaxError e \<Rightarrow> Inl (Validation ''invalid json body'' (Some (ErrText e)))
      | ReadValue v \<Rightarrow>
          (case dec v of
             None \<Rightarrow> Inl (Validation ''invalid json body'' (Some (ErrText ''json: cannot unmarshal'')))
           | Some x \<Rightarrow>
               (case snd b of
                  ReadEOF \<Rightarrow> Inr x
                | ReadValue v2 \<Rightarrow>
                    if struct_type_ok v2 \<and> known_keys [] v2
                    then Inl (Validation ''request body must be a single json object'' None)
                    else Inl (Validation ''invalid json body'' (Some (ErrText ''json: cannot unmarshal'')))
                | ReadTooLarge \<Rightarrow>
                    Inl (Validation ''invalid json body'' (Some (ErrText ''http: request body too large'')))
                | ReadSyntaxError e \<Rightarrow> Inl (Validation ''invalid json body'' (Some (ErrText e))))))"

text \<open>A body behind \<^verbatim>\<open>http.MaxBytesReader\<close>: a read that needs more than the allowed bytes fails.\<close>

definition MaxBytesReader :: "nat \<Rightarrow> (body_read \<times> nat) \<times> (body_read \<times> nat) \<Rightarrow> body_read \<times> body_read" where
  "MaxBytesReader n b = map_prod (\<lambda>(r, k). if k > n then ReadTooLarge else r) (\<lambda>(r, k). if k > n then ReadTooLarge else r) b"

definition maxAuthBodyBytes :: nat where "maxAuthBodyBytes = 1048576"
definition maxUserPatchBytes :: nat where "maxUserPatchBytes = 1048576"
definition maxChatBodyBytes :: nat where "maxChatBodyBytes = 1048576"
definition maxMessageBodyBytes :: nat where "maxMessageBodyBytes = 1048576"

definition decodeJSON :: "(json \<Rightarrow> 'a option) \<Rightarrow> HttpRequest \<Rightarrow> err + 'a" where
  "decodeJSON dec r = decode_single dec (MaxBytesReader maxAuthBodyBytes (hr_Body r))"

definition decodeUserJSON :: "(json \<Rightarrow> 'a option) \<Rightarrow> HttpRequest \<Rightarrow> err + 'a" where
  "decodeUserJSON dec r = decode_single dec (MaxBytesReader maxUserPatchBytes (hr_Body r))"

definition decodeChatJSON :: "(json \<Rightarrow> 'a option) \<Rightarrow> HttpRequest \<Rightarrow> err + 'a" where
  "decodeChatJSON dec r = decode_single dec (MaxBytesReader maxChatBodyBytes (hr_Body r))"

definition decodeMessageJSON :: "(json \<Rightarrow> 'a option) \<Rightarrow> HttpRequest \<Rightarrow> err + 'a" where
  "decodeMessageJSON dec r = decode_single dec (MaxBytesReader maxMessageBodyBytes (hr_Body r))"

text \<open>A struct all of whose fields are strings or pointers to strings.\<close>

definition text_struct :: "string list \<Rightarrow> json \<Rightarrow> bool" where
  "text_struct names v =
     (struct_type_ok v \<and> known_keys names v \<and> list_all (\<lambda>n. list_all str_type_ok (values_for n v)) names)"

definition queryInt :: "string \<Rightarrow> int \<Rightarrow> int" where
  "queryInt raw d = (if TrimSpace raw = '''' then d else case Atoi raw of None \<Rightarrow> d | Some n \<Rightarrow> n)"

definition queryIntChats :: "string \<Rightarrow> int \<Rightarrow> int" where
  "queryIntChats raw d = (if TrimSpace raw = '''' then d else case Atoi raw of None \<Rightarrow> d | Some n \<Rightarrow> n)"

definition queryIntMessages :: "string \<Rightarrow> int \<Rightarrow> int" where
  "queryIntMessages raw d = (if TrimSpace raw = '''' then d else case Atoi raw of None \<Rightarrow> d | Some n \<Rightarrow> n)"

section \<open>Middleware\<close>

definition bearerToken :: "string \<Rightarrow> string" where
  "bearerToken authz0 =
     (let authz = TrimSpace authz0; p = ''Bearer ''
      in if authz = '''' then ''''
         else if length authz \<le> length p \<or> \<not> EqualFold (take (length p) authz) p then ''''
         else TrimSpace (drop (length p) authz))"

definition RequireBearerAuth :: "Jwt \<Rightarrow> string \<Rightarrow> handler \<Rightarrow> handler" where
  "RequireBearerAuth j secret next r w =
     (let raw = bearerToken (hr_Header r ''Authorization'')
      in if raw = '''' then (WriteError (Some (Unauthorized ''missing bearer token'')), w)
         else case ParseAccessToken j secret raw (clock w) of
             Inl _ \<Rightarrow> (WriteError (Some (Unauthorized ''invalid or expired token'')), w)
           | Inr claims \<Rightarrow> next (r\<lparr>hr_UserID := Some (ac_UserID claims)\<rparr>) w)"

text \<open>\<^verbatim>\<open>uid, _ := middleware.UserID(ctx)\<close>: the zero id when there is none.\<close>

definition UserID_or_zero :: "HttpRequest \<Rightarrow> ID" where
  "UserID_or_zero r = (case hr_UserID r of None \<Rightarrow> '''' | Some u \<Rightarrow> u)"

text \<open>
  The outer middleware runs around the mux, whose state is the world and the limiters (\<open>'x\<close>).
  \<^verbatim>\<open>Recovery\<close>: a handler that may panic (\<open>None\<close>) becomes one that answers 500.
\<close>

definition Recovery ::
  "(HttpRequest \<Rightarrow> 's \<Rightarrow> HttpResponse option \<times> 's) \<Rightarrow> HttpRequest \<Rightarrow> 's \<Rightarrow> HttpResponse \<times> 's" where
  "Recovery next r st =
     (case next r st of
        (Some resp, st') \<Rightarrow> (resp, st')
      | (None, st') \<Rightarrow> (WriteError (Some (Internal ''internal server error'' None)), st'))"

text \<open>\<^verbatim>\<open>Logging\<close> with a logger: the request id is the client's or eight random bytes.\<close>

definition Logging ::
  "(HttpRequest \<Rightarrow> World \<times> 'x \<Rightarrow> HttpResponse \<times> World \<times> 'x) \<Rightarrow>
     HttpRequest \<Rightarrow> World \<times> 'x \<Rightarrow> HttpResponse \<times> World \<times> 'x" where
  "Logging next r st =
     (let given = hr_Header r ''X-Request-ID''; w = fst st;
          w1 = (if given = '''' then w\<lparr>drawn := Suc (drawn w)\<rparr> else w);
          rid = (if given = '''' then EncodeToString (map (rand_src w (drawn w)) [0..<8]) else given)
      in case next r (w1, snd st) of (resp, st') \<Rightarrow> (resp\<lparr>rp_RequestID := Some rid\<rparr>, st'))"

definition statusClass :: "nat \<Rightarrow> string" where
  "statusClass code =
     (if code \<ge> 500 then ''5xx'' else if code \<ge> 400 then ''4xx'' else if code \<ge> 300 then ''3xx''
      else if code \<ge> 200 then ''2xx'' else ''other'')"

definition routePattern :: "HttpRequest \<Rightarrow> string" where
  "routePattern r = (let p = TrimSpace (hr_Pattern r) in if p \<noteq> '''' then p else ''unmatched'')"

definition stripHighCardinalityPath :: "string \<Rightarrow> string" where
  "stripHighCardinalityPath path =
     (let path = TrimSpace path in
      if path = ''/metrics'' then ''/metrics'' else if path = ''/health'' then ''/health'' else path)"

definition bump :: "'k \<Rightarrow> ('k \<Rightarrow> nat) \<Rightarrow> 'k \<Rightarrow> nat" where
  "bump k f = f(k := Suc (f k))"

text \<open>
  \<^verbatim>\<open>HTTPMiddleware\<close>: in flight while the handler runs, then counted by method, route and status class, with its duration in
  nanoseconds as one observation of the histogram.
\<close>

definition observe :: "'k \<Rightarrow> int \<Rightarrow> ('k \<Rightarrow> int list) \<Rightarrow> 'k \<Rightarrow> int list" where
  "observe k d f = f(k := f k @ [d])"

text \<open>What the recorder has seen: a connection that was taken over writes past it, so its status stays 200.\<close>

definition recorded_status :: "HttpResponse \<Rightarrow> nat" where
  "recorded_status resp = (if rp_Status resp = 101 then 200 else rp_Status resp)"

definition HTTPMiddleware ::
  "(HttpRequest \<Rightarrow> World \<times> 'x \<Rightarrow> HttpResponse \<times> World \<times> 'x) \<Rightarrow>
     HttpRequest \<Rightarrow> World \<times> 'x \<Rightarrow> HttpResponse \<times> World \<times> 'x" where
  "HTTPMiddleware next r st =
     (let w1 = snd (metric (\<lambda>m. m\<lparr>HTTPInflight := HTTPInflight m + 1\<rparr>) (fst st))
      in case next r (w1, snd st) of
           (resp, w2, x) \<Rightarrow>
             (let route0 = routePattern r;
                  route = (if route0 = ''unmatched'' then stripHighCardinalityPath (hr_Path r) else route0);
                  key = (hr_Method r, route, statusClass (recorded_status resp));
                  w3 = snd (metric (\<lambda>m. m\<lparr>HTTPRequests := bump key (HTTPRequests m)\<rparr>) w2);
                  w4 = snd (metric (\<lambda>m. m\<lparr>HTTPDuration := observe key (clock w3 - clock w1) (HTTPDuration m)\<rparr>) w3)
              in (resp, snd (metric (\<lambda>m. m\<lparr>HTTPInflight := HTTPInflight m - 1\<rparr>) w4), x)))"

end
