(* ===== verification/WsConn.thy ===== *)
theory WsConn
  imports WsService HttpCore
begin

text \<open>
  WebSocket connections: the upgrade handler and the pumps of a client
  (\<^verbatim>\<open>backend/internal/transport/ws/handler.go\<close>, \<^verbatim>\<open>client.go\<close>), and the event labels of the metrics
  (\<^verbatim>\<open>backend/internal/observability/metrics/ws_labels.go\<close>).

  The connection is that of \<^verbatim>\<open>gorilla/websocket\<close>: whether an upgrade succeeds and what a read yields are inputs,
  and what is written to it is recorded in the order of the writes.
\<close>

section \<open>Labels\<close>

definition wsEventAllowlist :: "string list" where
  "wsEventAllowlist =
     [''ping'', ''pong'', ''message.send'', ''message.read'', ''typing.start'', ''typing.stop'',
      ''typing.started'', ''typing.stopped'', ''error'', ''message.created'', ''message.updated'',
      ''message.deleted'', ''message.read_receipt'']"

definition SanitizeWSEvent :: "string \<Rightarrow> string" where
  "SanitizeWSEvent event =
     (let e = TrimSpace (ToLower event)
      in if e = '''' then ''other'' else if e \<in> set wsEventAllowlist then e else ''other'')"

definition EnvelopeEventName :: "RawMessage \<Rightarrow> string" where
  "EnvelopeEventName payload =
     (case Unmarshal payload of
        None \<Rightarrow> ''other''
      | Some v \<Rightarrow>
          (let event = fill_str (values_for ''event'' v) ''''
           in if \<not> (struct_type_ok v \<and> list_all str_type_ok (values_for ''event'' v)) \<or> event = ''''
              then ''other'' else SanitizeWSEvent event))"

section \<open>Connecting\<close>

record WsHandler =
  wh_proc :: WSService
  wh_tickets :: "unit option"
  wh_allowed :: "string list"
  wh_presence :: "PresenceService option"

definition NewHandler :: "WSService \<Rightarrow> unit option \<Rightarrow> string list \<Rightarrow> PresenceService option \<Rightarrow> WsHandler" where
  "NewHandler proc tickets allowedOrigins presence =
     \<lparr>wh_proc = proc, wh_tickets = tickets,
      wh_allowed = remdups (filter (\<lambda>t. t \<noteq> '''') (map TrimSpace allowedOrigins)), wh_presence = presence\<rparr>"

definition originOK :: "WsHandler \<Rightarrow> string \<Rightarrow> bool" where
  "originOK h origin =
     (if origin = '''' then True else if wh_allowed h = [] then False else origin \<in> set (wh_allowed h))"

definition http_Error :: "string \<Rightarrow> nat \<Rightarrow> HttpResponse" where
  "http_Error msg status = \<lparr>rp_Status = status, rp_Body = TextBody msg, rp_RequestID = None\<rparr>"

text \<open>
  The part of \<^verbatim>\<open>ServeHTTP\<close> up to the pumps: a refusal, or the user whose client is registered under the
  fresh reference \<open>p\<close>.  \<open>upgrade\<close> is what \<^verbatim>\<open>Upgrade\<close> of the WebSocket library does on this request: it succeeds, or
  it fails after it has written an error response of its own.
\<close>

definition ws_connect ::
  "WsHandler \<Rightarrow> (HttpResponse + unit) \<Rightarrow> client_ref \<Rightarrow> HttpRequest \<Rightarrow> World \<Rightarrow> (HttpResponse + ID) \<times> World" where
  "ws_connect h upgrade p r w =
     (if \<not> originOK h (TrimSpace (hr_Header r ''Origin'')) then (Inl (http_Error ''forbidden origin'' 403), w)
      else if wh_tickets h = None then (Inl (http_Error ''ws not configured'' 503), w)
      else let ticket = TrimSpace (hr_Query r ''ticket'')
      in if ticket = '''' then (Inl (http_Error ''missing ticket'' 401), w)
         else case Ticket_Consume (wh_tickets h) ticket w of
             (Inl _, w1) \<Rightarrow> (Inl (http_Error ''invalid or expired ticket'' 401), w1)
           | (Inr uid, w1) \<Rightarrow>
               if uid = '''' then (Inl (http_Error ''invalid or expired ticket'' 401), w1)
               else case upgrade of
                   Inl resp \<Rightarrow>
                     (Inl resp,
                      snd (metric (\<lambda>m. m\<lparr>WSErrors := bump ''upgrade'' (WSErrors m)\<rparr>) w1))
                 | Inr _ \<Rightarrow>
                     (let w2 = snd ((case wh_presence h of None \<Rightarrow> ret () | Some s \<Rightarrow> Connected (Some s) uid) w1)
                      in (Inr uid, w2\<lparr>hub := Register p (newClient uid) (hub w2)\<rparr>)))"

section \<open>Pumps\<close>

text \<open>\<^verbatim>\<open>select { case c.send <- b: default: }\<close> on one client of the hub.\<close>

definition offer_to :: "client_ref \<Rightarrow> RawMessage \<Rightarrow> Hub \<Rightarrow> Hub" where
  "offer_to p b h = h\<lparr>hub_heap := (hub_heap h)(p := map_option (offer b) (hub_heap h p))\<rparr>"

text \<open>
  One frame read by \<^verbatim>\<open>readPump\<close>: the frames of the processor are queued on the client's own channel, or
  its error is written to the connection at once.  The second component is what was written directly.
\<close>

definition read_frame :: "WSService \<Rightarrow> client_ref \<Rightarrow> ID \<Rightarrow> RawMessage \<Rightarrow> World \<Rightarrow> RawMessage list \<times> World" where
  "read_frame proc p userID message w =
     (let w1 = snd (metric (\<lambda>m. m\<lparr>WSInbound := bump (EnvelopeEventName message) (WSInbound m)\<rparr>) w)
      in case HandleEvent proc userID message w1 of
           (Inl e, w2) \<Rightarrow>
             ([MarshalEnvelope EventError (Some (error_body ''internal'' (error_text e))) None],
              snd (metric (\<lambda>m. m\<lparr>WSErrors := bump ''handler'' (WSErrors m)\<rparr>) w2))
         | (Inr outs, w2) \<Rightarrow>
             ([], fold (\<lambda>b w. (snd (metric (\<lambda>m. m\<lparr>WSOutbound := bump (EnvelopeEventName b) (WSOutbound m)\<rparr>) w))
                               \<lparr>hub := offer_to p b (hub w)\<rparr>) outs w2))"

text \<open>The deferred cleanup when the read loop ends: presence off, then the client leaves the hub.\<close>

definition read_end :: "PresenceService option \<Rightarrow> client_ref \<Rightarrow> ID \<Rightarrow> World \<Rightarrow> World" where
  "read_end presence p userID w =
     (let w1 = snd ((case presence of None \<Rightarrow> ret () | Some s \<Rightarrow> Disconnected (Some s) userID) w)
      in w1\<lparr>hub := Unregister p (newClient userID) (hub w1)\<rparr>)"

text \<open>\<^verbatim>\<open>readPump\<close> on the frames the connection yields before it fails.\<close>

fun readPump :: "WSService \<Rightarrow> PresenceService option \<Rightarrow> client_ref \<Rightarrow> ID \<Rightarrow> RawMessage list \<Rightarrow> World \<Rightarrow>
    RawMessage list \<times> World" where
  "readPump proc presence p userID [] w = ([], read_end presence p userID w)"
| "readPump proc presence p userID (m # ms) w =
     (case read_frame proc p userID m w of
        (direct, w1) \<Rightarrow>
          (case readPump proc presence p userID ms w1 of (rest, w') \<Rightarrow> (direct @ rest, w')))"

text \<open>
  One round of \<^verbatim>\<open>writePump\<close>: a queued frame is taken and written, or the ticker sends a ping; a failed
  write ends the pump.  The program never closes the channel.
\<close>

datatype pump_wake = FrameReady | TickerFired

datatype written = WroteText RawMessage | WrotePing

definition write_round :: "pump_wake \<Rightarrow> bool \<Rightarrow> client_ref \<Rightarrow> Hub \<Rightarrow> (written list \<times> bool) \<times> Hub" where
  "write_round wake writeOK p h =
     (case (wake, hub_heap h p) of
        (FrameReady, Some c) \<Rightarrow>
          (case cl_send c of
             [] \<Rightarrow> (([], True), h)
           | b # rest \<Rightarrow>
               ((if writeOK then [WroteText b] else [], writeOK),
                h\<lparr>hub_heap := (hub_heap h)(p \<mapsto> c\<lparr>cl_send := rest\<rparr>)\<rparr>))
      | (TickerFired, _) \<Rightarrow> ((if writeOK then [WrotePing] else [], writeOK), h)
      | (FrameReady, None) \<Rightarrow> (([], True), h))"

text \<open>
  \<^verbatim>\<open>writePump\<close> over what wakes it and whether the write then succeeds.  When it ends, it closes the connection.
\<close>

definition close_conn :: "client_ref \<Rightarrow> Hub \<Rightarrow> Hub" where
  "close_conn p h = h\<lparr>hub_heap := (hub_heap h)(p := map_option (\<lambda>c. c\<lparr>cl_open := False\<rparr>) (hub_heap h p))\<rparr>"

fun writePump :: "client_ref \<Rightarrow> (pump_wake \<times> bool) list \<Rightarrow> Hub \<Rightarrow> written list \<times> Hub" where
  "writePump p [] h = ([], h)"
| "writePump p ((wake, writeOK) # wakes) h =
     (case write_round wake writeOK p h of
        ((out, True), h1) \<Rightarrow> (case writePump p wakes h1 of (outs, h2) \<Rightarrow> (out @ outs, h2))
      | ((out, False), h1) \<Rightarrow> (out, close_conn p h1))"

section \<open>Deadlines\<close>

definition writeWait :: int where "writeWait = 10 * Second"
definition pongWait :: int where "pongWait = 60 * Second"
definition pingPeriod :: int where "pingPeriod = pongWait * 9 div 10"
definition maxMessageSize :: nat where "maxMessageSize = 65536"

text \<open>
  The read loop on a connection with a read deadline.  Each frame comes with the time at which it has arrived, and whether the buffer of the
  connection already holds it if it had arrived when the connection was last read from the network; a text frame has its size.  \<open>ConnEnd\<close> is the end
  of the connection, closed by the peer, by the write pump or by an error.

  The clock of the world is that of the loop, which handles a message before it reads on.  A read waits for the frame; it fails once the
  deadline has passed, unless the frame is in the buffer, on a frame above the limit, and at the end of the connection.  The handler of a
  pong, which runs in the read, moves the deadline; a text frame does not.
\<close>

datatype InFrame = PongFrame | TextFrame RawMessage nat | ConnEnd

record Arrival =
  fr_Time :: time
  fr_Buffered :: bool
  fr_Frame :: InFrame

text \<open>
  The results: for each frame that was read, when it arrived and when the loop was done with it; what was written to the connection directly; and the world
  when the loop ends.
\<close>

fun conn_reads ::
  "WSService \<Rightarrow> client_ref \<Rightarrow> ID \<Rightarrow> time \<Rightarrow> time \<Rightarrow> Arrival list \<Rightarrow> World \<Rightarrow>
     (time \<times> time) list \<times> RawMessage list \<times> World" where
  "conn_reads proc p userID deadline filled [] w = ([], [], w\<lparr>clock := max (clock w) deadline\<rparr>)"
| "conn_reads proc p userID deadline filled (a # frames) w =
     (let buffered = (fr_Buffered a \<and> fr_Time a \<le> filled);
          now = max (clock w) (fr_Time a);
          filled = (if buffered then filled else now)
      in if \<not> buffered \<and> now > deadline then ([], [], w\<lparr>clock := max (clock w) deadline\<rparr>)
         else case fr_Frame a of
             ConnEnd \<Rightarrow> ([], [], w\<lparr>clock := now\<rparr>)
           | PongFrame \<Rightarrow>
               (case conn_reads proc p userID (now + pongWait) filled frames (w\<lparr>clock := now\<rparr>) of
                  (log, out, w') \<Rightarrow> ((fr_Time a, now) # log, out, w'))
           | TextFrame m n \<Rightarrow>
               if n > maxMessageSize then ([], [], w\<lparr>clock := now\<rparr>)
               else (case read_frame proc p userID m (w\<lparr>clock := now\<rparr>) of
                   (direct, w1) \<Rightarrow>
                     (case conn_reads proc p userID deadline filled frames w1 of
                        (log, out, w') \<Rightarrow> ((fr_Time a, clock w1) # log, direct @ out, w'))))"

text \<open>\<^verbatim>\<open>readPump\<close> on such a connection, with the time at which the loop ends.\<close>

definition serve_conn ::
  "WSService \<Rightarrow> PresenceService option \<Rightarrow> client_ref \<Rightarrow> ID \<Rightarrow> Arrival list \<Rightarrow> World \<Rightarrow>
     (time \<times> time) list \<times> time \<times> RawMessage list \<times> World" where
  "serve_conn proc presence p userID frames w =
     (case conn_reads proc p userID (clock w + pongWait) (clock w) frames w of
        (log, out, w1) \<Rightarrow> (log, clock w1, out, read_end presence p userID w1))"

end
