(* ===== verification/System.thy ===== *)
theory System
  imports SessionGuarantee WsConn Demo
begin

text \<open>
  The backend as a transition system: a process serves requests, relay ticks, Kafka messages and
  Redis messages one after the other, each under whatever the schedule brings.  The invariant of the
  store and its evolution hold in every reachable state.
\<close>

datatype Request =
    ListMessages ID string int string
  | CreateMessage MessageService ID string CreateMessageRequest
  | GetMessage ID string
  | PatchMessage MessageService ID string PatchMessageRequest
  | DeleteMessage MessageService ID string
  | MarkRead MessageService ID string
  | DirectChat ID CreateDirectChatRequest
  | GroupChat ID CreateGroupChatRequest
  | ListChats ID int int
  | GetChat ID string
  | ListMembers ID string
  | AddToChat ID string AddChatMembersRequest
  | RemoveFromChat ID string string
  | RelayTick OutboxRelay
  | KafkaMessage RawMessage
  | RedisMessages "(string \<times> RawMessage) list"
  | BroadcastEvent Broadcaster ID string "json option" "json option"
  | RegisterUser AuthService RegisterRequest ClientMeta
  | LoginUser AuthService LoginRequest ClientMeta
  | RefreshTokens AuthService string ClientMeta
  | LogoutSession AuthService string
  | LogoutEverywhere ID
  | ShowMe ID
  | PatchProfile ID PatchUserRequest
  | SearchUsers string int int
  | ShowUser string
  | IssueTicket "WSTicketService option" ID
  | WsConnect WsHandler "HttpResponse + unit" client_ref HttpRequest
  | WsFrame WSService client_ref ID RawMessage
  | WsClose "PresenceService option" client_ref ID

text \<open>
  \<open>tp\<close> is \<^verbatim>\<open>time.Parse\<close> and \<open>sha\<close> is \<^verbatim>\<open>sha256.Sum256\<close>.  The result of a request goes to its client; what
  matters here is the world it leaves.
\<close>

definition serve ::
  "(string \<Rightarrow> string \<Rightarrow> time option) \<Rightarrow> (string \<Rightarrow> 8 word list) \<Rightarrow> Request \<Rightarrow> World \<Rightarrow> World" where
  "serve tp sha req w =
     (case req of
        ListMessages a c l b \<Rightarrow> snd (ListByChat tp a c l b w)
      | CreateMessage svc a c r \<Rightarrow> snd (MessageService_Create svc a c r w)
      | GetMessage a i \<Rightarrow> snd (MessageService_Get a i w)
      | PatchMessage svc a i r \<Rightarrow> snd (MessageService_Patch svc a i r w)
      | DeleteMessage svc a i \<Rightarrow> snd (MessageService_Delete svc a i w)
      | MarkRead svc a i \<Rightarrow> snd (MessageService_MarkRead svc a i w)
      | DirectChat a r \<Rightarrow> snd (CreateDirect sha a r w)
      | GroupChat a r \<Rightarrow> snd (CreateGroup a r w)
      | ListChats a l off \<Rightarrow> snd (ListMine a l off w)
      | GetChat a c \<Rightarrow> snd (ChatService_Get a c w)
      | ListMembers a c \<Rightarrow> snd (Members a c w)
      | AddToChat a c r \<Rightarrow> snd (ChatService_AddMembers a c r w)
      | RemoveFromChat a c t \<Rightarrow> snd (ChatService_RemoveMember a c t w)
      | RelayTick r \<Rightarrow> snd (tick r w)
      | KafkaMessage raw \<Rightarrow> snd (consume raw w)
      | RedisMessages ms \<Rightarrow> snd (SubscribeChatEvents ms w)
      | BroadcastEvent b c e d m \<Rightarrow> snd (PublishToChat b c e d m w)
      | RegisterUser s r meta \<Rightarrow> snd (AuthService_Register s r meta w)
      | LoginUser s r meta \<Rightarrow> snd (AuthService_Login s r meta w)
      | RefreshTokens s t meta \<Rightarrow> snd (AuthService_Refresh s t meta w)
      | LogoutSession s t \<Rightarrow> snd (AuthService_Logout s t w)
      | LogoutEverywhere u \<Rightarrow> snd (AuthService_LogoutAll u w)
      | ShowMe u \<Rightarrow> snd (Me u w)
      | PatchProfile u r \<Rightarrow> snd (UpdateMe u r w)
      | SearchUsers q l off \<Rightarrow> snd (UserService_Search q l off w)
      | ShowUser i \<Rightarrow> snd (UserService_GetByID i w)
      | IssueTicket s u \<Rightarrow> snd (WSTicketService_Issue s u w)
      | WsConnect h up p r \<Rightarrow> snd (ws_connect h up p r w)
      | WsFrame s p u m \<Rightarrow> snd (read_frame s p u m w)
      | WsClose s p u \<Rightarrow> read_end s p u w)"

inductive reachable ::
  "(string \<Rightarrow> string \<Rightarrow> time option) \<Rightarrow> (string \<Rightarrow> 8 word list) \<Rightarrow> World \<Rightarrow> World \<Rightarrow> bool"
  for tp sha w0 where
  start: "reachable tp sha w0 w0"
| step: "reachable tp sha w0 w \<Longrightarrow> reachable tp sha w0 (serve tp sha req w)"

lemma keeps_SubscribeChatEvents [go_keep]: "keeps (sound s0) (SubscribeChatEvents ms)"
  by (induction ms rule: SubscribeChatEvents.induct) (auto intro!: go_keep)

text \<open>The WebSocket steps change the hub and the metrics besides what the services do.\<close>

lemma sound_metric [simp]: "sound s0 (snd (metric f w)) = sound s0 w"
  by (simp add: metric_def)

lemma sound_hook: "sound s0 w \<Longrightarrow> sound s0 (snd ((case p of None \<Rightarrow> ret () | Some s \<Rightarrow> hook s) w))"
  if "\<And>s. keeps (sound s0) (hook s)"
  using that by (cases p) (auto dest: keepsD)

lemma sound_ws_connect: "sound s0 w \<Longrightarrow> sound s0 (snd (ws_connect h up p r w))"
  using keepsD [OF keeps_ephemeral(7), of s0 w "wh_tickets h" "TrimSpace (hr_Query r ''ticket'')"]
  by (auto simp: ws_connect_def Let_def keeps_hooks split: prod.split sum.split intro!: sound_hook)

lemma sound_fold:
  "(\<And>b w. sound s0 w \<Longrightarrow> sound s0 (f b w)) \<Longrightarrow> sound s0 w \<Longrightarrow> sound s0 (fold f bs w)"
  by (induction bs arbitrary: w) simp_all

lemma sound_read_frame: "sound s0 w \<Longrightarrow> sound s0 (snd (read_frame s p u m w))"
  using keepsD [OF keeps_HandleEvent, of s0 "snd (metric (\<lambda>m'. m'\<lparr>WSInbound := bump (EnvelopeEventName m) (WSInbound m')\<rparr>) w)" s u m]
  by (auto simp: read_frame_def Let_def split: prod.split sum.split intro!: sound_fold)

lemma sound_read_end: "sound s0 w \<Longrightarrow> sound s0 (read_end s p u w)"
  by (auto simp: read_end_def Let_def keeps_hooks intro!: sound_hook)

lemma serve_sound: "sound s0 w \<Longrightarrow> sound s0 (serve tp sha req w)"
  by (cases req)
    (simp_all add: serve_def go_keep keepsD sound_ws_connect sound_read_frame sound_read_end)

lemma reachable_sound: "reachable tp sha w0 w \<Longrightarrow> sound s0 w0 \<Longrightarrow> sound s0 w"
  by (induction rule: reachable.induct) (simp_all add: serve_sound)

lemma sound_start: "domain_ok (store w) \<Longrightarrow> rely domain_ok later (net w) \<Longrightarrow> sound (store w) w"
  by (simp add: holds_def)

lemmas reachable_ok = reachable_sound [OF _ sound_start]

text \<open>Counting events and messages.\<close>

lemma count_events:
  "count (events ty rs) (a, Some c) = length (filter (event_for ty a c) rs)"
  by (induction rs) (auto simp: events_def event_for_def)

lemma count_refs:
  "count (message_refs ms) (a, Some c) = length (filter (\<lambda>m. m_ID m = a \<and> m_ChatID m = c) ms)"
  by (induction ms) (auto simp: message_refs_def)

lemma filter_unique:
  assumes "distinct (map f xs)" and "x \<in> set xs" and "P x" and "\<And>y. P y \<Longrightarrow> f y = f x"
  shows "filter P xs = [x]"
  using assms
proof (induction xs)
  case (Cons y ys)
  show ?case
  proof (cases "y = x")
    case True
    then have "\<not> P z" if "z \<in> set ys" for z
      using Cons.prems(1) Cons.prems(4) [of z] that by (force simp: image_iff)
    then have "filter P ys = []" by (simp add: filter_empty_conv)
    then show ?thesis using True Cons.prems(3) by simp
  next
    case False
    then have ys: "x \<in> set ys" using Cons.prems(2) by simp
    then have "f y \<noteq> f x" using Cons.prems(1) by (auto simp: image_iff)
    then have "\<not> P y" using Cons.prems(4) [of y] by blast
    then show ?thesis using Cons.IH [OF _ ys Cons.prems(3,4)] Cons.prems(1) by simp
  qed
qed simp

lemma domain_distinct: "domain_ok s \<Longrightarrow> distinct (map m_ID (messages s))"
  by (simp add: domain_ok_def tables_ok_def messages_ok_def message_ids_def)

lemma created_once:
  assumes "domain_ok s" and m: "m \<in> set (messages s)"
  shows "length (filter (event_for EventMessageCreated (m_ID m) (m_ChatID m)) (outbox_events s)) = 1"
proof -
  have "events EventMessageCreated (outbox_events s) = message_refs (messages s)"
    using assms(1) by (simp add: domain_ok_def outbox_complete_def)
  then have "length (filter (event_for EventMessageCreated (m_ID m) (m_ChatID m)) (outbox_events s))
      = length (filter (\<lambda>x. m_ID x = m_ID m \<and> m_ChatID x = m_ChatID m) (messages s))"
    by (simp add: count_events [symmetric] count_refs)
  then show ?thesis
    using filter_unique [OF domain_distinct [OF assms(1)] m,
        of "\<lambda>x. m_ID x = m_ID m \<and> m_ChatID x = m_ChatID m"] by simp
qed

lemma deleted_once:
  assumes "domain_ok s" and m: "m \<in> set (messages s)"
  shows "length (filter (event_for EventMessageDeleted (m_ID m) (m_ChatID m)) (outbox_events s))
    = (if m_DeletedAt m = None then 0 else 1)"
proof -
  let ?P = "\<lambda>x. m_ID x = m_ID m \<and> m_ChatID x = m_ChatID m"
  have "events EventMessageDeleted (outbox_events s) = message_refs (filter is_deleted (messages s))"
    using assms(1) by (simp add: domain_ok_def outbox_complete_def)
  then have "length (filter (event_for EventMessageDeleted (m_ID m) (m_ChatID m)) (outbox_events s))
      = length (filter ?P (filter is_deleted (messages s)))"
    by (simp add: count_events [symmetric] count_refs)
  also have "filter ?P (filter is_deleted (messages s)) = filter is_deleted (filter ?P (messages s))"
    by (simp add: conj_commute)
  also have "filter ?P (messages s) = [m]"
    using filter_unique [OF domain_distinct [OF assms(1)] m, of ?P] by simp
  finally show ?thesis by (simp add: is_deleted_def)
qed

section \<open>Properties of reachable states\<close>

text \<open>
  In every state the backend can reach, under any interleaving with other clients that keep to
  the same rules, the constraints of the tables hold; replies, last-message pointers and read marks
  refer to messages of the same chat; owners are the creators of their group chats; the outbox
  has one event per message and one per deletion; and no user, chat, message, outbox row or Kafka
  record that was there at the start has been lost.
\<close>

lemma reachable_invariant:
  assumes "domain_ok (store w0)" and "rely domain_ok later (net w0)" and "reachable tp sha w0 w"
  shows "domain_ok (store w) \<and> later (store w0) (store w)"
  using reachable_ok [OF assms(3,1,2)] by (simp add: holds_def)

text \<open>
  C6: in every reachable state a message has exactly one \<^verbatim>\<open>message.created\<close> row in the outbox, and
  exactly one \<^verbatim>\<open>message.deleted\<close> row if it is deleted and none if it is not.
\<close>

theorem outbox_exactly_once:
  assumes "domain_ok (store w0)" and "rely domain_ok later (net w0)" and "reachable tp sha w0 w"
    and "m \<in> set (messages (store w))"
  shows "length (filter (event_for EventMessageCreated (m_ID m) (m_ChatID m)) (outbox_events (store w))) = 1
    \<and> length (filter (event_for EventMessageDeleted (m_ID m) (m_ChatID m)) (outbox_events (store w)))
        = (if m_DeletedAt m = None then 0 else 1)"
proof -
  have "domain_ok (store w)" using reachable_ok [OF assms(3,1,2)] by (simp add: holds_def)
  from created_once [OF this assms(4)] deleted_once [OF this assms(4)] show ?thesis ..
qed

theorem outbox_exactly_once_witness:
  "length (filter (event_for EventMessageCreated msg1 team)
     (outbox_events (store (serve (\<lambda>_ _. None) (\<lambda>_. []) (DeleteMessage \<lparr>ms_writer = True\<rparr> alice msg1) demo)))) = 1
   \<and> length (filter (event_for EventMessageDeleted msg1 team)
     (outbox_events (store (serve (\<lambda>_ _. None) (\<lambda>_. []) (DeleteMessage \<lparr>ms_writer = True\<rparr> alice msg1) demo)))) = 1"
proof -
  let ?w = "serve (\<lambda>_ _. None) (\<lambda>_. []) (DeleteMessage \<lparr>ms_writer = True\<rparr> alice msg1) demo"
  have "map (\<lambda>m. (m_ID m, m_ChatID m, is_deleted m)) (messages (store ?w))
    = [(msg1, team, True), (msg2, team, False)]" by code_simp
  then obtain m where m: "m \<in> set (messages (store ?w))" "m_ID m = msg1" "m_ChatID m = team"
    "m_DeletedAt m \<noteq> None"
    by (cases "messages (store ?w)") (auto simp: is_deleted_def)
  have "reachable (\<lambda>_ _. None) (\<lambda>_. []) demo ?w" by (intro reachable.intros)
  from outbox_exactly_once [OF _ demo_rely this m(1)] m show ?thesis by (simp add: demo_domain_ok)
qed

text \<open>
  C7: a message never disappears and never changes its chat, sender, type, reply reference or time
  of creation; a deleted message never changes again, so no request can bring it back or edit it.
\<close>

theorem messages_are_permanent:
  assumes "domain_ok (store w0)" and "rely domain_ok later (net w0)" and "reachable tp sha w0 w"
    and "m \<in> set (messages (store w0))"
  shows "(\<exists>n \<in> set (messages (store w)). message_step m n)
    \<and> (m_DeletedAt m \<noteq> None \<longrightarrow> m \<in> set (messages (store w)))"
proof -
  have "grows message_step (messages (store w0)) (messages (store w))"
    using reachable_ok [OF assms(3,1,2)] by (simp add: holds_def later_def)
  with assms(4) obtain n where "n \<in> set (messages (store w))" "message_step m n"
    by (auto simp: grows_def)
  then show ?thesis by (auto simp: message_step_def)
qed

theorem messages_are_permanent_witness:
  "\<exists>n \<in> set (messages (store (serve (\<lambda>_ _. None) (\<lambda>_. []) (DeleteMessage \<lparr>ms_writer = True\<rparr> alice msg1) demo))).
     message_step demo_msg1 n"
proof -
  have "reachable (\<lambda>_ _. None) (\<lambda>_. []) demo
    (serve (\<lambda>_ _. None) (\<lambda>_. []) (DeleteMessage \<lparr>ms_writer = True\<rparr> alice msg1) demo)"
    by (intro reachable.intros)
  from messages_are_permanent [OF _ demo_rely this, of demo_msg1] show ?thesis
    by (simp add: demo_domain_ok) (simp add: demo_store_def)
qed

end
