(* ===== verification/MessageProps.thy ===== *)
theory MessageProps
  imports System
begin

text \<open>
  What the message service guarantees to its callers: who may do what, what a successful request
  has done, and what a page of the history and an unread count contain.
\<close>

section \<open>Lemmas\<close>

text \<open>The schedule is not changed by a call.\<close>

lemma ids_canonical_net: "net w' = net w \<Longrightarrow> ids_canonical w' = ids_canonical w"
  by (simp add: ids_canonical_def)

lemma keeps_ids_base [go_keep]:
  "keeps ids_canonical (roundtrip st)" "keeps ids_canonical (metric f)"
  "keeps ids_canonical uuid_NewString"
  by (simp_all add: keeps_def ids_canonical_def metric_def uuid_NewString_def)

lemma keeps_ids_calls [go_keep]:
  "keeps ids_canonical (requireChatMember c u)" "keeps ids_canonical (resolveReply c r)"
  "keeps ids_canonical (outboxForMessageCreated m)" "keeps ids_canonical (outboxForMessageUpdated m t)"
  "keeps ids_canonical (outboxForMessageDeleted m)" "keeps ids_canonical (outboxForReadReceipt c u i)"
  "keeps ids_canonical (Message_GetByID i)"
  unfolding requireChatMember_def resolveReply_def outboxForMessageCreated_def newOutboxEventID_def
    outboxForMessageUpdated_def outboxForMessageDeleted_def outboxForReadReceipt_def
    Message_GetByID_def FindMembership_def Let_def
  by (intro go_keep)+

lemma ids_after: "keeps ids_canonical m \<Longrightarrow> ids_canonical w \<Longrightarrow> m w = (r, w') \<Longrightarrow> ids_canonical w'"
  by (metis keepsD snd_conv)

text \<open>What a successful lookup of a membership or a message has seen.\<close>

lemma FindMembership_Inr:
  assumes "FindMembership c u w = (Inr x, w')"
  obtains ci ui where "uuid_in c = Some ci" "uuid_in u = Some ui"
    "member_row (store (interfere w)) ci ui = Some x" "store w' = store (interfere w)"
proof -
  let ?st = "with_uuid c (\<lambda>c. with_uuid u (\<lambda>u _ _ s. one_row (member_row s c u) s))"
  have "roundtrip ?st w = (Inr x, w')"
    using assms unfolding FindMembership_def by (rule call_cases) simp_all
  then obtain s' where "?st (clock w') (t_uuid (next_trip w)) (store (interfere w)) = (Inr x, s')"
    and "store w' = s'"
    by (rule roundtrip_Inr_cases) simp
  then obtain ci ui where "uuid_in c = Some ci" "uuid_in u = Some ui"
    and "one_row (member_row (store (interfere w)) ci ui) (store (interfere w)) = (Inr x, s')"
    unfolding with_uuid_Inr by blast
  moreover from this have "member_row (store (interfere w)) ci ui = Some x" "s' = store (interfere w)"
    by (cases "member_row (store (interfere w)) ci ui"; simp add: one_row_def)+
  ultimately show thesis using that \<open>store w' = s'\<close> by blast
qed

lemma requireChatMember_Inr:
  assumes "requireChatMember c u w = (Inr x, w')"
  obtains ci ui y where "uuid_in c = Some ci" "uuid_in u = Some ui"
    "member_row (store (interfere w)) ci ui = Some y" "store w' = store (interfere w)"
  using assms
  by (auto simp: requireChatMember_def elim!: call_cases FindMembership_Inr split: if_splits)

lemma GetByID_store: "store (snd (Message_GetByID i w)) = store (interfere w)"
proof -
  have "store (snd (roundtrip (with_uuid i (\<lambda>mid _ _ s. one_row (message_row s mid) s)) w))
      = store (interfere w)"
    by (rule store_roundtrip_read) (intro reads_only_with_uuid, simp add: reads_only_def)
  then show ?thesis by (simp add: Message_GetByID_def call_eq split: sum.split)
qed

lemma MessageService_Create_Inr:
  assumes "MessageService_Create svc actor chatIDRaw req w = (Inr dto, w')"
  obtains cid w1 reply w2 ob w3 out w4 where "actor \<noteq> ''''" "cid = TrimSpace chatIDRaw" "uuid_pattern cid"
    "requireChatMember cid actor w = (Inr (), w1)"
    "TrimSpace (cmr_Text req) \<noteq> ''''" "length (TrimSpace (cmr_Text req)) \<le> msgTextMaxLen"
    "resolveReply cid (cmr_ReplyToID req) w1 = (Inr reply, w2)"
    "outboxForMessageCreated (draft cid actor (TrimSpace (cmr_Text req)) reply) w2 = (Inr ob, w3)"
    "CreateMessageWithOutbox (draft cid actor (TrimSpace (cmr_Text req)) reply) ob w3 = (Inr out, w4)"
    "dto = toMessageDTO out" "store w' = store w4"
  using assms
  by (auto simp: MessageService_Create_def notFoundOr_def parseMsgChatID_def msgUUIDRe_def Let_def
      metric_def elim!: call_cases split: if_splits)

text \<open>
  C8: a message is created only for a member of the chat.  When \<^verbatim>\<open>Create\<close> succeeds, the actor had a
  membership row when it was checked, the trimmed text is not empty and has at most 8000 bytes, and
  the reported message is in the table, in the requested chat, from the actor, with that text and
  not deleted.
\<close>

theorem create_is_authorized:
  assumes "ids_canonical w" and "MessageService_Create svc actor chatIDRaw req w = (Inr dto, w')"
  shows "(\<exists>c u. uuid_in (TrimSpace chatIDRaw) = Some c \<and> uuid_in actor = Some u
        \<and> member_row (store (interfere w)) c u \<noteq> None
        \<and> md_ChatID dto = c \<and> md_SenderID dto = u)
    \<and> md_Text dto = Some (TrimSpace (cmr_Text req))
    \<and> 0 < length (TrimSpace (cmr_Text req)) \<and> length (TrimSpace (cmr_Text req)) \<le> 8000
    \<and> (\<exists>m \<in> set (messages (store w')). toMessageDTO m = dto \<and> m_DeletedAt m = None)"
  using assms(2)
proof (rule MessageService_Create_Inr)
  fix cid w1 reply w2 ob w3 out w4
  let ?d = "draft cid actor (TrimSpace (cmr_Text req)) reply"
  assume cid: "cid = TrimSpace chatIDRaw" and mem: "requireChatMember cid actor w = (Inr (), w1)"
    and reply: "resolveReply cid (cmr_ReplyToID req) w1 = (Inr reply, w2)"
    and ob: "outboxForMessageCreated ?d w2 = (Inr ob, w3)"
    and create: "CreateMessageWithOutbox ?d ob w3 = (Inr out, w4)"
    and dto: "dto = toMessageDTO out" "store w' = store w4"
    and body: "TrimSpace (cmr_Text req) \<noteq> ''''" "length (TrimSpace (cmr_Text req)) \<le> msgTextMaxLen"
  from ids_after [OF keeps_ids_calls(1) assms(1) mem] have "ids_canonical w1" .
  from ids_after [OF keeps_ids_calls(2) this reply] have "ids_canonical w2" .
  from ids_after [OF keeps_ids_calls(3) this ob] have "ids_canonical w3" .
  from create_op.success [OF this create]
  have "posted ?d (clock (advance (interfere w3))) (store (interfere w3)) out"
    and st: "out \<in> set (messages (store w4))"
    by (auto simp: creates_def)
  then have "uuid_in cid = Some (m_ChatID out)" "uuid_in actor = Some (m_SenderID out)"
    and row: "m_Text out = Some (TrimSpace (cmr_Text req))" "m_DeletedAt out = None"
    unfolding posted_def by (auto simp: draft_def new_message_row_def dest: arg_cong [of _ _ m_Text] arg_cong [of _ _ m_DeletedAt])
  moreover from mem have "member_row (store (interfere w)) (m_ChatID out) (m_SenderID out) \<noteq> None"
    by (rule requireChatMember_Inr) (use calculation in auto)
  ultimately show ?thesis
    using cid dto st body by (auto simp: toMessageDTO_def msgTextMaxLen_def)
qed

theorem create_is_authorized_witness:
  "\<exists>dto. fst (MessageService_Create \<lparr>ms_writer = True\<rparr> bob team
       \<lparr>cmr_Text = '' hey '', cmr_ReplyToID = None\<rparr> demo) = Inr dto
     \<and> md_Text dto = Some (TrimSpace '' hey '') \<and> md_SenderID dto = bob"
proof -
  let ?op = "MessageService_Create \<lparr>ms_writer = True\<rparr> bob team \<lparr>cmr_Text = '' hey '', cmr_ReplyToID = None\<rparr> demo"
  have "\<not> isl (fst ?op)" by code_simp
  then obtain dto where "?op = (Inr dto, snd ?op)" by (cases ?op, cases "fst ?op") auto
  moreover have "uuid_in bob = Some bob" by code_simp
  ultimately show ?thesis
    using create_is_authorized [OF demo_ids [of "\<lambda>_. Delivered"], of "\<lparr>ms_writer = True\<rparr>" bob team
        "\<lparr>cmr_Text = '' hey '', cmr_ReplyToID = None\<rparr>" dto "snd ?op"]
    by (cases ?op) auto
qed

lemma GetByID_Inr:
  assumes "Message_GetByID i w = (Inr m, w')"
  obtains mid where "uuid_in i = Some mid" "message_row (store (interfere w)) mid = Some m"
    "store w' = store (interfere w)"
proof -
  have "store w' = store (interfere w)" using GetByID_store [of i w] assms by simp
  with assms that show thesis by (metis Message_GetByID_Inr)
qed

text \<open>A request that never gets to its writer leaves the store to the other clients.\<close>

definition only_others :: "World \<Rightarrow> World \<Rightarrow> bool" where
  "only_others w w' = (store w' = store w \<or> store w' = store (interfere w))"

definition refuses :: "'a go \<Rightarrow> World \<Rightarrow> bool" where
  "refuses m w = (isl (fst (m w)) \<and> only_others w (snd (m w)))"

lemma refuses_raise: "refuses (raise e) w"
  by (simp add: refuses_def only_others_def)

lemma refuses_if: "refuses m w \<Longrightarrow> refuses n w \<Longrightarrow> refuses (if b then m else n) w"
  by simp

lemma refuses_load:
  assumes "uuid_in (TrimSpace raw) = Some mid" and "message_row (store (interfere w)) mid = Some m"
    and k: "\<And>w1. isl (fst (k m w1)) \<and> store (snd (k m w1)) = store w1"
  shows "refuses (call (lift (parseMsgID raw)) raise
    (\<lambda>mid. call (Message_GetByID mid) (notFoundOr nf other) k)) w"
proof -
  have parse: "parseMsgID raw = Inr (TrimSpace raw)"
    using assms(1) by (simp add: parseMsgID_def msgUUIDRe_def uuid_in_Some Let_def)
  obtain r w1 where get: "Message_GetByID (TrimSpace raw) w = (r, w1)" by fastforce
  have s1: "store w1 = store (interfere w)" using GetByID_store [of "TrimSpace raw" w] get by simp
  show ?thesis
  proof (cases r)
    case (Inl e)
    then show ?thesis using get s1 parse by (simp add: notFoundOr_def only_others_def refuses_def)
  next
    case (Inr m2)
    then have "m2 = m" using get assms(1,2) by (auto elim!: GetByID_Inr)
    then show ?thesis using get s1 parse Inr k [of w1] by (simp add: only_others_def refuses_def)
  qed
qed

text \<open>
  C9: only its author can edit or delete a message: when the message that is loaded has another
  sender, \<^verbatim>\<open>Patch\<close> and \<^verbatim>\<open>Delete\<close> fail and write nothing.
\<close>

theorem only_author_changes:
  assumes "uuid_in (TrimSpace raw) = Some mid" and "message_row (store (interfere w)) mid = Some m"
    and "m_SenderID m \<noteq> actor"
  shows "refuses (MessageService_Patch svc actor raw req) w
    \<and> refuses (MessageService_Delete svc actor raw) w"
  unfolding MessageService_Patch_def MessageService_Delete_def
  using assms(3) by (intro conjI refuses_if refuses_raise refuses_load [OF assms(1,2)]) simp_all

theorem only_author_changes_witness:
  "isl (fst (MessageService_Delete \<lparr>ms_writer = True\<rparr> bob msg1 demo))
   \<and> store (snd (MessageService_Delete \<lparr>ms_writer = True\<rparr> bob msg1 demo)) = demo_store"
proof -
  have "uuid_in (TrimSpace msg1) = Some msg1" "message_row demo_store msg1 = Some demo_msg1"
    "m_SenderID demo_msg1 \<noteq> bob"
    by code_simp+
  with only_author_changes [of msg1 msg1 demo demo_msg1 bob] show ?thesis
    by (auto simp: refuses_def only_others_def)
qed

text \<open>
  C10: reading needs membership: a message is returned only to a user who had a membership row of its
  chat when that was checked, and it was not deleted when it was loaded.
\<close>

theorem get_requires_membership:
  assumes "MessageService_Get actor raw w = (Inr dto, w')"
  shows "\<exists>m c u. m \<in> set (messages (store (interfere w))) \<and> toMessageDTO m = dto \<and> m_DeletedAt m = None
     \<and> uuid_in (md_ChatID dto) = Some c \<and> uuid_in actor = Some u \<and> member_row (store w') c u \<noteq> None"
proof -
  from assms obtain m w1 where get: "Message_GetByID (TrimSpace raw) w = (Inr m, w1)"
    and live: "m_DeletedAt m = None" and mem: "requireChatMember (m_ChatID m) actor w1 = (Inr (), w')"
    and dto: "dto = toMessageDTO m"
    by (auto simp: MessageService_Get_def notFoundOr_def parseMsgID_def Let_def elim!: call_cases
        split: if_splits)
  have "m \<in> set (messages (store (interfere w)))"
    using get by (auto elim!: GetByID_Inr dest: message_row_Some)
  moreover from mem obtain c u where "uuid_in (m_ChatID m) = Some c" "uuid_in actor = Some u"
    "member_row (store w') c u \<noteq> None"
    by (rule requireChatMember_Inr) auto
  ultimately show ?thesis using live dto by (auto simp: toMessageDTO_def)
qed

theorem get_requires_membership_witness:
  "\<exists>dto. fst (MessageService_Get bob msg1 demo) = Inr dto
     \<and> (\<exists>m \<in> set (messages demo_store). toMessageDTO m = dto \<and> m_DeletedAt m = None)"
proof -
  let ?op = "MessageService_Get bob msg1 demo"
  have "\<not> isl (fst ?op)" by code_simp
  then obtain dto where "?op = (Inr dto, snd ?op)" by (cases ?op, cases "fst ?op") auto
  from get_requires_membership [OF this] this show ?thesis by (cases ?op) auto
qed

end
