(* ===== verification/History.thy ===== *)
theory History
  imports MessageProps
begin

text \<open>
  The order of a chat's history: pages taken with a cursor, and unread counts.  The history is the
  list of the messages of a chat that are not deleted, newest first in (\<^verbatim>\<open>created_at\<close>, \<^verbatim>\<open>id\<close>) order.
\<close>

definition history :: "Store \<Rightarrow> ID \<Rightarrow> Message list" where
  "history s cid = order_desc msg_key (visible_before s cid None None)"

section \<open>Descending lists\<close>

lemma set_order_desc [simp]: "set (order_desc key xs) = set xs"
  by (simp add: order_desc_def)

lemma length_order_desc [simp]: "length (order_desc key xs) = length xs"
  by (simp add: order_desc_def)

lemma distinct_order_desc [simp]: "distinct (order_desc key xs) = distinct xs"
  by (simp add: order_desc_def)

lemma order_desc_filter: "order_desc key (filter P xs) = filter P (order_desc key xs)"
  by (simp add: order_desc_def filter_sort [symmetric] rev_filter)

lemma order_desc_sorted: "sorted_wrt (\<lambda>a b. key b \<le> key a) (order_desc key xs)"
  unfolding order_desc_def sorted_wrt_rev
  using sorted_sort_key [of key xs] by (simp add: sorted_map)

lemma desc_strict:
  fixes key :: "'a \<Rightarrow> 'k::linorder"
  shows "sorted_wrt (\<lambda>a b. key b \<le> key a) xs \<Longrightarrow> distinct (map key xs) \<Longrightarrow>
    sorted_wrt (\<lambda>a b. key b < key a) xs"
  by (induction xs) (force simp: less_le image_iff)+

lemma order_desc_strict:
  "distinct (map key xs) \<Longrightarrow> sorted_wrt (\<lambda>a b. key b < key a) (order_desc key xs)"
  using order_desc_sorted [of key xs] by (intro desc_strict) (auto simp: distinct_map)

lemma filter_below_nth:
  fixes key :: "'a \<Rightarrow> 'k::linorder"
  assumes "sorted_wrt (\<lambda>a b. key b < key a) xs" and "k < length xs"
  shows "filter (\<lambda>x. key x < key (xs ! k)) xs = drop (Suc k) xs"
  using assms
proof (induction xs arbitrary: k)
  case (Cons x xs)
  show ?case
  proof (cases k)
    case 0
    then show ?thesis using Cons.prems by (auto simp: filter_id_conv)
  next
    case (Suc j)
    then have "key (xs ! j) < key x" using Cons.prems by simp
    then have "\<not> key x < key (xs ! j)" by simp
    moreover have "filter (\<lambda>x. key x < key (xs ! j)) xs = drop (Suc j) xs"
      using Cons.prems Suc by (intro Cons.IH) simp_all
    ultimately show ?thesis using Suc by simp
  qed
qed simp

lemma filter_above_nth:
  fixes key :: "'a \<Rightarrow> 'k::linorder"
  assumes "sorted_wrt (\<lambda>a b. key b < key a) xs" and "k < length xs"
  shows "filter (\<lambda>x. key (xs ! k) < key x) xs = take k xs"
  using assms
proof (induction xs arbitrary: k)
  case (Cons x xs)
  show ?case
  proof (cases k)
    case 0
    then show ?thesis using Cons.prems by (force simp: filter_empty_conv)
  next
    case (Suc j)
    then have "key (xs ! j) < key x" using Cons.prems by simp
    moreover have "filter (\<lambda>y. key (xs ! j) < key y) xs = take j xs"
      using Cons.prems Suc by (intro Cons.IH) simp_all
    ultimately show ?thesis using Suc by simp
  qed
qed simp

lemma length_split3:
  fixes f :: "'a \<Rightarrow> 'k::linorder"
  shows "length xs = length (filter (\<lambda>x. k < f x) xs) + length (filter (\<lambda>x. f x < k) xs)
    + length (filter (\<lambda>x. f x = k) xs)"
proof (induction xs)
  case (Cons x xs)
  consider "k < f x" "\<not> f x < k" "f x \<noteq> k" | "f x < k" "\<not> k < f x" "f x \<noteq> k"
    | "f x = k" "\<not> k < f x" "\<not> f x < k"
    by (metis less_asym less_irrefl linorder_less_linear)
  then show ?case
  proof cases
    case 1 with Cons show ?thesis by simp
  next
    case 2 with Cons show ?thesis by simp
  next
    case 3 with Cons show ?thesis by simp
  qed
qed simp

lemma find_conj: "find P xs = Some a \<Longrightarrow> Q a \<Longrightarrow> find (\<lambda>x. P x \<and> Q x) xs = Some a"
  by (induction xs) (auto split: if_splits)

lemma msg_key_inj: "distinct (map m_ID ms) \<Longrightarrow> distinct (map msg_key ms)"
  by (auto simp: distinct_map inj_on_def msg_key_def)

lemma history_strict:
  assumes "distinct (message_ids s)"
  shows "sorted_wrt (\<lambda>a b. msg_key b < msg_key a) (history s cid)"
  unfolding history_def
  using assms by (intro order_desc_strict msg_key_inj)
    (simp add: visible_before_def message_ids_def distinct_map_filter)

lemma history_mem:
  "m \<in> set (history s cid) \<longleftrightarrow> m \<in> set (messages s) \<and> m_ChatID m = cid \<and> m_DeletedAt m = None"
  by (auto simp: history_def visible_before_def before_cursor_def)

lemma find_anchor:
  assumes "distinct (message_ids s)" and "a \<in> set (messages s)" and "m_ChatID a = cid"
  shows "find (\<lambda>x. m_ID x = m_ID a \<and> m_ChatID x = cid) (messages s) = Some a"
proof -
  have "find (\<lambda>x. m_ID x = m_ID a) (messages s) = Some a"
    using assms(1,2) by (intro find_key_eq) (simp_all add: message_ids_def)
  then show ?thesis using assms(3) by (rule find_conj)
qed

section \<open>Pages\<close>

lemma visible_filter:
  assumes "distinct (message_ids s)" and "a \<in> set (messages s)" and "m_ChatID a = cid"
  shows "order_desc msg_key (visible_before s cid (Some (m_ID a)) bt)
    = filter (\<lambda>m. msg_key m < msg_key a) (history s cid)"
proof -
  have "visible_before s cid (Some (m_ID a)) bt
      = filter (\<lambda>m. msg_key m < msg_key a) (visible_before s cid None None)"
    using find_anchor [OF assms] by (auto simp: visible_before_def before_cursor_def intro: filter_cong)
  then show ?thesis by (simp add: history_def order_desc_filter)
qed

lemma visible_after_nth:
  assumes "distinct (message_ids s)" and "k < length (history s cid)"
  shows "order_desc msg_key (visible_before s cid (Some (m_ID (history s cid ! k))) bt)
    = drop (Suc k) (history s cid)"
proof -
  let ?a = "history s cid ! k"
  have "?a \<in> set (history s cid)" using assms(2) by simp
  then have "?a \<in> set (messages s)" "m_ChatID ?a = cid" by (simp_all add: history_mem)
  then show ?thesis
    using visible_filter [OF assms(1)] filter_below_nth [OF history_strict [OF assms(1)] assms(2)] by simp
qed

lemma GetChatMessages_Inr:
  assumes "GetChatMessages chatID opts w = (Inr rows, w')"
  obtains cid bid where "uuid_in chatID = Some cid" "opt_uuid (mo_BeforeID opts) bid"
    "rows = take (nat (normMessageLimit (mo_Limit opts)))
       (order_desc msg_key (visible_before (store w') cid bid (mo_BeforeTime opts)))"
    "store w' = store (interfere w)"
proof -
  let ?st = "with_uuid chatID (\<lambda>cid. with_uuid_opt (mo_BeforeID opts) (\<lambda>beforeID _ _ s.
    (Inr (take (nat (normMessageLimit (mo_Limit opts)))
       (order_desc msg_key (visible_before s cid beforeID (mo_BeforeTime opts)))), s)))"
  have "roundtrip ?st w = (Inr rows, w')"
    using assms by (simp add: GetChatMessages_def Let_def)
  then obtain s' where st: "?st (clock w') (t_uuid (next_trip w)) (store (interfere w)) = (Inr rows, s')"
    and s': "store w' = s'"
    by (rule roundtrip_Inr_cases) simp
  from st obtain cid bid where "uuid_in chatID = Some cid" "opt_uuid (mo_BeforeID opts) bid"
    and "rows = take (nat (normMessageLimit (mo_Limit opts)))
       (order_desc msg_key (visible_before (store (interfere w)) cid bid (mo_BeforeTime opts)))"
    and "store (interfere w) = s'"
    unfolding with_uuid_Inr with_uuid_opt_Inr by blast
  moreover from this have eq: "store w' = store (interfere w)" using s' by blast
  ultimately show thesis by (intro that [of cid bid]) (simp_all only: eq)
qed

lemma visible_mem:
  "m \<in> set (visible_before s cid bid bt) \<Longrightarrow>
     m \<in> set (messages s) \<and> m_ChatID m = cid \<and> m_DeletedAt m = None"
  by (simp add: visible_before_def)

lemma page_strict:
  assumes "distinct (message_ids s)"
  shows "sorted_wrt (\<lambda>a b. msg_key b < msg_key a) (order_desc msg_key (visible_before s cid bid bt))"
  using assms by (intro order_desc_strict msg_key_inj)
    (simp add: visible_before_def message_ids_def distinct_map_filter)

lemma clampMsgLimit_bounds: "1 \<le> clampMsgLimit n" "clampMsgLimit n \<le> 200"
  by (simp_all add: clampMsgLimit_def msgDefaultLimit_def msgMaxLimit_def Let_def)

lemma normMessageLimit_clamp [simp]: "normMessageLimit (clampMsgLimit n) = clampMsgLimit n"
  using clampMsgLimit_bounds [of n] by (simp add: normMessageLimit_def)

text \<open>
  C11: a page is returned only to a member of the chat.  It has at most the requested number of
  messages and never more than 200, all of them in the chat and not deleted, newest first without
  repetition; \<^verbatim>\<open>has_more\<close> is set exactly when the page is full.
\<close>

theorem list_page:
  assumes "ListByChat tp actor chatIDRaw limit beforeRaw w = (Inr res, w')" and "tables_ok (store w')"
  shows "\<exists>c u rows. uuid_in (TrimSpace chatIDRaw) = Some c \<and> uuid_in actor = Some u
      \<and> member_row (store (interfere w)) c u \<noteq> None \<and> ml_Messages res = map toMessageDTO rows
      \<and> set rows \<subseteq> {m \<in> set (messages (store w')). m_ChatID m = c \<and> m_DeletedAt m = None}
      \<and> sorted_wrt (\<lambda>a b. msg_key b < msg_key a) rows
      \<and> int (length rows) \<le> clampMsgLimit limit \<and> clampMsgLimit limit \<le> 200
      \<and> ml_HasMore res = (int (length rows) = clampMsgLimit limit)"
proof -
  from assms(1) obtain w1 bid bt rows where
    mem: "requireChatMember (TrimSpace chatIDRaw) actor w = (Inr (), w1)"
    and get: "GetChatMessages (TrimSpace chatIDRaw)
      \<lparr>mo_Limit = clampMsgLimit limit, mo_BeforeID = bid, mo_BeforeTime = bt\<rparr> w1 = (Inr rows, w')"
    and res: "res = \<lparr>ml_Messages = map toMessageDTO rows,
      ml_HasMore = (int (length rows) = clampMsgLimit limit)\<rparr>"
    by (auto simp: ListByChat_def parseMsgChatID_def Let_def elim!: call_cases split: if_splits)
  from mem obtain c u where c: "uuid_in (TrimSpace chatIDRaw) = Some c" "uuid_in actor = Some u"
    "member_row (store (interfere w)) c u \<noteq> None"
    by (rule requireChatMember_Inr) auto
  from get c(1) obtain b2 where
    rows: "rows = take (nat (clampMsgLimit limit)) (order_desc msg_key (visible_before (store w') c b2 bt))"
    by (auto elim!: GetChatMessages_Inr)
  have "distinct (message_ids (store w'))" using assms(2) by (rule tables_okD)
  from page_strict [OF this] have "sorted_wrt (\<lambda>a b. msg_key b < msg_key a) rows"
    unfolding rows by (rule sorted_wrt_take)
  moreover have "set rows \<subseteq> {m \<in> set (messages (store w')). m_ChatID m = c \<and> m_DeletedAt m = None}"
    unfolding rows by (auto dest!: in_set_takeD visible_mem)
  moreover have "int (length rows) \<le> clampMsgLimit limit"
    unfolding rows using clampMsgLimit_bounds [of limit] by simp
  ultimately show ?thesis using c res clampMsgLimit_bounds(2) [of limit] by auto
qed

theorem list_page_witness:
  "\<exists>res rows. fst (ListByChat (\<lambda>_ _. None) alice team 1 '''' demo) = Inr res
     \<and> ml_Messages res = map toMessageDTO rows \<and> ml_HasMore res = (int (length rows) = clampMsgLimit 1)"
proof -
  let ?op = "ListByChat (\<lambda>_ _. None) alice team 1 '''' demo"
  have "\<not> isl (fst ?op)" by code_simp
  then obtain res where op: "?op = (Inr res, snd ?op)" by (cases ?op, cases "fst ?op") auto
  have "domain_ok (store (snd ?op))" using keepsD [OF keeps_ListByChat demo_sound] by (simp add: holds_def)
  then have "tables_ok (store (snd ?op))" by (simp add: domain_ok_def)
  from list_page [OF op this] op show ?thesis by (cases ?op) auto
qed

text \<open>
  C12: paging loses and repeats nothing.  On the history of a chat, the first page is its beginning,
  and the page whose cursor is the message at position \<open>k\<close> continues with position \<open>k + 1\<close>; so a
  client that takes the last message of each page as the next cursor reads the whole history once.
\<close>

theorem pages_cover_history:
  assumes "tables_ok (store (interfere w))" and "canonical cid"
  shows "(\<forall>rows w'. GetChatMessages cid \<lparr>mo_Limit = n, mo_BeforeID = None, mo_BeforeTime = None\<rparr> w = (Inr rows, w')
        \<longrightarrow> rows = take (nat (normMessageLimit n)) (history (store (interfere w)) cid))
    \<and> (\<forall>k rows w'. k < length (history (store (interfere w)) cid)
        \<longrightarrow> GetChatMessages cid \<lparr>mo_Limit = n,
               mo_BeforeID = Some (m_ID (history (store (interfere w)) cid ! k)),
               mo_BeforeTime = None\<rparr> w = (Inr rows, w')
        \<longrightarrow> rows = take (nat (normMessageLimit n)) (drop (Suc k) (history (store (interfere w)) cid)))"
proof (intro conjI allI impI)
  fix rows w'
  assume "GetChatMessages cid \<lparr>mo_Limit = n, mo_BeforeID = None, mo_BeforeTime = None\<rparr> w = (Inr rows, w')"
  then show "rows = take (nat (normMessageLimit n)) (history (store (interfere w)) cid)"
    using assms(2) by (auto simp: history_def elim!: GetChatMessages_Inr)
next
  fix k rows w'
  let ?s = "store (interfere w)"
  assume k: "k < length (history ?s cid)"
    and get: "GetChatMessages cid \<lparr>mo_Limit = n, mo_BeforeID = Some (m_ID (history ?s cid ! k)),
               mo_BeforeTime = None\<rparr> w = (Inr rows, w')"
  have "history ?s cid ! k \<in> set (messages ?s)" using k by (metis history_mem nth_mem)
  then have "canonical (m_ID (history ?s cid ! k))" using tables_okD(5) [OF assms(1)] by blast
  with get assms(2) have "rows = take (nat (normMessageLimit n))
      (order_desc msg_key (visible_before ?s cid (Some (m_ID (history ?s cid ! k))) None))"
    by (auto elim!: GetChatMessages_Inr)
  then show "rows = take (nat (normMessageLimit n)) (drop (Suc k) (history ?s cid))"
    using visible_after_nth [OF tables_okD(1) [OF assms(1)] k] by simp
qed

theorem pages_cover_history_witness:
  "\<exists>rows. fst (GetChatMessages team \<lparr>mo_Limit = 1, mo_BeforeID = None, mo_BeforeTime = None\<rparr> demo) = Inr rows
     \<and> rows = take 1 (history demo_store team)"
proof -
  let ?op = "GetChatMessages team \<lparr>mo_Limit = 1, mo_BeforeID = None, mo_BeforeTime = None\<rparr> demo"
  have "\<not> isl (fst ?op)" by code_simp
  then obtain rows where op: "?op = (Inr rows, snd ?op)" by (cases ?op, cases "fst ?op") auto
  have "canonical team" by code_simp
  with pages_cover_history [of demo team 1] op show ?thesis
    by (cases ?op) (simp add: demo_tables_ok normMessageLimit_def)
qed

section \<open>Read marks and unread counts\<close>

lemma member_row_mark:
  assumes "member_row s cid uid \<noteq> None"
  shows "\<exists>x. member_row (mark_read cid uid mid now s) cid uid = Some x
    \<and> cm_LastReadMessageID x = Some mid \<and> cm_LastReadAt x = Some now"
proof -
  have "find (\<lambda>m. cm_ChatID m = cid \<and> cm_UserID m = uid) (map (set_read cid uid mid now) xs)
      = map_option (set_read cid uid mid now) (find (\<lambda>m. cm_ChatID m = cid \<and> cm_UserID m = uid) xs)" for xs
    by (induction xs) auto
  moreover obtain y where y: "member_row s cid uid = Some y" using assms by blast
  ultimately have "member_row (mark_read cid uid mid now s) cid uid = Some (set_read cid uid mid now y)"
    by (simp add: member_row_def)
  then show ?thesis
    using member_row_Some [OF y] by (auto simp: set_read_def member_key_def)
qed

text \<open>
  \<^verbatim>\<open>MarkRead\<close> moves the actor's read mark.  When it succeeds, the message was not deleted when it
  was loaded, the actor is a member of its chat, and the actor's membership row now carries the
  message as last read, which is what the response reports.
\<close>

lemma mark_read_effect:
  assumes w: "ids_canonical w" and tables: "tables_ok (store (interfere w))"
    and ok: "MessageService_MarkRead svc actor raw w = (Inr res, w')"
  shows "\<exists>m u x. m \<in> set (messages (store (interfere w))) \<and> m_DeletedAt m = None
    \<and> uuid_in (TrimSpace raw) = Some (m_ID m) \<and> uuid_in actor = Some u
    \<and> res = \<lparr>mr_ChatID = m_ChatID m, mr_LastReadMessageID = m_ID m\<rparr>
    \<and> member_row (store w') (m_ChatID m) u = Some x \<and> cm_LastReadMessageID x = Some (m_ID m)"
proof -
  from ok obtain m w1 w2 ob w3 w4 where get: "Message_GetByID (TrimSpace raw) w = (Inr m, w1)"
    and live: "m_DeletedAt m = None"
    and mem: "requireChatMember (m_ChatID m) actor w1 = (Inr (), w2)"
    and ob: "outboxForReadReceipt (m_ChatID m) actor (m_ID m) w2 = (Inr ob, w3)"
    and upd: "UpdateMemberReadWithOutbox (m_ChatID m) actor (m_ID m) ob w3 = (Inr (), w4)"
    and res: "res = \<lparr>mr_ChatID = m_ChatID m, mr_LastReadMessageID = m_ID m\<rparr>" "store w' = store w4"
    by (auto simp: MessageService_MarkRead_def notFoundOr_def parseMsgID_def Let_def metric_def
        elim!: call_cases split: if_splits)
  from get obtain mid where row: "uuid_in (TrimSpace raw) = Some mid"
    "message_row (store (interfere w)) mid = Some m"
    by (rule GetByID_Inr)
  then have m: "m \<in> set (messages (store (interfere w)))" "m_ID m = mid"
    by (auto dest: message_row_Some)
  from ids_after [OF keeps_ids_calls(7) w get] have "ids_canonical w1" .
  from ids_after [OF keeps_ids_calls(1) this mem] have "ids_canonical w2" .
  from ids_after [OF keeps_ids_calls(6) this ob] have "ids_canonical w3" .
  from mark_op.success [OF this upd] obtain cid uid i r t where ids: "uuid_in (m_ChatID m) = Some cid"
    "uuid_in actor = Some uid" "uuid_in (m_ID m) = Some i"
    and x: "member_row (store (interfere w3)) cid uid \<noteq> None"
    and s4: "store w4 = enqueue r (mark_read cid uid i t (store (interfere w3)))"
    unfolding marks_def by blast
  have "canonical (m_ID m)" using tables_okD(5) [OF tables m(1)] .
  moreover have "canonical (m_ChatID m)"
    using tables tables_okD(6) [OF tables m(1)]
    by (auto simp: message_fk_def chat_ids_def dest: tables_okD(7))
  ultimately have "cid = m_ChatID m" "i = m_ID m" using ids by simp_all
  with member_row_mark [OF x, of i t] s4 obtain y where
    "member_row (store w4) (m_ChatID m) uid = Some y" "cm_LastReadMessageID y = Some (m_ID m)"
    by (auto simp: member_row_def)
  with m row ids(2) live res show ?thesis by auto
qed

lemma list_ex_anchor:
  assumes "distinct (message_ids s)" and "a \<in> set (messages s)"
  shows "list_ex (\<lambda>x. m_ID x = m_ID a \<and> P x) (messages s) = P a"
proof -
  have "x = a" if "x \<in> set (messages s)" "m_ID x = m_ID a" for x
    using that assms by (auto simp: message_ids_def distinct_map dest: inj_onD)
  then show ?thesis using assms(2) by (auto simp: list_ex_iff)
qed

lemma count_unread_history:
  "count_unread s cid None = int (length (history s cid))"
  by (simp add: count_unread_def history_def visible_before_def before_cursor_def)

lemma count_unread_anchor:
  assumes "distinct (message_ids s)" and "a \<in> set (messages s)" and "m_ChatID a = cid"
  shows "count_unread s cid (Some (m_ID a)) = int (length (filter (\<lambda>m. msg_key a < msg_key m) (history s cid)))"
proof -
  have "(m_CreatedAt m > m_CreatedAt a \<or> m_CreatedAt m = m_CreatedAt a \<and> m_ID m > m_ID a)
      = (msg_key a < msg_key m)" for m
    by (auto simp: msg_key_def less_prod_def')
  then have "count_unread s cid (Some (m_ID a))
      = int (length (filter (\<lambda>m. msg_key a < msg_key m) (visible_before s cid None None)))"
    using list_ex_anchor [OF assms(1,2)] assms(3)
    by (simp add: count_unread_def visible_before_def before_cursor_def)
  then show ?thesis by (simp add: history_def order_desc_filter [symmetric])
qed

text \<open>
  C14: the two queries for unread messages agree: the correlated sub-query of the chat list counts
  the same messages as \<^verbatim>\<open>CountUnreadAfter\<close> does with the member's read mark.
\<close>

theorem unread_queries_agree:
  "summary_unread s c mem = count_unread s (c_ID c) (cm_LastReadMessageID mem)"
proof (cases "cm_LastReadMessageID mem")
  case None
  then show ?thesis by (simp add: summary_unread_def count_unread_def)
next
  case (Some a)
  then have "(Some (m_ID x) = cm_LastReadMessageID mem) = (m_ID x = a)" for x by auto
  then show ?thesis using Some by (simp add: summary_unread_def count_unread_def)
qed

text \<open>
  A read mark splits the history: the unread messages are those after the mark, the page before
  the mark has those before it, and together with the marked message itself (unless it has been
  deleted since) they are the whole history.
\<close>

lemma read_mark_splits_history:
  assumes "tables_ok s" and "a \<in> set (messages s)"
  shows "count_unread s (m_ChatID a) (Some (m_ID a))
      + int (length (visible_before s (m_ChatID a) (Some (m_ID a)) None))
      + (if m_DeletedAt a = None then 1 else 0)
    = int (length (history s (m_ChatID a)))"
proof -
  let ?h = "history s (m_ChatID a)"
  have ids: "distinct (message_ids s)" using assms(1) by (rule tables_okD)
  have "length (visible_before s (m_ChatID a) (Some (m_ID a)) None)
      = length (order_desc msg_key (visible_before s (m_ChatID a) (Some (m_ID a)) None))" by simp
  also have "\<dots> = length (filter (\<lambda>m. msg_key m < msg_key a) ?h)"
    by (simp only: visible_filter [OF ids assms(2) refl])
  finally have before: "length (visible_before s (m_ChatID a) (Some (m_ID a)) None)
      = length (filter (\<lambda>m. msg_key m < msg_key a) ?h)" .
  have "distinct xs \<Longrightarrow> filter (\<lambda>m. m = a) xs = (if a \<in> set xs then [a] else [])" for xs :: "Message list"
    by (induction xs) auto
  moreover have "distinct ?h"
    using ids by (simp add: history_def visible_before_def message_ids_def distinct_map)
  ultimately have "filter (\<lambda>m. m = a) ?h = (if a \<in> set ?h then [a] else [])" by blast
  moreover have "(msg_key m = msg_key a) = (m = a)" if "m \<in> set ?h" for m
    using that assms(2) ids by (auto simp: history_mem msg_key_def message_ids_def distinct_map dest: inj_onD)
  then have "filter (\<lambda>m. msg_key m = msg_key a) ?h = filter (\<lambda>m. m = a) ?h" by (intro filter_cong) auto
  ultimately have "length (filter (\<lambda>m. msg_key m = msg_key a) ?h) = (if m_DeletedAt a = None then 1 else 0)"
    using assms(2) by (simp add: history_mem)
  moreover note length_split3 [of ?h "msg_key a" msg_key]
  ultimately show ?thesis
    using count_unread_anchor [OF ids assms(2) refl] before by (simp split: if_splits)
qed

end
