(* ===== verification/ChatProps.thy ===== *)
theory ChatProps
  imports System
begin

text \<open>
  What the chat service guarantees: direct chats are keyed by the unordered pair of their users, and
  membership changes only by those entitled to it.
\<close>

section \<open>The key of a direct chat\<close>

lemma hex_groups_length: "hex_groups ns s \<Longrightarrow> ns \<noteq> [] \<Longrightarrow> length s = sum_list ns + length ns - 1"
proof (induction ns s rule: hex_groups.induct)
  case (3 n k ns s)
  then obtain c r where "drop n s = c # r" "hex_groups (k # ns) r" "length (take n s) = n"
    by (auto split: list.splits)
  with 3 have "length r = sum_list (k # ns) + length (k # ns) - 1" by auto
  moreover have "length s = n + Suc (length r)"
    using arg_cong [OF \<open>drop n s = c # r\<close>, of length] by simp
  ultimately show ?case by simp
qed simp_all

lemma length_uuid:
  assumes "uuid_pattern s"
  shows "length s = 36"
proof -
  have "length s = sum_list [8, 4, 4, 4, 12] + length [8, 4, 4, 4, 12 :: nat] - 1"
    using assms unfolding uuid_pattern_def by (rule hex_groups_length) simp
  then show ?thesis by simp
qed

definition pair_text :: "ID \<Rightarrow> ID \<Rightarrow> string" where
  "pair_text a b = (if a > b then b @ ''|'' @ a else a @ ''|'' @ b)"

lemma directKey_text:
  "a \<noteq> '''' \<Longrightarrow> b \<noteq> '''' \<Longrightarrow> directKey sha256 a b = Inr (EncodeToString (sha256 (pair_text a b)))"
  by (simp add: directKey_def pair_text_def)

lemma pair_text_commute: "pair_text a b = pair_text b a"
  by (auto simp: pair_text_def)

lemma pair_text_inj:
  assumes "uuid_pattern a" "uuid_pattern b" "uuid_pattern c" "uuid_pattern d"
    and "pair_text a b = pair_text c d"
  shows "{a, b} = {c, d}"
  using assms length_uuid by (auto simp: pair_text_def split: if_splits)

text \<open>The key of a direct chat does not depend on which of its two users asks for it.\<close>

lemma directKey_symmetric: "directKey sha256 a b = directKey sha256 b a"
  by (cases "a = '''' \<or> b = ''''") (auto simp: directKey_def directKey_text pair_text_commute)

text \<open>
  Two pairs of users have the same key only if they are the same pair, as long as the hash has no
  collision on the two texts hashed; and a key fits the column, since the hash has 32 bytes.
\<close>

lemma directKey_separates:
  assumes "uuid_pattern a" and "uuid_pattern b" and "uuid_pattern c" and "uuid_pattern d"
    and "sha256 (pair_text a b) = sha256 (pair_text c d) \<Longrightarrow> pair_text a b = pair_text c d"
    and "length (sha256 (pair_text a b)) = 32"
  shows "(directKey sha256 a b = directKey sha256 c d) = ({a, b} = {c, d})
    \<and> (\<exists>k. directKey sha256 a b = Inr k \<and> length k = 64)"
proof -
  have keys: "directKey sha256 a b = Inr (EncodeToString (sha256 (pair_text a b)))"
    "directKey sha256 c d = Inr (EncodeToString (sha256 (pair_text c d)))"
    using assms(1-4) by (simp_all add: directKey_text)
  have "pair_text a b = pair_text c d" if "{a, b} = {c, d}"
    using that by (auto simp: doubleton_eq_iff pair_text_commute)
  moreover have "{a, b} = {c, d}" if "directKey sha256 a b = directKey sha256 c d"
    using that keys assms(5) pair_text_inj [OF assms(1-4)] by (auto dest: EncodeToString_inj)
  ultimately show ?thesis using keys assms(6) by auto
qed

section \<open>Who may change a membership\<close>

text \<open>On a calm network a read returns what is in the store.\<close>

lemma find_calm:
  "calm w \<Longrightarrow> uuid_in c = Some ci \<Longrightarrow> uuid_in u = Some ui \<Longrightarrow>
     FindMembership c u w = (case member_row (store w) ci ui of
        None \<Rightarrow> (Inl ErrNotFound, advance w) | Some x \<Rightarrow> (Inr x, advance w))"
  by (simp add: FindMembership_def roundtrip_calm with_uuid_def one_row_def call_def mapErr_def
      split: option.split)

lemma get_chat_calm:
  "calm w \<Longrightarrow> uuid_in c = Some ci \<Longrightarrow>
     Chat_GetByID c w = (case chat_row (store w) ci of
        None \<Rightarrow> (Inl ErrNotFound, advance w) | Some x \<Rightarrow> (Inr x, advance w))"
  by (simp add: Chat_GetByID_def roundtrip_calm with_uuid_def one_row_def call_def mapErr_def
      split: option.split)

lemma remove_calm:
  assumes "calm w" and "uuid_in c = Some ci" and "uuid_in u = Some ui"
    and "member_row (store w) ci ui = Some x"
  shows "RemoveMember c u w = (Inr (), (advance w)\<lparr>store := (store w)\<lparr>chat_members :=
    filter (\<lambda>m. member_key m \<noteq> (ci, ui)) (chat_members (store w))\<rparr>\<rparr>)"
proof -
  have "x \<in> set (filter (\<lambda>m. member_key m = (ci, ui)) (chat_members (store w)))"
    using member_row_Some [OF assms(4)] by (simp add: member_key_def)
  then have "filter (\<lambda>m. member_key m = (ci, ui)) (chat_members (store w)) \<noteq> []"
    by (auto simp: filter_empty_conv)
  then show ?thesis
    using assms(1-3) by (simp add: RemoveMember_def roundtrip_calm with_uuid_def call_def)
qed

text \<open>
  The decision on a removal, as a function of the rows: the chat, the actor's and the target's
  membership, and whether the actor names itself.
\<close>

definition removal_decision :: "Store \<Rightarrow> ID \<Rightarrow> ID \<Rightarrow> ID \<Rightarrow> bool \<Rightarrow> err + unit" where
  "removal_decision s cid actor target leaving =
     (case chat_row s cid of
        None \<Rightarrow> Inl (NotFound ''chat not found'')
      | Some c \<Rightarrow>
          if c_IsDeleted c then Inl (NotFound ''chat not found'')
          else case member_row s cid actor of
            None \<Rightarrow> Inl (Forbidden ''not a chat member'')
          | Some am \<Rightarrow>
              (case member_row s cid target of
                 None \<Rightarrow> Inl (NotFound ''member not found'')
               | Some tm \<Rightarrow>
                   if leaving then Inr ()
                   else if c_Type c = ChatTypeDirect
                   then Inl (Forbidden ''cannot remove other user from direct chat'')
                   else assertKickRules am tm))"

lemma remove_member_calm:
  assumes "calm w" and "actor \<noteq> ''''" and "uuid_in (TrimSpace chatID) = Some cid"
    and "uuid_in actor = Some u" and "uuid_in (TrimSpace target) = Some tid"
  shows "fst (ChatService_RemoveMember actor chatID target w)
      = removal_decision (store w) cid u tid (actor = TrimSpace target)
    \<and> store (snd (ChatService_RemoveMember actor chatID target w))
      = (if removal_decision (store w) cid u tid (actor = TrimSpace target) = Inr ()
         then (store w)\<lparr>chat_members := filter (\<lambda>m. member_key m \<noteq> (cid, tid)) (chat_members (store w))\<rparr>
         else store w)"
proof -
  have parse: "parseChatID chatID = Inr (TrimSpace chatID)"
    "parseUserIDParam target = Inr (TrimSpace target)"
    using assms(3,5)
    by (simp_all add: parseChatID_def parseUserIDParam_def chatUUIDRe_def uuid_in_Some Let_def)
  show ?thesis
    using assms parse
    by (simp add: ChatService_RemoveMember_def requireMemberShip_def loadErr_def removal_decision_def
        call_def get_chat_calm find_calm remove_calm assertKickRules_def
        split: option.split ChatMemberRole.split)
qed

text \<open>
  C18: on a calm network and for well-formed identifiers, a member is removed exactly when the rules allow it: the chat exists and is not deleted, actor
  and target are members, and the actor leaves on its own, or the chat is a group and the actor is
  its owner and the target is not, or the actor is an admin and the target a plain member.  Then
  the target's row is deleted and nothing else changes; in every other case nothing changes at all.
\<close>

theorem remove_member_rules:
  assumes "calm w" and "actor \<noteq> ''''" and "uuid_in (TrimSpace chatID) = Some cid"
    and "uuid_in actor = Some u" and "uuid_in (TrimSpace target) = Some tid"
  shows "(fst (ChatService_RemoveMember actor chatID target w) = Inr ()) =
      (\<exists>c am tm. chat_row (store w) cid = Some c \<and> \<not> c_IsDeleted c
         \<and> member_row (store w) cid u = Some am \<and> member_row (store w) cid tid = Some tm
         \<and> (actor = TrimSpace target
            \<or> c_Type c = ChatTypeGroup
              \<and> (cm_Role am = ChatMemberRoleOwner \<and> cm_Role tm \<noteq> ChatMemberRoleOwner
                 \<or> cm_Role am = ChatMemberRoleAdmin \<and> cm_Role tm = ChatMemberRoleMember)))
    \<and> store (snd (ChatService_RemoveMember actor chatID target w)) =
      (if fst (ChatService_RemoveMember actor chatID target w) = Inr ()
       then (store w)\<lparr>chat_members := filter (\<lambda>m. member_key m \<noteq> (cid, tid)) (chat_members (store w))\<rparr>
       else store w)"
proof -
  note dec = remove_member_calm [OF assms]
  have "(removal_decision (store w) cid u tid (actor = TrimSpace target) = Inr ()) =
      (\<exists>c am tm. chat_row (store w) cid = Some c \<and> \<not> c_IsDeleted c
         \<and> member_row (store w) cid u = Some am \<and> member_row (store w) cid tid = Some tm
         \<and> (actor = TrimSpace target
            \<or> c_Type c = ChatTypeGroup
              \<and> (cm_Role am = ChatMemberRoleOwner \<and> cm_Role tm \<noteq> ChatMemberRoleOwner
                 \<or> cm_Role am = ChatMemberRoleAdmin \<and> cm_Role tm = ChatMemberRoleMember)))"
    by (auto simp: removal_decision_def assertKickRules_def
        split: option.splits ChatMemberRole.splits if_splits intro: ChatType.exhaust)
  with dec show ?thesis by simp
qed

theorem remove_member_rules_witness:
  "fst (ChatService_RemoveMember alice team bob demo) = Inr ()
   \<and> fst (ChatService_RemoveMember bob team alice demo) \<noteq> Inr ()"
proof -
  have ids: "uuid_in (TrimSpace team) = Some team" "uuid_in alice = Some alice" "uuid_in bob = Some bob"
    "uuid_in (TrimSpace alice) = Some alice" "uuid_in (TrimSpace bob) = Some bob"
    "alice \<noteq> ''''" "bob \<noteq> ''''" "bob \<noteq> TrimSpace alice" "alice \<noteq> bob"
    by code_simp+
  have calm: "calm demo" by (simp add: calm_def)
  have rows: "chat_row demo_store team = Some demo_chat"
    "member_row demo_store team alice = Some (new_member_row team alice ChatMemberRoleOwner 0)"
    "member_row demo_store team bob = Some (new_member_row team bob ChatMemberRoleMember 0)"
    by code_simp+
  have "\<not> c_IsDeleted demo_chat" "c_Type demo_chat = ChatTypeGroup"
    by (simp_all add: demo_chat_def new_chat_row_def)
  then show ?thesis
    using remove_member_rules [OF calm ids(6) ids(1) ids(2) ids(5)]
      remove_member_rules [OF calm ids(7) ids(1) ids(3) ids(4)] rows ids(8)
    by (simp add: new_member_row_def)
qed

section \<open>Creating chats\<close>

text \<open>The members a group gets: the creator and every other user named, once each.\<close>

lemma CreateGroup_Inr:
  assumes "CreateGroup actor req w = (Inr d, w')"
  obtains others w1 avatar c where "group_members actor [actor] (cgr_MemberIDs req) w = (Inr others, w1)"
    "CreateGroupWithMembers (TrimSpace (cgr_Title req)) avatar actor others w1 = (Inr c, w')"
    "d = chatDetail c" "TrimSpace (cgr_Title req) \<noteq> ''''"
    "length (TrimSpace (cgr_Title req)) \<le> chatTitleMaxLen"
  using assms by (auto simp: CreateGroup_def Let_def elim!: call_cases split: if_splits)

lemma group_members_Inr:
  "group_members actor seen raws w = (Inr others, w') \<Longrightarrow>
     set others = TrimSpace ` set raws - insert actor (set seen)
     \<and> distinct others \<and> (\<forall>u \<in> set others. uuid_pattern u)"
proof (induction raws arbitrary: seen w others w')
  case (Cons raw raws)
  let ?u = "TrimSpace raw"
  have u: "?u \<noteq> []" "chatUUIDRe ?u" using Cons.prems by (auto simp: Let_def split: if_splits)
  show ?case
  proof (cases "?u = actor \<or> ?u \<in> set seen")
    case True
    then have "group_members actor seen raws w = (Inr others, w')"
      using Cons.prems u by (auto simp: Let_def split: if_splits)
    note IH = Cons.IH [OF this]
    have "TrimSpace ` set (raw # raws) - insert actor (set seen) = TrimSpace ` set raws - insert actor (set seen)"
      using True by (auto simp del: TrimSpace_idem)
    with IH show ?thesis by metis
  next
    case False
    then obtain os w1 where others: "others = ?u # os"
      and rec: "group_members actor (?u # seen) raws w1 = (Inr os, w')"
      using Cons.prems u by (auto simp: Let_def loadErr_def elim!: call_cases split: if_splits)
    from Cons.IH [OF rec] have os: "set os = TrimSpace ` set raws - insert actor (set (?u # seen))"
      "distinct os" "\<forall>u \<in> set os. uuid_pattern u" by blast+
    have "insert ?u (A - insert actor (insert ?u B)) = insert ?u A - insert actor B"
      if "?u \<noteq> actor" "?u \<notin> B" for A B using that by blast
    with False have "set others = TrimSpace ` set (raw # raws) - insert actor (set seen)"
      unfolding others by (simp add: os(1))
    moreover have "?u \<notin> set os" unfolding os(1) by simp
    then have "distinct others" "\<forall>u \<in> set others. uuid_pattern u"
      using os(2,3) u(2) unfolding others by (simp_all add: chatUUIDRe_def del: TrimSpace_uuid)
    ultimately show ?thesis by blast
  qed
qed simp

lemma insert_chat_row_Inr:
  "insert_chat_row c s = (Inr d, s') \<Longrightarrow> d = c \<and> c_ID c \<notin> set (chat_ids s) \<and> s' = s\<lparr>chats := chats s @ [c]\<rparr>"
  by (auto simp: insert_chat_row_def split: if_splits)

lemma group_body_effect:
  assumes body: "group_body title avatar creator others t0 w = (Inr c, w')"
    and uid: "canonical (t_uuid (next_trip w))"
  shows "\<exists>cb ms. uuid_in creator = Some cb
    \<and> c = new_chat_row ChatTypeGroup (Some title) avatar (Some cb) None t0 (c_ID c)
    \<and> c_ID c \<notin> set (chat_ids (store w))
    \<and> member_params (c_ID c) t0 (map (\<lambda>u. \<lparr>acm_UserID = u, acm_Role = ChatMemberRoleMember\<rparr>)
        (dedup_ids [creator] others)) = Some ms
    \<and> store w' = (store w)\<lparr>chats := chats (store w) @ [c], chat_members :=
        insert_members_skip ms
          (chat_members (store w) @ [new_member_row (c_ID c) cb ChatMemberRoleOwner t0])\<rparr>"
proof -
  let ?add = "map (\<lambda>u. \<lparr>acm_UserID = u, acm_Role = ChatMemberRoleMember\<rparr>) (dedup_ids [creator] others)"
  from body obtain c1 w1 where ins: "tx_stmt t0 (with_uuid creator (\<lambda>cb now uid. insert_chat_row
      (new_chat_row ChatTypeGroup (Some title) avatar (Some cb) None now uid))) w = (Inr c1, w1)"
    by (auto simp: group_body_def elim!: call_cases)
  then obtain cb where cb: "uuid_in creator = Some cb"
    and c1: "c1 = new_chat_row ChatTypeGroup (Some title) avatar (Some cb) None t0 (t_uuid (next_trip w))"
    and new: "c_ID c1 \<notin> set (chat_ids (store w))"
    and s1: "store w1 = (store w)\<lparr>chats := chats (store w) @ [c1]\<rparr>"
    by (auto elim!: tx_stmt_Inr_cases simp: with_uuid_Inr dest!: insert_chat_row_Inr)
  have can: "uuid_in (c_ID c1) = Some (c_ID c1)" using uid c1 by (simp add: new_chat_row_def)
  from body ins obtain x w2 where own: "tx_stmt t0 (with_uuid (c_ID c1) (\<lambda>cid. with_uuid creator (\<lambda>u now _.
      insert_member_row (new_member_row cid u ChatMemberRoleOwner now)))) w1 = (Inr x, w2)"
    by (auto simp: group_body_def elim!: call_cases)
  then have s2: "store w2 = (store w1)\<lparr>chat_members := chat_members (store w1)
      @ [new_member_row (c_ID c1) cb ChatMemberRoleOwner t0]\<rparr>"
    using can cb
    by (auto elim!: tx_stmt_Inr_cases simp: with_uuid_Inr insert_member_row_def split: if_splits)
  show ?thesis
  proof (cases "dedup_ids [creator] others = []")
    case True
    then have "c = c1" "w' = w2" using body ins own by (auto simp: group_body_def)
    then show ?thesis using True cb c1 new s1 s2 by (simp add: new_chat_row_def)
  next
    case False
    then obtain u w3 where add: "tx_stmt t0 (insert_members_stmt (c_ID c1) ?add) w2 = (Inr u, w3)"
      and c: "c = c1" "w' = w3"
      using body ins own by (auto simp: group_body_def Let_def elim!: call_cases)
    then obtain ms where "member_params (c_ID c1) t0 ?add = Some ms"
      and "store w3 = (store w2)\<lparr>chat_members := insert_members_skip ms (chat_members (store w2))\<rparr>"
      using can
      by (auto elim!: tx_stmt_Inr_cases simp: insert_members_stmt_def with_uuid_Inr
          insert_members_rows_def Let_def split: option.splits if_splits)
    then show ?thesis using cb c1 c new s1 s2 by (simp add: new_chat_row_def)
  qed
qed

text \<open>Users and roles of a chat.\<close>

definition roster :: "ChatMember list \<Rightarrow> ID \<Rightarrow> (ID \<times> ChatMemberRole) set" where
  "roster ms cid = (\<lambda>x. (cm_UserID x, cm_Role x)) ` {x \<in> set ms. cm_ChatID x = cid}"

lemma roster_append [simp]:
  "roster (ms @ [x]) cid = roster ms cid \<union> (if cm_ChatID x = cid then {(cm_UserID x, cm_Role x)} else {})"
  by (auto simp: roster_def)

lemma member_key_roster:
  "member_key x \<in> set (map member_key ms) \<longleftrightarrow> cm_UserID x \<in> fst ` roster ms (cm_ChatID x)"
  unfolding roster_def image_image by (auto simp: member_key_def image_iff) metis

lemma roster_skip:
  assumes "\<And>x. x \<in> set ms \<Longrightarrow> cm_ChatID x = cid \<and> cm_Role x = ChatMemberRoleMember"
  shows "roster (insert_members_skip ms hs) cid
    = roster hs cid \<union> {(u, ChatMemberRoleMember) |u. u \<in> cm_UserID ` set ms - fst ` roster hs cid}"
  using assms
proof (induction ms arbitrary: hs)
  case (Cons x ms)
  have x: "cm_ChatID x = cid" "cm_Role x = ChatMemberRoleMember" using Cons.prems by simp_all
  show ?case
  proof (cases "member_key x \<in> set (map member_key hs)")
    case True
    then have "cm_UserID x \<in> fst ` roster hs cid" using x member_key_roster [of x hs] by blast
    moreover have "roster (insert_members_skip ms hs) cid = roster hs cid
        \<union> {(u, ChatMemberRoleMember) |u. u \<in> cm_UserID ` set ms - fst ` roster hs cid}"
      using Cons.prems by (intro Cons.IH) simp
    ultimately show ?thesis using True by simp
  next
    case False
    then have "cm_UserID x \<notin> fst ` roster hs cid" using x member_key_roster [of x hs] by blast
    moreover have "roster (insert_members_skip ms (hs @ [x])) cid = roster (hs @ [x]) cid
        \<union> {(u, ChatMemberRoleMember) |u. u \<in> cm_UserID ` set ms - fst ` roster (hs @ [x]) cid}"
      using Cons.prems by (intro Cons.IH) simp
    ultimately show ?thesis using False x by auto
  qed
qed simp

lemma dedup_ids_id:
  "distinct us \<Longrightarrow> set us \<inter> set seen = {} \<Longrightarrow> [] \<notin> set us \<Longrightarrow> dedup_ids seen us = us"
  by (induction us arbitrary: seen) auto

lemma member_params_users:
  "member_params c now as = Some ms \<Longrightarrow> cm_UserID ` set ms = (ascii_lower \<circ> acm_UserID) ` set as"
  by (induction c now as arbitrary: ms rule: member_params.induct)
    (clarsimp simp: new_member_row_def uuid_in_Some split: option.splits)+

lemma image_minus_one: "f ` (A - {x}) - {f x} = f ` A - {f x}"
  by auto

lemma roster_fresh:
  assumes "domain_ok s" and "cid \<notin> set (chat_ids s)"
  shows "roster (chat_members s) cid = {}"
proof -
  have "cm_ChatID x \<in> set (chat_ids s)" if "x \<in> set (chat_members s)" for x
    using assms(1) that by (auto simp: domain_ok_def member_fk_def dest: tables_okD(8))
  then show ?thesis using assms(2) by (auto simp: roster_def)
qed

text \<open>
  C19: when \<^verbatim>\<open>CreateGroup\<close> succeeds, the chat it reports is in the table as a group chat with the trimmed
  title (at most 255 bytes) and the actor as creator, and its members are the actor as owner and
  every user named in the request as a plain member, each once and nobody else.
\<close>

theorem create_group_effect:
  assumes w: "domain_ok (store w)" "rely domain_ok later (net w)"
    and ok: "CreateGroup actor req w = (Inr d, w')"
  shows "\<exists>c u. uuid_in actor = Some u \<and> c \<in> set (chats (store w')) \<and> d = chatDetail c
    \<and> c_Type c = ChatTypeGroup \<and> c_CreatedBy c = Some u
    \<and> c_Title c = Some (TrimSpace (cgr_Title req)) \<and> length (TrimSpace (cgr_Title req)) \<le> 255
    \<and> roster (chat_members (store w')) (c_ID c) = {(u, ChatMemberRoleOwner)}
        \<union> {(v, ChatMemberRoleMember) |v. v \<in> ascii_lower ` TrimSpace ` set (cgr_MemberIDs req) - {u}}"
  using ok
proof (rule CreateGroup_Inr)
  fix others w1 avatar c
  let ?title = "TrimSpace (cgr_Title req)"
  assume mem: "group_members actor [actor] (cgr_MemberIDs req) w = (Inr others, w1)"
    and create: "CreateGroupWithMembers ?title avatar actor others w1 = (Inr c, w')"
    and d: "d = chatDetail c" and title: "length ?title \<le> chatTitleMaxLen"
  have "sound (store w) w1" using keepsD [OF keeps_group_members sound_start [OF w]] mem by (metis snd_conv)
  then have w2: "sound (store w) (advance (interfere w1))" by (simp add: evo.holds_interfere)
  from create obtain w3 where
    body: "group_body ?title avatar actor others (clock (advance (interfere w1))) (advance (interfere w1)) = (Inr c, w3)"
    and s3: "store w' = store w3"
    unfolding CreateGroupWithMembers_def by (cases rule: transaction_cases) auto
  let ?s = "store (advance (interfere w1))" and ?t = "clock (advance (interfere w1))"
  from group_body_effect [OF body holds_canonical [OF w2]] obtain u ms where u: "uuid_in actor = Some u"
    and c: "c = new_chat_row ChatTypeGroup (Some ?title) avatar (Some u) None ?t (c_ID c)"
    and new: "c_ID c \<notin> set (chat_ids ?s)"
    and ms: "member_params (c_ID c) ?t (map (\<lambda>u. \<lparr>acm_UserID = u, acm_Role = ChatMemberRoleMember\<rparr>)
        (dedup_ids [actor] others)) = Some ms"
    and s': "store w3 = ?s\<lparr>chats := chats ?s @ [c], chat_members := insert_members_skip ms
          (chat_members ?s @ [new_member_row (c_ID c) u ChatMemberRoleOwner ?t])\<rparr>"
    by blast
  from group_members_Inr [OF mem] have oth1: "set others = TrimSpace ` set (cgr_MemberIDs req) - insert actor (set [actor])"
    and oth2: "distinct others" and oth3: "\<forall>u \<in> set others. uuid_pattern u" by blast+
  have oth: "set others = TrimSpace ` set (cgr_MemberIDs req) - {actor}" "distinct others"
    using oth1 oth2 by simp_all
  have "[] \<notin> set others" using oth3 by (metis uuid_not_Nil)
  moreover have "set others \<inter> set [actor] = {}" unfolding oth(1) by simp
  ultimately have "dedup_ids [actor] others = others" using oth(2) by (intro dedup_ids_id)
  then have users: "cm_UserID ` set ms = ascii_lower ` (TrimSpace ` set (cgr_MemberIDs req) - {actor})"
    using member_params_users [OF ms] oth(1) by (simp add: image_image)
  have "roster (chat_members ?s) (c_ID c) = {}"
    using roster_fresh [OF _ new] w2 by (simp add: holds_def)
  moreover have "cm_ChatID x = c_ID c \<and> cm_Role x = ChatMemberRoleMember" if "x \<in> set ms" for x
    using member_params_rows [OF ms that] by auto
  ultimately have "roster (chat_members (store w')) (c_ID c) = {(u, ChatMemberRoleOwner)}
      \<union> {(v, ChatMemberRoleMember) |v. v \<in> cm_UserID ` set ms - {u}}"
    unfolding s3 s' by (simp add: roster_skip new_member_row_def)
  moreover have "cm_UserID ` set ms - {u} = ascii_lower ` TrimSpace ` set (cgr_MemberIDs req) - {u}"
    unfolding users uuid_in_lower [OF u] by (rule image_minus_one)
  moreover have "c_Type c = ChatTypeGroup" "c_CreatedBy c = Some u" "c_Title c = Some ?title"
    by (subst c, simp add: new_chat_row_def)+
  ultimately show ?thesis using u d title s3 s' by (auto simp: chatTitleMaxLen_def)
qed

theorem create_group_effect_witness:
  "\<exists>d c. fst (CreateGroup alice \<lparr>cgr_Title = '' x '', cgr_AvatarURL = None, cgr_MemberIDs = [bob, bob]\<rparr> demo) = Inr d
     \<and> d = chatDetail c \<and> c_Type c = ChatTypeGroup \<and> c_Title c = Some (TrimSpace '' x '')"
proof -
  let ?op = "CreateGroup alice \<lparr>cgr_Title = '' x '', cgr_AvatarURL = None, cgr_MemberIDs = [bob, bob]\<rparr> demo"
  have "\<not> isl (fst ?op)" by code_simp
  then obtain d where op: "?op = (Inr d, snd ?op)" by (cases ?op, cases "fst ?op") auto
  have "domain_ok (store demo)" by (simp add: demo_domain_ok)
  from create_group_effect [OF this demo_rely op] op show ?thesis by (cases ?op) auto
qed

end
