(* ===== verification/DirectChat.thy ===== *)
theory DirectChat
  imports ChatProps
begin

text \<open>
  Starting a direct chat (\<^verbatim>\<open>CreateDirect\<close> of \<^verbatim>\<open>backend/internal/service/chat_service.go\<close>): there is one chat for a pair of users,
  and asking again, from either side, gives the same chat and changes nothing.
\<close>

section \<open>Reads and insertions on a calm network\<close>

lemma get_user_calm:
  "calm w \<Longrightarrow> uuid_in u = Some i \<Longrightarrow>
     User_GetByID u w = (case user_row (store w) i of
        None \<Rightarrow> (Inl ErrNotFound, advance w) | Some x \<Rightarrow> (Inr x, advance w))"
  by (simp add: User_GetByID_def roundtrip_calm with_uuid_def one_row_def call_def mapErr_def split: option.split)

lemma get_direct_calm:
  "calm w \<Longrightarrow> GetDirectByKey key w = (case direct_by_key key (store w) of
        None \<Rightarrow> (Inl ErrNotFound, advance w) | Some x \<Rightarrow> (Inr x, advance w))"
  by (simp add: GetDirectByKey_def roundtrip_calm one_row_def call_def mapErr_def split: option.split)

lemma member_row_key: "member_row s c u \<noteq> None \<longleftrightarrow> (c, u) \<in> member_key ` set (chat_members s)"
  by (force simp: member_row_def find_None_all member_key_def)

lemma keys_insert_members_skip:
  "member_key ` set (insert_members_skip ms hs) = member_key ` set hs \<union> member_key ` set ms"
  by (induction ms hs rule: insert_members_skip.induct) auto

lemma insert_members_skip_idle:
  "member_key ` set ms \<subseteq> member_key ` set hs \<Longrightarrow> insert_members_skip ms hs = hs"
  by (induction ms) auto

definition pair_rows :: "ID \<Rightarrow> ID \<Rightarrow> ID \<Rightarrow> time \<Rightarrow> ChatMember list" where
  "pair_rows cid a b now = [new_member_row cid a ChatMemberRoleMember now, new_member_row cid b ChatMemberRoleMember now]"

lemma pair_rows_keys [simp]: "member_key ` set (pair_rows cid a b now) = {(cid, a), (cid, b)}"
  by (simp add: pair_rows_def member_key_def new_member_row_def)

lemma add_pair_calm:
  assumes "calm w" and "canonical cid" and "canonical a" and "canonical b"
  shows "AddMembers cid (direct_members a b) w =
    (fst (insert_members_rows (pair_rows cid a b (clock (advance w))) (store w)),
     (advance w)\<lparr>store := snd (insert_members_rows (pair_rows cid a b (clock (advance w))) (store w))\<rparr>)"
  using assms
  by (simp add: AddMembers_def direct_members_def insert_members_stmt_def roundtrip_calm with_uuid_def pair_rows_def)

text \<open>Both rows can be inserted when the chat and the users exist; rows that are there already stay as they are.\<close>

lemma insert_members_skip_new: "\<exists>new. insert_members_skip ms hs = hs @ new \<and> set new \<subseteq> set ms"
proof (induction ms hs rule: insert_members_skip.induct)
  case (2 m ms hs)
  then show ?case by (cases "member_key m \<in> set (map member_key hs)") auto
qed simp

lemma insert_pair_ok:
  assumes "cid \<in> set (chat_ids s)" and "a \<in> set (user_ids s)" and "b \<in> set (user_ids s)"
  shows "insert_members_rows (pair_rows cid a b now) s =
    (Inr (), s\<lparr>chat_members := insert_members_skip (pair_rows cid a b now) (chat_members s)\<rparr>)"
proof -
  obtain new where "insert_members_skip (pair_rows cid a b now) (chat_members s) = chat_members s @ new"
    and "set new \<subseteq> set (pair_rows cid a b now)"
    using insert_members_skip_new by blast
  then show ?thesis using assms
    by (auto simp: insert_members_rows_def Let_def list_all_iff pair_rows_def member_fk_def new_member_row_def)
qed

lemma insert_pair_Inr:
  assumes "insert_members_rows (pair_rows cid a b now) s = (Inr (), s')"
  shows "s' = s\<lparr>chat_members := insert_members_skip (pair_rows cid a b now) (chat_members s)\<rparr>"
  using assms by (auto simp: insert_members_rows_def Let_def split: if_splits)

lemma insert_pair_idle:
  assumes "(cid, a) \<in> member_key ` set (chat_members s)" and "(cid, b) \<in> member_key ` set (chat_members s)"
  shows "insert_members_rows (pair_rows cid a b now) s = (Inr (), s)"
proof -
  have "insert_members_skip (pair_rows cid a b now) (chat_members s) = chat_members s"
    by (rule insert_members_skip_idle) (use assms in simp)
  then show ?thesis by (simp add: insert_members_rows_def)
qed

section \<open>The chat of a pair\<close>

text \<open>\<open>c\<close> is the live chat with the key, and both users are members of it.\<close>

definition chat_of_pair :: "Store \<Rightarrow> string \<Rightarrow> ID \<Rightarrow> ID \<Rightarrow> Chat \<Rightarrow> bool" where
  "chat_of_pair s key a b c =
     (direct_by_key key s = Some c \<and> member_row s (c_ID c) a \<noteq> None \<and> member_row s (c_ID c) b \<noteq> None)"

lemma direct_by_key_Some: "direct_by_key key s = Some c \<Longrightarrow> c \<in> set (chats s) \<and> c_DirectKey c = Some key \<and> live_direct c"
  by (auto simp: direct_by_key_def dest: find_Some_mem)

lemma require_member_calm:
  assumes "calm w" and "canonical c" and "canonical u"
  shows "requireMember c u w =
    (if member_row (store w) c u = None then (Inl (Forbidden ''not a chat member''), advance w) else (Inr (), advance w))"
  using assms by (auto simp: requireMember_def call_def find_calm split: option.split)

text \<open>Asking for a chat that is there: it is reported, and nothing changes.\<close>

lemma CreateDirect_again:
  assumes "calm w" and "tables_ok (store w)" and "canonical a" and "canonical b" and "a \<noteq> b"
    and "TrimSpace (cdr_UserID req) = b" and "user_row (store w) b \<noteq> None" and "directKey sha a b = Inr key"
    and "chat_of_pair (store w) key a b c"
  shows "\<exists>w'. CreateDirect sha a req w = (Inr (chatDetail c), w') \<and> store w' = store w"
proof -
  let ?w1 = "advance w" let ?w2 = "advance ?w1" let ?w3 = "advance ?w2"
  have c: "direct_by_key key (store w) = Some c" "member_row (store w) (c_ID c) a \<noteq> None" "member_row (store w) (c_ID c) b \<noteq> None"
    using assms(9) by (simp_all add: chat_of_pair_def)
  have cid: "canonical (c_ID c)" using direct_by_key_Some [OF c(1)] tables_okD(7) [OF assms(2)] by blast
  have idle: "insert_members_rows (pair_rows (c_ID c) a b t) (store w) = (Inr (), store w)" for t
    by (rule insert_pair_idle) (use c(2,3) member_row_key in blast)+
  have "uuid_pattern b" "a \<noteq> ''''" "b \<noteq> ''''" using assms(3,4) canonical_not_Nil by (auto simp: canonical_def)
  then show ?thesis
    using assms(1,3-8) c cid idle
    by (auto simp: CreateDirect_def chatUUIDRe_def call_def get_user_calm get_direct_calm require_member_calm add_pair_calm
        numeral_3_eq_3 Let_def)
qed

section \<open>The first request\<close>

definition direct_row :: "string \<Rightarrow> time \<Rightarrow> ID \<Rightarrow> Chat" where
  "direct_row key now uid = new_chat_row ChatTypeDirect None None None (Some key) now uid"

lemma create_chat_calm:
  assumes "calm w"
  shows "CreateChat (direct_draft key) w =
    (fst (insert_chat_row (direct_row key (clock (advance w)) (t_uuid (next_trip w))) (store w)),
     (advance w)\<lparr>store := snd (insert_chat_row (direct_row key (clock (advance w)) (t_uuid (next_trip w))) (store w))\<rparr>)"
  using assms by (simp add: CreateChat_def direct_draft_def roundtrip_calm with_uuid_opt_def direct_row_def)

lemma insert_chat_row_cases:
  obtains e where "insert_chat_row c s = (Inl e, s)" | "insert_chat_row c s = (Inr c, s\<lparr>chats := chats s @ [c]\<rparr>)"
proof -
  have "(\<exists>e. insert_chat_row c s = (Inl e, s)) \<or> insert_chat_row c s = (Inr c, s\<lparr>chats := chats s @ [c]\<rparr>)"
    by (simp add: insert_chat_row_def)
  then show thesis using that by blast
qed

lemma find_snoc: "find P xs = None \<Longrightarrow> P y \<Longrightarrow> find P (xs @ [y]) = Some y"
  by (induction xs) (auto split: if_splits)

lemma direct_by_key_new:
  "direct_by_key key s = None \<Longrightarrow> direct_by_key key (s\<lparr>chats := chats s @ [direct_row key t i]\<rparr>) = Some (direct_row key t i)"
  by (simp add: direct_by_key_def find_snoc direct_row_def new_chat_row_def live_direct_def)

lemma direct_by_key_members [simp]: "direct_by_key key (s\<lparr>chat_members := ms\<rparr>) = direct_by_key key s"
  by (simp add: direct_by_key_def)

lemma pair_inserted:
  assumes "direct_by_key key s = Some c"
  shows "chat_of_pair (s\<lparr>chat_members := insert_members_skip (pair_rows (c_ID c) a b t) (chat_members s)\<rparr>) key a b c"
  unfolding chat_of_pair_def member_row_key using assms by (simp add: keys_insert_members_skip)

lemma direct_attempts_effect:
  assumes "direct_attempts n a b key w = (Inr d, w')"
    and "calm w" and "tables_ok (store w)" and "ids_canonical w" and "canonical a" and "canonical b"
    and "b \<in> set (user_ids (store w))"
  shows "\<exists>c. d = chatDetail c \<and> chat_of_pair (store w') key a b c \<and> calm w' \<and> users (store w') = users (store w)"
  using assms
proof (induction n arbitrary: w)
  case (Suc n)
  let ?w1 = "advance w"
  show ?case
  proof (cases "direct_by_key key (store w)")
    case (Some c)
    have cm: "c \<in> set (chats (store w))" using direct_by_key_Some [OF Some] by simp
    then have cid: "canonical (c_ID c)" "c_ID c \<in> set (chat_ids (store w))"
      using tables_okD(7) [OF Suc.prems(3)] by (simp_all add: chat_ids_def)
    have mem: "member_row (store w) (c_ID c) a \<noteq> None"
      using Suc.prems(1,2,5) Some cid(1) by (auto simp: call_def get_direct_calm require_member_calm split: if_splits)
    then obtain m where "m \<in> set (chat_members (store w))" "cm_UserID m = a"
      by (auto dest: member_row_Some)
    then have "a \<in> set (user_ids (store w))"
      using tables_okD(8) [OF Suc.prems(3)] by (auto simp: member_fk_def)
    note ins = insert_pair_ok [OF cid(2) this Suc.prems(7)]
    obtain t where "w' = (advance (advance (advance w)))\<lparr>store := (store w)\<lparr>chat_members :=
        insert_members_skip (pair_rows (c_ID c) a b t) (chat_members (store w))\<rparr>\<rparr>" and "d = chatDetail c"
      using Suc.prems(1,2,5,6) Some cid(1) mem
      by (auto simp: call_def get_direct_calm require_member_calm add_pair_calm ins)
    then show ?thesis using pair_inserted [OF Some] Suc.prems(2) by auto
  next
    case None
    let ?c = "direct_row key (clock (advance ?w1)) (t_uuid (next_trip ?w1))"
    have calm1: "calm ?w1" using Suc.prems(2) by simp
    show ?thesis
    proof (cases rule: insert_chat_row_cases [of ?c "store w"])
      case (1 e)
      have "(advance ?w1)\<lparr>store := store w\<rparr> = advance ?w1" using advance_store [of ?w1] by simp
      moreover from 1 have "direct_attempts n a b key ((advance ?w1)\<lparr>store := store w\<rparr>) = (Inr d, w')"
        using Suc.prems(1) None by (auto simp: call_def get_direct_calm [OF Suc.prems(2)] create_chat_calm [OF calm1] split: if_splits)
      ultimately have "direct_attempts n a b key (advance ?w1) = (Inr d, w')" by (simp only:)
      then show ?thesis using Suc.IH [of "advance ?w1"] Suc.prems(2-7) by (simp add: ids_canonical_def)
    next
      case 2
      let ?s = "(store w)\<lparr>chats := chats (store w) @ [?c]\<rparr>" let ?w2 = "(advance ?w1)\<lparr>store := ?s\<rparr>"
      have cid: "canonical (c_ID ?c)"
        using Suc.prems(4) by (simp add: direct_row_def new_chat_row_def ids_canonical_def next_trip_def)
      have calm2: "calm ?w2" using calm1 by simp
      let ?t = "clock (advance ?w2)" let ?rs = "insert_members_rows (pair_rows (c_ID ?c) a b (clock (advance ?w2))) ?s"
      have add: "AddMembers (c_ID ?c) (direct_members a b) ?w2 = (Inr (), w')" and d: "d = chatDetail ?c"
        using Suc.prems(1) None 2
        by (auto simp: call_def get_direct_calm [OF Suc.prems(2)] create_chat_calm [OF calm1] split: sum.splits prod.splits)
      have "?rs = (Inr (), snd ?rs)" and w': "w' = (advance ?w2)\<lparr>store := snd ?rs\<rparr>"
        using add add_pair_calm [OF calm2 cid Suc.prems(5,6)] by (simp_all add: prod_eq_iff)
      note s' = insert_pair_Inr [OF this(1)]
      have "chat_of_pair (store w') key a b ?c"
        using pair_inserted [where a = a and b = b and t = ?t, OF direct_by_key_new [OF None]] s' w' by simp
      moreover have "calm w'" "users (store w') = users (store w)" using w' s' calm1 by simp_all
      ultimately show ?thesis using d by blast
    qed
  qed
qed simp

lemma calm_rely: "calm w \<Longrightarrow> ids_canonical w \<Longrightarrow> rely domain_ok later (net w)"
  by (simp add: rely_def calm_def quiet_def ids_canonical_def evo.G_refl)

lemma CreateDirect_effect:
  assumes "CreateDirect sha a req w = (Inr d, w')" and "calm w" and "domain_ok (store w)" and "ids_canonical w"
    and "canonical a" and "TrimSpace (cdr_UserID req) = b" and "canonical b"
  shows "\<exists>key c. directKey sha a b = Inr key \<and> d = chatDetail c \<and> chat_of_pair (store w') key a b c \<and> calm w'
    \<and> domain_ok (store w') \<and> a \<noteq> b"
proof -
  have t: "tables_ok (store w)" using assms(3) by (simp add: domain_ok_def)
  have "a \<noteq> ''''" "b \<noteq> ''''" "uuid_pattern b" using assms(5,7) canonical_not_Nil by (auto simp: canonical_def)
  with assms have ab: "a \<noteq> b" and u: "user_row (store w) b \<noteq> None"
    by (auto simp: CreateDirect_def chatUUIDRe_def Let_def call_def get_user_calm loadErr_def split: if_splits option.splits)
  obtain key where key: "directKey sha a b = Inr key" using \<open>a \<noteq> ''''\<close> \<open>b \<noteq> ''''\<close> by (simp add: directKey_text)
  have run: "direct_attempts 3 a b key (advance w) = (Inr d, w')"
    using assms u ab key \<open>a \<noteq> ''''\<close> \<open>b \<noteq> ''''\<close> \<open>uuid_pattern b\<close>
    by (auto simp: CreateDirect_def chatUUIDRe_def Let_def call_def get_user_calm)
  have "b \<in> set (user_ids (store w))"
    using u by (auto simp: user_row_def user_ids_def dest!: find_Some_mem)
  then obtain c where "d = chatDetail c" "chat_of_pair (store w') key a b c" "calm w'"
    using direct_attempts_effect [OF run] assms(2,4,5,7) t by (auto simp: ids_canonical_def)
  moreover have "domain_ok (store w')"
    using keepsD [OF keeps_CreateDirect sound_start [OF assms(3) calm_rely [OF assms(2,4)]]] assms(1) by (metis holds_def snd_conv)
  ultimately show ?thesis using key ab by blast
qed

text \<open>The first request for a pair succeeds when the drawn identifier is new.\<close>

lemma CreateDirect_first:
  assumes "calm w" and "ids_canonical w" and "canonical a" and "canonical b" and "a \<noteq> b"
    and "TrimSpace (cdr_UserID req) = b" and "a \<in> set (user_ids (store w))" and "user_row (store w) b \<noteq> None"
    and "directKey sha a b = Inr key" and "length key \<le> 64" and "direct_by_key key (store w) = None"
    and "t_uuid (next_trip (advance (advance w))) \<notin> set (chat_ids (store w))"
  shows "\<exists>d w'. CreateDirect sha a req w = (Inr d, w')"
proof -
  let ?w1 = "advance w" let ?w2 = "advance ?w1"
  let ?c = "direct_row key (clock (advance ?w2)) (t_uuid (next_trip ?w2))"
  let ?s = "(store w)\<lparr>chats := chats (store w) @ [?c]\<rparr>" let ?w3 = "(advance ?w2)\<lparr>store := ?s\<rparr>"
  have calm: "calm ?w1" "calm ?w2" "calm ?w3" using assms(1) by simp_all
  have "Some key \<notin> set (live_direct_keys (store w))"
    using assms(11) by (auto simp: direct_by_key_def find_None_all live_direct_keys_def)
  then have "insert_chat_row ?c (store w) = (Inr ?c, ?s)"
    using assms(10,12) utf8_len_le [of key] by (simp add: insert_chat_row_def direct_row_def new_chat_row_def)
  then have create: "CreateChat (direct_draft key) ?w2 = (Inr ?c, ?w3)"
    using create_chat_calm [OF calm(2)] by simp
  have cid: "canonical (c_ID ?c)" "c_ID ?c \<in> set (chat_ids ?s)"
    using assms(2) by (simp_all add: direct_row_def new_chat_row_def ids_canonical_def next_trip_def chat_ids_def)
  have "a \<in> set (user_ids ?s)" "b \<in> set (user_ids ?s)"
    using assms(7,8) by (auto simp: user_ids_def user_row_def dest!: find_Some_mem)
  then obtain w' where add: "AddMembers (c_ID ?c) (direct_members a b) ?w3 = (Inr (), w')"
    using add_pair_calm [OF calm(3) cid(1) assms(3,4)] insert_pair_ok [OF cid(2)] by auto
  have "direct_attempts 3 a b key ?w1 = (Inr (chatDetail ?c), w')"
    using create add assms(11) by (simp add: numeral_3_eq_3 get_direct_calm [OF calm(1)])
  moreover have "uuid_pattern b" "a \<noteq> []" "b \<noteq> []" using assms(3,4) canonical_not_Nil by (auto simp: canonical_def)
  ultimately show ?thesis
    using assms(1,4-9) by (auto simp: CreateDirect_def chatUUIDRe_def Let_def call_def get_user_calm)
qed

lemma member_is_user:
  assumes "domain_ok s" and "member_row s c u \<noteq> None"
  shows "user_row s u \<noteq> None"
proof -
  obtain m where "m \<in> set (chat_members s)" "cm_UserID m = u" using assms(2) by (auto dest: member_row_Some)
  then have "u \<in> set (user_ids s)" using assms(1) by (auto simp: domain_ok_def member_fk_def dest: tables_okD(8))
  then show ?thesis by (auto simp: user_ids_def user_row_def find_None_all)
qed

lemma live_key_unique:
  assumes "domain_ok s" and "direct_by_key key s = Some c"
  shows "{x \<in> set (chats s). live_direct x \<and> c_DirectKey x = Some key} = {c}"
proof -
  have "inj_on c_DirectKey (set (filter live_direct (chats s)))"
    using assms(1) tables_okD(3) [of s] by (simp add: domain_ok_def live_direct_keys_def distinct_map)
  then show ?thesis using direct_by_key_Some [OF assms(2)] by (auto simp: inj_on_def)
qed

text \<open>
  C13: there is one direct chat for a pair of users.  When \<^verbatim>\<open>CreateDirect\<close> succeeds, the chat it reports is the only live direct
  chat with the key of the pair, and both users are members of it.  A further request by either of the two for the other
  reports the same chat and changes nothing in the store.  (The network is calm; identifiers are given in canonical form.)
\<close>

theorem direct_chat_unique:
  assumes "CreateDirect sha a req w = (Inr d, w1)" and "calm w" and "domain_ok (store w)" and "ids_canonical w"
    and "canonical a" and "canonical b" and "TrimSpace (cdr_UserID req) = b" and "TrimSpace (cdr_UserID req') = a"
  shows "\<exists>key c. directKey sha a b = Inr key \<and> d = chatDetail c
    \<and> {x \<in> set (chats (store w1)). live_direct x \<and> c_DirectKey x = Some key} = {c}
    \<and> member_row (store w1) (c_ID c) a \<noteq> None \<and> member_row (store w1) (c_ID c) b \<noteq> None
    \<and> fst (CreateDirect sha a req w1) = Inr d \<and> store (snd (CreateDirect sha a req w1)) = store w1
    \<and> fst (CreateDirect sha b req' w1) = Inr d \<and> store (snd (CreateDirect sha b req' w1)) = store w1"
proof -
  obtain key c where key: "directKey sha a b = Inr key" and d: "d = chatDetail c" and p: "chat_of_pair (store w1) key a b c"
    and w1: "calm w1" "domain_ok (store w1)" and ab: "a \<noteq> b"
    using CreateDirect_effect [OF assms(1-5,7,6)] by blast
  have m: "direct_by_key key (store w1) = Some c" "member_row (store w1) (c_ID c) a \<noteq> None" "member_row (store w1) (c_ID c) b \<noteq> None"
    using p by (simp_all add: chat_of_pair_def)
  have t: "tables_ok (store w1)" using w1(2) by (simp add: domain_ok_def)
  have key': "directKey sha b a = Inr key" and p': "chat_of_pair (store w1) key b a c"
    using key p directKey_symmetric [of sha a b] by (auto simp: chat_of_pair_def)
  obtain wa where "CreateDirect sha a req w1 = (Inr d, wa)" "store wa = store w1"
    using CreateDirect_again [OF w1(1) t assms(5,6) ab assms(7) member_is_user [OF w1(2) m(3)] key p] d by blast
  moreover obtain wb where "CreateDirect sha b req' w1 = (Inr d, wb)" "store wb = store w1"
    using CreateDirect_again [OF w1(1) t assms(6,5) ab [symmetric] assms(8) member_is_user [OF w1(2) m(2)] key' p'] d by blast
  ultimately show ?thesis using key d m live_key_unique [OF w1(2) m(1)] by auto
qed

theorem direct_chat_unique_witness:
  "\<exists>d. fst (CreateDirect (\<lambda>_. [7]) alice \<lparr>cdr_UserID = bob\<rparr> demo) = Inr d
     \<and> fst (CreateDirect (\<lambda>_. [7]) bob \<lparr>cdr_UserID = alice\<rparr>
          (snd (CreateDirect (\<lambda>_. [7]) alice \<lparr>cdr_UserID = bob\<rparr> demo))) = Inr d"
proof -
  let ?h = "\<lambda>_. [7] :: 8 word list" let ?op = "CreateDirect ?h alice \<lparr>cdr_UserID = bob\<rparr> demo"
  have ids: "canonical alice" "canonical bob" "TrimSpace alice = alice" "TrimSpace bob = bob" "alice \<noteq> bob"
    "alice \<in> set (user_ids demo_store)" "user_row demo_store bob \<noteq> None" "directKey ?h alice bob = Inr ''07''"
    "direct_by_key ''07'' demo_store = None" "t_uuid (demo_trip Delivered 2) \<notin> set (chat_ids demo_store)"
    by code_simp+
  have pre: "calm demo" "domain_ok (store demo)" "ids_canonical demo"
    "TrimSpace (cdr_UserID \<lparr>cdr_UserID = bob\<rparr>) = bob" "TrimSpace (cdr_UserID \<lparr>cdr_UserID = alice\<rparr>) = alice"
    using demo_domain_ok ids(3,4) by (simp_all add: calm_def)
  have "\<exists>d w'. ?op = (Inr d, w')"
    by (rule CreateDirect_first [where key = "''07''" and b = bob])
      (use pre ids in \<open>simp_all add: next_trip_def advance_def numeral_2_eq_2\<close>)
  then obtain d where op: "?op = (Inr d, snd ?op)" by fastforce
  from direct_chat_unique [OF op pre(1-3) ids(1,2) pre(4,5)]
  have "fst (CreateDirect ?h bob \<lparr>cdr_UserID = alice\<rparr> (snd ?op)) = Inr d" by blast
  moreover have "fst ?op = Inr d" using op by (metis fst_conv)
  ultimately show ?thesis by blast
qed

end
