(* ===== verification/RelayProps.thy ===== *)
theory RelayProps
  imports Relay System
begin

text \<open>
  The way of an event from the outbox to the clients: encoding for Kafka and back, the equality of
  the two delivery paths, at-least-once delivery, and that the relay empties the outbox.
\<close>

section \<open>Events on the wire\<close>

lemma fold_event_keys [simp]:
  "fold_name ''event_id'' = ''event_id''" "fold_name ''event_type'' = ''event_type''"
  "fold_name ''aggregate_type'' = ''aggregate_type''" "fold_name ''aggregate_id'' = ''aggregate_id''"
  "fold_name ''chat_id'' = ''chat_id''" "fold_name ''occurred_at'' = ''occurred_at''"
  "fold_name ''version'' = ''version''" "fold_name ''payload'' = ''payload''"
  by code_simp+

lemma values_for_simps:
  "values_for k (JObj []) = []"
  "values_for k (JObj ((a, v) # kvs)) = (if fold_name a = k then v # values_for k (JObj kvs) else values_for k (JObj kvs))"
  by (simp_all add: values_for_def)

text \<open>
  The event that a consumer reads from what \<^verbatim>\<open>Marshal\<close> wrote: the same up to the encoding of strings and of a nil payload.
\<close>

definition wire_event :: "DomainEvent \<Rightarrow> json \<Rightarrow> DomainEvent" where
  "wire_event e v =
     e\<lparr>de_EventID := json_text (de_EventID e), de_EventType := json_text (de_EventType e),
       de_AggregateType := json_text (de_AggregateType e), de_AggregateID := json_text (de_AggregateID e),
       de_ChatID := json_text (de_ChatID e), de_Payload := RawJSON v\<rparr>"

lemma event_on_wire:
  assumes "- (2 ^ 63) \<le> de_Version e" and "de_Version e < 2 ^ 63" and "DomainEvent_Marshal e = Inr b"
  shows "\<exists>v. raw_value (de_Payload e) = Some v \<and> DomainEvent_Unmarshal b = Inr (wire_event e v)"
proof -
  obtain v where v: "raw_value (de_Payload e) = Some v" using assms(3) by (auto simp: DomainEvent_Marshal_def split: if_splits option.splits)
  with assms have "DomainEvent_Unmarshal b = Inr (wire_event e v)"
    by (cases e) (auto simp: DomainEvent_Marshal_def DomainEvent_Unmarshal_def event_type_ok_def decode_event_def wire_event_def
        values_for_simps struct_type_ok_def str_type_ok_def time_type_ok_def int_type_ok_def simp del: fold_name.simps
        split: if_splits)
  with v show ?thesis by blast
qed

section \<open>Two ways of delivery\<close>

text \<open>The replacement of invalid bytes is not seen: an identifier that has any is refused either way.\<close>

lemma uuid_in_json_text [simp]: "uuid_in (json_text s) = uuid_in s"
proof -
  have "\<forall>c \<in> set t. byte_of c < 128" if "uuid_pattern t" for t
    using uuid_chars [OF that] by (fastforce simp: is_hex_def byte_of_def)
  then show ?thesis unfolding uuid_in_def by (metis json_text_ascii json_text_to_ascii)
qed

lemma with_uuid_json_text [simp]: "with_uuid (json_text c) k = with_uuid c k"
  by (simp add: with_uuid_def fun_eq_iff)

lemma Deliver_json_text: "DeliverEnvelopeBytes (json_text c) env = DeliverEnvelopeBytes c env"
  by (simp add: DeliverEnvelopeBytes_def deliverPayload_def GetChatMembers_def)

lemma MarshalEnvelope_json_text [simp]: "MarshalEnvelope (json_text ty) d m = MarshalEnvelope ty d m"
  by (simp add: MarshalEnvelope_def)

text \<open>The data of an envelope, once read from the row and once from the event on the topic.\<close>

lemma event_data_wire:
  assumes "raw_value p = Some v"
  shows "\<exists>d e. event_data p = Inr d \<and> event_data (RawJSON v) = Inr e
    \<and> MarshalEnvelope ty d meta = MarshalEnvelope ty e meta"
  using assms
  by (cases p; cases v) (auto simp: raw_value_def event_data_def raw_empty_def MarshalEnvelope_def)

text \<open>
  C26: the two ways of delivery agree.  For a row that the relay can encode and that has a chat, the Kafka
  consumer, given the event the relay wrote for that row, leaves the world exactly as the relay's local
  fan-out of the row would: the same frames on the same connections.  The consumer reports success in any
  case, also when that fan-out fails.
\<close>

theorem kafka_equals_local:
  assumes "- (2 ^ 63) \<le> r_Version row" and "r_Version row < 2 ^ 63"
    and "DomainEvent_Marshal (row_event row) = Inr b" and "r_ChatID row = Some c" and "c \<noteq> ''''"
  shows "FanoutKafkaDomainEvent b w = (Inr (), snd (publishLocal (r_EventType row) (r_Payload row) c w))"
proof -
  obtain v where v: "raw_value (r_Payload row) = Some v"
    and dec: "DomainEvent_Unmarshal b = Inr (wire_event (row_event row) v)"
    using event_on_wire [OF _ _ assms(3)] assms(1,2) by (auto simp: row_event_def)
  obtain d e where "event_data (r_Payload row) = Inr d" "event_data (RawJSON v) = Inr e"
      "MarshalEnvelope (r_EventType row) d (Some (JObj [])) = MarshalEnvelope (r_EventType row) e (Some (JObj []))"
    using event_data_wire [OF v] by blast
  then show ?thesis
    using dec assms(4,5) by (simp add: FanoutKafkaDomainEvent_def publishLocal_def row_event_def wire_event_def Deliver_json_text)
qed

theorem kafka_equals_local_witness:
  "FanoutKafkaDomainEvent (case DomainEvent_Marshal (row_event (OutboxRow.truncate (demo_event 1 ''e1'' demo_msg1))) of
      Inr b \<Rightarrow> b | Inl _ \<Rightarrow> RawNil) demo
   = (Inr (), snd (publishLocal EventMessageCreated (encodeMessageWireJSON demo_msg1) team demo))"
proof -
  let ?row = "OutboxRow.truncate (demo_event 1 ''e1'' demo_msg1)"
  have "\<not> isl (DomainEvent_Marshal (row_event ?row))" by code_simp
  then obtain b where b: "DomainEvent_Marshal (row_event ?row) = Inr b"
    by (cases "DomainEvent_Marshal (row_event ?row)") auto
  have "r_ChatID ?row = Some team" "team \<noteq> ''''" by code_simp+
  from kafka_equals_local [OF _ _ b this, of demo] b show ?thesis
    by (simp add: OutboxRow.truncate_def demo_event_def)
qed

section \<open>At least once\<close>

text \<open>Every row marked published has its event on the topic.\<close>

definition on_topic :: "OutboxRow \<Rightarrow> Store \<Rightarrow> bool" where
  "on_topic row s = (\<exists>b. DomainEvent_Marshal (row_event row) = Inr b \<and> (row_key row, b) \<in> set (kafka_log s))"

definition handed_on :: "Store \<Rightarrow> bool" where
  "handed_on s = (\<forall>r \<in> set (outbox_events s). r_PublishedAt r \<noteq> None \<longrightarrow> on_topic (OutboxRow.truncate r) s)"

definition relay_ok :: "Store \<Rightarrow> bool" where
  "relay_ok s = (domain_ok s \<and> handed_on s)"

definition known_row :: "OutboxRow \<Rightarrow> Store \<Rightarrow> bool" where
  "known_row row s = (\<exists>r \<in> set (outbox_events s). OutboxRow.truncate r = row)"

lemma on_topic_later: "on_topic row s \<Longrightarrow> later s t \<Longrightarrow> on_topic row t"
  by (auto simp: on_topic_def later_def)

lemma truncate_step: "outbox_step r q \<Longrightarrow> OutboxRow.truncate q = OutboxRow.truncate r"
  by (cases r; cases q) (simp add: outbox_step_def OutboxRow.truncate_def)

lemma known_row_later: "known_row row s \<Longrightarrow> later s t \<Longrightarrow> known_row row t"
  unfolding known_row_def later_def grows_def using truncate_step by metis

lemma handed_on_cong:
  "outbox_events t = outbox_events s \<Longrightarrow> set (kafka_log s) \<subseteq> set (kafka_log t) \<Longrightarrow> handed_on s \<Longrightarrow> handed_on t"
  unfolding handed_on_def on_topic_def by (metis subsetD)

interpretation handing: store_evolution relay_ok later
proof
  show "relay_ok (s\<lparr>outbox_seq := k\<rparr>)" if "relay_ok s" and "outbox_seq s \<le> k" for s k
    using that evo.J_seq by (auto simp: relay_ok_def elim: handed_on_cong [rotated 2])
qed (use evo.G_refl evo.G_trans evo.G_seq in \<open>blast+\<close>)

context store_evolution
begin

text \<open>A statement may rely on what has been learnt of the store before.\<close>

lemma keeps_roundtrip_since:
  assumes "\<And>now uid s. canonical uid \<Longrightarrow> J s \<Longrightarrow> G s0 s \<Longrightarrow> J (snd (st now uid s)) \<and> G s (snd (st now uid s))"
  shows "keeps (holds J G s0) (roundtrip st)"
proof (rule keepsI)
  fix w
  assume w: "holds J G s0 w"
  let ?w1 = "advance (interfere w)"
  let ?s' = "snd (st (clock ?w1) (t_uuid (next_trip w)) (store ?w1))"
  have w1: "holds J G s0 ?w1" using w by (simp add: holds_interfere)
  then have "J ?s'" and "G (store ?w1) ?s'"
    using assms holds_canonical [OF w] by (simp_all add: holds_def)
  moreover from this have "G s0 ?s'" using w1 G_trans by (auto simp: holds_def)
  ultimately show "holds J G s0 (snd (roundtrip st w))"
    using w1 by (simp add: roundtrip_def Let_def holds_deliver)
qed

end


lemma handing_Publish: "keeps (holds relay_ok later s0) (Publish (Some p) key b)"
  unfolding Publish_def option.case
  by (intro handing.keeps_roundtrip stmt_keepsI)
    (auto simp: relay_ok_def later_def grows_refl elim: handed_on_cong [rotated 2])

lemma Publish_learn:
  "Publish (Some p) key b w = (Inr x, w') \<Longrightarrow> (key, b) \<in> set (kafka_log (store w'))"
  by (auto simp: Publish_def elim!: roundtrip_Inr_cases)

text \<open>Marking a row whose event is on the topic.\<close>

lemma truncate_set_published [simp]: "OutboxRow.truncate (set_published i now r) = OutboxRow.truncate r"
  by (cases r) (simp add: set_published_def OutboxRow.truncate_def)

lemma known_row_unique:
  assumes "outbox_ok s" and "known_row row s" and "r \<in> set (outbox_events s)" and "r_ID r = r_ID row"
  shows "OutboxRow.truncate r = row"
proof -
  obtain q where q: "q \<in> set (outbox_events s)" "OutboxRow.truncate q = row"
    using assms(2) by (auto simp: known_row_def)
  have "inj_on r_ID (set (outbox_events s))" using assms(1) by (simp add: outbox_ok_def distinct_map)
  moreover have "r_ID q = r_ID row" using q(2) by (auto simp: OutboxRow.truncate_def)
  ultimately have "q = r" using q(1) assms(3,4) by (metis inj_onD)
  then show ?thesis using q(2) by simp
qed

lemma handed_on_mark:
  assumes "domain_ok s" and "handed_on s" and "known_row row s" and "on_topic row s"
  shows "handed_on (snd (mark_stmt (r_ID row) now uid s))"
  unfolding handed_on_def
proof (intro ballI impI)
  let ?t = "snd (mark_stmt (r_ID row) now uid s)"
  fix q
  assume "q \<in> set (outbox_events ?t)" and pub: "r_PublishedAt q \<noteq> None"
  then obtain r where r: "r \<in> set (outbox_events s)" "q = set_published (r_ID row) now r"
    by (auto simp: mark_stmt_def)
  have log: "on_topic x ?t = on_topic x s" for x by (simp add: on_topic_def mark_stmt_def)
  have "outbox_ok s" using assms(1) by (simp add: domain_ok_def tables_ok_def)
  then have "OutboxRow.truncate r = row" if "r_ID r = r_ID row"
    using known_row_unique [OF _ assms(3) r(1) that] by simp
  then have "on_topic (OutboxRow.truncate r) s"
    using assms(2,4) r pub by (cases "r_ID r = r_ID row") (auto simp: handed_on_def set_published_def)
  then show "on_topic (OutboxRow.truncate q) ?t" using r(2) log by simp
qed

lemma handing_MarkPublished:
  assumes "known_row row s0" and "on_topic row s0"
  shows "keeps (holds relay_ok later s0) (MarkPublished (r_ID row))"
  unfolding MarkPublished_def
proof (intro go_keep handing.keeps_roundtrip_since)
  fix now uid s
  assume "canonical uid" "relay_ok s" "later s0 s"
  then show "relay_ok (snd (mark_stmt (r_ID row) now uid s)) \<and> later s (snd (mark_stmt (r_ID row) now uid s))"
    using mark_stmt_keeps [of "r_ID row"] known_row_later [OF assms(1)] on_topic_later [OF assms(2)]
    by (auto simp: relay_ok_def stmt_keeps_def intro: handed_on_mark)
qed

lemma handing_relay_row:
  assumes "rl_UseKafka r" and "rl_Kafka r = ProducerRef (Some p)" and "known_row row s0"
  shows "keeps (holds relay_ok later s0) (relay_row r row)"
proof (cases "DomainEvent_Marshal (row_event row)")
  case (Inr b)
  have "keeps (holds relay_ok later s0)
      (call (Publish (Some p) (row_key row) b) (\<lambda>_. metric (\<lambda>m. m\<lparr>RelayPubFail := RelayPubFail m + 1\<rparr>))
       (\<lambda>_. call (metric (\<lambda>m. m\<lparr>RelayPubOK := RelayPubOK m + 1\<rparr>)) raise
          (\<lambda>_. ignore (MarkPublished (r_ID row)) (ret ()))))"
  proof (rule handing.keeps_call_learn [OF handing_Publish keeps_metric, where K = "\<lambda>_ s. on_topic row s"])
    show "on_topic row (store w')" if "Publish (Some p) (row_key row) b w = (Inr x, w')" for x w w'
      using Publish_learn [OF that] Inr by (auto simp: on_topic_def)
    show "keeps (holds relay_ok later s1) (call (metric (\<lambda>m. m\<lparr>RelayPubOK := RelayPubOK m + 1\<rparr>)) raise
          (\<lambda>_. ignore (MarkPublished (r_ID row)) (ret ())))" if "later s0 s1" "on_topic row s1" for s1
      using that known_row_later [OF assms(3)] by (intro go_keep handing_MarkPublished) blast+
  qed
  then show ?thesis using assms Inr by (simp add: keeps_def relay_row_def publish_row_def)
qed (simp add: keeps_def relay_row_def)

lemma handing_relay_rows:
  assumes "rl_UseKafka r" and "rl_Kafka r = ProducerRef (Some p)"
  shows "(\<And>row. row \<in> set rows \<Longrightarrow> known_row row s0) \<Longrightarrow> keeps (holds relay_ok later s0) (relay_rows r rows)"
proof (induction rows)
  case (Cons row rows)
  then show ?case using handing_relay_row [OF assms] by (auto intro!: go_keep)
qed (simp add: keeps_ret)

lemma handing_tick:
  assumes "rl_UseKafka r" and "rl_Kafka r = ProducerRef (Some p)"
  shows "keeps (holds relay_ok later s0) (tick r)"
  unfolding tick_def
proof (rule keeps_call [OF keeps_metric keeps_raise],
    rule handing.keeps_call_learn [where K = "\<lambda>rows s. \<forall>row \<in> set rows. known_row row s"])
  show "keeps (holds relay_ok later s0) (FetchPending relay_batch)"
    unfolding FetchPending_def
    by (intro handing.keeps_roundtrip handing.reads_only_keeps) (simp add: reads_only_def)
  show "\<forall>row \<in> set rows. known_row row (store w')" if "FetchPending relay_batch w = (Inr rows, w')" for rows w w'
    using that by (auto simp: FetchPending_def known_row_def pending_def elim!: roundtrip_Inr_cases dest!: in_set_takeD)
  show "keeps (holds relay_ok later s1) (relay_rows r rows)" if "\<forall>row \<in> set rows. known_row row s1" for rows s1
    using handing_relay_rows [OF assms] that by blast
qed (rule keeps_ret)

text \<open>
  C27: events are handed to Kafka at least once.  While the relay with a producer is the one that marks rows,
  in every state it reaches, whatever trips fail and whatever other clients do within these rules, every outbox
  row marked published has its event on the topic.
\<close>

theorem published_rows_on_topic:
  assumes "domain_ok (store w)" and "handed_on (store w)" and "rely relay_ok later (net w)"
    and "rl_UseKafka r" and "rl_Kafka r = ProducerRef (Some p)"
  shows "handed_on (store (snd (relay_Run n r w)))"
proof -
  have "keeps (holds relay_ok later (store w)) (relay_Run n r)"
    by (induction n) (auto intro!: go_keep handing_tick [OF assms(4,5)])
  then have "holds relay_ok later (store w) (snd (relay_Run n r w))"
    using assms(1-3) by (auto dest!: keepsD simp: holds_def relay_ok_def handing.G_refl)
  then show ?thesis by (simp add: holds_def relay_ok_def)
qed

definition demo_relay :: OutboxRelay where
  "demo_relay = app_relay True ''kafka:9092'' ''events''"

lemma demo_relay_producer:
  "rl_UseKafka demo_relay" "\<exists>p. rl_Kafka demo_relay = ProducerRef (Some p)"
proof -
  have "splitBrokers ''kafka:9092'' = [''kafka:9092'']" "TrimSpace ''events'' = ''events''" by code_simp+
  then show "rl_UseKafka demo_relay" "\<exists>p. rl_Kafka demo_relay = ProducerRef (Some p)"
    by (simp_all add: demo_relay_def app_relay_def NewProducer_def)
qed

theorem published_rows_on_topic_witness:
  "handed_on (store (snd (relay_Run 3 demo_relay (demo_world (\<lambda>i. if i = 2 then LostReply ''timeout'' else Delivered)))))"
proof -
  let ?w = "demo_world (\<lambda>i. if i = 2 then LostReply ''timeout'' else Delivered)"
  have "handed_on demo_store" by (simp add: handed_on_def demo_store_def demo_event_def)
  moreover have "rely relay_ok later (net ?w)"
    using demo_uuid by (simp add: rely_def evo.G_refl) (simp add: demo_trip_def evo.G_refl)
  ultimately show ?thesis
    using published_rows_on_topic [of ?w demo_relay] demo_domain_ok demo_relay_producer by auto
qed

section \<open>The outbox drains\<close>

text \<open>What a row becomes on the topic.\<close>

definition wire :: "OutboxRow \<Rightarrow> string \<times> RawMessage" where
  "wire row = (row_key row, case DomainEvent_Marshal (row_event row) of Inr b \<Rightarrow> b | Inl _ \<Rightarrow> RawNil)"

lemma unpublished_mark:
  "filter (\<lambda>r. r_PublishedAt r = None) (map (set_published i now) rs)
     = filter (\<lambda>r. r_PublishedAt r = None \<and> r_ID r \<noteq> i) rs"
  by (induction rs) (auto simp: set_published_def)

lemma relay_row_calm:
  assumes "calm w" and "rl_UseKafka r" and "rl_Kafka r = ProducerRef (Some p)"
    and "\<not> isl (DomainEvent_Marshal (row_event row))"
  shows "fst (relay_row r row w) = Inr () \<and> calm (snd (relay_row r row w))
    \<and> kafka_log (store (snd (relay_row r row w))) = kafka_log (store w) @ [wire row]
    \<and> pending (store (snd (relay_row r row w))) = filter (\<lambda>q. r_ID q \<noteq> r_ID row) (pending (store w))"
proof -
  obtain b where b: "DomainEvent_Marshal (row_event row) = Inr b"
    using assms(4) by (cases "DomainEvent_Marshal (row_event row)") auto
  have mark: "snd (MarkPublished i v) = (advance v)\<lparr>store := (store v)\<lparr>outbox_events :=
      map (set_published i (clock (advance v))) (outbox_events (store v))\<rparr>\<rparr>" if "calm v" for i v
    using that by (simp add: MarkPublished_def roundtrip_calm mark_stmt_def call_def)
  show ?thesis
    using assms b
    by (simp add: relay_row_def publish_row_def Publish_def roundtrip_calm call_def metric_def mark wire_def
        pending_def unpublished_mark)
qed

lemma relay_rows_calm:
  assumes "calm w" and "rl_UseKafka r" and "rl_Kafka r = ProducerRef (Some p)"
    and "\<And>row. row \<in> set rows \<Longrightarrow> \<not> isl (DomainEvent_Marshal (row_event row))"
  shows "fst (relay_rows r rows w) = Inr () \<and> calm (snd (relay_rows r rows w))
    \<and> kafka_log (store (snd (relay_rows r rows w))) = kafka_log (store w) @ map wire rows
    \<and> pending (store (snd (relay_rows r rows w))) = filter (\<lambda>q. r_ID q \<notin> r_ID ` set rows) (pending (store w))"
  using assms(1,4)
proof (induction rows arbitrary: w)
  case (Cons row rows)
  obtain w1 where w1: "relay_row r row w = (Inr (), w1)" "calm w1"
      "kafka_log (store w1) = kafka_log (store w) @ [wire row]"
      "pending (store w1) = filter (\<lambda>q. r_ID q \<noteq> r_ID row) (pending (store w))"
    using relay_row_calm [OF Cons.prems(1) assms(2,3), of row] Cons.prems(2)
    by (metis list.set_intros(1) prod.collapse)
  have "filter (\<lambda>q. r_ID q \<notin> r_ID ` set rows) (pending (store w1))
      = filter (\<lambda>q. r_ID q \<notin> r_ID ` set (row # rows)) (pending (store w))"
    using w1(4) by (simp add: conj_commute cong: conj_cong)
  then show ?case using Cons.IH [OF w1(2)] Cons.prems(2) w1(1,3) by simp
qed simp

lemma filter_take_drop:
  assumes "distinct (map f xs)"
  shows "filter (\<lambda>x. f x \<notin> f ` set (take n xs)) xs = drop n xs"
proof -
  have d: "distinct (map f (take n xs) @ map f (drop n xs))"
    using assms by (metis append_take_drop_id map_append)
  have "filter (\<lambda>x. f x \<notin> f ` set (take n xs)) (take n xs) = []" by (simp add: filter_empty_conv)
  moreover have "filter (\<lambda>x. f x \<notin> f ` set (take n xs)) (drop n xs) = drop n xs"
    using d by (auto simp: filter_id_conv)
  ultimately show ?thesis by (metis append_Nil append_take_drop_id filter_append)
qed

lemma advance_met: "(advance (w\<lparr>met := m\<rparr>))\<lparr>store := store w\<rparr> = advance (w\<lparr>met := m\<rparr>)"
  by (simp add: advance_def)

lemma tick_calm:
  assumes w: "calm w" and ids: "distinct (map r_ID (pending (store w)))"
    and r: "rl_UseKafka r" "rl_Kafka r = ProducerRef (Some p)"
    and json: "\<And>q. q \<in> set (pending (store w)) \<Longrightarrow> \<not> isl (DomainEvent_Marshal (row_event (OutboxRow.truncate q)))"
  shows "fst (tick r w) = Inr () \<and> calm (snd (tick r w))
    \<and> kafka_log (store (snd (tick r w)))
        = kafka_log (store w) @ map (wire \<circ> OutboxRow.truncate) (take 100 (sort_key r_ID (pending (store w))))
    \<and> sort_key r_ID (pending (store (snd (tick r w)))) = drop 100 (sort_key r_ID (pending (store w)))"
proof -
  let ?q = "sort_key r_ID (pending (store w))"
  let ?rows = "map OutboxRow.truncate (take 100 ?q)"
  define v where "v = (advance (w\<lparr>met := map_option (\<lambda>m. m\<lparr>RelayIter := RelayIter m + 1\<rparr>) (met w)\<rparr>))"
  have v: "calm v" "store v = store w" using w by (simp_all add: v_def)
  have t: "tick r w = relay_rows r ?rows v"
    using w by (simp add: tick_def metric_def FetchPending_def roundtrip_calm call_def relay_batch_def
        norm_fetch_limit_def take_map v_def advance_met)
  have "\<not> isl (DomainEvent_Marshal (row_event row))" if "row \<in> set ?rows" for row
    using that json by (auto dest: in_set_takeD)
  then have end_state: "fst (relay_rows r ?rows v) = Inr () \<and> calm (snd (relay_rows r ?rows v))
      \<and> kafka_log (store (snd (relay_rows r ?rows v))) = kafka_log (store v) @ map wire ?rows
      \<and> pending (store (snd (relay_rows r ?rows v))) = filter (\<lambda>q. r_ID q \<notin> r_ID ` set ?rows) (pending (store v))"
    by (rule relay_rows_calm [OF v(1) r])
  have "distinct (map r_ID ?q)" using ids by (simp add: distinct_map)
  then have "filter (\<lambda>q. r_ID q \<notin> r_ID ` set (take 100 ?q)) ?q = drop 100 ?q" by (rule filter_take_drop)
  moreover have "r_ID ` set ?rows = r_ID ` set (take 100 ?q)" by (force simp: OutboxRow.truncate_def)
  ultimately show ?thesis using end_state t v by (simp add: filter_sort [symmetric])
qed

text \<open>
  C28: the outbox drains.  On a network without faults and interference, \<open>n\<close> ticks of a relay with a producer
  append the events of the first \<open>100 n\<close> pending rows to the topic, in the order of their numbers and each once,
  and leave the remaining rows pending, provided the payloads are JSON.  So after enough ticks nothing is pending.
\<close>

theorem relay_drains_outbox:
  assumes "calm w" and "distinct (map r_ID (outbox_events (store w)))"
    and "rl_UseKafka r" and "rl_Kafka r = ProducerRef (Some p)"
    and "\<And>q. q \<in> set (pending (store w)) \<Longrightarrow> \<not> isl (DomainEvent_Marshal (row_event (OutboxRow.truncate q)))"
  shows "kafka_log (store (snd (relay_Run n r w)))
        = kafka_log (store w) @ map (wire \<circ> OutboxRow.truncate) (take (100 * n) (sort_key r_ID (pending (store w))))
    \<and> sort_key r_ID (pending (store (snd (relay_Run n r w)))) = drop (100 * n) (sort_key r_ID (pending (store w)))
    \<and> (length (pending (store w)) \<le> 100 * n \<longrightarrow> pending (store (snd (relay_Run n r w))) = [])"
proof -
  have "kafka_log (store (snd (relay_Run n r w)))
        = kafka_log (store w) @ map (wire \<circ> OutboxRow.truncate) (take (100 * n) (sort_key r_ID (pending (store w))))
    \<and> sort_key r_ID (pending (store (snd (relay_Run n r w)))) = drop (100 * n) (sort_key r_ID (pending (store w)))"
    if "calm w" and "distinct (map r_ID (pending (store w)))"
      and "\<And>q. q \<in> set (pending (store w)) \<Longrightarrow> \<not> isl (DomainEvent_Marshal (row_event (OutboxRow.truncate q)))" for w
    using that
  proof (induction n arbitrary: w)
    case (Suc n)
    let ?q = "sort_key r_ID (pending (store w))"
    obtain w1 where w1: "tick r w = (Inr (), w1)" "calm w1"
        "kafka_log (store w1) = kafka_log (store w) @ map (wire \<circ> OutboxRow.truncate) (take 100 ?q)"
        "sort_key r_ID (pending (store w1)) = drop 100 ?q"
      using tick_calm [OF Suc.prems(1,2) assms(3,4) Suc.prems(3)] by (metis prod.collapse)
    have "distinct (map r_ID (drop 100 ?q))" using Suc.prems(2) by (simp add: distinct_map drop_map [symmetric] inj_on_def)
    then have "distinct (map r_ID (pending (store w1)))" unfolding w1(4) [symmetric] by (simp add: distinct_map)
    moreover have "q \<in> set (pending (store w))" if "q \<in> set (pending (store w1))" for q
      using that w1(4) by (metis in_set_dropD set_sort)
    ultimately show ?case
      using Suc.IH [OF w1(2)] Suc.prems(3) w1(1,3,4) by (simp add: take_add comp_def add.commute)
  qed simp
  moreover have "distinct (map r_ID (pending (store w)))"
    using assms(2) by (simp add: pending_def distinct_map_filter)
  ultimately show ?thesis using assms(1,5) by (metis drop_eq_Nil length_sort length_0_conv)
qed

lemma demo_pending: "pending demo_store = [demo_event 1 ''e1'' demo_msg1, demo_event 2 ''e2'' demo_msg2]"
  by (simp add: pending_def demo_store_def demo_event_def)

theorem relay_drains_outbox_witness:
  "pending (store (snd (relay_Run 1 demo_relay demo))) = []
   \<and> map fst (kafka_log (store (snd (relay_Run 1 demo_relay demo)))) = [team, team]"
proof -
  have "list_all (\<lambda>q. \<not> isl (DomainEvent_Marshal (row_event (OutboxRow.truncate q)))) (pending demo_store)"
    by code_simp
  then have json: "\<not> isl (DomainEvent_Marshal (row_event (OutboxRow.truncate q)))" if "q \<in> set (pending demo_store)" for q
    using that by (simp add: list_all_iff)
  have ids: "distinct (map r_ID (outbox_events demo_store))" by code_simp
  have keys: "map (fst \<circ> (wire \<circ> OutboxRow.truncate)) (take 100 (sort_key r_ID (pending demo_store))) = [team, team]"
    "kafka_log demo_store = []" by code_simp+
  obtain p where "rl_Kafka demo_relay = ProducerRef (Some p)" using demo_relay_producer by blast
  then show ?thesis
    using relay_drains_outbox [of demo demo_relay p 1] json ids demo_relay_producer keys
    by (simp add: calm_def demo_pending)
qed

section \<open>A relay whose producer is a nil pointer\<close>

lemma splitBrokers_nil: "splitBrokers brokers = [] \<Longrightarrow> rl_Kafka (app_relay True brokers topic) = ProducerRef None"
  by (simp add: app_relay_def NewProducer_def)

text \<open>
  C29: with Kafka enabled and no usable broker in the configuration, rows are marked published although nothing
  is sent.  The producer is then a nil pointer in a non-nil interface; handling a row leaves the topic, the
  Redis channels and every connection as they were, counts a success, and takes the row out of the pending ones.
\<close>

theorem nil_producer_loses_events:
  assumes "splitBrokers brokers = []" and "calm w" and "\<not> isl (DomainEvent_Marshal (row_event row))"
  shows "\<exists>w'. relay_row (app_relay True brokers topic) row w = (Inr (), w')
    \<and> kafka_log (store w') = kafka_log (store w) \<and> redis_published (store w') = redis_published (store w)
    \<and> hub w' = hub w \<and> met w' = map_option (\<lambda>m. m\<lparr>RelayPubOK := RelayPubOK m + 1\<rparr>) (met w)
    \<and> pending (store w') = filter (\<lambda>q. r_ID q \<noteq> r_ID row) (pending (store w))"
proof -
  obtain b where b: "DomainEvent_Marshal (row_event row) = Inr b"
    using assms(3) by (cases "DomainEvent_Marshal (row_event row)") auto
  have "rl_UseKafka (app_relay True brokers topic)" by (simp add: app_relay_def)
  then show ?thesis
    using assms(2) b splitBrokers_nil [OF assms(1), of topic]
    by (simp add: relay_row_def publish_row_def Publish_def metric_def MarkPublished_def roundtrip_calm mark_stmt_def
        call_def pending_def unpublished_mark)
qed

theorem nil_producer_loses_events_witness:
  "\<exists>w'. relay_row (app_relay True '' , '' ''events'') (OutboxRow.truncate (demo_event 1 ''e1'' demo_msg1)) demo = (Inr (), w')
     \<and> pending (store w') = [demo_event 2 ''e2'' demo_msg2] \<and> kafka_log (store w') = []"
proof -
  let ?row = "OutboxRow.truncate (demo_event 1 ''e1'' demo_msg1)"
  have "splitBrokers '' , '' = []" "\<not> isl (DomainEvent_Marshal (row_event ?row))" by code_simp+
  from nil_producer_loses_events [OF this(1) _ this(2), of demo "''events''"]
  obtain w' where "relay_row (app_relay True '' , '' ''events'') ?row demo = (Inr (), w')"
      "kafka_log (store w') = kafka_log demo_store"
      "pending (store w') = filter (\<lambda>q. r_ID q \<noteq> r_ID ?row) (pending demo_store)"
    by (auto simp: calm_def)
  then show ?thesis
    by (simp add: demo_pending) (simp add: OutboxRow.truncate_def demo_event_def demo_store_def)
qed

section \<open>The length of a tick\<close>

lemma trips_roundtrip [simp]: "trips (snd (roundtrip st w)) = Suc (trips w)"
  by (simp add: roundtrip_def Let_def deliver_def split: fate.split)

lemma trips_publish_row: "trips (snd (publish_row r row b w)) \<le> Suc (trips w)"
  by (auto simp: publish_row_def Publish_def publishLocal_def DeliverEnvelopeBytes_def deliverPayload_def
      GetChatMembers_def send_to_members_def call_eq split: sum.split option.split KafkaPublisher.split bool.split)

lemma trips_relay_row: "trips (snd (relay_row r row w)) \<le> trips w + 2"
  using trips_publish_row [of r row _ w]
  by (auto simp: relay_row_def MarkPublished_def metric_def call_eq split: sum.split) (meson le_SucI)+

lemma trips_relay_rows: "trips (snd (relay_rows r rows w)) \<le> trips w + 2 * length rows"
proof (induction rows arbitrary: w)
  case (Cons row rows)
  show ?case
    using trips_relay_row [of r row w] Cons.IH [of "snd (relay_row r row w)"]
    by (auto simp: call_eq split: sum.split)
qed simp

lemma trips_FetchPending: "trips (snd (FetchPending n w)) = Suc (trips w)"
  by (simp add: FetchPending_def)

lemma length_FetchPending: "FetchPending relay_batch w = (Inr rows, w') \<Longrightarrow> length rows \<le> 100"
  by (auto simp: FetchPending_def relay_batch_def norm_fetch_limit_def elim!: roundtrip_Inr_cases)

text \<open>
  A tick of the relay ends after at most 201 round trips, whatever fails and however many rows are
  pending: one to fetch at most 100 rows, and for each at most one to publish and one to mark it.
\<close>

lemma tick_is_bounded: "trips (snd (tick r w)) \<le> trips w + 201"
proof -
  let ?v = "snd (metric (\<lambda>m. m\<lparr>RelayIter := RelayIter m + 1\<rparr>) w)"
  obtain res v1 where f: "FetchPending relay_batch ?v = (res, v1)" by fastforce
  have v1: "trips v1 = Suc (trips w)"
    using f trips_FetchPending [of relay_batch ?v] by (simp add: metric_def)
  show ?thesis
  proof (cases res)
    case (Inr rows)
    then have "length rows \<le> 100" using f length_FetchPending by blast
    then show ?thesis using trips_relay_rows [of r rows v1] f v1 Inr by (simp add: tick_def metric_def)
  qed (use f v1 in \<open>simp add: tick_def metric_def\<close>)
qed

end
