(* ===== verification/WsProps.thy ===== *)
theory WsProps
  imports System
begin

text \<open>
  WebSocket connections: tickets are good for one connection, a connection needs a ticket and an
  allowed origin, the registry of connections stays well formed, and an event reaches exactly the
  connections of the members.
\<close>

section \<open>Tickets\<close>

lemma hex_digit_byte: "n < 16 \<Longrightarrow> 45 \<le> byte_of (hex_digit n) \<and> byte_of (hex_digit n) \<le> 102"
  by (simp add: hex_digit_def byte_of_def)

lemma EncodeToString_bytes: "c \<in> set (EncodeToString bs) \<Longrightarrow> 45 \<le> byte_of c \<and> byte_of c \<le> 102"
proof -
  have "unat b div 16 < 16" for b :: "8 word"
    using unsigned_less [of b, where ?'a = nat] by simp
  then show "c \<in> set (EncodeToString bs) \<Longrightarrow> 45 \<le> byte_of c \<and> byte_of c \<le> 102"
    by (auto simp: EncodeToString_def intro!: hex_digit_byte)
qed

lemma TrimSpace_hex: "TrimSpace (EncodeToString bs) = EncodeToString bs"
proof (rule TrimSpace_id)
  show "space_len (EncodeToString bs) = 0"
    using EncodeToString_bytes [of _ bs] by (cases "EncodeToString bs") (simp_all add: space_len_ascii_graph)
  show "space_len_rev (rev (EncodeToString bs)) = 0"
    using EncodeToString_bytes [of _ bs]
    by (cases "EncodeToString bs" rule: rev_cases) (simp_all add: space_len_ascii_graph)
qed

lemma Ticket_Issue_Inr:
  assumes "Ticket_Issue (Some ()) u ttl w = (Inr t, w1)"
  shows "t = EncodeToString (map (rand_src w (drawn w)) [0..<16])"
    and "redis_kv (store w1) (wsTicketKeyPrefix @ t)
      = Some (u, clock w1 + redis_ttl (if ttl \<le> 0 then two_minutes else ttl))"
  using assms
  by (auto simp: Ticket_Issue_def Let_def rand_Read_def redis_SETNX_def next_trip_def interfere_def
      elim!: call_cases roundtrip_Inr_cases split: if_splits)

lemma Ticket_Consume_Inr:
  assumes "Ticket_Consume st raw w = (Inr u, w1)"
  shows "\<exists>v. redis_get (store (interfere w)) (clock w1) (wsTicketKeyPrefix @ TrimSpace raw) = Some v \<and> u = TrimSpace v
      \<and> u \<noteq> '''' \<and> TrimSpace raw \<noteq> ''''"
    and "redis_kv (store w1) (wsTicketKeyPrefix @ TrimSpace raw) = None" and "hub w1 = hub w" "calm w \<Longrightarrow> calm w1"
  using assms
  by (auto simp: Ticket_Consume_def Let_def redis_GETDEL_def
      elim!: call_cases roundtrip_Inr_cases split: option.splits if_splits)

lemma calm_Ticket_Issue: "calm w \<Longrightarrow> Ticket_Issue (Some ()) u ttl w = (Inr t, w1) \<Longrightarrow> calm w1"
  by (auto simp: Ticket_Issue_def Let_def rand_Read_def elim!: call_cases roundtrip_Inr_cases split: if_splits)

text \<open>Nobody stores the key (again) while this process waits for Redis.\<close>

definition never_stored :: "string \<Rightarrow> World \<Rightarrow> bool" where
  "never_stored key w = (\<forall>i s. redis_kv s key = None \<longrightarrow> redis_kv (t_interference (net w i) s) key = None)"

lemma Ticket_Consume_delivered:
  assumes "TrimSpace t = t" and "t \<noteq> ''''" and "t_fate (next_trip w) = Delivered"
    and "redis_get (store (interfere w)) (clock (advance w)) (wsTicketKeyPrefix @ t) = Some u" and "TrimSpace u = u" and "u \<noteq> ''''"
  shows "fst (Ticket_Consume (Some ()) t w) = Inr u"
proof -
  have "clock (advance (interfere w)) = clock (advance w)" "store (advance (interfere w)) = store (interfere w)"
    by (simp_all add: advance_def interfere_def next_trip_def)
  then show ?thesis
    using assms by (simp add: Ticket_Consume_def roundtrip_def deliver_def redis_GETDEL_def call_eq Let_def)
qed

lemma Ticket_Consume_absent:
  assumes "redis_kv (store w) (wsTicketKeyPrefix @ TrimSpace raw) = None" and "never_stored (wsTicketKeyPrefix @ TrimSpace raw) w"
  shows "isl (fst (Ticket_Consume st raw w))"
proof (rule ccontr)
  assume "\<not> isl (fst (Ticket_Consume st raw w))"
  then obtain u w1 where "Ticket_Consume st raw w = (Inr u, w1)" by (metis prod.collapse sum.collapse(2))
  from Ticket_Consume_Inr(1) [OF this] assms show False
    by (auto simp: redis_get_def never_stored_def interfere_def next_trip_def)
qed

text \<open>
  C37: a ticket is good for one connection.  While its entry is in Redis as it was stored, a ticket issued for a user is accepted until
  its lifetime (in whole milliseconds) is over and gives that user, if the request for it and the reply are not lost.  Whatever is lost: once a
  ticket has been accepted, it is refused, as long as nobody stores the same key again.
\<close>

theorem ticket_single_use:
  assumes "Ticket_Issue (Some ()) u ttl w = (Inr t, w1)" and "TrimSpace u = u" and "u \<noteq> ''''"
  shows "(t_fate (next_trip wc) = Delivered
        \<and> redis_kv (store (interfere wc)) (wsTicketKeyPrefix @ t) = redis_kv (store w1) (wsTicketKeyPrefix @ t)
        \<and> clock (advance wc) \<le> clock w1 + redis_ttl (if ttl \<le> 0 then two_minutes else ttl) \<longrightarrow>
      fst (Ticket_Consume (Some ()) t wc) = Inr u)
    \<and> (Ticket_Consume (Some ()) t v = (Inr x, va)
        \<and> redis_kv (store vb) (wsTicketKeyPrefix @ t) = redis_kv (store va) (wsTicketKeyPrefix @ t)
        \<and> never_stored (wsTicketKeyPrefix @ t) vb \<longrightarrow>
      isl (fst (Ticket_Consume (Some ()) t vb)))"
proof -
  have "length t = 32" and t: "TrimSpace t = t"
    using Ticket_Issue_Inr(1) [OF assms(1)] TrimSpace_hex by simp_all
  then have ne: "t \<noteq> ''''" by auto
  show ?thesis
  proof (intro conjI impI; elim conjE)
    assume "t_fate (next_trip wc) = Delivered"
      "redis_kv (store (interfere wc)) (wsTicketKeyPrefix @ t) = redis_kv (store w1) (wsTicketKeyPrefix @ t)"
      "clock (advance wc) \<le> clock w1 + redis_ttl (if ttl \<le> 0 then two_minutes else ttl)"
    then show "fst (Ticket_Consume (Some ()) t wc) = Inr u"
      using Ticket_Issue_Inr(2) [OF assms(1)] by (intro Ticket_Consume_delivered t ne assms(2,3)) (simp_all add: redis_get_def)
  next
    assume "Ticket_Consume (Some ()) t v = (Inr x, va)" "never_stored (wsTicketKeyPrefix @ t) vb"
      "redis_kv (store vb) (wsTicketKeyPrefix @ t) = redis_kv (store va) (wsTicketKeyPrefix @ t)"
    then show "isl (fst (Ticket_Consume (Some ()) t vb))"
      using Ticket_Consume_Inr(2) [of "Some ()" t v x va] by (intro Ticket_Consume_absent) (simp_all add: t)
  qed
qed

theorem ticket_single_use_witness:
  "\<exists>t w1 w2. Ticket_Issue (Some ()) alice two_minutes demo = (Inr t, w1) \<and> Ticket_Consume (Some ()) t w1 = (Inr alice, w2)
     \<and> isl (fst (Ticket_Consume (Some ()) t w2))"
proof -
  let ?i = "Ticket_Issue (Some ()) alice two_minutes demo" let ?w1 = "snd ?i"
  have "\<not> isl (fst ?i)" by code_simp
  then obtain t where i: "?i = (Inr t, ?w1)" by (metis prod.collapse sum.collapse(2))
  have c1: "calm ?w1" using calm_Ticket_Issue [OF _ i] by (simp add: calm_def)
  have "TrimSpace alice = alice" "alice \<noteq> ''''" by code_simp+
  note use = ticket_single_use [OF i this]
  have calm: "interfere ?w1 = ?w1" "t_fate (next_trip ?w1) = Delivered"
    using c1 by (simp_all add: calm_def reliable_def next_trip_def)
  have pos: "\<not> two_minutes \<le> 0" by (simp add: two_minutes_def Second_def)
  have "clock (advance ?w1) \<le> clock ?w1 + redis_ttl two_minutes" by code_simp
  then have "fst (Ticket_Consume (Some ()) t ?w1) = Inr alice"
    using use [of ?w1] calm pos by simp
  then obtain w2 where c: "Ticket_Consume (Some ()) t ?w1 = (Inr alice, w2)" by (metis prod.collapse)
  have "calm w2" by (rule Ticket_Consume_Inr(4) [OF c c1])
  then have "isl (fst (Ticket_Consume (Some ()) t w2))"
    using use [where v = ?w1 and vb = w2] c by (simp add: never_stored_def calm_def quiet_def)
  with i c show ?thesis by blast
qed

section \<open>Connecting\<close>

lemma hub_hook [simp]:
  "hub (snd ((case h of None \<Rightarrow> ret () | Some s \<Rightarrow> Connected (Some s) u) w)) = hub w"
  by (simp add: Connected_def SetOnline_def Presence_SetOnline_def roundtrip_def Let_def deliver_def
      split: option.split fate.split)

text \<open>
  C38: a connection needs an allowed origin and a ticket.  When the upgrade handler accepts a request, the origin was
  absent or on the list, the ticket was in the store and had not expired, the connection is registered for the
  very user the ticket was issued to, with an empty queue, and nobody else's registration has changed.
  A refused request is answered with 401, 403 or 503, or with the error response that the WebSocket library writes when the upgrade fails, and registers
  nothing.
\<close>

theorem connect_needs_ticket:
  assumes "ws_connect h up p r w = (out, w')"
  shows "case out of
      Inl resp \<Rightarrow> (rp_Status resp \<in> {401, 403, 503} \<or> up = Inl resp) \<and> hub w' = hub w
    | Inr u \<Rightarrow> originOK h (TrimSpace (hr_Header r ''Origin'')) \<and> up = Inr ()
        \<and> (\<exists>v now. redis_get (store (interfere w)) now (wsTicketKeyPrefix @ TrimSpace (hr_Query r ''ticket'')) = Some v
             \<and> clock w \<le> now \<and> u = TrimSpace v \<and> u \<noteq> '''')
        \<and> hub_heap (hub w') p = Some \<lparr>cl_userID = u, cl_send = [], cl_open = True\<rparr>
        \<and> (\<forall>x q. registered (hub w') x q = ((x = u \<and> q = p) \<or> registered (hub w) x q))"
proof -
  obtain res w1 where c: "Ticket_Consume (wh_tickets h) (TrimSpace (hr_Query r ''ticket'')) w = (res, w1)" by fastforce
  have hub1: "hub w1 = hub w" "clock w \<le> clock w1"
    using c by (auto simp: Ticket_Consume_def Let_def roundtrip_def deliver_def advance_def interfere_def call_eq
        split: option.splits if_splits fate.splits sum.splits)
  show ?thesis
  proof (cases res)
    case (Inr u)
    then obtain v where "redis_get (store (interfere w)) (clock w1)
        (wsTicketKeyPrefix @ TrimSpace (hr_Query r ''ticket'')) = Some v" "u = TrimSpace v" "u \<noteq> ''''"
      using Ticket_Consume_Inr(1) [of "wh_tickets h" "TrimSpace (hr_Query r ''ticket'')" w u w1] c by auto
    then show ?thesis
      using assms c hub1 Inr
      by (auto simp: ws_connect_def Let_def http_Error_def metric_def newClient_def registered_Register
          split: if_splits sum.splits)
  qed (use assms c hub1 in \<open>auto simp: ws_connect_def Let_def http_Error_def split: if_splits\<close>)
qed

definition demo_ticket_world :: World where
  "demo_ticket_world = demo\<lparr>store := demo_store\<lparr>redis_kv := [''goflow:ws:ticket:abc'' \<mapsto> (alice, 99000)]\<rparr>\<rparr>"

definition demo_connect :: "string \<Rightarrow> HttpRequest" where
  "demo_connect origin =
     \<lparr>hr_Method = ''GET'', hr_Pattern = '''', hr_Path = ''/ws/connect'', hr_PathValue = (\<lambda>_. ''''),
      hr_Query = (\<lambda>n. if n = ''ticket'' then ''abc'' else ''''),
      hr_Header = (\<lambda>n. if n = ''Origin'' then origin else ''''), hr_RemoteAddr = '''',
      hr_Body = ((ReadEOF, 0), (ReadEOF, 0)), hr_UserID = None\<rparr>"

definition demo_ws :: WsHandler where
  "demo_ws = NewHandler \<lparr>wss_msgs = \<lparr>ms_writer = True\<rparr>, wss_typing = Some (), wss_presence = None, wss_bc = \<lparr>bc_pub = False\<rparr>\<rparr>
     (Some ()) ['' https://app.example ''] None"

theorem connect_needs_ticket_witness:
  "\<exists>u w'. ws_connect demo_ws (Inr ()) 0 (demo_connect ''https://app.example'') demo_ticket_world = (Inr u, w')
     \<and> registered (hub w') u 0"
proof -
  let ?c = "ws_connect demo_ws (Inr ()) 0 (demo_connect ''https://app.example'') demo_ticket_world"
  have "\<not> isl (fst ?c)" by code_simp
  then obtain u where ok: "?c = (Inr u, snd ?c)" by (cases ?c; cases "fst ?c") auto
  then show ?thesis using connect_needs_ticket [OF ok] by auto
qed

section \<open>The registry of connections\<close>

lemma registered_offer_to [simp]: "registered (offer_to p b h) = registered h"
  by (simp add: offer_to_def registered_def fun_eq_iff)

lemma hub_ok_heap:
  assumes "hub_ok h" and "\<And>q c. hub_heap h q = Some c \<Longrightarrow> \<exists>d. f q = Some d \<and> cl_userID d = cl_userID c"
    and "\<And>q d. f q = Some d \<Longrightarrow> length (cl_send d) \<le> send_cap"
  shows "hub_ok (h\<lparr>hub_heap := f\<rparr>)"
proof (rule hub_okI)
  have same: "registered (h\<lparr>hub_heap := f\<rparr>) = registered h" by (simp add: registered_def fun_eq_iff)
  then have conn: "connections (h\<lparr>hub_heap := f\<rparr>) = connections h" by (simp add: connections_def)
  show "finite (connections (h\<lparr>hub_heap := f\<rparr>))" using hub_okD(1) [OF assms(1)] conn by simp
  show "hub_clients (h\<lparr>hub_heap := f\<rparr>) u \<noteq> Some {}" for u using hub_okD(2) [OF assms(1)] by simp
  show "\<exists>c. hub_heap (h\<lparr>hub_heap := f\<rparr>) q = Some c \<and> cl_userID c = u" if "registered (h\<lparr>hub_heap := f\<rparr>) u q" for u q
    using hub_okD(3) [OF assms(1), of u q] assms(2) [of q] that same by auto
  show "length (cl_send c) \<le> send_cap" if "hub_heap (h\<lparr>hub_heap := f\<rparr>) q = Some c" for q c
    using assms(3) that by simp
  show "n = int (card (connections (h\<lparr>hub_heap := f\<rparr>)))" if "hub_WSActive (h\<lparr>hub_heap := f\<rparr>) = Some n" for n
    using hub_okD(5) [OF assms(1)] that conn by simp
qed

lemma hub_ok_offer_to: "hub_ok h \<Longrightarrow> hub_ok (offer_to p b h)"
  unfolding offer_to_def by (rule hub_ok_heap) (auto dest: hub_okD(4) split: if_splits)

lemma hub_ok_write_round: "hub_ok h \<Longrightarrow> hub_ok (snd (write_round wk ok p h))"
proof -
  assume ok: "hub_ok h"
  have "hub_ok (h\<lparr>hub_heap := (hub_heap h)(p \<mapsto> c\<lparr>cl_send := rest\<rparr>)\<rparr>)"
    if "hub_heap h p = Some c" "cl_send c = b # rest" for c b rest
    using that hub_okD(4) [OF ok that(1)] hub_okD(4) [OF ok] by (intro hub_ok_heap [OF ok]) (auto split: if_splits)
  then show ?thesis
    using ok by (auto simp: write_round_def split: pump_wake.split option.split list.split)
qed

lemma hub_ok_CloseAll: "hub_ok h \<Longrightarrow> hub_ok (CloseAll h)"
  unfolding CloseAll_def by (rule hub_ok_heap) (auto dest: hub_okD(4) split: if_splits)

lemma hub_ok_close_conn: "hub_ok h \<Longrightarrow> hub_ok (close_conn p h)"
  unfolding close_conn_def by (rule hub_ok_heap) (auto dest: hub_okD(4) split: if_splits)

text \<open>
  The life of the registry: connections come under fresh references and leave once, frames are queued
  by the broadcaster and by a client's own read pump, written by its write pump, which closes its connection when it ends, and all connections are closed
  at shutdown.
\<close>

inductive hub_reachable :: "Hub \<Rightarrow> bool" where
  created: "hub_reachable (NewHub metrics)"
| connected: "hub_reachable h \<Longrightarrow> hub_heap h p = None \<Longrightarrow> hub_reachable (Register p (newClient u) h)"
| left: "hub_reachable h \<Longrightarrow> registered h u p \<Longrightarrow> hub_reachable (Unregister p (newClient u) h)"
| sent: "hub_reachable h \<Longrightarrow> hub_reachable (SendToUser u m h)"
| answered: "hub_reachable h \<Longrightarrow> hub_reachable (offer_to p m h)"
| pumped: "hub_reachable h \<Longrightarrow> hub_reachable (snd (write_round wk ok p h))"
| ended: "hub_reachable h \<Longrightarrow> hub_reachable (close_conn p h)"
| closed: "hub_reachable h \<Longrightarrow> hub_reachable (CloseAll h)"

text \<open>
  C39: the registry of connections stays well formed.  In every state of its life, no user has an empty entry, every
  registered client is one of its user, no queue holds more than 256 frames, and the gauge of active connections
  is the number of registered ones.
\<close>

theorem hub_invariant: "hub_reachable h \<Longrightarrow> hub_ok h"
proof (induction rule: hub_reachable.induct)
  case (connected h p u)
  then show ?case by (intro hub_ok_Register) (simp_all add: newClient_def)
next
  case (left h u p)
  then show ?case by (intro hub_ok_Unregister) (simp_all add: newClient_def)
qed (simp_all add: hub_ok_NewHub hub_ok_SendToUser hub_ok_offer_to hub_ok_write_round hub_ok_close_conn hub_ok_CloseAll)

theorem hub_invariant_witness:
  "hub_ok (SendToUser alice RawNil (Register 1 (newClient bob) (Register 0 (newClient alice) (NewHub True))))"
  by (rule hub_invariant, rule hub_reachable.sent, rule hub_reachable.connected, rule hub_reachable.connected,
      rule hub_reachable.created) (simp_all add: NewHub_def)

section \<open>Fan-out\<close>

lemma distinct_members:
  assumes "domain_ok s"
  shows "distinct (map cm_UserID (members_of s c))"
proof -
  have "distinct (map member_key (chat_members s))" using assms by (simp add: domain_ok_def tables_ok_def members_ok_def)
  then have "inj_on cm_UserID {m \<in> set (chat_members s). cm_ChatID m = c}" "distinct (chat_members s)"
    by (auto simp: distinct_map inj_on_def member_key_def)
  then show ?thesis by (simp add: members_of_def distinct_map)
qed

lemma hub_ok_owner: "hub_ok h \<Longrightarrow> registered h u q \<Longrightarrow> registered h v q \<Longrightarrow> v = u"
  by (metis hub_okD(3) option.inject)

text \<open>
  C40: an event reaches the members and nobody else.  When the fan-out of a frame to a chat succeeds, every connection of
  a member has been offered the frame exactly once, which is queued at the end, or dropped if 256 frames are queued already; the queues of all other
  connections are as before, and no connection is opened or closed.
\<close>

theorem fanout_reaches_members:
  assumes "domain_ok (store w)" and "rely domain_ok later (net w)" and "hub_ok (hub w)"
    and "deliverPayload c payload w = (Inr (), w')" and "registered (hub w) u q"
  shows "hub_heap (hub w') q =
      (if u \<in> cm_UserID ` set (members_of (store (interfere w)) (ascii_lower c))
       then map_option (offer payload) (hub_heap (hub w) q) else hub_heap (hub w) q)
    \<and> registered (hub w') = registered (hub w)"
proof -
  let ?ms = "members_of (store (interfere w)) (ascii_lower c)"
  have "domain_ok (store (interfere w))" using sound_start [OF assms(1,2)] by (auto simp: holds_def rely_def next_trip_def)
  then have dist: "distinct (map cm_UserID ?ms)" by (rule distinct_members)
  from assms(4) have h: "hub w' = fold (\<lambda>m. SendToUser (cm_UserID m) payload) ?ms (hub w)"
    by (auto simp: deliverPayload_def GetChatMembers_def send_to_members_def with_uuid_Inr uuid_in_Some
        elim!: call_cases roundtrip_Inr_cases)
  have owner: "v = u" if "registered (hub w) v q" for v
    by (rule hub_ok_owner [OF assms(3,5) that])
  have "hub_heap (hub w') q = map_option (offer payload) (hub_heap (hub w) q)" if "m \<in> set ?ms" "u = cm_UserID m" for m
    unfolding h
  proof (rule heap_fold_member [OF dist that(1)])
    show "registered (hub w) (cm_UserID m) q" using assms(5) that(2) by simp
    show "v = cm_UserID m" if "registered (hub w) v q" for v using owner [OF that] \<open>u = cm_UserID m\<close> by simp
  qed
  moreover have "hub_heap (hub w') q = hub_heap (hub w) q" if "u \<notin> cm_UserID ` set ?ms"
    unfolding h by (rule heap_fold_other) (use owner that in blast)
  moreover have "registered (hub w') = registered (hub w)" by (simp add: h fun_eq_iff)
  ultimately show ?thesis by auto
qed

definition demo_connected :: World where
  "demo_connected = demo\<lparr>hub := Register 1 (newClient carol) (Register 0 (newClient alice) (NewHub True))\<rparr>"

theorem fanout_reaches_members_witness:
  "\<exists>w'. deliverPayload team RawNil demo_connected = (Inr (), w')
     \<and> hub_heap (hub w') 0 = Some ((newClient alice)\<lparr>cl_send := [RawNil]\<rparr>)
     \<and> hub_heap (hub w') 1 = Some (newClient carol)"
proof -
  let ?d = "deliverPayload team RawNil demo_connected"
  have d: "?d = (Inr (), snd ?d)"
  proof -
    have "\<not> isl (fst (GetChatMembers team demo_connected))" by code_simp
    then show ?thesis
      by (cases "GetChatMembers team demo_connected"; cases "fst (GetChatMembers team demo_connected)")
        (auto simp: deliverPayload_def send_to_members_def)
  qed
  have ok: "hub_ok (hub demo_connected)"
    unfolding demo_connected_def
    by (simp, rule hub_ok_Register, rule hub_ok_Register, rule hub_ok_NewHub) (simp_all add: NewHub_def newClient_def)
  have reg: "registered (hub demo_connected) alice 0" "registered (hub demo_connected) carol 1"
    by (simp_all add: demo_connected_def registered_Register newClient_def)
  have mem: "map cm_UserID (members_of demo_store (ascii_lower team)) = [alice, bob]" "carol \<notin> set [alice, bob]"
    by code_simp+
  then have ids: "cm_UserID ` set (members_of demo_store (ascii_lower team)) = {alice, bob}"
    by (metis list.set_map list.simps(15) empty_set)
  have w: "store demo_connected = demo_store" "net demo_connected = net demo" "store (interfere demo_connected) = demo_store"
    by (simp_all add: demo_connected_def interfere_def next_trip_def demo_trip_def)
  have dom: "domain_ok (store demo_connected)" "rely domain_ok later (net demo_connected)"
    unfolding w by (rule demo_domain_ok, rule demo_rely)
  have heap: "hub_heap (hub demo_connected) 0 = Some (newClient alice)" "hub_heap (hub demo_connected) 1 = Some (newClient carol)"
    by (simp_all add: demo_connected_def)
  show ?thesis
    using fanout_reaches_members [OF dom ok d reg(1)] fanout_reaches_members [OF dom ok d reg(2)] d mem(2)
    unfolding w ids heap by (auto simp: newClient_def offer_def send_cap_def)
qed

end
