(* ===== verification/Handlers.thy ===== *)
theory Handlers
  imports HttpCore UserService ChatService MessageService Ephemeral
begin

text \<open>
  The HTTP handlers (\<^verbatim>\<open>backend/internal/transport/http/handler\<close>) and the JSON shapes of the transfer
  objects they read and write (\<^verbatim>\<open>backend/internal/dto\<close>).
\<close>

section \<open>JSON of the transfer objects\<close>

definition opt_field :: "string \<Rightarrow> ('a \<Rightarrow> json) \<Rightarrow> 'a option \<Rightarrow> (string \<times> json) list" where
  "opt_field k f v = (case v of None \<Rightarrow> [] | Some x \<Rightarrow> [(k, f x)])"

definition user_public_json :: "UserPublic \<Rightarrow> json" where
  "user_public_json u =
     JObj [(''id'', JStr (pu_ID u)), (''email'', JStr (pu_Email u)), (''nickname'', JStr (pu_Nickname u))]"

definition token_pair_json :: "TokenPair \<Rightarrow> json" where
  "token_pair_json t =
     JObj [(''access_token'', JStr (tk_AccessToken t)), (''refresh_token'', JStr (tk_RefreshToken t)),
           (''expires_in'', JNum (tk_ExpiresIn t)), (''token_type'', JStr (tk_TokenType t))]"

definition auth_response_json :: "AuthResponse \<Rightarrow> json" where
  "auth_response_json a =
     JObj [(''user'', user_public_json (ar_User a)), (''tokens'', token_pair_json (ar_Tokens a))]"

definition user_self_json :: "UserSelf \<Rightarrow> json" where
  "user_self_json u =
     JObj ([(''id'', JStr (us_ID u)), (''email'', JStr (us_Email u)), (''nickname'', JStr (us_Nickname u))]
           @ opt_field ''first_name'' JStr (us_FirstName u) @ opt_field ''last_name'' JStr (us_LastName u)
           @ opt_field ''avatar_url'' JStr (us_AvatarURL u)
           @ [(''is_active'', JBool (us_IsActive u)), (''created_at'', JTime (us_CreatedAt u)),
              (''updated_at'', JTime (us_UpdatedAt u))]
           @ opt_field ''last_seen_at'' JTime (us_LastSeen u))"

definition user_card_json :: "UserCard \<Rightarrow> json" where
  "user_card_json u =
     JObj ([(''id'', JStr (uc_ID u)), (''nickname'', JStr (uc_Nickname u))]
           @ opt_field ''first_name'' JStr (uc_FirstName u) @ opt_field ''last_name'' JStr (uc_LastName u)
           @ opt_field ''avatar_url'' JStr (uc_AvatarURL u) @ [(''is_active'', JBool (uc_IsActive u))])"

definition user_search_json :: "UserSearchResponse \<Rightarrow> json" where
  "user_search_json r = JObj [(''users'', JArr (map user_card_json (usr_Users r)))]"

definition preview_json :: "LastMessagePreview \<Rightarrow> json" where
  "preview_json p =
     JObj ([(''id'', JStr (lp_ID p)), (''sender_id'', JStr (lp_SenderID p)), (''type'', JStr (lp_Type p))]
           @ opt_field ''text'' JStr (lp_Text p) @ [(''created_at'', JTime (lp_CreatedAt p))])"

definition chat_summary_json :: "ChatSummary \<Rightarrow> json" where
  "chat_summary_json c =
     JObj ([(''id'', JStr (cs_ID c)), (''type'', JStr (cs_Type c))]
           @ opt_field ''title'' JStr (cs_Title c) @ opt_field ''avatar_url'' JStr (cs_AvatarURL c)
           @ [(''created_at'', JTime (cs_CreatedAt c)), (''updated_at'', JTime (cs_UpdatedAt c))]
           @ opt_field ''last_message'' preview_json (cs_LastMessage c)
           @ [(''unread_count'', JNum (cs_UnreadCount c))])"

definition chat_list_json :: "ChatSummary list \<Rightarrow> json" where
  "chat_list_json cs = JObj [(''chats'', JArr (map chat_summary_json cs))]"

definition chat_detail_json :: "ChatDetail \<Rightarrow> json" where
  "chat_detail_json c =
     JObj ([(''id'', JStr (cd_ID c)), (''type'', JStr (cd_Type c))]
           @ opt_field ''title'' JStr (cd_Title c) @ opt_field ''avatar_url'' JStr (cd_AvatarURL c)
           @ [(''created_at'', JTime (cd_CreatedAt c)), (''updated_at'', JTime (cd_UpdatedAt c))])"

definition member_json :: "ChatMemberDTO \<Rightarrow> json" where
  "member_json m =
     JObj [(''user_id'', JStr (cmd_UserID m)), (''role'', JStr (cmd_Role m)), (''joined_at'', JTime (cmd_JoinedAt m))]"

definition members_json :: "ChatMemberDTO list \<Rightarrow> json" where
  "members_json ms = JObj [(''members'', JArr (map member_json ms))]"

definition message_json :: "MessageDTO \<Rightarrow> json" where
  "message_json m =
     JObj ([(''id'', JStr (md_ID m)), (''chat_id'', JStr (md_ChatID m)), (''sender_id'', JStr (md_SenderID m)),
            (''type'', JStr (md_Type m))]
           @ opt_field ''text'' JStr (md_Text m) @ opt_field ''reply_to_id'' JStr (md_ReplyToID m)
           @ [(''created_at'', JTime (md_CreatedAt m)), (''updated_at'', JTime (md_UpdatedAt m))])"

definition message_list_json :: "MessageListResponse \<Rightarrow> json" where
  "message_list_json r =
     JObj [(''messages'', JArr (map message_json (ml_Messages r))), (''has_more'', JBool (ml_HasMore r))]"

definition mark_read_json :: "MarkReadResponse \<Rightarrow> json" where
  "mark_read_json r =
     JObj [(''chat_id'', JStr (mr_ChatID r)), (''last_read_message_id'', JStr (mr_LastReadMessageID r))]"

section \<open>Request bodies\<close>

definition dec_register :: "json \<Rightarrow> RegisterRequest option" where
  "dec_register v =
     (if text_struct [''email'', ''nickname'', ''password''] v
      then Some \<lparr>rr_Email = fill_str (values_for ''email'' v) '''',
                 rr_Nickname = fill_str (values_for ''nickname'' v) '''',
                 rr_Password = fill_str (values_for ''password'' v) ''''\<rparr>
      else None)"

definition dec_login :: "json \<Rightarrow> LoginRequest option" where
  "dec_login v =
     (if text_struct [''email'', ''password''] v
      then Some \<lparr>lr_Email = fill_str (values_for ''email'' v) '''',
                 lr_Password = fill_str (values_for ''password'' v) ''''\<rparr>
      else None)"

text \<open>\<^verbatim>\<open>RefreshRequest\<close> and \<^verbatim>\<open>LogoutRequest\<close>\<close>

definition dec_refresh_token :: "json \<Rightarrow> string option" where
  "dec_refresh_token v =
     (if text_struct [''refresh_token''] v then Some (fill_str (values_for ''refresh_token'' v) '''') else None)"

definition dec_patch_user :: "json \<Rightarrow> PatchUserRequest option" where
  "dec_patch_user v =
     (if text_struct [''nickname'', ''first_name'', ''last_name'', ''avatar_url''] v
      then Some \<lparr>pur_Nickname = fill_ptr (values_for ''nickname'' v) None,
                 pur_FirstName = fill_ptr (values_for ''first_name'' v) None,
                 pur_LastName = fill_ptr (values_for ''last_name'' v) None,
                 pur_AvatarURL = fill_ptr (values_for ''avatar_url'' v) None\<rparr>
      else None)"

definition dec_direct :: "json \<Rightarrow> CreateDirectChatRequest option" where
  "dec_direct v =
     (if text_struct [''user_id''] v then Some \<lparr>cdr_UserID = fill_str (values_for ''user_id'' v) ''''\<rparr> else None)"

definition dec_group :: "json \<Rightarrow> CreateGroupChatRequest option" where
  "dec_group v =
     (if struct_type_ok v \<and> known_keys [''title'', ''avatar_url'', ''member_ids''] v
         \<and> list_all str_type_ok (values_for ''title'' v) \<and> list_all str_type_ok (values_for ''avatar_url'' v)
         \<and> list_all strs_type_ok (values_for ''member_ids'' v)
      then Some \<lparr>cgr_Title = fill_str (values_for ''title'' v) '''',
                 cgr_AvatarURL = fill_ptr (values_for ''avatar_url'' v) None,
                 cgr_MemberIDs = fill_strs (values_for ''member_ids'' v) []\<rparr>
      else None)"

definition dec_add_members :: "json \<Rightarrow> AddChatMembersRequest option" where
  "dec_add_members v =
     (if struct_type_ok v \<and> known_keys [''user_ids''] v \<and> list_all strs_type_ok (values_for ''user_ids'' v)
      then Some \<lparr>amr_UserIDs = fill_strs (values_for ''user_ids'' v) []\<rparr> else None)"

definition dec_create_message :: "json \<Rightarrow> CreateMessageRequest option" where
  "dec_create_message v =
     (if text_struct [''text'', ''reply_to_id''] v
      then Some \<lparr>cmr_Text = fill_str (values_for ''text'' v) '''',
                 cmr_ReplyToID = fill_ptr (values_for ''reply_to_id'' v) None\<rparr>
      else None)"

definition dec_patch_message :: "json \<Rightarrow> PatchMessageRequest option" where
  "dec_patch_message v =
     (if text_struct [''text''] v then Some \<lparr>pmr_Text = fill_str (values_for ''text'' v) ''''\<rparr> else None)"

section \<open>Handlers\<close>

text \<open>
  \<^verbatim>\<open>out, err := svc; if err != nil { WriteError; return }; WriteSuccess(status, out)\<close>, and the same behind
  the decoding of a body.
\<close>

definition respond :: "nat \<Rightarrow> ('a \<Rightarrow> json) \<Rightarrow> 'a go \<Rightarrow> World \<Rightarrow> HttpResponse \<times> World" where
  "respond status enc svc w =
     (case svc w of
        (Inl e, w') \<Rightarrow> (WriteError (Some e), w')
      | (Inr x, w') \<Rightarrow> (WriteSuccess status (Some (enc x)), w'))"

definition with_body :: "(HttpRequest \<Rightarrow> err + 'b) \<Rightarrow> ('b \<Rightarrow> World \<Rightarrow> HttpResponse \<times> World) \<Rightarrow> handler" where
  "with_body decode k r w =
     (case decode r of Inl e \<Rightarrow> (WriteError (Some e), w) | Inr b \<Rightarrow> k b w)"

definition path_arg :: "HttpRequest \<Rightarrow> string \<Rightarrow> string" where
  "path_arg r name = TrimSpace (hr_PathValue r name)"

subsection \<open>Authentication\<close>

definition AuthFailureFromErr :: "err \<Rightarrow> string" where
  "AuthFailureFromErr e =
     (case error_kind e of
        None \<Rightarrow> ''other''
      | Some KindUnauthorized \<Rightarrow> ''unauthorized''
      | Some KindForbidden \<Rightarrow> ''forbidden''
      | Some KindNotFound \<Rightarrow> ''not_found''
      | Some KindValidationFailed \<Rightarrow> ''validation''
      | Some KindConflict \<Rightarrow> ''conflict''
      | Some KindInternal \<Rightarrow> ''internal'')"

definition clientMeta :: "HttpRequest \<Rightarrow> ClientMeta" where
  "clientMeta r = \<lparr>me_UserAgent = hr_Header r ''User-Agent'', me_IP = hr_RemoteAddr r\<rparr>"

definition auth_failure :: "string \<Rightarrow> World \<Rightarrow> World" where
  "auth_failure reason w = snd (metric (\<lambda>m. m\<lparr>AuthFailures := bump reason (AuthFailures m)\<rparr>) w)"

text \<open>The shape of the three counted handlers: attempt counted, body, service, failure counted by reason.\<close>

definition counted_auth ::
  "(M \<Rightarrow> M) \<Rightarrow> (json \<Rightarrow> 'b option) \<Rightarrow> nat \<Rightarrow> ('a \<Rightarrow> json) \<Rightarrow> ('b \<Rightarrow> 'a go) \<Rightarrow> handler" where
  "counted_auth attempt dec status enc svc r w =
     (let w1 = snd (metric attempt w)
      in case decodeJSON dec r of
           Inl e \<Rightarrow> (WriteError (Some e), auth_failure ''validation'' w1)
         | Inr b \<Rightarrow>
             (case svc b w1 of
                (Inl e, w') \<Rightarrow> (WriteError (Some e), auth_failure (AuthFailureFromErr e) w')
              | (Inr x, w') \<Rightarrow> (WriteSuccess status (Some (enc x)), w')))"

definition Auth_Register :: "AuthService \<Rightarrow> handler" where
  "Auth_Register s r =
     counted_auth (\<lambda>m. m\<lparr>AuthRegister := AuthRegister m + 1\<rparr>) dec_register 201 auth_response_json
       (\<lambda>b. AuthService_Register s b (clientMeta r)) r"

definition Auth_Login :: "AuthService \<Rightarrow> handler" where
  "Auth_Login s r =
     counted_auth (\<lambda>m. m\<lparr>AuthLogin := AuthLogin m + 1\<rparr>) dec_login 200 auth_response_json
       (\<lambda>b. AuthService_Login s b (clientMeta r)) r"

definition Auth_Refresh :: "AuthService \<Rightarrow> handler" where
  "Auth_Refresh s r =
     counted_auth (\<lambda>m. m\<lparr>AuthRefresh := AuthRefresh m + 1\<rparr>) dec_refresh_token 200 token_pair_json
       (\<lambda>b. AuthService_Refresh s b (clientMeta r)) r"

definition Auth_Logout :: "AuthService \<Rightarrow> handler" where
  "Auth_Logout s =
     with_body (decodeJSON dec_refresh_token) (\<lambda>b. respond 200 (\<lambda>_. JObj [(''logged_out'', JBool True)]) (AuthService_Logout s b))"

definition Auth_LogoutAll :: handler where
  "Auth_LogoutAll r =
     (case hr_UserID r of
        None \<Rightarrow> (\<lambda>w. (WriteError (Some (Unauthorized ''missing user context'')), w))
      | Some uid \<Rightarrow> respond 200 (\<lambda>_. JObj [(''logged_out_all'', JBool True)]) (AuthService_LogoutAll uid))"

subsection \<open>Users\<close>

definition Users_Me :: handler where
  "Users_Me r = respond 200 user_self_json (Me (UserID_or_zero r))"

definition Users_PatchMe :: handler where
  "Users_PatchMe r = with_body (decodeUserJSON dec_patch_user) (\<lambda>b. respond 200 user_self_json (UpdateMe (UserID_or_zero r) b)) r"

definition Users_Search :: handler where
  "Users_Search r =
     respond 200 user_search_json (UserService_Search (TrimSpace (hr_Query r ''q''))
       (queryInt (hr_Query r ''limit'') 0) (queryInt (hr_Query r ''offset'') 0))"

definition Users_ByID :: handler where
  "Users_ByID r = respond 200 user_card_json (UserService_GetByID (path_arg r ''id''))"

subsection \<open>Chats\<close>

definition Chats_CreateDirect :: "(string \<Rightarrow> 8 word list) \<Rightarrow> handler" where
  "Chats_CreateDirect sha256 r =
     with_body (decodeChatJSON dec_direct) (\<lambda>b. respond 201 chat_detail_json (CreateDirect sha256 (UserID_or_zero r) b)) r"

definition Chats_CreateGroup :: handler where
  "Chats_CreateGroup r =
     with_body (decodeChatJSON dec_group) (\<lambda>b. respond 201 chat_detail_json (CreateGroup (UserID_or_zero r) b)) r"

definition Chats_List :: handler where
  "Chats_List r =
     respond 200 chat_list_json (ListMine (UserID_or_zero r) (queryIntChats (hr_Query r ''limit'') 0)
       (queryIntChats (hr_Query r ''offset'') 0))"

definition Chats_Get :: handler where
  "Chats_Get r = respond 200 chat_detail_json (ChatService_Get (UserID_or_zero r) (path_arg r ''chat_id''))"

definition Chats_Members :: handler where
  "Chats_Members r = respond 200 members_json (Members (UserID_or_zero r) (path_arg r ''chat_id''))"

definition Chats_AddMembers :: handler where
  "Chats_AddMembers r =
     with_body (decodeChatJSON dec_add_members) (\<lambda>b. respond 200 members_json
       (ChatService_AddMembers (UserID_or_zero r) (path_arg r ''chat_id'') b)) r"

definition Chats_RemoveMember :: handler where
  "Chats_RemoveMember r =
     respond 200 (\<lambda>_. JObj [(''removed'', JBool True)])
       (ChatService_RemoveMember (UserID_or_zero r) (path_arg r ''chat_id'') (path_arg r ''user_id''))"

subsection \<open>Messages\<close>

definition Messages_ListByChat :: "(string \<Rightarrow> string \<Rightarrow> time option) \<Rightarrow> handler" where
  "Messages_ListByChat time_Parse r =
     respond 200 message_list_json (ListByChat time_Parse (UserID_or_zero r) (path_arg r ''chat_id'')
       (queryIntMessages (hr_Query r ''limit'') 0) (TrimSpace (hr_Query r ''before'')))"

definition Messages_CreateInChat :: "MessageService \<Rightarrow> handler" where
  "Messages_CreateInChat s r =
     with_body (decodeMessageJSON dec_create_message) (\<lambda>b. respond 201 message_json
       (MessageService_Create s (UserID_or_zero r) (path_arg r ''chat_id'') b)) r"

definition Messages_Get :: handler where
  "Messages_Get r = respond 200 message_json (MessageService_Get (UserID_or_zero r) (path_arg r ''message_id''))"

definition Messages_Patch :: "MessageService \<Rightarrow> handler" where
  "Messages_Patch s r =
     with_body (decodeMessageJSON dec_patch_message) (\<lambda>b. respond 200 message_json
       (MessageService_Patch s (UserID_or_zero r) (path_arg r ''message_id'') b)) r"

definition Messages_Delete :: "MessageService \<Rightarrow> handler" where
  "Messages_Delete s r =
     respond 200 (\<lambda>_. JObj [(''deleted'', JBool True)])
       (MessageService_Delete s (UserID_or_zero r) (path_arg r ''message_id''))"

definition Messages_MarkRead :: "MessageService \<Rightarrow> handler" where
  "Messages_MarkRead s r =
     respond 200 mark_read_json (MessageService_MarkRead s (UserID_or_zero r) (path_arg r ''message_id''))"

subsection \<open>Tickets\<close>

definition ticket_json :: "string \<times> int \<Rightarrow> json" where
  "ticket_json p = JObj [(''ticket'', JStr (fst p)), (''expires_in'', JNum (snd p))]"

definition WSTicket_Issue :: "WSTicketService option \<Rightarrow> handler" where
  "WSTicket_Issue svc r =
     (case hr_UserID r of
        None \<Rightarrow> (\<lambda>w. (WriteError (Some (Unauthorized ''missing user context'')), w))
      | Some uid \<Rightarrow> respond 200 ticket_json (WSTicketService_Issue svc uid))"

end
