(* ===== verification/RateLimit.thy ===== *)
theory RateLimit
  imports HttpCore
begin

text \<open>
  The per-client rate limiter (\<^verbatim>\<open>backend/internal/transport/http/middleware/ratelimit.go\<close>).  The token
  bucket of \<^verbatim>\<open>golang.org/x/time/rate\<close> is a parameter: a state type \<open>'l\<close>, the bucket made for a rate (in
  requests per minute) and a burst, and the step \<^verbatim>\<open>Allow\<close> takes at an instant.  The Go map is an association list
  with one entry per key.
\<close>

record 'l RateLib =
  rt_NewLimiter :: "int \<Rightarrow> int \<Rightarrow> 'l"
  rt_Allow :: "'l \<Rightarrow> time \<Rightarrow> bool \<times> 'l"

record 'l ipLimiterEntry =
  le_lim :: 'l
  le_last :: time

record 'l IPRateLimiter =
  il_name :: string
  il_rpm :: int
  il_burst :: int
  il_byIP :: "(string \<times> 'l ipLimiterEntry) list"

definition ClientIP :: "string \<Rightarrow> string" where
  "ClientIP remoteAddr =
     (let addr = TrimSpace remoteAddr
      in if addr = '''' then ''unknown''
         else case SplitHostPort addr of
             None \<Rightarrow> addr
           | Some (host, _) \<Rightarrow> if host = '''' then ''unknown'' else host)"

definition default_burst :: "int \<Rightarrow> int" where
  "default_burst rpm =
     (let b = rpm div 3; b = (if b < 1 then 1 else b) in if b > 60 then 60 else b)"

text \<open>\<open>None\<close> is a nil limiter: no limiting.\<close>

definition NewIPRateLimiter :: "string \<Rightarrow> int \<Rightarrow> int \<Rightarrow> 'l IPRateLimiter option" where
  "NewIPRateLimiter name rpm burst =
     (if rpm \<le> 0 then None
      else Some \<lparr>il_name = name, il_rpm = rpm, il_burst = (if burst \<le> 0 then default_burst rpm else burst),
                 il_byIP = []\<rparr>)"

definition max_clients :: nat where "max_clients = 2048"
definition ten_minutes :: int where "ten_minutes = 600 * Second"

text \<open>The sweep: with more than 2048 clients on record, those not seen for ten minutes are forgotten.\<close>

definition sweep :: "time \<Rightarrow> (string \<times> 'l ipLimiterEntry) list \<Rightarrow> (string \<times> 'l ipLimiterEntry) list" where
  "sweep now es =
     (if length es > max_clients then filter (\<lambda>e. \<not> le_last (snd e) < now - ten_minutes) es else es)"

definition set_entry :: "string \<Rightarrow> 'l ipLimiterEntry \<Rightarrow> (string \<times> 'l ipLimiterEntry) list \<Rightarrow>
    (string \<times> 'l ipLimiterEntry) list" where
  "set_entry ip e es = filter (\<lambda>kv. fst kv \<noteq> ip) es @ [(ip, e)]"

text \<open>The bucket for a client, and the limiter with the client recorded as seen now.\<close>

definition getLimiter :: "'l RateLib \<Rightarrow> string \<Rightarrow> time \<Rightarrow> 'l IPRateLimiter \<Rightarrow> 'l \<times> 'l IPRateLimiter" where
  "getLimiter lib ip now l =
     (let es = sweep now (il_byIP l);
          lim = (case map_of es ip of None \<Rightarrow> rt_NewLimiter lib (il_rpm l) (il_burst l) | Some e \<Rightarrow> le_lim e)
      in (lim, l\<lparr>il_byIP := set_entry ip \<lparr>le_lim = lim, le_last = now\<rparr> es\<rparr>))"

text \<open>\<^verbatim>\<open>getLimiter(ip).Allow()\<close>: the bucket is shared by reference, so its new state is in the entry.\<close>

definition limiter_allow :: "'l RateLib \<Rightarrow> string \<Rightarrow> time \<Rightarrow> 'l IPRateLimiter \<Rightarrow> bool \<times> 'l IPRateLimiter" where
  "limiter_allow lib ip now l =
     (case getLimiter lib ip now l of
        (lim, l') \<Rightarrow>
          (case rt_Allow lib lim now of
             (ok, lim') \<Rightarrow> (ok, l'\<lparr>il_byIP := set_entry ip \<lparr>le_lim = lim', le_last = now\<rparr> (il_byIP l')\<rparr>)))"

definition rate_limited :: "string \<Rightarrow> HttpResponse" where
  "rate_limited name =
     WriteJSON 429 (api_error ''rate_limited'' ''too many requests'' (Some (JObj [(''limiter'', JStr name)])))"

text \<open>The middleware; a nil limiter passes every request on.\<close>

definition chainLimit ::
  "'l RateLib \<Rightarrow> handler \<Rightarrow> HttpRequest \<Rightarrow> World \<times> 'l IPRateLimiter option \<Rightarrow>
     HttpResponse \<times> World \<times> 'l IPRateLimiter option" where
  "chainLimit lib next r st =
     (case st of
        (w, None) \<Rightarrow> (case next r w of (resp, w') \<Rightarrow> (resp, w', None))
      | (w, Some l) \<Rightarrow>
          (case limiter_allow lib (ClientIP (hr_RemoteAddr r)) (clock w) l of
             (False, l') \<Rightarrow> (rate_limited (il_name l), w, Some l')
           | (True, l') \<Rightarrow> (case next r w of (resp, w') \<Rightarrow> (resp, w', Some l'))))"

end
