(* ===== verification/Router.thy ===== *)
theory Router
  imports Handlers RateLimit WsConn
begin

text \<open>
  The routes (\<^verbatim>\<open>backend/internal/transport/http/router.go\<close>), the middleware around them and how
  \<^verbatim>\<open>backend/internal/app/app.go\<close> builds them from the configuration, for the program as \<^verbatim>\<open>main.go\<close> starts it:
  with a database pool, a Redis client and metrics.

  The mux of \<^verbatim>\<open>net/http\<close> picks, among the patterns that match method and path, the most specific one; a
  pattern for GET matches HEAD as well.  The path is given as its segments.
\<close>

datatype segment = Lit string | Wild string

datatype Endpoint =
    EOpenAPI | EDocs | EHealth | EMetrics
  | ERegister | ELogin | ERefresh | ELogout | ELogoutAll
  | EMe | EPatchMe | ESearch | EUser
  | EChats | EDirect | EGroup | EMembers | EAddMembers | ERemoveMember | EChat
  | EMessages | ECreateMessage | EMessage | EPatchMessage | EDeleteMessage | EMarkRead
  | EWSTicket | EWSConnect

definition routes :: "(string \<times> segment list \<times> Endpoint) list" where
  "routes =
     [(''GET'', [Lit ''openapi.yaml''], EOpenAPI),
      (''GET'', [Lit ''docs''], EDocs),
      (''GET'', [Lit ''health''], EHealth),
      (''GET'', [Lit ''metrics''], EMetrics),
      (''POST'', [Lit ''auth'', Lit ''register''], ERegister),
      (''POST'', [Lit ''auth'', Lit ''login''], ELogin),
      (''POST'', [Lit ''auth'', Lit ''refresh''], ERefresh),
      (''POST'', [Lit ''auth'', Lit ''logout''], ELogout),
      (''POST'', [Lit ''auth'', Lit ''logout-all''], ELogoutAll),
      (''GET'', [Lit ''users'', Lit ''me''], EMe),
      (''PATCH'', [Lit ''users'', Lit ''me''], EPatchMe),
      (''GET'', [Lit ''users'', Lit ''search''], ESearch),
      (''GET'', [Lit ''users'', Wild ''id''], EUser),
      (''GET'', [Lit ''chats''], EChats),
      (''POST'', [Lit ''chats'', Lit ''direct''], EDirect),
      (''POST'', [Lit ''chats'', Lit ''group''], EGroup),
      (''GET'', [Lit ''chats'', Wild ''chat_id'', Lit ''members''], EMembers),
      (''POST'', [Lit ''chats'', Wild ''chat_id'', Lit ''members''], EAddMembers),
      (''DELETE'', [Lit ''chats'', Wild ''chat_id'', Lit ''members'', Wild ''user_id''], ERemoveMember),
      (''GET'', [Lit ''chats'', Wild ''chat_id''], EChat),
      (''GET'', [Lit ''chats'', Wild ''chat_id'', Lit ''messages''], EMessages),
      (''POST'', [Lit ''chats'', Wild ''chat_id'', Lit ''messages''], ECreateMessage),
      (''GET'', [Lit ''messages'', Wild ''message_id''], EMessage),
      (''PATCH'', [Lit ''messages'', Wild ''message_id''], EPatchMessage),
      (''DELETE'', [Lit ''messages'', Wild ''message_id''], EDeleteMessage),
      (''POST'', [Lit ''messages'', Wild ''message_id'', Lit ''read''], EMarkRead),
      (''POST'', [Lit ''ws'', Lit ''ticket''], EWSTicket),
      (''GET'', [Lit ''ws'', Lit ''connect''], EWSConnect)]"

text \<open>A wildcard matches one segment that is not empty.\<close>

fun seg_match :: "segment list \<Rightarrow> string list \<Rightarrow> bool" where
  "seg_match [] [] = True"
| "seg_match (Lit l # ps) (x # xs) = (l = x \<and> seg_match ps xs)"
| "seg_match (Wild _ # ps) (x # xs) = (x \<noteq> '''' \<and> seg_match ps xs)"
| "seg_match _ _ = False"

fun path_values :: "segment list \<Rightarrow> string list \<Rightarrow> (string \<times> string) list" where
  "path_values (Wild n # ps) (x # xs) = (n, x) # path_values ps xs"
| "path_values (Lit _ # ps) (x # xs) = path_values ps xs"
| "path_values _ _ = []"

definition wilds :: "segment list \<Rightarrow> nat" where
  "wilds ps = length (filter (\<lambda>p. case p of Wild _ \<Rightarrow> True | Lit _ \<Rightarrow> False) ps)"

definition method_match :: "string \<Rightarrow> string \<Rightarrow> bool" where
  "method_match pat m = (m = pat \<or> pat = ''GET'' \<and> m = ''HEAD'')"

definition matching :: "string \<Rightarrow> string list \<Rightarrow> (string \<times> segment list \<times> Endpoint) list" where
  "matching m segs = filter (\<lambda>(pm, ps, _). method_match pm m \<and> seg_match ps segs) routes"

text \<open>The mux: the match with the fewest wildcards, or 405 if only the method is wrong, or 404.\<close>

datatype mux_result = Found Endpoint "(string \<times> string) list" | MethodNotAllowed | NoRoute

definition mux :: "string \<Rightarrow> string list \<Rightarrow> mux_result" where
  "mux m segs =
     (case sort_key (\<lambda>(_, ps, _). wilds ps) (matching m segs) of
        (_, ps, e) # _ \<Rightarrow> Found e (path_values ps segs)
      | [] \<Rightarrow> if list_ex (\<lambda>(_, ps, _). seg_match ps segs) routes then MethodNotAllowed else NoRoute)"

section \<open>Wiring\<close>

text \<open>What the routes are built from; \<open>sha256\<close> and \<open>time_Parse\<close> are the library functions the services use.\<close>

record Deps =
  dp_Auth :: AuthService
  dp_Messages :: MessageService
  dp_Secret :: string
  dp_TimeParse :: "string \<Rightarrow> string \<Rightarrow> time option"
  dp_WSTicket :: "WSTicketService option"
  dp_WS :: WsHandler

record 'l Limits =
  lm_Register :: "'l IPRateLimiter option"
  lm_Login :: "'l IPRateLimiter option"
  lm_MessageSend :: "'l IPRateLimiter option"
  lm_WSConnect :: "'l IPRateLimiter option"

text \<open>\<^verbatim>\<open>app.New\<close>: services and limiters from the configuration.\<close>

definition app_deps ::
  "(string \<Rightarrow> 8 word list) \<Rightarrow> Jwt \<Rightarrow> Bcrypt \<Rightarrow> (string \<Rightarrow> string \<Rightarrow> time option) \<Rightarrow> Config \<Rightarrow> Deps" where
  "app_deps sha256 j b time_Parse cfg =
     (let msgs = \<lparr>ms_writer = True\<rparr>; presence = Some \<lparr>ps_repo = Some ()\<rparr>;
          proc = \<lparr>wss_msgs = msgs, wss_typing = Some (), wss_presence = presence, wss_bc = \<lparr>bc_pub = True\<rparr>\<rparr>
      in \<lparr>dp_Auth = \<lparr>as_sha256 = sha256, as_jwt = j, as_bcrypt = b, as_cfg = cf_JWT cfg\<rparr>,
          dp_Messages = msgs, dp_Secret = TrimSpace (jc_Secret (cf_JWT cfg)), dp_TimeParse = time_Parse,
          dp_WSTicket = Some (NewWSTicketService (Some ()) (seconds (wc_TicketTTLSeconds (cf_WS cfg)))),
          dp_WS = NewHandler proc (Some ()) (wc_AllowedOrigins (cf_WS cfg)) presence\<rparr>)"

definition app_limits :: "Config \<Rightarrow> 'l Limits" where
  "app_limits cfg =
     (let rl = cf_RateLimit cfg
      in \<lparr>lm_Register = NewIPRateLimiter ''register'' (rl_RegisterPerMinute rl) 0,
          lm_Login = NewIPRateLimiter ''login'' (rl_LoginPerMinute rl) 0,
          lm_MessageSend = NewIPRateLimiter ''message_send'' (rl_MessageSendPerMinute rl) 0,
          lm_WSConnect = NewIPRateLimiter ''ws_connect'' (rl_WSConnectPerMinute rl) 0\<rparr>)"

text \<open>A limiter of the record in front of a handler, and a handler without one.\<close>

type_synonym 'l server_handler = "HttpRequest \<Rightarrow> World \<times> 'l Limits \<Rightarrow> HttpResponse \<times> World \<times> 'l Limits"

definition limited ::
  "'l RateLib \<Rightarrow> ('l Limits \<Rightarrow> 'l IPRateLimiter option) \<Rightarrow>
     ('l IPRateLimiter option \<Rightarrow> 'l Limits \<Rightarrow> 'l Limits) \<Rightarrow> handler \<Rightarrow> 'l server_handler" where
  "limited lib get put h r st =
     (case chainLimit lib h r (fst st, get (snd st)) of (resp, w', l') \<Rightarrow> (resp, w', put l' (snd st)))"

definition plain :: "handler \<Rightarrow> 'l server_handler" where
  "plain h r st = (case h r (fst st) of (resp, w') \<Rightarrow> (resp, w', snd st))"

definition health :: handler where
  "health r w = (\<lparr>rp_Status = 200, rp_Body = TextBody ''ok'', rp_RequestID = None\<rparr>, w)"

text \<open>The documents: the page with the Swagger user interface, and the specification it loads, which is embedded from \<^verbatim>\<open>openapi.yaml\<close>.\<close>

definition swagger_lines :: "string list" where
  \<open>swagger_lines =
     [''<!DOCTYPE html>'',
      ''<html lang="en">'',
      ''<head>'',
      ''  <meta charset="UTF-8" />'',
      ''  <meta name="viewport" content="width=device-width, initial-scale=1" />'',
      ''  <title>GoFlow API</title>'',
      ''  <link rel="stylesheet" href="https://unpkg.com/swagger-ui-dist@5.11.0/swagger-ui.css" crossorigin="anonymous" />'',
      ''  <style>body { margin: 0; } #swagger-ui { max-width: 1460px; margin: 0 auto; }</style>'',
      ''</head>'',
      ''<body>'',
      ''  <div id="swagger-ui"></div>'',
      ''  <script src="https://unpkg.com/swagger-ui-dist@5.11.0/swagger-ui-bundle.js" crossorigin="anonymous"></script>'',
      ''  <script>'',
      ''    window.ui = SwaggerUIBundle({'',
      ''      url: '/openapi.yaml','',
      ''      dom_id: '#swagger-ui','',
      ''      deepLinking: true,'',
      ''      presets: [SwaggerUIBundle.presets.apis],'',
      ''      layout: 'BaseLayout'' @ [CHR 0x27],
      ''    });'',
      ''  </script>'',
      ''</body>'',
      ''</html>'']\<close>

definition swaggerHTML :: string where
  "swaggerHTML = concat (map (\<lambda>l. l @ [CHR 0x0A]) (butlast swagger_lines)) @ last swagger_lines"

definition docs_page :: handler where
  "docs_page r w = (\<lparr>rp_Status = 200, rp_Body = HtmlBody swaggerHTML, rp_RequestID = None\<rparr>, w)"

definition openapi_page :: handler where
  "openapi_page r w = (\<lparr>rp_Status = 200, rp_Body = FileBody ''openapi.yaml'', rp_RequestID = None\<rparr>, w)"

text \<open>The handler of \<^verbatim>\<open>promhttp\<close> on the registry.\<close>

definition metrics_page :: handler where
  "metrics_page r w = (\<lparr>rp_Status = 200, rp_Body = MetricsPage, rp_RequestID = None\<rparr>, w)"

text \<open>
  Connecting over HTTP: the response of a refusal; after an upgrade there is none, the connection
  has been taken over.  \<open>upgrade\<close> and the reference of the new client are given.
\<close>

definition connect_handler :: "WsHandler \<Rightarrow> (HttpResponse + unit) \<Rightarrow> client_ref \<Rightarrow> handler" where
  "connect_handler h upgrade p r w =
     (case ws_connect h upgrade p r w of
        (Inl resp, w') \<Rightarrow> (resp, w')
      | (Inr _, w') \<Rightarrow> (\<lparr>rp_Status = 101, rp_Body = NoBody, rp_RequestID = None\<rparr>, w'))"

fun endpoint_handler ::
  "'l RateLib \<Rightarrow> Deps \<Rightarrow> (HttpResponse + unit) \<Rightarrow> client_ref \<Rightarrow> Endpoint \<Rightarrow> 'l server_handler" where
  "endpoint_handler lib d up p EOpenAPI = plain openapi_page"
| "endpoint_handler lib d up p EDocs = plain docs_page"
| "endpoint_handler lib d up p EHealth = plain health"
| "endpoint_handler lib d up p EMetrics = plain metrics_page"
| "endpoint_handler lib d up p ERegister =
     limited lib lm_Register (\<lambda>l x. x\<lparr>lm_Register := l\<rparr>) (Auth_Register (dp_Auth d))"
| "endpoint_handler lib d up p ELogin =
     limited lib lm_Login (\<lambda>l x. x\<lparr>lm_Login := l\<rparr>) (Auth_Login (dp_Auth d))"
| "endpoint_handler lib d up p ERefresh = plain (Auth_Refresh (dp_Auth d))"
| "endpoint_handler lib d up p ELogout = plain (Auth_Logout (dp_Auth d))"
| "endpoint_handler lib d up p ELogoutAll =
     plain (RequireBearerAuth (as_jwt (dp_Auth d)) (dp_Secret d) Auth_LogoutAll)"
| "endpoint_handler lib d up p EMe = plain (RequireBearerAuth (as_jwt (dp_Auth d)) (dp_Secret d) Users_Me)"
| "endpoint_handler lib d up p EPatchMe =
     plain (RequireBearerAuth (as_jwt (dp_Auth d)) (dp_Secret d) Users_PatchMe)"
| "endpoint_handler lib d up p ESearch =
     plain (RequireBearerAuth (as_jwt (dp_Auth d)) (dp_Secret d) Users_Search)"
| "endpoint_handler lib d up p EUser =
     plain (RequireBearerAuth (as_jwt (dp_Auth d)) (dp_Secret d) Users_ByID)"
| "endpoint_handler lib d up p EChats =
     plain (RequireBearerAuth (as_jwt (dp_Auth d)) (dp_Secret d) Chats_List)"
| "endpoint_handler lib d up p EDirect =
     plain (RequireBearerAuth (as_jwt (dp_Auth d)) (dp_Secret d) (Chats_CreateDirect (as_sha256 (dp_Auth d))))"
| "endpoint_handler lib d up p EGroup =
     plain (RequireBearerAuth (as_jwt (dp_Auth d)) (dp_Secret d) Chats_CreateGroup)"
| "endpoint_handler lib d up p EMembers =
     plain (RequireBearerAuth (as_jwt (dp_Auth d)) (dp_Secret d) Chats_Members)"
| "endpoint_handler lib d up p EAddMembers =
     plain (RequireBearerAuth (as_jwt (dp_Auth d)) (dp_Secret d) Chats_AddMembers)"
| "endpoint_handler lib d up p ERemoveMember =
     plain (RequireBearerAuth (as_jwt (dp_Auth d)) (dp_Secret d) Chats_RemoveMember)"
| "endpoint_handler lib d up p EChat =
     plain (RequireBearerAuth (as_jwt (dp_Auth d)) (dp_Secret d) Chats_Get)"
| "endpoint_handler lib d up p EMessages =
     plain (RequireBearerAuth (as_jwt (dp_Auth d)) (dp_Secret d) (Messages_ListByChat (dp_TimeParse d)))"
| "endpoint_handler lib d up p ECreateMessage =
     limited lib lm_MessageSend (\<lambda>l x. x\<lparr>lm_MessageSend := l\<rparr>)
       (RequireBearerAuth (as_jwt (dp_Auth d)) (dp_Secret d) (Messages_CreateInChat (dp_Messages d)))"
| "endpoint_handler lib d up p EMessage =
     plain (RequireBearerAuth (as_jwt (dp_Auth d)) (dp_Secret d) Messages_Get)"
| "endpoint_handler lib d up p EPatchMessage =
     plain (RequireBearerAuth (as_jwt (dp_Auth d)) (dp_Secret d) (Messages_Patch (dp_Messages d)))"
| "endpoint_handler lib d up p EDeleteMessage =
     plain (RequireBearerAuth (as_jwt (dp_Auth d)) (dp_Secret d) (Messages_Delete (dp_Messages d)))"
| "endpoint_handler lib d up p EMarkRead =
     plain (RequireBearerAuth (as_jwt (dp_Auth d)) (dp_Secret d) (Messages_MarkRead (dp_Messages d)))"
| "endpoint_handler lib d up p EWSTicket =
     limited lib lm_WSConnect (\<lambda>l x. x\<lparr>lm_WSConnect := l\<rparr>)
       (RequireBearerAuth (as_jwt (dp_Auth d)) (dp_Secret d) (WSTicket_Issue (dp_WSTicket d)))"
| "endpoint_handler lib d up p EWSConnect =
     limited lib lm_WSConnect (\<lambda>l x. x\<lparr>lm_WSConnect := l\<rparr>) (connect_handler (dp_WS d) up p)"

text \<open>The mux as a handler: the values of the wildcards become path values, which are empty elsewhere.\<close>

definition mux_handler ::
  "'l RateLib \<Rightarrow> Deps \<Rightarrow> (HttpResponse + unit) \<Rightarrow> client_ref \<Rightarrow> string list \<Rightarrow> 'l server_handler" where
  "mux_handler lib d up p segs r st =
     (case mux (hr_Method r) segs of
        Found e vals \<Rightarrow>
          endpoint_handler lib d up p e
            (r\<lparr>hr_PathValue := (\<lambda>n. case map_of vals n of None \<Rightarrow> '''' | Some x \<Rightarrow> x)\<rparr>) st
      | MethodNotAllowed \<Rightarrow> (http_Error ''Method Not Allowed'' 405, st)
      | NoRoute \<Rightarrow> (http_Error ''404 page not found'' 404, st))"

text \<open>The pattern of a route as it is registered; the mux records it on the request, or nothing if none matches.\<close>

definition pattern_text :: "string \<Rightarrow> segment list \<Rightarrow> string" where
  "pattern_text m ps =
     m @ '' '' @ concat (map (\<lambda>p. CHR ''/'' # (case p of Lit l \<Rightarrow> l | Wild n \<Rightarrow> ''{'' @ n @ ''}'')) ps)"

definition recorded_pattern :: "string \<Rightarrow> string list \<Rightarrow> string" where
  "recorded_pattern m segs =
     (case sort_key (\<lambda>(_, ps, _). wilds ps) (matching m segs) of
        (pm, ps, _) # _ \<Rightarrow> pattern_text pm ps | [] \<Rightarrow> '''')"

text \<open>
  \<^verbatim>\<open>Chain\<close>: metrics around logging around recovery around the mux, which does not panic here.  They all share
  one request, so the metrics read the pattern that the mux has recorded on it.
\<close>

definition Chain ::
  "'l RateLib \<Rightarrow> Deps \<Rightarrow> (HttpResponse + unit) \<Rightarrow> client_ref \<Rightarrow> string list \<Rightarrow> 'l server_handler" where
  "Chain lib d up p segs r =
     HTTPMiddleware (Logging (Recovery (\<lambda>r st.
       case mux_handler lib d up p segs r st of (resp, st') \<Rightarrow> (Some resp, st'))))
       (r\<lparr>hr_Pattern := recorded_pattern (hr_Method r) segs\<rparr>)"

end
