(* ===== verification/Migration.thy ===== *)
theory Migration
  imports GoIO GoText "HOL-Library.Sublist"
begin

text \<open>
  The schema migrations run at start-up (\<^verbatim>\<open>backend/internal/migration/runner.go\<close>).

  The embedded directory (\<^verbatim>\<open>embed.FS\<close>) is the record \<open>EmbedFS\<close>: its entries with a flag for directories, and the
  contents of its files.  What a script does to the schema is PostgreSQL's, so the store keeps the scripts that have
  taken effect, in order, and the parameter \<open>ddl\<close> says with which error a script fails on a schema
  that the earlier scripts have produced; DDL is transactional.
\<close>

section \<open>Statements\<close>

record EmbedFS =
  fs_ReadDir :: "err + (string \<times> bool) list"
  fs_ReadFile :: "string \<Rightarrow> err + string"

type_synonym ddl_semantics = "string list \<Rightarrow> string \<Rightarrow> err option"

definition undefined_table :: err where "undefined_table = PgError ''42P01''"

definition bootstrap_stmt :: "unit stmt" where
  "bootstrap_stmt _ _ s =
     (Inr (), s\<lparr>schema_migrations := Some (case schema_migrations s of None \<Rightarrow> [] | Some rows \<Rightarrow> rows)\<rparr>)"

definition check_version_stmt :: "string \<Rightarrow> int stmt" where
  "check_version_stmt name _ _ s =
     (case schema_migrations s of
        None \<Rightarrow> (Inl undefined_table, s)
      | Some rows \<Rightarrow> if name \<in> set (map fst rows) then (Inr 1, s) else (Inl ErrNoRows, s))"

definition script_stmt :: "ddl_semantics \<Rightarrow> string \<Rightarrow> unit stmt" where
  "script_stmt ddl body _ _ s =
     (case ddl (ddl_log s) body of
        Some e \<Rightarrow> (Inl e, s)
      | None \<Rightarrow> (Inr (), s\<lparr>ddl_log := ddl_log s @ [body]\<rparr>))"

definition stamp_stmt :: "string \<Rightarrow> unit stmt" where
  "stamp_stmt name now _ s =
     (case schema_migrations s of
        None \<Rightarrow> (Inl undefined_table, s)
      | Some rows \<Rightarrow>
          if name \<in> set (map fst rows) then (Inl (PgError ''23505''), s)
          else (Inr (), s\<lparr>schema_migrations := Some (rows @ [(name, now)])\<rparr>))"

section \<open>The runner\<close>

text \<open>\<^verbatim>\<open>fmt.Errorf("migration: what name: %w", name, err)\<close>; the caller only prints it.\<close>

definition migration_error :: "string \<Rightarrow> err \<Rightarrow> err" where
  "migration_error what e = ErrText (''migration: '' @ what @ '': '' @ error_text e)"

text \<open>The files to apply: every entry that is not a directory and ends in \<^verbatim>\<open>.sql\<close>, in lexical order.\<close>

definition sql_names :: "(string \<times> bool) list \<Rightarrow> string list" where
  "sql_names entries =
     sort (map fst (filter (\<lambda>(name, isDir). \<not> isDir \<and> HasSuffix (ToLower name) ''.sql'') entries))"

definition migration_body :: "ddl_semantics \<Rightarrow> string \<Rightarrow> string \<Rightarrow> time \<Rightarrow> unit go" where
  "migration_body ddl name body t0 =
     call (tx_stmt t0 (script_stmt ddl body)) (\<lambda>e. raise (migration_error (''exec '' @ name) e)) (\<lambda>_.
     call (tx_stmt t0 (stamp_stmt name)) (\<lambda>e. raise (migration_error (''stamp '' @ name) e)) ret)"

text \<open>
  One file in a transaction of its own: an error of the script or of the stamp rolls back, and the errors of
  \<^verbatim>\<open>Begin\<close> and \<^verbatim>\<open>Commit\<close> have their own texts.
\<close>

definition apply_migration :: "ddl_semantics \<Rightarrow> string \<Rightarrow> string \<Rightarrow> unit go" where
  "apply_migration ddl name body w =
     (case tx_begin w of
        (Inl e, w1) \<Rightarrow> (Inl (migration_error (''begin '' @ name) e), w1)
      | (Inr _, w1) \<Rightarrow>
          (case migration_body ddl name body (clock w1) w1 of
             (Inl e, w2) \<Rightarrow> (Inl e, rollback (store w1) w2)
           | (Inr _, w2) \<Rightarrow>
               (case commit (store w1) () w2 of
                  (Inl e, w3) \<Rightarrow> (Inl (migration_error (''commit '' @ name) e), w3)
                | (Inr x, w3) \<Rightarrow> (Inr x, w3))))"

primrec migrate_files :: "EmbedFS \<Rightarrow> ddl_semantics \<Rightarrow> string list \<Rightarrow> unit go" where
  "migrate_files fs ddl [] = ret ()"
| "migrate_files fs ddl (name # names) =
     call (roundtrip (check_version_stmt name))
       (\<lambda>e. if \<not> errors_Is e ErrNoRows then raise (migration_error (''check '' @ name) e)
            else
            call (lift (fs_ReadFile fs name)) (\<lambda>e. raise (migration_error (''read '' @ name) e)) (\<lambda>body.
            call (apply_migration ddl name body) raise (\<lambda>_. migrate_files fs ddl names)))
       (\<lambda>_. migrate_files fs ddl names)"

definition Up :: "EmbedFS \<Rightarrow> ddl_semantics \<Rightarrow> unit option \<Rightarrow> unit go" where
  "Up fs ddl pool =
     (case pool of
        None \<Rightarrow> raise (ErrText ''migration: nil pool'')
      | Some _ \<Rightarrow>
          call (roundtrip bootstrap_stmt) (\<lambda>e. raise (migration_error ''bootstrap'' e)) (\<lambda>_.
          call (lift (fs_ReadDir fs)) (\<lambda>e. raise (migration_error ''readdir'' e)) (\<lambda>entries.
          migrate_files fs ddl (sql_names entries))))"

end
