(* ===== verification/Startup.thy ===== *)
theory Startup
  imports Router Relay Migration Config
begin

text \<open>
  Process start and shutdown: \<^verbatim>\<open>backend/cmd/app/main.go\<close>, \<^verbatim>\<open>backend/internal/app\<close> (\<^verbatim>\<open>container.go\<close>, \<^verbatim>\<open>app.go\<close>,
  \<^verbatim>\<open>kafka_fanout_group.go\<close>), \<^verbatim>\<open>backend/internal/pkg/logger\<close>, \<^verbatim>\<open>backend/internal/repository/postgres/pool.go\<close> and the
  construction of the metrics (\<^verbatim>\<open>backend/internal/observability/metrics/metrics.go\<close>).

  A repository or client that was built is \<open>Some ()\<close>, a nil one is \<open>None\<close>: they have no state besides the store.
  Goroutines appear as the list of tasks that were started; what a task does is modelled in \<open>Relay\<close> and \<open>Broadcast\<close>.
\<close>

section \<open>Logger and pool\<close>

record Logger =
  lg_Service :: string
  lg_Env :: string
  lg_JSON :: bool

definition or_default :: "string \<Rightarrow> string \<Rightarrow> string" where
  "or_default d s = (if TrimSpace s \<noteq> '''' then TrimSpace s else d)"

definition logger_New :: "Config option \<Rightarrow> Logger" where
  "logger_New cfg =
     (let svc = ''goflow-backend''; env = ''development''; format = ''text'';
          (svc, env, format) =
            (case cfg of
               None \<Rightarrow> (svc, env, format)
             | Some c \<Rightarrow>
                 (or_default svc (oc_ServiceName (cf_Observability c)), or_default env (oc_Env (cf_Observability c)),
                  or_default format (oc_LogFormat (cf_Observability c))))
      in \<lparr>lg_Service = svc, lg_Env = env, lg_JSON = EqualFold format ''json''\<rparr>)"

text \<open>\<^verbatim>\<open>NewPool\<close>; parsing the DSN and building the pool are pgx's, and connections are opened later.\<close>

record Pgx =
  px_ParseConfig :: "string \<Rightarrow> err + unit"
  px_NewWithConfig :: "string \<Rightarrow> err + unit"

definition NewPool :: "Pgx \<Rightarrow> string \<Rightarrow> err + unit" where
  "NewPool px dsn = (case px_ParseConfig px dsn of Inl e \<Rightarrow> Inl e | Inr _ \<Rightarrow> px_NewWithConfig px dsn)"

section \<open>Metrics\<close>

text \<open>The collectors of the application: name and labels.\<close>

definition collectors :: "(string \<times> string list) list" where
  "collectors =
     [(''http_requests_total'', [''method'', ''route'', ''status_class'']),
      (''http_request_duration_seconds'', [''method'', ''route'', ''status_class'']),
      (''http_requests_inflight'', []),
      (''ws_active_connections'', []),
      (''ws_events_inbound_total'', [''event'']),
      (''ws_events_outbound_total'', [''event'']),
      (''ws_handler_errors_total'', [''reason'']),
      (''auth_register_attempts_total'', []),
      (''auth_login_attempts_total'', []),
      (''auth_refresh_attempts_total'', []),
      (''auth_failures_total'', [''reason'']),
      (''messages_created_total'', []),
      (''messages_updated_total'', []),
      (''messages_deleted_total'', []),
      (''messages_read_receipts_total'', []),
      (''outbox_events_created_total'', []),
      (''outbox_relay_iterations_total'', []),
      (''outbox_relay_publish_success_total'', []),
      (''outbox_relay_publish_failures_total'', []),
      (''kafka_consumer_events_handled_total'', []),
      (''kafka_consumer_handler_failures_total'', [])]"

text \<open>\<^verbatim>\<open>MustRegister\<close> panics (\<open>None\<close>) on a name that is registered already.\<close>

fun MustRegister :: "string list \<Rightarrow> string list \<Rightarrow> string list option" where
  "MustRegister reg [] = Some reg"
| "MustRegister reg (n # ns) = (if n \<in> set reg then None else MustRegister (reg @ [n]) ns)"

definition zero_M :: M where
  "zero_M =
     \<lparr>HTTPRequests = (\<lambda>_. 0), HTTPDuration = (\<lambda>_. []), HTTPInflight = 0, WSInbound = (\<lambda>_. 0), WSOutbound = (\<lambda>_. 0), WSErrors = (\<lambda>_. 0),
      AuthRegister = 0, AuthLogin = 0, AuthRefresh = 0, AuthFailures = (\<lambda>_. 0), MessagesCreate = 0, MessagesUpdate = 0,
      MessagesDelete = 0, MessagesReadRc = 0, OutboxCreated = 0, RelayIter = 0, RelayPubOK = 0, RelayPubFail = 0,
      KafkaHandled = 0, KafkaFail = 0\<rparr>"

text \<open>\<^verbatim>\<open>metrics.New\<close>; \<open>std\<close> are the names the Go and process collectors of the library have registered.\<close>

definition metrics_New :: "string list \<Rightarrow> M option" where
  "metrics_New std = (case MustRegister std (map fst collectors) of None \<Rightarrow> None | Some _ \<Rightarrow> Some zero_M)"

text \<open>\<^verbatim>\<open>(*M).Handler\<close>\<close>

definition metrics_Handler :: "M option \<Rightarrow> handler" where
  "metrics_Handler m =
     (case m of
        None \<Rightarrow> (\<lambda>r w. (\<lparr>rp_Status = 503, rp_Body = NoBody, rp_RequestID = None\<rparr>, w))
      | Some _ \<Rightarrow> metrics_page)"

section \<open>Container\<close>

record Container =
  ct_Config :: "Config option"
  ct_Logger :: "Logger option"
  ct_Metrics :: "M option"
  ct_Pool :: "unit option"
  ct_Redis :: "unit option"
  ct_Users :: "unit option"
  ct_Chats :: "unit option"
  ct_Messages :: "unit option"
  ct_Sessions :: "unit option"
  ct_MessagesWriter :: "unit option"
  ct_Outbox :: "unit option"
  ct_Presence :: "unit option"
  ct_Typing :: "unit option"
  ct_PubSub :: "unit option"
  ct_WSTicket :: "unit option"

definition redis_Ping :: "unit stmt" where
  "redis_Ping _ _ s = (Inr (), s)"

text \<open>
  \<^verbatim>\<open>NewContainer\<close>, given the metrics that its call of \<^verbatim>\<open>metrics.New\<close> has built, which from then on are those of the world.
\<close>

definition NewContainer :: "M \<Rightarrow> Config \<Rightarrow> Logger option \<Rightarrow> unit option \<Rightarrow> Container go" where
  "NewContainer m cfg log pool w0 =
     (let w = w0\<lparr>met := Some m\<rparr>;
          c = \<lparr>ct_Config = Some cfg, ct_Logger = log, ct_Metrics = Some m, ct_Pool = pool, ct_Redis = None,
               ct_Users = None, ct_Chats = None, ct_Messages = None, ct_Sessions = None,
               ct_MessagesWriter = None, ct_Outbox = None,
               ct_Presence = None, ct_Typing = None, ct_PubSub = None, ct_WSTicket = None\<rparr>;
          c = (if pool \<noteq> None
               then c\<lparr>ct_Users := Some (), ct_Chats := Some (), ct_Messages := Some (), ct_Sessions := Some (),
                      ct_MessagesWriter := Some (), ct_Outbox := Some ()\<rparr>
               else c)
      in if TrimSpace (rd_Addr (cf_Redis cfg)) \<noteq> ''''
         then call (roundtrip redis_Ping) (\<lambda>e. raise (ErrText (''redis ping: '' @ error_text e))) (\<lambda>_.
              ret (c\<lparr>ct_Redis := Some (), ct_Presence := Some (), ct_Typing := Some (), ct_PubSub := Some (),
                     ct_WSTicket := Some ()\<rparr>)) w
         else ret c w)"

text \<open>\<^verbatim>\<open>(*Container).Close\<close>: whether it closes the Redis client.\<close>

definition Container_Close :: "Container option \<Rightarrow> bool" where
  "Container_Close c = (case c of None \<Rightarrow> False | Some c \<Rightarrow> ct_Redis c \<noteq> None)"

section \<open>Routes that are registered\<close>

text \<open>\<^verbatim>\<open>httptransport.Deps\<close> as far as \<^verbatim>\<open>Register\<close> tests it for nil, with the services the handlers get.\<close>

record Wiring =
  wi_Metrics :: "M option"
  wi_Auth :: "AuthService option"
  wi_Users :: "unit option"
  wi_Chats :: "unit option"
  wi_Messages :: "MessageService option"
  wi_WS :: "WsHandler option"
  wi_WSTicket :: "WSTicketService option"

definition docs_Register :: "(string \<times> segment list \<times> Endpoint) list" where
  "docs_Register = [(''GET'', [Lit ''openapi.yaml''], EOpenAPI), (''GET'', [Lit ''docs''], EDocs)]"

definition only_if :: "bool \<Rightarrow> 'a list \<Rightarrow> 'a list" where
  "only_if b xs = (if b then xs else [])"

definition Register_routes :: "Wiring \<Rightarrow> (string \<times> segment list \<times> Endpoint) list" where
  "Register_routes d =
     docs_Register
     @ [(''GET'', [Lit ''health''], EHealth)]
     @ only_if (wi_Metrics d \<noteq> None) [(''GET'', [Lit ''metrics''], EMetrics)]
     @ only_if (wi_Auth d \<noteq> None)
         [(''POST'', [Lit ''auth'', Lit ''register''], ERegister),
          (''POST'', [Lit ''auth'', Lit ''login''], ELogin),
          (''POST'', [Lit ''auth'', Lit ''refresh''], ERefresh),
          (''POST'', [Lit ''auth'', Lit ''logout''], ELogout),
          (''POST'', [Lit ''auth'', Lit ''logout-all''], ELogoutAll)]
     @ only_if (wi_Users d \<noteq> None)
         [(''GET'', [Lit ''users'', Lit ''me''], EMe),
          (''PATCH'', [Lit ''users'', Lit ''me''], EPatchMe),
          (''GET'', [Lit ''users'', Lit ''search''], ESearch),
          (''GET'', [Lit ''users'', Wild ''id''], EUser)]
     @ only_if (wi_Chats d \<noteq> None)
         [(''GET'', [Lit ''chats''], EChats),
          (''POST'', [Lit ''chats'', Lit ''direct''], EDirect),
          (''POST'', [Lit ''chats'', Lit ''group''], EGroup),
          (''GET'', [Lit ''chats'', Wild ''chat_id'', Lit ''members''], EMembers),
          (''POST'', [Lit ''chats'', Wild ''chat_id'', Lit ''members''], EAddMembers),
          (''DELETE'', [Lit ''chats'', Wild ''chat_id'', Lit ''members'', Wild ''user_id''], ERemoveMember),
          (''GET'', [Lit ''chats'', Wild ''chat_id''], EChat)]
     @ only_if (wi_Messages d \<noteq> None)
         [(''GET'', [Lit ''chats'', Wild ''chat_id'', Lit ''messages''], EMessages),
          (''POST'', [Lit ''chats'', Wild ''chat_id'', Lit ''messages''], ECreateMessage),
          (''GET'', [Lit ''messages'', Wild ''message_id''], EMessage),
          (''PATCH'', [Lit ''messages'', Wild ''message_id''], EPatchMessage),
          (''DELETE'', [Lit ''messages'', Wild ''message_id''], EDeleteMessage),
          (''POST'', [Lit ''messages'', Wild ''message_id'', Lit ''read''], EMarkRead)]
     @ only_if (wi_WSTicket d \<noteq> None) [(''POST'', [Lit ''ws'', Lit ''ticket''], EWSTicket)]
     @ only_if (wi_WS d \<noteq> None) [(''GET'', [Lit ''ws'', Lit ''connect''], EWSConnect)]"

section \<open>Application\<close>

definition kafkaWSFanoutConsumerGroup :: "string \<Rightarrow> string go" where
  "kafkaWSFanoutConsumerGroup base0 =
     (let base = TrimSpace base0; base = (if base = '''' then ''goflow-ws-fanout'' else base)
      in call uuid_NewString raise (\<lambda>u. ret (base @ ''-'' @ u)))"

text \<open>The goroutines: the outbox relay, the Kafka consumer and the Redis subscription.\<close>

datatype Task = RunRelay OutboxRelay | RunConsumer KafkaWSConsumer | RunRedisRelay Broadcaster

record 'l App =
  app_Addr :: string
  app_Wiring :: Wiring
  app_Limits :: "'l Limits"
  app_Hub :: bool
  app_Producer :: "Producer option"
  app_Tasks :: "Task list"

text \<open>
  The third-party functions the services call; \<open>li_metrics\<close> are the collector names the Prometheus library
  registers itself.
\<close>

record Libraries =
  li_sha256 :: "string \<Rightarrow> 8 word list"
  li_jwt :: Jwt
  li_bcrypt :: Bcrypt
  li_TimeParse :: "string \<Rightarrow> string \<Rightarrow> time option"
  li_metrics :: "string list"

text \<open>The message service, on which the hub and everything behind it depend.\<close>

definition app_messages :: "Container \<Rightarrow> MessageService option" where
  "app_messages c =
     (if ct_Messages c \<noteq> None \<and> ct_Chats c \<noteq> None \<and> ct_MessagesWriter c \<noteq> None
      then Some \<lparr>ms_writer = True\<rparr> else None)"

definition app_broadcaster :: "Container \<Rightarrow> Broadcaster" where
  "app_broadcaster c = \<lparr>bc_pub = (ct_PubSub c \<noteq> None)\<rparr>"

definition app_presence :: "Container \<Rightarrow> PresenceService option" where
  "app_presence c = (if ct_Presence c \<noteq> None then Some \<lparr>ps_repo = ct_Presence c\<rparr> else None)"

definition app_wiring :: "Libraries \<Rightarrow> Config \<Rightarrow> Container \<Rightarrow> Wiring" where
  "app_wiring lb cfg c =
     \<lparr>wi_Metrics = ct_Metrics c,
      wi_Auth = (if ct_Users c \<noteq> None \<and> ct_Sessions c \<noteq> None
                 then Some \<lparr>as_sha256 = li_sha256 lb, as_jwt = li_jwt lb, as_bcrypt = li_bcrypt lb, as_cfg = cf_JWT cfg\<rparr>
                 else None),
      wi_Users = (if ct_Users c \<noteq> None then Some () else None),
      wi_Chats = (if ct_Users c \<noteq> None \<and> ct_Chats c \<noteq> None then Some () else None),
      wi_Messages = app_messages c,
      wi_WS =
        (case app_messages c of
           None \<Rightarrow> None
         | Some msgs \<Rightarrow>
             if ct_Chats c \<noteq> None \<and> ct_WSTicket c \<noteq> None
             then Some (NewHandler
               \<lparr>wss_msgs = msgs, wss_typing = ct_Typing c, wss_presence = app_presence c, wss_bc = app_broadcaster c\<rparr>
               (ct_WSTicket c) (wc_AllowedOrigins (cf_WS cfg)) (app_presence c))
             else None),
      wi_WSTicket =
        (if app_messages c \<noteq> None \<and> ct_Chats c \<noteq> None \<and> ct_WSTicket c \<noteq> None
         then Some (NewWSTicketService (ct_WSTicket c) (seconds (wc_TicketTTLSeconds (cf_WS cfg)))) else None)\<rparr>"

definition app_producer :: "Config \<Rightarrow> Producer option" where
  "app_producer cfg =
     (if kc_Enabled (cf_Kafka cfg)
      then NewProducer (splitBrokers (kc_Brokers (cf_Kafka cfg))) (TrimSpace (kc_Topic (cf_Kafka cfg))) else None)"

text \<open>The tasks around the outbox: the relay, and the consumer if there is a producer.\<close>

definition outbox_tasks :: "Config \<Rightarrow> Task list go" where
  "outbox_tasks cfg =
     (let k = cf_Kafka cfg; relay = RunRelay (app_relay (kc_Enabled k) (kc_Brokers k) (kc_Topic k))
      in if kc_Enabled k \<and> app_producer cfg \<noteq> None
         then call (kafkaWSFanoutConsumerGroup (kc_ConsumerGroup k)) raise (\<lambda>g.
              ret [relay, RunConsumer \<lparr>kw_Brokers = splitBrokers (kc_Brokers k), kw_Topic = TrimSpace (kc_Topic k),
                                      kw_GroupID = g, kw_BC = True\<rparr>])
         else ret [relay])"

definition App_New :: "Libraries \<Rightarrow> Container option \<Rightarrow> 'l App go" where
  "App_New lb co =
     (case co of
        None \<Rightarrow> raise (ErrText ''app: invalid container'')
      | Some c \<Rightarrow>
          (case (ct_Config c, ct_Logger c) of
             (Some cfg, Some _) \<Rightarrow>
               (let live = (app_messages c \<noteq> None \<and> ct_Chats c \<noteq> None); outbox = (live \<and> ct_Outbox c \<noteq> None)
                in call (if live then (\<lambda>w. (Inr (), w\<lparr>hub := NewHub (ct_Metrics c \<noteq> None)\<rparr>)) else ret ()) raise (\<lambda>_.
                   call (if outbox then outbox_tasks cfg else ret []) raise (\<lambda>tasks.
                   ret \<lparr>app_Addr = CHR '':'' # ap_Port (cf_App cfg),
                        app_Wiring = app_wiring lb cfg c,
                        app_Limits = app_limits cfg,
                        app_Hub = live,
                        app_Producer = (if outbox then app_producer cfg else None),
                        app_Tasks = tasks @ only_if (live \<and> ct_PubSub c \<noteq> None) [RunRedisRelay (app_broadcaster c)]\<rparr>)))
           | _ \<Rightarrow> raise (ErrText ''app: invalid container'')))"

section \<open>Running and shutting down\<close>

text \<open>
  What happens around \<^verbatim>\<open>(*App).Run\<close>: whether the signal or the end of \<^verbatim>\<open>ListenAndServe\<close> comes first, after how many
  nanoseconds the cancelled workers have returned, the writer of the Kafka library is closed and the open requests are
  finished (\<open>None\<close>: never), the error of closing the listeners, and what \<^verbatim>\<open>ListenAndServe\<close> returns once the server is shut down.
\<close>

datatype FirstEvent = Signalled | ServerStopped "err option"

record RunEnv =
  re_First :: FirstEvent
  re_Workers :: "nat option"
  re_Close :: "nat option"
  re_Drained :: "nat option"
  re_Listeners :: "err option"
  re_ListenEnd :: "err option"

text \<open>
  The other goroutines go on while \<^verbatim>\<open>Run\<close> waits: before the signal, while the workers stop and the producer is closed, and while the
  server is shut down.
\<close>

datatype Phase = Serving | Stopping | Draining

definition ErrServerClosed :: err where "ErrServerClosed = ErrText ''http: Server closed''"

text \<open>What the goroutine of the server sends on \<^verbatim>\<open>errCh\<close>.\<close>

definition serve_result :: "err option \<Rightarrow> err + unit" where
  "serve_result e =
     (case e of Some x \<Rightarrow> if errors_Is x ErrServerClosed then Inr () else Inl x | None \<Rightarrow> Inr ())"

text \<open>Waiting for something for at most \<open>limit\<close>: whether it came, and how long the wait was.\<close>

definition wait_for :: "int \<Rightarrow> nat option \<Rightarrow> bool \<times> int" where
  "wait_for limit t = (case t of Some n \<Rightarrow> if int n \<le> limit then (True, int n) else (False, limit) | None \<Rightarrow> (False, limit))"

text \<open>\<^verbatim>\<open>http.Server.Shutdown\<close> under a deadline.\<close>

definition http_Shutdown :: "int \<Rightarrow> RunEnv \<Rightarrow> (err + unit) \<times> int" where
  "http_Shutdown limit re =
     (case wait_for limit (re_Drained re) of
        (True, d) \<Rightarrow> (case re_Listeners re of None \<Rightarrow> (Inr (), d) | Some e \<Rightarrow> (Inl e, d))
      | (False, d) \<Rightarrow> (Inl (ErrText ''context deadline exceeded''), d))"

datatype RunAction = CancelWorkers | WaitWorkers bool | CloseProducer | CloseConnections | ShutdownHTTP

text \<open>\<^verbatim>\<open>(*Producer).Close\<close>: how long it takes, \<open>None\<close> if it does not return.\<close>

definition Producer_Close :: "Producer option \<Rightarrow> nat option \<Rightarrow> nat option" where
  "Producer_Close p closing = (case p of None \<Rightarrow> Some 0 | Some _ \<Rightarrow> closing)"

text \<open>
  \<^verbatim>\<open>Run\<close>: what it returns, \<open>None\<close> if it does not return.  \<open>during\<close> is what the other goroutines do to the world in each phase; the
  time that passes is that of the waits.
\<close>

definition App_Run ::
  "'l App \<Rightarrow> RunEnv \<Rightarrow> (Phase \<Rightarrow> World \<Rightarrow> World) \<Rightarrow> World \<Rightarrow> (err + unit) option \<times> RunAction list \<times> World" where
  "App_Run a re during w0 =
     (let w = during Serving w0 in
      case re_First re of
        ServerStopped e \<Rightarrow> (Some (serve_result e), [], w)
      | Signalled \<Rightarrow>
          (let (finished, d) = wait_for (12 * Second) (re_Workers re);
               w1 = during Stopping w;
               acts = [CancelWorkers, WaitWorkers finished] @ only_if (app_Producer a \<noteq> None) [CloseProducer]
           in case (if app_Producer a \<noteq> None then Producer_Close (app_Producer a) (re_Close re) else Some 0) of
                None \<Rightarrow> (None, acts, w1\<lparr>clock := clock w + d\<rparr>)
              | Some n \<Rightarrow>
                  (let w2 = w1\<lparr>clock := clock w + d + int n\<rparr>;
                       w3 = (if app_Hub a then w2\<lparr>hub := CloseAll (hub w2)\<rparr> else w2);
                       (shut, d2) = http_Shutdown (15 * Second) re;
                       w4 = (during Draining w3)\<lparr>clock := clock w3 + d2\<rparr>;
                       acts = acts @ only_if (app_Hub a) [CloseConnections] @ [ShutdownHTTP]
                   in case shut of
                        Inl e \<Rightarrow> (Some (Inl (ErrText (''http shutdown: '' @ error_text e))), acts, w4)
                      | Inr _ \<Rightarrow> (Some (serve_result (re_ListenEnd re)), acts, w4))))"

section \<open>The main function\<close>

record Environment =
  ev_env :: environment
  ev_readFile :: "string \<Rightarrow> file_read"
  ev_yaml :: "string \<Rightarrow> Config \<Rightarrow> err + Config"
  ev_pgx :: Pgx
  ev_fs :: EmbedFS
  ev_ddl :: ddl_semantics
  ev_libs :: Libraries

text \<open>\<^verbatim>\<open>main\<close> up to the call of \<^verbatim>\<open>Run\<close>: the application, or the exit code (2 for a panic).\<close>

definition start :: "Environment \<Rightarrow> World \<Rightarrow> (nat + 'l App) \<times> World" where
  "start ev w =
     (case Load (ev_env ev) (ev_readFile ev) (ev_yaml ev) of
        Inl _ \<Rightarrow> (Inl 1, w)
      | Inr cfg \<Rightarrow>
          (case NewPool (ev_pgx ev) (pc_DSN (cf_Postgres cfg)) of
             Inl _ \<Rightarrow> (Inl 1, w)
           | Inr pool \<Rightarrow>
               (case (if rc_RunMigrationsOnStartup (cf_Runtime cfg) then Up (ev_fs ev) (ev_ddl ev) (Some pool) else ret ()) w of
                  (Inl _, w1) \<Rightarrow> (Inl 1, w1)
                | (Inr _, w1) \<Rightarrow>
                    (case metrics_New (li_metrics (ev_libs ev)) of
                       None \<Rightarrow> (Inl 2, w1)
                     | Some m \<Rightarrow>
                         (case NewContainer m cfg (Some (logger_New (Some cfg))) (Some pool) w1 of
                            (Inl _, w2) \<Rightarrow> (Inl 1, w2)
                          | (Inr c, w2) \<Rightarrow>
                              (case App_New (ev_libs ev) (Some c) w2 of
                                 (Inl _, w3) \<Rightarrow> (Inl 1, w3)
                               | (Inr a, w3) \<Rightarrow> (Inr a, w3)))))))"

text \<open>
  \<^verbatim>\<open>main\<close>: the exit code, \<open>None\<close> if the process does not end; \<open>serve\<close> is what happens to the world while the application runs.
\<close>

definition main ::
  "Environment \<Rightarrow> RunEnv \<Rightarrow> ('l App \<Rightarrow> Phase \<Rightarrow> World \<Rightarrow> World) \<Rightarrow> World \<Rightarrow> nat option \<times> World" where
  "main ev re serve w =
     (case start ev w of
        (Inl code, w1) \<Rightarrow> (Some code, w1)
      | (Inr a, w1) \<Rightarrow>
          (case App_Run a re (serve a) w1 of
             (None, _, w2) \<Rightarrow> (None, w2)
           | (Some (Inl _), _, w2) \<Rightarrow> (Some 1, w2)
           | (Some (Inr _), _, w2) \<Rightarrow> (Some 0, w2)))"

end
