(* ===== verification/MigrationProps.thy ===== *)
theory MigrationProps
  imports Migration Demo
begin

text \<open>
  What the migration runner guarantees under every schedule of faults, and with other instances of the program that
  migrate at the same time: the scripts take effect in lexical order, each once and together with its stamp, and a run that
  reports success has left none out.
\<close>

section \<open>Invariant and evolution of the schema\<close>

definition stamped :: "Store \<Rightarrow> string list" where
  "stamped s = (case schema_migrations s of None \<Rightarrow> [] | Some rows \<Rightarrow> map fst rows)"

definition script :: "EmbedFS \<Rightarrow> string \<Rightarrow> string" where
  "script fs name = (case fs_ReadFile fs name of Inl _ \<Rightarrow> '''' | Inr body \<Rightarrow> body)"

text \<open>The stamped files are the first ones in order, and exactly their scripts have taken effect.\<close>

definition schema_ok :: "EmbedFS \<Rightarrow> string list \<Rightarrow> Store \<Rightarrow> bool" where
  "schema_ok fs names s = (prefix (stamped s) names \<and> ddl_log s = map (script fs) (stamped s))"

definition schema_grows :: "Store \<Rightarrow> Store \<Rightarrow> bool" where
  "schema_grows s t =
     (prefix (stamped s) (stamped t) \<and> (schema_migrations s = None \<or> schema_migrations t \<noteq> None))"

lemma stamped_simps [simp]:
  "schema_migrations s = None \<Longrightarrow> stamped s = []"
  "schema_migrations s = Some rows \<Longrightarrow> stamped s = map fst rows"
  "stamped (s\<lparr>outbox_seq := k\<rparr>) = stamped s" "stamped (s\<lparr>ddl_log := d\<rparr>) = stamped s"
  by (simp_all add: stamped_def)

lemma stamped_mono: "schema_grows s t \<Longrightarrow> set (stamped s) \<subseteq> set (stamped t)"
  by (simp add: schema_grows_def set_mono_prefix)

interpretation schema: store_evolution "schema_ok fs names" schema_grows for fs names
  by unfold_locales (auto simp: schema_ok_def schema_grows_def)

section \<open>Statements\<close>

lemma bootstrap_keeps: "stmt_keeps (schema_ok fs names) schema_grows bootstrap_stmt"
  by (rule stmt_keepsI)
    (auto simp: bootstrap_stmt_def schema_ok_def schema_grows_def stamped_def split: option.splits)

lemma check_version_reads [simp]: "reads_only (check_version_stmt name)"
  by (simp add: reads_only_def check_version_stmt_def split: option.split)

lemma check_version_keeps: "keeps (holds (schema_ok fs names) schema_grows s0) (roundtrip (check_version_stmt name))"
  by (simp add: schema.keeps_roundtrip schema.reads_only_keeps)

lemma prefix_all:
  assumes "prefix xs ys" and "set ys \<subseteq> set xs" and "distinct ys"
  shows "xs = ys"
proof -
  have "length ys \<le> length xs"
    using card_mono [OF _ assms(2)] assms(3) card_length [of xs] by (auto simp: distinct_card)
  with assms(1) show ?thesis by (auto simp: prefix_def)
qed

lemma prefix_next:
  assumes "prefix xs (ys @ z # zs)" and "set ys \<subseteq> set xs" and "z \<notin> set xs" and "distinct (ys @ z # zs)"
  shows "xs = ys"
  by (rule prefix_all) (use assms in \<open>auto simp: prefix_append prefix_Cons\<close>)

lemma migration_body_net [simp]: "net (snd (migration_body ddl name body t w)) = net w"
  by (simp add: migration_body_def call_eq split: sum.split)

text \<open>A transaction that finishes has run the script and stamped the file, which was not stamped before.\<close>

lemma migration_body_done:
  assumes "migration_body ddl name body t w = (Inr (), w')"
  shows "schema_migrations (store w) \<noteq> None \<and> name \<notin> set (stamped (store w))
    \<and> stamped (store w') = stamped (store w) @ [name] \<and> schema_migrations (store w') \<noteq> None
    \<and> ddl_log (store w') = ddl_log (store w) @ [body]"
proof -
  from assms obtain w1 where script: "tx_stmt t (script_stmt ddl body) w = (Inr (), w1)"
    and stamp: "tx_stmt t (stamp_stmt name) w1 = (Inr (), w')"
    unfolding migration_body_def by (auto elim!: call_Inr_cases)
  have "script_stmt ddl body t (t_uuid (next_trip w)) (store w) = (Inr (), store w1)"
    using script by (rule tx_stmt_Inr_cases) simp
  then have w1: "store w1 = (store w)\<lparr>ddl_log := ddl_log (store w) @ [body]\<rparr>"
    by (auto simp: script_stmt_def split: option.splits)
  have "stamp_stmt name t (t_uuid (next_trip w1)) (store w1) = (Inr (), store w')"
    using stamp by (rule tx_stmt_Inr_cases) simp
  then obtain rows where "schema_migrations (store w) = Some rows" and "name \<notin> set (map fst rows)"
    and "store w' = (store w1)\<lparr>schema_migrations := Some (rows @ [(name, t)])\<rparr>"
    by (auto simp: stamp_stmt_def w1 split: option.splits if_splits)
  then show ?thesis by (simp add: w1)
qed

section \<open>One file\<close>

lemma apply_migration_transaction:
  "snd (apply_migration ddl name body w) = snd (transaction (migration_body ddl name body) w)"
  "fst (apply_migration ddl name body w) = Inr () \<longleftrightarrow> fst (transaction (migration_body ddl name body) w) = Inr ()"
  by (auto simp: apply_migration_def transaction_def split: prod.splits sum.splits)

lemma apply_migration_keeps:
  assumes "fs_ReadFile fs name = Inr body" and "distinct (ys @ name # zs)" and "set ys \<subseteq> set (stamped s1)"
  shows "keeps (holds (schema_ok fs (ys @ name # zs)) schema_grows s1) (apply_migration ddl name body)"
proof (rule keepsI, subst apply_migration_transaction, rule keepsD, rule schema.keeps_transaction)
  fix t w x w'
  assume w: "holds (schema_ok fs (ys @ name # zs)) schema_grows s1 w"
    and "migration_body ddl name body t w = (Inr x, w')"
  then have eff: "name \<notin> set (stamped (store w))" "stamped (store w') = stamped (store w) @ [name]"
    "schema_migrations (store w') \<noteq> None" "ddl_log (store w') = ddl_log (store w) @ [body]"
    using migration_body_done [of ddl name body t w w'] by simp_all
  have "prefix (stamped (store w)) (ys @ name # zs)" and "schema_grows s1 (store w)"
    using w by (simp_all add: holds_def schema_ok_def)
  moreover from this have "set ys \<subseteq> set (stamped (store w))" using assms(3) stamped_mono by blast
  ultimately have "stamped (store w) = ys"
    using prefix_next eff(1) assms(2) by metis
  then show "schema_ok fs (ys @ name # zs) (store w') \<and> schema_grows (store w) (store w')"
    using w eff assms(1) by (simp add: holds_def schema_ok_def schema_grows_def script_def)
qed simp_all

lemma apply_migration_stamps:
  assumes "apply_migration ddl name body w = (Inr (), w')"
  shows "name \<in> set (stamped (store w'))"
proof -
  obtain r where "transaction (migration_body ddl name body) w = (r, w')" and "r = Inr ()"
    using apply_migration_transaction [of ddl name body w] assms
    by (cases "transaction (migration_body ddl name body) w") simp
  then show ?thesis
    by (cases rule: transaction_cases) (auto dest: migration_body_done)
qed

section \<open>The run\<close>

lemma check_version_found:
  assumes "roundtrip (check_version_stmt name) w = (Inr x, w')"
  shows "name \<in> set (stamped (store w'))"
  using assms by (auto elim!: roundtrip_Inr_cases simp: check_version_stmt_def split: option.splits if_splits)

text \<open>The loop, once the files \<open>ys\<close> have been stamped.\<close>

lemma migrate_files_keeps:
  assumes "distinct (ys @ zs)" and "set ys \<subseteq> set (stamped s1)"
  shows "keeps (holds (schema_ok fs (ys @ zs)) schema_grows s1) (migrate_files fs ddl zs)"
  using assms
proof (induction zs arbitrary: ys s1)
  case Nil
  show ?case by (simp add: keeps_ret)
next
  case (Cons z zs)
  let ?J = "schema_ok fs (ys @ z # zs)"
  have rest: "keeps (holds ?J schema_grows s2) (migrate_files fs ddl zs)"
    if "schema_grows s1 s2" and "z \<in> set (stamped s2)" for s2
    using Cons.IH [of "ys @ [z]" s2] Cons.prems stamped_mono [OF that(1)] that(2) by simp
  have absent: "keeps (holds ?J schema_grows s1)
      (call (lift (fs_ReadFile fs z)) (\<lambda>e. raise (migration_error (''read '' @ z) e)) (\<lambda>body.
       call (apply_migration ddl z body) raise (\<lambda>_. migrate_files fs ddl zs)))"
  proof (cases "fs_ReadFile fs z")
    case (Inl e)
    then show ?thesis by (simp add: keeps_def)
  next
    case (Inr body)
    have "keeps (holds ?J schema_grows s1) (call (apply_migration ddl z body) raise (\<lambda>_. migrate_files fs ddl zs))"
      by (rule schema.keeps_call_learn [where K = "\<lambda>_ s. z \<in> set (stamped s)"])
        (use apply_migration_keeps [OF Inr] Cons.prems apply_migration_stamps rest in \<open>auto intro: keeps_raise\<close>)
    with Inr show ?thesis by (simp add: keeps_def)
  qed
  show ?case
    unfolding migrate_files.simps
    by (rule schema.keeps_call_learn [where K = "\<lambda>_ s. z \<in> set (stamped s)"])
      (use check_version_keeps check_version_found rest absent in \<open>auto intro: keeps_raise\<close>)
qed

lemma migrate_files_step:
  assumes "migrate_files fs ddl (z # zs) w = (Inr (), w')"
    and "distinct (ys @ z # zs)" and "set ys \<subseteq> set (stamped (store w))"
    and "holds (schema_ok fs (ys @ z # zs)) schema_grows (store w) w"
  obtains w1 where "migrate_files fs ddl zs w1 = (Inr (), w')" and "z \<in> set (stamped (store w1))"
    and "holds (schema_ok fs (ys @ z # zs)) schema_grows (store w) w1"
proof -
  let ?H = "holds (schema_ok fs (ys @ z # zs)) schema_grows (store w)"
  obtain r w0 where check: "roundtrip (check_version_stmt z) w = (r, w0)" by fastforce
  have w0: "?H w0" using keepsD [OF check_version_keeps assms(4)] check by (metis snd_conv)
  show thesis
  proof (cases r)
    case (Inr x)
    then show thesis using that [of w0] assms(1) check check_version_found [of z w x w0] w0 by simp
  next
    case (Inl e)
    with assms(1) check obtain body w1 where body: "fs_ReadFile fs z = Inr body"
      and ap: "apply_migration ddl z body w0 = (Inr (), w1)" and rest: "migrate_files fs ddl zs w1 = (Inr (), w')"
      by (cases "fs_ReadFile fs z") (auto split: if_splits elim!: call_Inr_cases)
    have "?H w1" using keepsD [OF apply_migration_keeps [OF body assms(2,3)] w0] ap by (metis snd_conv)
    then show thesis using that rest apply_migration_stamps [OF ap] by blast
  qed
qed

lemma migrate_files_complete:
  assumes "migrate_files fs ddl zs w = (Inr (), w')"
    and "distinct (ys @ zs)" and "set ys \<subseteq> set (stamped (store w))"
    and "holds (schema_ok fs (ys @ zs)) schema_grows (store w) w"
  shows "set zs \<subseteq> set (stamped (store w'))"
  using assms
proof (induction zs arbitrary: ys w)
  case (Cons z zs)
  from Cons.prems obtain w1 where w1: "migrate_files fs ddl zs w1 = (Inr (), w')" "z \<in> set (stamped (store w1))"
    "holds (schema_ok fs (ys @ z # zs)) schema_grows (store w) w1"
    by (rule migrate_files_step)
  have h1: "holds (schema_ok fs ((ys @ [z]) @ zs)) schema_grows (store w1) w1"
    using schema.holds_restart [OF w1(3)] by simp
  have "schema_grows (store w) (store w1)" using w1(3) by (simp add: holds_def)
  then have ys: "set (ys @ [z]) \<subseteq> set (stamped (store w1))"
    using stamped_mono Cons.prems(3) w1(2) by fastforce
  have "holds (schema_ok fs ((ys @ [z]) @ zs)) schema_grows (store w1) w'"
    using keepsD [OF migrate_files_keeps h1] ys Cons.prems(2) w1(1) by (metis append.assoc append_Cons append_Nil snd_conv)
  then have "z \<in> set (stamped (store w'))" using stamped_mono w1(2) by (fastforce simp: holds_def)
  then show ?case using Cons.IH [OF w1(1) _ ys h1] Cons.prems(2) by simp
qed simp

lemma distinct_sql_names: "distinct (map fst entries) \<Longrightarrow> distinct (sql_names entries)"
  by (simp add: sql_names_def distinct_map_filter)

lemma Up_keeps:
  assumes "fs_ReadDir fs = Inr entries" and "distinct (map fst entries)"
    and "schema_ok fs (sql_names entries) (store w)" and "rely (schema_ok fs (sql_names entries)) schema_grows (net w)"
  shows "holds (schema_ok fs (sql_names entries)) schema_grows (store w) (snd (Up fs ddl (Some ()) w))
    \<and> (fst (Up fs ddl (Some ()) w) = Inr () \<longrightarrow> stamped (store (snd (Up fs ddl (Some ()) w))) = sql_names entries)"
proof -
  let ?n = "sql_names entries" let ?H = "holds (schema_ok fs (sql_names entries)) schema_grows"
  obtain r w' where up: "Up fs ddl (Some ()) w = (r, w')" by fastforce
  have d: "distinct ([] @ ?n)" using distinct_sql_names [OF assms(2)] by simp
  have w: "?H (store w) w" using assms(3,4) schema.G_refl by (simp add: holds_def)
  obtain rb w1 where boot: "roundtrip bootstrap_stmt w = (rb, w1)" by fastforce
  have w1: "?H (store w) w1"
    using keepsD [OF schema.keeps_roundtrip [OF bootstrap_keeps] w] boot by (metis snd_conv)
  have run: "r = Inr () \<Longrightarrow> migrate_files fs ddl ?n w1 = (r, w')" "w' = w1 \<or> migrate_files fs ddl ?n w1 = (r, w')"
    using assms(1) up boot by (cases rb; auto simp: Up_def)+
  have "?H (store w) (snd (migrate_files fs ddl ?n w1))"
    using keepsD [OF migrate_files_keeps [OF d, of "store w" fs ddl]] w1 by simp
  with run(2) w1 have "?H (store w) w'" by auto
  moreover have "set ?n \<subseteq> set (stamped (store w'))" if "r = Inr ()"
    using migrate_files_complete [of fs ddl ?n w1 w' "[]"] run(1) [OF that] that d schema.holds_restart [OF w1] by simp
  ultimately show ?thesis using up prefix_all [of "stamped (store w')" ?n] d
    by (simp add: holds_def schema_ok_def)
qed

section \<open>A calm network\<close>

lemma apply_migration_calm:
  assumes "calm w" and "schema_migrations (store w) = Some rows" and "name \<notin> set (map fst rows)"
    and "ddl (ddl_log (store w)) body = None"
  obtains w' t where "apply_migration ddl name body w = (Inr (), w')" and "calm w'"
    and "store w' = (store w)\<lparr>ddl_log := ddl_log (store w) @ [body], schema_migrations := Some (rows @ [(name, t)])\<rparr>"
proof -
  let ?w1 = "advance w" let ?t = "clock ?w1"
  let ?w2 = "(advance ?w1)\<lparr>store := (store w)\<lparr>ddl_log := ddl_log (store w) @ [body]\<rparr>\<rparr>"
  let ?w3 = "(advance ?w2)\<lparr>store := (store ?w2)\<lparr>schema_migrations := Some (rows @ [(name, ?t)])\<rparr>\<rparr>"
  have script: "tx_stmt ?t (script_stmt ddl body) ?w1 = (Inr (), ?w2)"
    using assms(1,4) by (simp add: tx_stmt_calm script_stmt_def)
  have stamp: "tx_stmt ?t (stamp_stmt name) ?w2 = (Inr (), ?w3)"
    using assms(1,2,3) by (simp add: tx_stmt_calm stamp_stmt_def)
  have "migration_body ddl name body ?t ?w1 = (Inr (), ?w3)"
    using script stamp by (simp add: migration_body_def)
  moreover have "tx_begin w = (Inr (), ?w1)" using assms(1) by (simp add: tx_begin_def roundtrip_calm)
  moreover have "commit (store ?w1) () ?w3 = (Inr (), advance ?w3)"
    using assms(1) by (simp add: commit_def calm_def)
  ultimately have "apply_migration ddl name body w = (Inr (), advance ?w3)"
    by (simp add: apply_migration_def)
  then show thesis by (rule that) (use assms(1) in simp_all)
qed

text \<open>The scripts succeed when they are run in order.\<close>

definition scripts_run :: "EmbedFS \<Rightarrow> ddl_semantics \<Rightarrow> string list \<Rightarrow> bool" where
  "scripts_run fs ddl names =
     list_all (\<lambda>i. \<not> isl (fs_ReadFile fs (names ! i)) \<and>
        ddl (map (script fs) (take i names)) (script fs (names ! i)) = None) [0..<length names]"

lemma migrate_files_calm:
  assumes "calm w" and "schema_ok fs (ys @ zs) (store w)" and "schema_migrations (store w) \<noteq> None"
    and "distinct (ys @ zs)" and "set ys \<subseteq> set (stamped (store w))" and "scripts_run fs ddl (ys @ zs)"
  shows "\<exists>w'. migrate_files fs ddl zs w = (Inr (), w') \<and> calm w' \<and> schema_migrations (store w') \<noteq> None
    \<and> stamped (store w') = ys @ zs \<and> ddl_log (store w') = map (script fs) (ys @ zs)"
  using assms
proof (induction zs arbitrary: ys w)
  case Nil
  then have "stamped (store w) = ys"
    using prefix_all [of "stamped (store w)" ys] by (simp add: schema_ok_def)
  with Nil show ?case by (simp add: schema_ok_def)
next
  case (Cons z zs)
  obtain rows where rows: "schema_migrations (store w) = Some rows" using Cons.prems(3) by blast
  show ?case
  proof (cases "z \<in> set (stamped (store w))")
    case True
    then have "roundtrip (check_version_stmt z) w = (Inr 1, advance w)"
      using Cons.prems(1) rows by (simp add: roundtrip_calm check_version_stmt_def)
    then show ?thesis using Cons.IH [of "advance w" "ys @ [z]"] Cons.prems True by simp
  next
    case False
    have check: "roundtrip (check_version_stmt z) w = (Inl ErrNoRows, advance w)"
      using Cons.prems(1) rows False by (simp add: roundtrip_calm check_version_stmt_def)
    have at: "stamped (store w) = ys"
      by (rule prefix_next) (use Cons.prems False in \<open>auto simp: schema_ok_def\<close>)
    have "\<not> isl (fs_ReadFile fs z) \<and> ddl (map (script fs) ys) (script fs z) = None"
      using Cons.prems(6) unfolding scripts_run_def list_all_iff by (auto dest!: bspec [where x = "length ys"])
    then obtain body where body: "fs_ReadFile fs z = Inr body" "script fs z = body"
      and ok: "ddl (ddl_log (store (advance w))) body = None"
      using Cons.prems(2) at by (cases "fs_ReadFile fs z") (auto simp: schema_ok_def script_def)
    obtain w1 t where ap: "apply_migration ddl z body (advance w) = (Inr (), w1)" "calm w1"
      and s1: "store w1 = (store w)\<lparr>ddl_log := ddl_log (store w) @ [body], schema_migrations := Some (rows @ [(z, t)])\<rparr>"
      using apply_migration_calm [of "advance w" rows z ddl body] Cons.prems(1) rows False ok by auto
    have "stamped (store w1) = ys @ [z]" using at rows s1 by simp
    moreover from this have "schema_ok fs ((ys @ [z]) @ zs) (store w1)"
      using Cons.prems(2) at s1 body(2) by (simp add: schema_ok_def)
    ultimately show ?thesis using Cons.IH [of w1 "ys @ [z]"] Cons.prems(4,6) ap s1 check body(1) by simp
  qed
qed

lemma migrate_files_idle:
  assumes "calm w" and "schema_migrations (store w) = Some rows" and "set zs \<subseteq> set (map fst rows)"
  shows "\<exists>w'. migrate_files fs ddl zs w = (Inr (), w') \<and> store w' = store w"
  using assms
proof (induction zs arbitrary: w)
  case (Cons z zs)
  have "roundtrip (check_version_stmt z) w = (Inr 1, advance w)"
    using Cons.prems by (auto simp: roundtrip_calm check_version_stmt_def)
  then show ?case using Cons.IH [of "advance w"] Cons.prems by simp
qed simp

lemma Up_calm:
  assumes "calm w" and "fs_ReadDir fs = Inr entries" and "distinct (map fst entries)"
    and "schema_ok fs (sql_names entries) (store w)" and "scripts_run fs ddl (sql_names entries)"
  obtains w' rows where "Up fs ddl (Some ()) w = (Inr (), w')" and "calm w'" and "schema_migrations (store w') = Some rows"
    and "map fst rows = sql_names entries" and "ddl_log (store w') = map (script fs) (sql_names entries)"
proof -
  let ?w1 = "snd (roundtrip bootstrap_stmt w)"
  have boot: "roundtrip bootstrap_stmt w = (Inr (), ?w1)"
    using assms(1) by (simp add: roundtrip_calm bootstrap_stmt_def)
  have w1: "calm ?w1" "schema_migrations (store ?w1) \<noteq> None" "schema_ok fs ([] @ sql_names entries) (store ?w1)"
    using assms(1,4) by (auto simp: roundtrip_calm bootstrap_stmt_def schema_ok_def stamped_def split: option.splits)
  obtain w' where "migrate_files fs ddl (sql_names entries) ?w1 = (Inr (), w')" "calm w'"
    "schema_migrations (store w') \<noteq> None" "stamped (store w') = sql_names entries"
    "ddl_log (store w') = map (script fs) (sql_names entries)"
    using migrate_files_calm [OF w1(1,3,2), of ddl] distinct_sql_names [OF assms(3)] assms(5) by auto
  then show thesis using that boot assms(2) by (auto simp: Up_def)
qed

lemma Up_idle:
  assumes "calm w" and "fs_ReadDir fs = Inr entries" and "schema_migrations (store w) = Some rows"
    and "set (sql_names entries) \<subseteq> set (map fst rows)"
  shows "\<exists>w'. Up fs ddl (Some ()) w = (Inr (), w') \<and> store w' = store w"
proof -
  have "roundtrip bootstrap_stmt w = (Inr (), advance w)"
    using assms(1,3) by (simp add: roundtrip_calm bootstrap_stmt_def)
  moreover obtain w' where "migrate_files fs ddl (sql_names entries) (advance w) = (Inr (), w')" "store w' = store w"
    using migrate_files_idle [of "advance w" rows "sql_names entries" fs ddl] assms by auto
  ultimately show ?thesis using assms(2) by (simp add: Up_def)
qed

section \<open>A demonstration\<close>

text \<open>The files of the repository, with the names of their tables for contents, and a schema on which every script succeeds once.\<close>

definition demo_entries :: "(string \<times> bool) list" where
  "demo_entries =
     [(''005_outbox_events.sql'', False), (''001_init_users.sql'', False), (''notes'', True),
      (''002_init_chats.sql'', False), (''004_init_sessions.sql'', False), (''003_init_messages.sql'', False)]"

definition demo_fs :: EmbedFS where
  "demo_fs =
     \<lparr>fs_ReadDir = Inr demo_entries,
      fs_ReadFile = (\<lambda>name. Inr (drop 4 name))\<rparr>"

definition demo_ddl :: ddl_semantics where
  "demo_ddl applied body = (if body \<in> set applied then Some (PgError ''42P07'') else None)"

definition demo_files :: "string list" where
  "demo_files =
     [''001_init_users.sql'', ''002_init_chats.sql'', ''003_init_messages.sql'', ''004_init_sessions.sql'',
      ''005_outbox_events.sql'']"

lemma demo_fs_entries:
  "sql_names demo_entries = demo_files" "distinct (map fst demo_entries)" "fs_ReadDir demo_fs = Inr demo_entries"
  by code_simp+

lemma demo_schema_ok: "schema_ok demo_fs names demo_store"
  by (simp add: schema_ok_def demo_store_def stamped_def)

lemma demo_schema_rely: "rely (schema_ok demo_fs names) schema_grows (net (demo_world f))"
  using demo_uuid schema.G_refl by (simp add: rely_def) (simp add: demo_trip_def)

lemma demo_scripts_run: "scripts_run demo_fs demo_ddl demo_files"
  by code_simp

lemmas demo_migration =
  demo_fs_entries demo_schema_ok demo_schema_rely demo_scripts_run

section \<open>The properties\<close>

text \<open>
  C15: the migrations are applied in order, each exactly once, whatever fails.  For every schedule of faults and
  with other instances that migrate at the same time, the stamped files are at the end an initial part of the
  \<^verbatim>\<open>.sql\<close> files in lexical order, exactly their scripts have taken effect, in this order and each once, and no stamp of before is lost; if
  \<^verbatim>\<open>Up\<close> reports success, all files are stamped.
\<close>

theorem migrations_exactly_once:
  assumes "fs_ReadDir fs = Inr entries" and "distinct (map fst entries)"
    and "schema_ok fs (sql_names entries) (store w)" and "rely (schema_ok fs (sql_names entries)) schema_grows (net w)"
    and "Up fs ddl (Some ()) w = (r, w')"
  shows "prefix (stamped (store w')) (sql_names entries) \<and> ddl_log (store w') = map (script fs) (stamped (store w'))
    \<and> prefix (stamped (store w)) (stamped (store w'))
    \<and> (r = Inr () \<longrightarrow> stamped (store w') = sql_names entries)"
  using Up_keeps [OF assms(1-4), of ddl] assms(5) by (simp add: holds_def schema_ok_def schema_grows_def)

theorem migrations_exactly_once_witness:
  "stamped (store (snd (Up demo_fs demo_ddl (Some ()) demo))) = demo_files"
proof -
  obtain w' where up: "Up demo_fs demo_ddl (Some ()) demo = (Inr (), w')"
    by (rule Up_calm [of demo demo_fs "demo_entries" demo_ddl]) (use demo_migration in \<open>simp_all add: calm_def\<close>)
  show ?thesis
    using migrations_exactly_once [OF _ _ _ _ up, of demo_entries] demo_migration up by simp
qed

text \<open>
  C16: migrating makes progress and is idempotent.  On a calm network, with files that can be read and scripts that succeed in order, \<^verbatim>\<open>Up\<close>
  succeeds from any point where an earlier run stopped, all scripts have then taken effect in order, and running it again
  changes nothing.
\<close>

theorem migrations_idempotent:
  assumes "calm w" and "fs_ReadDir fs = Inr entries" and "distinct (map fst entries)"
    and "schema_ok fs (sql_names entries) (store w)" and "scripts_run fs ddl (sql_names entries)"
  shows "\<exists>w1 w2. Up fs ddl (Some ()) w = (Inr (), w1) \<and> stamped (store w1) = sql_names entries
    \<and> ddl_log (store w1) = map (script fs) (sql_names entries)
    \<and> Up fs ddl (Some ()) w1 = (Inr (), w2) \<and> store w2 = store w1"
proof -
  obtain w1 rows where up: "Up fs ddl (Some ()) w = (Inr (), w1)" and c: "calm w1"
    and r: "schema_migrations (store w1) = Some rows" "map fst rows = sql_names entries"
    and l: "ddl_log (store w1) = map (script fs) (sql_names entries)"
    using assms by (rule Up_calm)
  show ?thesis using up Up_idle [OF c assms(2) r(1), of ddl] r l by simp
qed

theorem migrations_idempotent_witness:
  "\<exists>w1 w2. Up demo_fs demo_ddl (Some ()) demo = (Inr (), w1) \<and> ddl_log (store w1) = map (drop 4) demo_files
    \<and> Up demo_fs demo_ddl (Some ()) w1 = (Inr (), w2) \<and> store w2 = store w1"
proof -
  have "map (script demo_fs) demo_files = map (drop 4) demo_files" by (simp add: script_def demo_fs_def)
  then show ?thesis
    using migrations_idempotent [of demo demo_fs demo_entries demo_ddl] demo_migration by (auto simp: calm_def)
qed

end
