(* ===== verification/AuthProps.thy ===== *)
theory AuthProps
  imports System
begin

text \<open>
  What authentication guarantees: refresh tokens are good for one use, the rotation of a session is
  atomic, tokens are issued to those who know the password, and only tokens signed with the server's
  secret are accepted.
\<close>

section \<open>Spent tokens\<close>

definition token_spent :: "string \<Rightarrow> Store \<Rightarrow> bool" where
  "token_spent h s = (\<exists>r \<in> set (refresh_sessions s). rs_TokenHash r = h \<and> rs_RevokedAt r \<noteq> None)"

lemma spent_later: "token_spent h s \<Longrightarrow> later s t \<Longrightarrow> token_spent h t"
  unfolding token_spent_def later_def grows_def session_step_def by blast

lemma spent_not_live:
  assumes "domain_ok s" and "token_spent h s"
  shows "find (live_session h t) (refresh_sessions s) = None"
proof (rule ccontr)
  assume "find (live_session h t) (refresh_sessions s) \<noteq> None"
  then obtain old where old: "find (live_session h t) (refresh_sessions s) = Some old" by blast
  obtain r where r: "r \<in> set (refresh_sessions s)" "rs_TokenHash r = h" "rs_RevokedAt r \<noteq> None"
    using assms(2) by (auto simp: token_spent_def)
  have "r = old" by (rule live_session_ok(7) [OF assms(1) old r(1,2)])
  then show False using r(3) live_session_ok(4) [OF assms(1) old] by simp
qed

lemma sound_interfere: "sound s0 w \<Longrightarrow> domain_ok (store (interfere w)) \<and> later (store w) (store (interfere w))"
  by (auto simp: holds_def rely_def next_trip_def)

lemma GetByTokenHash_Inr:
  assumes "GetByTokenHash h w = (Inr sess, w')"
  shows "find (live_session h (pg_timestamptz (clock w))) (refresh_sessions (store (interfere w))) = Some sess"
    and "store w' = store (interfere w)"
  using assms
  by (auto simp: GetByTokenHash_def one_row_def elim!: call_cases roundtrip_Inr_cases split: option.splits)

lemma GetByTokenHash_spent:
  assumes "sound s0 w" and "token_spent h (store w)"
  shows "isl (fst (GetByTokenHash h w))"
proof (rule ccontr)
  assume "\<not> isl (fst (GetByTokenHash h w))"
  then obtain sess w' where "GetByTokenHash h w = (Inr sess, w')"
    by (cases "GetByTokenHash h w"; cases "fst (GetByTokenHash h w)") auto
  then have "find (live_session h (pg_timestamptz (clock w))) (refresh_sessions (store (interfere w))) = Some sess"
    by (rule GetByTokenHash_Inr)
  moreover have "domain_ok (store (interfere w))" "token_spent h (store (interfere w))"
    using sound_interfere [OF assms(1)] spent_later [OF assms(2)] by blast+
  ultimately show False using spent_not_live by fastforce
qed

lemma call_isl: "isl (fst (m w)) \<Longrightarrow> (\<And>e w'. isl (fst (h e w'))) \<Longrightarrow> isl (fst (call m h k w))"
  by (cases "m w"; cases "fst (m w)") auto

lemma spent_refused:
  assumes "sound s0 w" and "token_spent (hashRefreshToken (as_sha256 svc) (TrimSpace raw)) (store w)"
  shows "isl (fst (AuthService_Refresh svc raw meta w)) \<and> isl (fst (AuthService_Logout svc raw w))"
  using GetByTokenHash_spent [OF assms]
  by (auto simp: AuthService_Refresh_def AuthService_Logout_def Let_def intro!: call_isl)

section \<open>Rotation\<close>

lemma insert_session_Inr:
  "insert_session_row r s = (Inr x, s') \<Longrightarrow>
     x = r \<and> s' = s\<lparr>refresh_sessions := refresh_sessions s @ [x]\<rparr>
     \<and> rs_TokenHash r \<notin> rs_TokenHash ` set (refresh_sessions s)"
  by (auto simp: insert_session_row_def split: if_splits)

lemma rotate_effect:
  assumes w: "sound s0 w" and tx: "RotateRefresh h new w = (res, w')"
  obtains (kept) e k where "res = Inl e" and "store w' = (store (interfere w))\<lparr>outbox_seq := k\<rparr>"
  | (rotated) old out u where
      "find (live_session h (clock (advance (interfere w)))) (refresh_sessions (store (interfere w))) = Some old"
      "uuid_in (rs_UserID new) = Some u"
      "rs_UserID out = u" "rs_TokenHash out = rs_TokenHash new" "rs_RevokedAt out = None"
      "rs_ExpiresAt out = pg_timestamptz (rs_ExpiresAt new)"
      "store w' = (store (interfere w))\<lparr>refresh_sessions :=
         map (\<lambda>r. if r = old then r\<lparr>rs_RevokedAt := Some (clock (advance (interfere w)))\<rparr> else r)
           (refresh_sessions (store (interfere w))) @ [out]\<rparr>"
      "res = Inr out \<or> (\<exists>e. res = Inl (ErrText e))"
  using tx unfolding RotateRefresh_def
proof (cases rule: transaction_cases)
  case (aborted e k)
  then show ?thesis using kept by blast
next
  case (finished x w2)
  let ?w1 = "advance (interfere w)"
  let ?t = "clock ?w1"
  have s: "domain_ok (store (interfere w))" using sound_interfere [OF w] by blast
  from finished(1) obtain old u i where old: "find (live_session h ?t) (refresh_sessions (store ?w1)) = Some old"
    and u: "uuid_in (rs_UserID new) = Some u" and i: "uuid_in (rs_ID old) = Some i"
    and ins: "insert_session_row (new\<lparr>rs_ID := t_uuid (net ?w1 (Suc (Suc (trips ?w1)))), rs_UserID := u,
           rs_ExpiresAt := pg_timestamptz (rs_ExpiresAt new), rs_CreatedAt := ?t, rs_RevokedAt := None\<rparr>)
         (SessionGuarantee.rotated i ?t (store ?w1)) = (Inr x, store w2)"
    by (rule rotate_body_effect)
  have old': "find (live_session h ?t) (refresh_sessions (store (interfere w))) = Some old" using old by simp
  have "i = rs_ID old" using i live_session_ok(2) [OF s old'] by simp
  then have "set_revoked (\<lambda>r. rs_ID r = i) ?t r = (if r = old then r\<lparr>rs_RevokedAt := Some ?t\<rparr> else r)"
    if "r \<in> set (refresh_sessions (store (interfere w)))" for r
    using live_session_ok(6) [OF s old' that] by (auto simp: set_revoked_def)
  then have "map (set_revoked (\<lambda>r. rs_ID r = i) ?t) (refresh_sessions (store (interfere w)))
      = map (\<lambda>r. if r = old then r\<lparr>rs_RevokedAt := Some ?t\<rparr> else r) (refresh_sessions (store (interfere w)))"
    by simp
  then have "refresh_sessions (SessionGuarantee.rotated i ?t (store ?w1))
      = map (\<lambda>r. if r = old then r\<lparr>rs_RevokedAt := Some ?t\<rparr> else r) (refresh_sessions (store (interfere w)))"
    by (simp add: SessionGuarantee.rotated_def)
  with insert_session_Inr [OF ins] have "store w2 = (store (interfere w))\<lparr>refresh_sessions :=
         map (\<lambda>r. if r = old then r\<lparr>rs_RevokedAt := Some ?t\<rparr> else r)
           (refresh_sessions (store (interfere w))) @ [x]\<rparr>"
    unfolding SessionGuarantee.rotated_def by simp
  then have s': "store w' = (store (interfere w))\<lparr>refresh_sessions :=
         map (\<lambda>r. if r = old then r\<lparr>rs_RevokedAt := Some ?t\<rparr> else r)
           (refresh_sessions (store (interfere w))) @ [x]\<rparr>"
    using finished(2) by simp
  have "rs_UserID x = u" "rs_TokenHash x = rs_TokenHash new" "rs_RevokedAt x = None"
    "rs_ExpiresAt x = pg_timestamptz (rs_ExpiresAt new)"
    using insert_session_Inr [OF ins] by simp_all
  then show ?thesis by (rule rotated [OF old' u _ _ _ _ s' finished(3)])
qed

section \<open>Properties\<close>

text \<open>
  C20: the rotation of a refresh session is atomic.  Whatever happens on the network, either it fails
  and the sessions are as they were, or the live session with the old token's hash has been revoked
  and one new live session stored for the given user, with the given hash and expiry, and nothing else has
  changed; the second is the case whenever it reports success.
\<close>

theorem rotate_refresh_atomic:
  assumes "domain_ok (store w)" and "rely domain_ok later (net w)" and "RotateRefresh h new w = (res, w')"
  shows "(\<exists>e k. res = Inl e \<and> store w' = (store (interfere w))\<lparr>outbox_seq := k\<rparr>)
    \<or> (\<exists>old out u t. old \<in> set (refresh_sessions (store (interfere w))) \<and> rs_TokenHash old = h
         \<and> rs_RevokedAt old = None \<and> t < rs_ExpiresAt old
         \<and> uuid_in (rs_UserID new) = Some u \<and> rs_UserID out = u \<and> rs_TokenHash out = rs_TokenHash new
         \<and> rs_RevokedAt out = None \<and> rs_ExpiresAt out = pg_timestamptz (rs_ExpiresAt new)
         \<and> store w' = (store (interfere w))\<lparr>refresh_sessions :=
             map (\<lambda>r. if r = old then r\<lparr>rs_RevokedAt := Some t\<rparr> else r)
               (refresh_sessions (store (interfere w))) @ [out]\<rparr>
         \<and> (res = Inr out \<or> (\<exists>e. res = Inl (ErrText e))))"
  using sound_start [OF assms(1,2)] assms(3)
proof (cases rule: rotate_effect)
  case (kept e k)
  then show ?thesis by blast
next
  case (rotated old out u)
  then show ?thesis using find_Some_mem [OF rotated(1)] unfolding live_session_def by blast
qed

definition demo_sha :: "string \<Rightarrow> 8 word list" where
  "demo_sha t = map (\<lambda>c. of_nat (byte_of c)) (take 2 t)"

definition demo_session :: RefreshSession where
  "demo_session = \<lparr>rs_ID = demo_id ''5e'', rs_UserID = alice, rs_TokenHash = ''6162'', rs_UserAgent = None,
     rs_IPAddress = None, rs_ExpiresAt = 9000, rs_CreatedAt = 0, rs_RevokedAt = None\<rparr>"

text \<open>The demonstration world with one live session of Alice, whose token is ``ab''.\<close>

definition demo_logged_in :: World where
  "demo_logged_in = demo\<lparr>store := demo_store\<lparr>refresh_sessions := [demo_session]\<rparr>\<rparr>"

lemma demo_logged_in_fields [simp]:
  "store demo_logged_in = demo_store\<lparr>refresh_sessions := [demo_session]\<rparr>"
  "net demo_logged_in = net demo" "clock demo_logged_in = 5000"
  by (simp_all add: demo_logged_in_def)

lemma demo_logged_in_quiet [simp]: "quiet demo_logged_in" "reliable demo_logged_in"
  by (simp_all add: demo_logged_in_def)

lemma demo_logged_in_ok: "domain_ok (store demo_logged_in)"
proof -
  have "sessions_ok (demo_store\<lparr>refresh_sessions := [demo_session]\<rparr>)" by code_simp
  moreover have "grows session_step (refresh_sessions demo_store) [demo_session]"
    by (simp add: grows_def demo_store_def)
  ultimately show ?thesis using domain_ok_sessions [OF demo_domain_ok] by simp
qed

lemma demo_logged_in_rely: "rely domain_ok later (net demo_logged_in)"
  using demo_rely by simp

theorem rotate_refresh_atomic_witness:
  "\<exists>out. fst (RotateRefresh ''6162'' (demo_session\<lparr>rs_TokenHash := ''63'', rs_ExpiresAt := 20000\<rparr>) demo_logged_in) = Inr out
     \<and> rs_TokenHash out = ''63'' \<and> rs_UserID out = alice"
proof -
  let ?op = "RotateRefresh ''6162'' (demo_session\<lparr>rs_TokenHash := ''63'', rs_ExpiresAt := 20000\<rparr>) demo_logged_in"
  have ok: "\<not> isl (fst ?op)" by code_simp
  have u: "uuid_in (rs_UserID demo_session) = Some alice" by code_simp
  show ?thesis
    using rotate_refresh_atomic [OF demo_logged_in_ok demo_logged_in_rely surjective_pairing [of ?op]] ok u
    by auto
qed

lemma Refresh_Inr:
  assumes "AuthService_Refresh svc raw meta w = (Inr tk, w')"
  obtains sess w1 access w2 newPlain w3 out where
    "GetByTokenHash (hashRefreshToken (as_sha256 svc) (TrimSpace raw)) w = (Inr sess, w1)"
    "newAccessToken svc (rs_UserID sess) w1 = (Inr access, w2)"
    "newRefreshPlain w2 = (Inr newPlain, w3)"
    "0 < seconds (jc_RefreshTTLSeconds (as_cfg svc))"
    "RotateRefresh (hashRefreshToken (as_sha256 svc) (TrimSpace raw))
       (new_session (rs_UserID sess) (hashRefreshToken (as_sha256 svc) newPlain) meta
          (clock w3 + seconds (jc_RefreshTTLSeconds (as_cfg svc)))) w3 = (Inr out, w')"
    "tk = token_pair svc access newPlain"
  using assms
  by (auto simp: AuthService_Refresh_def Let_def elim!: call_cases split: if_splits)

lemma refresh_spends:
  assumes "sound s0 w" and "AuthService_Refresh svc raw meta w = (Inr tk, w')"
  shows "token_spent (hashRefreshToken (as_sha256 svc) (TrimSpace raw)) (store w')"
proof -
  let ?h = "hashRefreshToken (as_sha256 svc) (TrimSpace raw)"
  from assms(2) obtain sess w1 access w2 newPlain w3 out new where
    c: "GetByTokenHash ?h w = (Inr sess, w1)" "newAccessToken svc (rs_UserID sess) w1 = (Inr access, w2)"
      "newRefreshPlain w2 = (Inr newPlain, w3)" and rot: "RotateRefresh ?h new w3 = (Inr out, w')"
    by (elim Refresh_Inr)
  have "sound s0 w1" using keepsD [OF keeps_GetByTokenHash assms(1)] c(1) by (metis snd_conv)
  then have "sound s0 w2" using keepsD [OF keeps_newAccessToken] c(2) by (metis snd_conv)
  then have w3: "sound s0 w3" using keepsD [OF keeps_newRefreshPlain] c(3) by (metis snd_conv)
  show ?thesis
    using w3 rot
  proof (cases rule: rotate_effect)
    case (rotated old out' u)
    then have "old \<in> set (refresh_sessions (store (interfere w3)))" "rs_TokenHash old = ?h"
      using find_Some_mem [OF rotated(1)] by (simp_all add: live_session_def)
    then show ?thesis using rotated(7) unfolding token_spent_def by force
  qed simp
qed

text \<open>
  C21: a refresh token is good for one use.  Once \<^verbatim>\<open>Refresh\<close> has accepted it, neither \<^verbatim>\<open>Refresh\<close> nor \<^verbatim>\<open>Logout\<close>
  accepts it in any state the system can reach from there, whatever requests are served and whatever other
  clients do.
\<close>

theorem refresh_token_single_use:
  assumes "domain_ok (store w)" and "rely domain_ok later (net w)"
    and "AuthService_Refresh svc raw meta w = (Inr tk, w1)" and "reachable tp sha w1 w2"
  shows "isl (fst (AuthService_Refresh svc raw meta' w2)) \<and> isl (fst (AuthService_Logout svc raw w2))"
proof -
  note w = sound_start [OF assms(1,2)]
  let ?h = "hashRefreshToken (as_sha256 svc) (TrimSpace raw)"
  have w1: "sound (store w) w1" using keepsD [OF keeps_auth_service(3) w] assms(3) by (metis snd_conv)
  then have "sound (store w1) w1" by (simp add: holds_def)
  then have w2: "sound (store w1) w2" by (rule reachable_sound [OF assms(4)])
  then have "token_spent ?h (store w2)"
    using spent_later [OF refresh_spends [OF w assms(3)]] by (simp add: holds_def)
  then show ?thesis using spent_refused [OF w2] by blast
qed

text \<open>
  Libraries for the demonstrations: a signature that is the secret in front of the user id, and a
  password hash that is the password itself.
\<close>

definition demo_jwt :: Jwt where
  "demo_jwt = \<lparr>jwt_NewNumericDate = (\<lambda>t. t div Second * Second),
     jwt_SignedString = (\<lambda>secret c. Inr (secret @ ''.'' @ ac_UserID c)),
     jwt_ParseWithClaims = (\<lambda>tok key now. case key ''HS256'' of
        Inl e \<Rightarrow> Inl e
      | Inr k \<Rightarrow> if HasPrefix tok (k @ ''.'')
               then Inr \<lparr>ac_UserID = TrimPrefix tok (k @ ''.''), ac_Subject = TrimPrefix tok (k @ ''.''),
                         ac_IssuedAt = None, ac_NotBefore = None, ac_ExpiresAt = None\<rparr>
               else Inl (ErrText ''signature is invalid''))\<rparr>"

definition demo_bcrypt :: Bcrypt where
  "demo_bcrypt = \<lparr>bc_DefaultCost = 10,
     bc_Generate = (\<lambda>_ p _. if length p > 72 then Inl (ErrText ''password length exceeds 72 bytes'') else Inr p),
     bc_Compare = (\<lambda>h p. if h = p then None else Some (ErrText ''mismatch''))\<rparr>"

definition demo_auth :: AuthService where
  "demo_auth = \<lparr>as_sha256 = demo_sha, as_jwt = demo_jwt, as_bcrypt = demo_bcrypt,
     as_cfg = \<lparr>jc_Secret = ''0123456789abcdef'', jc_AccessTTLSeconds = 900, jc_RefreshTTLSeconds = 3600\<rparr>\<rparr>"

definition demo_meta :: ClientMeta where
  "demo_meta = \<lparr>me_UserAgent = ''cli'', me_IP = ''127.0.0.1:9''\<rparr>"

text \<open>The service on a calm network, stage by stage.\<close>

lemma GetByTokenHash_calm:
  assumes "calm w" and "find (live_session h (pg_timestamptz (clock w))) (refresh_sessions (store w)) = Some sess"
  shows "GetByTokenHash h w = (Inr sess, advance w)"
  using assms by (simp add: GetByTokenHash_def roundtrip_calm one_row_def call_def)

lemma newAccessToken_eq:
  assumes "TrimSpace (jc_Secret (as_cfg svc)) \<noteq> ''''" and "u \<noteq> ''''"
    and "0 < seconds (jc_AccessTTLSeconds (as_cfg svc))"
    and "jwt_SignedString (as_jwt svc) (TrimSpace (jc_Secret (as_cfg svc)))
       (access_claims (as_jwt svc) u (seconds (jc_AccessTTLSeconds (as_cfg svc))) (clock w)) = Inr tok"
  shows "newAccessToken svc u w = (Inr tok, w)"
  using assms by (simp add: newAccessToken_def GenerateAccessToken_def call_def)

lemma newRefreshPlain_eq:
  "newRefreshPlain w = (Inr (EncodeToString (map (rand_src w (drawn w)) [0..<32])), w\<lparr>drawn := Suc (drawn w)\<rparr>)"
  by (simp add: newRefreshPlain_def rand_Read_def call_def)

lemma Refresh_calm:
  assumes "calm w" and "TrimSpace raw \<noteq> ''''"
    and "find (live_session (hashRefreshToken (as_sha256 svc) (TrimSpace raw)) (pg_timestamptz (clock w)))
           (refresh_sessions (store w)) = Some sess"
    and "newAccessToken svc (rs_UserID sess) (advance w) = (Inr access, advance w)"
    and "0 < seconds (jc_RefreshTTLSeconds (as_cfg svc))"
    and "plain = EncodeToString (map (rand_src (advance w) (drawn w)) [0..<32])"
    and "RotateRefresh (hashRefreshToken (as_sha256 svc) (TrimSpace raw))
       (new_session (rs_UserID sess) (hashRefreshToken (as_sha256 svc) plain) meta
          (clock (advance w) + seconds (jc_RefreshTTLSeconds (as_cfg svc))))
       ((advance w)\<lparr>drawn := Suc (drawn w)\<rparr>) = (Inr out, w')"
  shows "AuthService_Refresh svc raw meta w = (Inr (token_pair svc access plain), w')"
  using assms
  by (simp add: AuthService_Refresh_def Let_def GetByTokenHash_calm newRefreshPlain_eq)

lemma demo_calm [simp]: "calm demo_logged_in" "calm demo"
  by (simp_all add: calm_def)

lemma demo_refresh:
  "\<exists>tk w'. AuthService_Refresh demo_auth ''ab'' demo_meta demo_logged_in = (Inr tk, w')"
proof -
  let ?w = "(advance demo_logged_in)\<lparr>drawn := Suc (drawn demo_logged_in)\<rparr>"
  let ?plain = "EncodeToString (map (rand_src (advance demo_logged_in) (drawn demo_logged_in)) [0..<32])"
  have trim: "TrimSpace ''ab'' = ''ab''" by code_simp
  have h: "hashRefreshToken (as_sha256 demo_auth) ''ab'' = ''6162''" by code_simp
  have live: "find (live_session ''6162'' (pg_timestamptz 5000)) [demo_session] = Some demo_session"
    by code_simp
  have tok: "newAccessToken demo_auth alice (advance demo_logged_in)
      = (Inr (''0123456789abcdef.'' @ alice), advance demo_logged_in)"
    by (rule newAccessToken_eq) code_simp+
  have ttl: "0 < seconds (jc_RefreshTTLSeconds (as_cfg demo_auth))" by code_simp
  let ?rot = "RotateRefresh ''6162'' (new_session alice (hashRefreshToken (as_sha256 demo_auth) ?plain) demo_meta
      (clock (advance demo_logged_in) + seconds (jc_RefreshTTLSeconds (as_cfg demo_auth)))) ?w"
  have "\<not> isl (fst ?rot)" by code_simp
  then obtain out where "?rot = (Inr out, snd ?rot)" by (cases ?rot, cases "fst ?rot") auto
  then show ?thesis
    using Refresh_calm [of demo_logged_in "''ab''" demo_auth demo_session _ ?plain demo_meta out] tok ttl live
    by (simp add: trim h) (simp add: demo_session_def)
qed

theorem refresh_token_single_use_witness:
  "\<exists>tk w1. AuthService_Refresh demo_auth ''ab'' demo_meta demo_logged_in = (Inr tk, w1)
   \<and> isl (fst (AuthService_Refresh demo_auth ''ab'' demo_meta
       (serve (\<lambda>_ _. None) demo_sha (LogoutEverywhere bob) w1)))"
  using demo_refresh refresh_token_single_use [OF demo_logged_in_ok demo_logged_in_rely _
      reachable.step [OF reachable.start]] by metis

section \<open>Login\<close>

lemma issueTokens_Inr:
  assumes "issueTokens svc u meta w = (Inr tk, w')"
  obtains plain access sess where
    "jwt_SignedString (as_jwt svc) (TrimSpace (jc_Secret (as_cfg svc)))
       (access_claims (as_jwt svc) u (seconds (jc_AccessTTLSeconds (as_cfg svc))) (clock w)) = Inr access"
    "tk = token_pair svc access plain" "sess \<in> set (refresh_sessions (store w'))"
    "rs_TokenHash sess = hashRefreshToken (as_sha256 svc) plain" "rs_UserID sess = ascii_lower u"
    "rs_RevokedAt sess = None"
    "rs_ExpiresAt sess = pg_timestamptz (clock w + seconds (jc_RefreshTTLSeconds (as_cfg svc)))"
    "0 < seconds (jc_RefreshTTLSeconds (as_cfg svc))"
proof -
  from assms obtain access w1 plain w2 s3 where
    acc: "newAccessToken svc u w = (Inr access, w1)"
    and pl: "newRefreshPlain w1 = (Inr plain, w2)"
    and ttl: "0 < seconds (jc_RefreshTTLSeconds (as_cfg svc))"
    and cr: "Session_Create (new_session u (hashRefreshToken (as_sha256 svc) plain) meta
        (clock w2 + seconds (jc_RefreshTTLSeconds (as_cfg svc)))) w2 = (Inr s3, w')"
    and tk: "tk = token_pair svc access plain"
    by (auto simp: issueTokens_def Let_def elim!: call_cases split: if_splits)
  from acc have a: "jwt_SignedString (as_jwt svc) (TrimSpace (jc_Secret (as_cfg svc)))
       (access_claims (as_jwt svc) u (seconds (jc_AccessTTLSeconds (as_cfg svc))) (clock w)) = Inr access"
    and w1: "w1 = w"
    by (auto simp: newAccessToken_def GenerateAccessToken_def elim!: call_cases split: if_splits)
  have clk: "clock w2 = clock w" using pl w1 by (auto simp: newRefreshPlain_eq)
  from cr have "s3 \<in> set (refresh_sessions (store w'))
      \<and> rs_TokenHash s3 = hashRefreshToken (as_sha256 svc) plain \<and> rs_UserID s3 = ascii_lower u
      \<and> rs_RevokedAt s3 = None
      \<and> rs_ExpiresAt s3 = pg_timestamptz (clock w + seconds (jc_RefreshTTLSeconds (as_cfg svc)))"
    by (auto simp: Session_Create_def insert_session_stmt_def with_uuid_Inr uuid_in_Some new_session_def clk
        elim!: roundtrip_Inr_cases dest!: insert_session_Inr)
  then show thesis using that [OF a tk] ttl by blast
qed

lemma User_GetByEmail_Inr:
  "User_GetByEmail e w = (Inr u, w') \<Longrightarrow>
     u \<in> set (users (store (interfere w))) \<and> ascii_lower (u_Email u) = ascii_lower e \<and> clock w' = clock (advance w)"
  by (auto simp: User_GetByEmail_def one_row_def advance_def interfere_def next_trip_def
      elim!: call_cases roundtrip_Inr_cases split: if_splits option.splits dest: find_Some_mem)

text \<open>
  C22: tokens are issued only against the password.  When \<^verbatim>\<open>Login\<close> succeeds, there was an active user with
  that e-mail (up to case) whose stored hash the password matches; the response names that user, its
  access token is signed for that user with the server's secret, and the table holds a live session of that
  user with the hash of the refresh token, good for the configured time.
\<close>

theorem login_authenticates:
  assumes "AuthService_Login svc req meta w = (Inr a, w')"
  shows "\<exists>u sess. u \<in> set (users (store (interfere w)))
    \<and> ascii_lower (u_Email u) = ascii_lower (TrimSpace (ToLower (lr_Email req))) \<and> u_IsActive u
    \<and> bc_Compare (as_bcrypt svc) (u_PasswordHash u) (lr_Password req) = None
    \<and> ar_User a = user_public u
    \<and> jwt_SignedString (as_jwt svc) (TrimSpace (jc_Secret (as_cfg svc)))
        (access_claims (as_jwt svc) (u_ID u) (seconds (jc_AccessTTLSeconds (as_cfg svc))) (clock (advance w)))
      = Inr (tk_AccessToken (ar_Tokens a))
    \<and> sess \<in> set (refresh_sessions (store w')) \<and> rs_UserID sess = ascii_lower (u_ID u)
    \<and> rs_TokenHash sess = hashRefreshToken (as_sha256 svc) (tk_RefreshToken (ar_Tokens a))
    \<and> rs_RevokedAt sess = None
    \<and> rs_ExpiresAt sess = pg_timestamptz (clock (advance w) + seconds (jc_RefreshTTLSeconds (as_cfg svc)))"
proof -
  from assms obtain u w1 tk where
    look: "User_GetByEmail (TrimSpace (ToLower (lr_Email req))) w = (Inr u, w1)"
    and act: "u_IsActive u" and cmp: "ComparePassword (as_bcrypt svc) (u_PasswordHash u) (lr_Password req) = Inr ()"
    and iss: "issueTokens svc (u_ID u) meta w1 = (Inr tk, w')"
    and a: "a = \<lparr>ar_User = user_public u, ar_Tokens = tk\<rparr>"
    by (auto simp: AuthService_Login_def Let_def elim!: call_cases split: if_splits)
  have pw: "bc_Compare (as_bcrypt svc) (u_PasswordHash u) (lr_Password req) = None"
    using cmp by (auto simp: ComparePassword_def split: if_splits option.splits)
  note u = User_GetByEmail_Inr [OF look]
  from iss show ?thesis
    by (rule issueTokens_Inr) (use u act pw a in \<open>auto simp: token_pair_def\<close>)
qed

definition demo_login :: LoginRequest where
  "demo_login = \<lparr>lr_Email = ''ALICE@example.org'', lr_Password = ''x''\<rparr>"

lemma Login_calm:
  assumes "calm w" and "email = TrimSpace (ToLower (lr_Email req))" and "email \<noteq> ''''" "lr_Password req \<noteq> ''''"
    and "pg_text email" and "find (\<lambda>u. ascii_lower (u_Email u) = ascii_lower email) (users (store w)) = Some u"
    and "u_IsActive u" and "ComparePassword (as_bcrypt svc) (u_PasswordHash u) (lr_Password req) = Inr ()"
    and "issueTokens svc (u_ID u) meta (advance w) = (Inr tk, w')"
  shows "AuthService_Login svc req meta w = (Inr \<lparr>ar_User = user_public u, ar_Tokens = tk\<rparr>, w')"
  using assms
  by (simp add: AuthService_Login_def Let_def User_GetByEmail_def roundtrip_calm one_row_def call_def)

lemma issueTokens_calm:
  assumes "newAccessToken svc u w = (Inr access, w)" and "0 < seconds (jc_RefreshTTLSeconds (as_cfg svc))"
    and "plain = EncodeToString (map (rand_src w (drawn w)) [0..<32])"
    and "Session_Create (new_session u (hashRefreshToken (as_sha256 svc) plain) meta
        (clock w + seconds (jc_RefreshTTLSeconds (as_cfg svc)))) (w\<lparr>drawn := Suc (drawn w)\<rparr>) = (Inr sess, w')"
  shows "issueTokens svc u meta w = (Inr (token_pair svc access plain), w')"
  using assms by (simp add: issueTokens_def Let_def newRefreshPlain_eq)

lemma alice_nonempty: "alice \<noteq> ''''"
  by (simp add: alice_def demo_id_def)

lemma demo_issue:
  assumes u: "u \<noteq> ''''"
    and free: "\<not> isl (fst (Session_Create (new_session u (hashRefreshToken demo_sha
        (EncodeToString (map (rand_src w (drawn w)) [0..<32]))) demo_meta
        (clock w + seconds 3600)) (w\<lparr>drawn := Suc (drawn w)\<rparr>)))"
  shows "\<exists>tk w'. issueTokens demo_auth u demo_meta w = (Inr tk, w')"
proof -
  let ?plain = "EncodeToString (map (rand_src w (drawn w)) [0..<32])"
  have sec: "TrimSpace (jc_Secret (as_cfg demo_auth)) = ''0123456789abcdef''" by code_simp
  have ttl: "0 < seconds (jc_AccessTTLSeconds (as_cfg demo_auth))"
    "0 < seconds (jc_RefreshTTLSeconds (as_cfg demo_auth))" by code_simp+
  with u have acc: "newAccessToken demo_auth u w = (Inr (''0123456789abcdef.'' @ u), w)"
    by (intro newAccessToken_eq) (simp_all add: sec, simp add: demo_auth_def demo_jwt_def access_claims_def)
  let ?cr = "Session_Create (new_session u (hashRefreshToken (as_sha256 demo_auth) ?plain) demo_meta
        (clock w + seconds (jc_RefreshTTLSeconds (as_cfg demo_auth)))) (w\<lparr>drawn := Suc (drawn w)\<rparr>)"
  have "\<not> isl (fst ?cr)" using free by (simp add: demo_auth_def)
  then obtain s w' where "?cr = (Inr s, w')" by (cases ?cr, cases "fst ?cr") auto
  then show ?thesis using issueTokens_calm [OF acc ttl(2) refl] by blast
qed

theorem login_authenticates_witness:
  "\<exists>a w'. AuthService_Login demo_auth demo_login demo_meta demo = (Inr a, w')
     \<and> ar_User a = user_public (demo_user alice ''alice'')"
proof -
  have mail: "TrimSpace (ToLower (lr_Email demo_login)) = ''alice@example.org''" "pg_text ''alice@example.org''"
    by code_simp+
  have look: "find (\<lambda>u. ascii_lower (u_Email u) = ascii_lower ''alice@example.org'') (users demo_store)
      = Some (demo_user alice ''alice'')" by code_simp
  have id: "u_ID (demo_user alice ''alice'') = alice" by (simp add: demo_user_def)
  have "\<not> isl (fst (Session_Create (new_session alice (hashRefreshToken demo_sha
        (EncodeToString (map (rand_src (advance demo) (drawn (advance demo))) [0..<32]))) demo_meta
        (clock (advance demo) + seconds 3600)) ((advance demo)\<lparr>drawn := Suc (drawn (advance demo))\<rparr>)))"
    by code_simp
  then obtain tk w' where iss: "issueTokens demo_auth alice demo_meta (advance demo) = (Inr tk, w')"
    using demo_issue [OF alice_nonempty] by blast
  have "ComparePassword (as_bcrypt demo_auth) (u_PasswordHash (demo_user alice ''alice'')) (lr_Password demo_login)
      = Inr ()"
    by (simp add: ComparePassword_def demo_auth_def demo_bcrypt_def demo_user_def demo_login_def)
  then have ok: "AuthService_Login demo_auth demo_login demo_meta demo
      = (Inr \<lparr>ar_User = user_public (demo_user alice ''alice''), ar_Tokens = tk\<rparr>, w')"
    using iss look id by (intro Login_calm [OF _ mail(1) [symmetric]])
      (simp_all add: mail(2), simp_all add: demo_login_def demo_user_def)
  from login_authenticates [OF ok] ok show ?thesis by auto
qed

section \<open>Access tokens\<close>

lemma HasPrefix_TrimPrefix: "HasPrefix s p \<Longrightarrow> s = p @ TrimPrefix s p"
  by (metis HasPrefix_def TrimPrefix_def append_take_drop_id)

text \<open>
  C23: only tokens signed with the server's secret by HS256 are accepted.  The token library is relied upon
  for what it documents: it accepts a token only if the key function gives a key for the token's
  signing method, the signature verifies under that method and key, and the token has not expired.
  Then an accepted token verifies under HS256 and the secret, the secret is not empty, and the user
  id handed on is not empty and is the one the token carries.
\<close>

theorem access_token_checked:
  fixes verified :: "string \<Rightarrow> string \<Rightarrow> string \<Rightarrow> AccessClaims \<Rightarrow> bool"
  assumes "\<And>t key now c. jwt_ParseWithClaims j t key now = Inr c \<Longrightarrow>
      \<exists>alg k. key alg = Inr k \<and> verified alg k t c \<and> (\<forall>e. ac_ExpiresAt c = Some e \<longrightarrow> now < e)"
    and "ParseAccessToken j secret tok now = Inr claims"
  shows "secret \<noteq> '''' \<and> ac_UserID claims \<noteq> ''''
    \<and> (\<exists>c. verified ''HS256'' secret tok c \<and> ac_UserID claims \<in> {ac_UserID c, ac_Subject c}
         \<and> (\<forall>e. ac_ExpiresAt c = Some e \<longrightarrow> now < e))"
proof -
  from assms(2) obtain c where parsed: "jwt_ParseWithClaims j tok (access_key secret) now = Inr c"
    and uid: "ac_UserID claims \<noteq> ''''" "ac_UserID claims \<in> {ac_UserID c, ac_Subject c}" "secret \<noteq> ''''"
    by (auto simp: ParseAccessToken_def Let_def split: if_splits sum.splits)
  from assms(1) [OF parsed] show ?thesis
    using uid by (auto simp: access_key_def SigningMethodHS256_def split: if_splits)
qed

definition demo_verified :: "string \<Rightarrow> string \<Rightarrow> string \<Rightarrow> AccessClaims \<Rightarrow> bool" where
  "demo_verified alg k t c = (alg = ''HS256'' \<and> t = k @ ''.'' @ ac_UserID c)"

lemma demo_jwt_verifies:
  "jwt_ParseWithClaims demo_jwt t key now = Inr c \<Longrightarrow>
     \<exists>alg k. key alg = Inr k \<and> demo_verified alg k t c \<and> (\<forall>e. ac_ExpiresAt c = Some e \<longrightarrow> now < e)"
  by (auto simp: demo_jwt_def demo_verified_def split: sum.splits if_splits dest: HasPrefix_TrimPrefix)

theorem access_token_checked_witness:
  "\<exists>c claims. ParseAccessToken demo_jwt ''0123456789abcdef'' (''0123456789abcdef.'' @ alice) 7 = Inr claims
     \<and> demo_verified ''HS256'' ''0123456789abcdef'' (''0123456789abcdef.'' @ alice) c"
proof -
  have "\<not> isl (ParseAccessToken demo_jwt ''0123456789abcdef'' (''0123456789abcdef.'' @ alice) 7)"
    by code_simp
  then obtain claims where
    ok: "ParseAccessToken demo_jwt ''0123456789abcdef'' (''0123456789abcdef.'' @ alice) 7 = Inr claims"
    unfolding isl_def by (metis sum.exhaust)
  show ?thesis
    using access_token_checked [where verified = demo_verified, OF demo_jwt_verifies ok] ok by blast
qed

section \<open>Registration\<close>

lemma User_Create_Inr:
  assumes "User_Create u0 w = (Inr u, w')"
  shows "u \<in> set (users (store w')) \<and> u_Email u = u_Email u0 \<and> u_PasswordHash u = u_PasswordHash u0
    \<and> u_Nickname u = u_Nickname u0 \<and> u_IsActive u \<and> pg_text (u_Email u0)"
  using assms
  by (auto simp: User_Create_def insert_user_row_def user_texts_ok_def elim!: roundtrip_Inr_cases split: if_splits)

lemma keeps_calm_roundtrip [go_keep]: "keeps calm (roundtrip st)"
  by (simp add: keeps_def roundtrip_calm split: prod.split)

lemma keeps_calm_issueTokens [go_keep]: "keeps calm (issueTokens s u meta)"
  unfolding issueTokens_def newAccessToken_def GenerateAccessToken_def Session_Create_def Let_def
  by (intro go_keep) (simp_all add: keeps_def newRefreshPlain_eq)

lemma keeps_calm_lookups [go_keep]:
  "keeps calm (User_GetByEmail e)" "keeps calm (User_GetByNickname n)" "keeps calm (HashPassword b p)"
  "keeps calm (User_Create u)"
  unfolding User_GetByEmail_def User_GetByNickname_def User_Create_def
  by (intro go_keep | simp add: keeps_def HashPassword_def)+

lemma issueTokens_users:
  assumes "calm w"
  shows "users (store (snd (issueTokens svc u meta w))) = users (store w)"
  using assms
  by (auto simp: issueTokens_def newAccessToken_def GenerateAccessToken_def newRefreshPlain_eq call_eq Let_def
      Session_Create_def insert_session_stmt_def with_uuid_def insert_session_row_def roundtrip_calm
      split: sum.split option.split)

lemma issueTokens_kind:
  "fst (issueTokens svc u meta w) = Inl e \<Longrightarrow> error_kind e = Some KindInternal"
  by (auto simp: issueTokens_def newAccessToken_def GenerateAccessToken_def newRefreshPlain_eq call_eq Let_def
      invalid_ttl_def split: sum.splits if_splits)

lemma Register_Inr:
  assumes "AuthService_Register svc req meta w = (Inr a, w')"
  obtains salt hash u w1 w2 tk where
    "validateCredentials (TrimSpace (ToLower (rr_Email req))) (TrimSpace (rr_Nickname req)) (rr_Password req) = Inr ()"
    "bc_Generate (as_bcrypt svc) salt (rr_Password req) (bc_DefaultCost (as_bcrypt svc)) = Inr hash"
    "User_Create (draft_user (TrimSpace (ToLower (rr_Email req))) hash (TrimSpace (rr_Nickname req))) w1 = (Inr u, w2)"
    "issueTokens svc (u_ID u) meta w2 = (Inr tk, w')" "calm w \<Longrightarrow> calm w2"
    "a = \<lparr>ar_User = user_public u, ar_Tokens = tk\<rparr>"
proof -
  let ?email = "TrimSpace (ToLower (rr_Email req))" and ?nick = "TrimSpace (rr_Nickname req)"
  from assms obtain e1 e2 hash u v1 v2 v3 v4 tk where
    v: "validateCredentials ?email ?nick (rr_Password req) = Inr ()"
    and c: "User_GetByEmail ?email w = (Inl e1, v1)" "User_GetByNickname ?nick v1 = (Inl e2, v2)"
      "HashPassword (as_bcrypt svc) (rr_Password req) v2 = (Inr hash, v3)"
      "User_Create (draft_user ?email hash ?nick) v3 = (Inr u, v4)"
      "issueTokens svc (u_ID u) meta v4 = (Inr tk, w')"
    and a: "a = \<lparr>ar_User = user_public u, ar_Tokens = tk\<rparr>"
    by (auto simp: AuthService_Register_def must_be_free_def Let_def elim!: call_cases split: if_splits)
  have "calm v4" if "calm w"
    using that c keepsD [OF keeps_calm_lookups(1), of w ?email] keepsD [OF keeps_calm_lookups(2), of v1 ?nick]
      keepsD [OF keeps_calm_lookups(3), of v2 "as_bcrypt svc" "rr_Password req"]
      keepsD [OF keeps_calm_lookups(4), of v3 "draft_user ?email hash ?nick"] by simp
  with c(3) show thesis
    by (intro that [OF v _ c(4,5) _ a]) (auto simp: HashPassword_def split: sum.splits if_splits)
qed

lemma validate_nonempty:
  "validateCredentials email nick p = Inr () \<Longrightarrow> email \<noteq> '''' \<and> p \<noteq> ''''"
  by (auto simp: validateCredentials_def emailRe_def split: if_splits)


lemma email_unique:
  "users_ok s \<Longrightarrow> u \<in> set (users s) \<Longrightarrow> ascii_lower (u_Email u) = ascii_lower e \<Longrightarrow>
     find (\<lambda>v. ascii_lower (u_Email v) = ascii_lower e) (users s) = Some u"
  using find_key_eq [of "ascii_lower \<circ> u_Email" "users s" u "ascii_lower e"] by (simp add: users_ok_def)

text \<open>
  C24: who registers can log in.  The password library is relied upon to accept a password against
  the hash it generated from it.  When \<^verbatim>\<open>Register\<close> has succeeded on a calm network (no fault occurs and no other client
  intervenes), \<^verbatim>\<open>Login\<close> with that password and that e-mail, in any spelling that normalises to the same
  address, gets as far as issuing tokens for that user: its result is that of \<^verbatim>\<open>issueTokens\<close>, with the user that \<^verbatim>\<open>Register\<close> reported, and
  an error is an internal one.
\<close>

theorem register_then_login:
  assumes "domain_ok (store w)" and "rely domain_ok later (net w)" and calm: "calm w"
    and bcrypt: "\<And>salt p cost h. p \<noteq> '''' \<Longrightarrow> bc_Generate (as_bcrypt svc) salt p cost = Inr h \<Longrightarrow>
      h \<noteq> '''' \<and> bc_Compare (as_bcrypt svc) h p = None"
    and reg: "AuthService_Register svc req meta w = (Inr a, w1)"
    and same: "TrimSpace (ToLower (lr_Email lreq)) = TrimSpace (ToLower (rr_Email req))"
      "lr_Password lreq = rr_Password req"
  shows "fst (AuthService_Login svc lreq meta' w1) =
      (case fst (issueTokens svc (pu_ID (ar_User a)) meta' (advance w1)) of
         Inl e \<Rightarrow> Inl e | Inr tk \<Rightarrow> Inr \<lparr>ar_User = ar_User a, ar_Tokens = tk\<rparr>)
    \<and> (\<forall>e. fst (AuthService_Login svc lreq meta' w1) = Inl e \<longrightarrow> error_kind e = Some KindInternal)"
proof -
  let ?email = "TrimSpace (ToLower (rr_Email req))"
  obtain salt hash u v1 v2 tk where
    v: "validateCredentials ?email (TrimSpace (rr_Nickname req)) (rr_Password req) = Inr ()"
    and h: "bc_Generate (as_bcrypt svc) salt (rr_Password req) (bc_DefaultCost (as_bcrypt svc)) = Inr hash"
    and cr: "User_Create (draft_user ?email hash (TrimSpace (rr_Nickname req))) v1 = (Inr u, v2)"
    and iss: "issueTokens svc (u_ID u) meta v2 = (Inr tk, w1)" and v2: "calm w \<Longrightarrow> calm v2"
    and a: "a = \<lparr>ar_User = user_public u, ar_Tokens = tk\<rparr>"
    by (rule Register_Inr [OF reg]) (rule that)
  have w1: "calm w1" "users (store w1) = users (store v2)"
    using issueTokens_users [OF v2 [OF calm]] keepsD [OF keeps_calm_issueTokens v2 [OF calm]] iss
    by (metis snd_conv)+
  have u: "u \<in> set (users (store w1))" "u_Email u = ?email" "u_PasswordHash u = hash" "u_IsActive u" "pg_text ?email"
    using User_Create_Inr [OF cr] w1(2) by (simp_all add: draft_user_def)
  have "sound (store w) w1"
    using keepsD [OF keeps_auth_service(1) sound_start [OF assms(1,2)]] reg by (metis snd_conv)
  then have "users_ok (store w1)" by (simp add: holds_def domain_ok_def tables_ok_def)
  then have look: "find (\<lambda>v. ascii_lower (u_Email v) = ascii_lower ?email) (users (store w1)) = Some u"
    using u by (intro email_unique) simp_all
  have "ComparePassword (as_bcrypt svc) (u_PasswordHash u) (lr_Password lreq) = Inr ()"
    using bcrypt [OF _ h] validate_nonempty [OF v] u(3) same(2) by (simp add: ComparePassword_def)
  then have "AuthService_Login svc lreq meta' w1 =
      call (issueTokens svc (u_ID u) meta') raise (\<lambda>tokens. ret \<lparr>ar_User = user_public u, ar_Tokens = tokens\<rparr>)
        (advance w1)"
    using validate_nonempty [OF v] u(4,5) w1(1) look same
    by (simp add: AuthService_Login_def Let_def User_GetByEmail_def roundtrip_calm one_row_def call_def)
  then show ?thesis
    using a issueTokens_kind [of svc "u_ID u" meta' "advance w1"]
    by (auto simp: call_eq ret_def user_public_def split: sum.split)
qed

definition demo_register :: RegisterRequest where
  "demo_register = \<lparr>rr_Email = ''Dave@Example.org '', rr_Nickname = ''dave_1'', rr_Password = ''password''\<rparr>"

text \<open>The row that registration adds to the demonstration store, and the world after that statement.\<close>

definition demo_dave :: User where
  "demo_dave = (draft_user ''dave@example.org'' ''password'' ''dave_1'')
     \<lparr>u_ID := ''00000000-0000-0000-0000-00000000f002'', u_CreatedAt := 8000, u_UpdatedAt := 8000, u_IsActive := True\<rparr>"

definition demo_registered :: World where
  "demo_registered = demo\<lparr>store := demo_store\<lparr>users := users demo_store @ [demo_dave]\<rparr>, clock := 8000,
     trips := 3, drawn := 1\<rparr>"

lemma lookup_calm:
  "calm w \<Longrightarrow> pg_text e \<Longrightarrow> find (\<lambda>u. ascii_lower (u_Email u) = ascii_lower e) (users (store w)) = None \<Longrightarrow>
     User_GetByEmail e w = (Inl ErrNotFound, advance w)"
  "calm w \<Longrightarrow> pg_text n \<Longrightarrow> find (\<lambda>u. ascii_lower (u_Nickname u) = ascii_lower n) (users (store w)) = None \<Longrightarrow>
     User_GetByNickname n w = (Inl ErrNotFound, advance w)"
  by (simp_all add: User_GetByEmail_def User_GetByNickname_def roundtrip_calm one_row_def call_def mapErr_def)

lemma Register_calm:
  assumes "calm w" and "TrimSpace (ToLower (rr_Email req)) = email" and "TrimSpace (rr_Nickname req) = nick"
    and "validateCredentials email nick (rr_Password req) = Inr ()" and "pg_text email" and "pg_text nick"
    and "find (\<lambda>u. ascii_lower (u_Email u) = ascii_lower email) (users (store w)) = None"
    and "find (\<lambda>u. ascii_lower (u_Nickname u) = ascii_lower nick) (users (store w)) = None"
    and "HashPassword (as_bcrypt svc) (rr_Password req) (advance (advance w)) = (Inr hash, w3)"
    and "User_Create (draft_user email hash nick) w3 = (Inr u, w4)"
    and "issueTokens svc (u_ID u) meta w4 = (Inr tk, w')"
  shows "AuthService_Register svc req meta w = (Inr \<lparr>ar_User = user_public u, ar_Tokens = tk\<rparr>, w')"
  using assms
  by (simp add: AuthService_Register_def must_be_free_def Let_def lookup_calm call_def lift_def)

theorem register_then_login_witness:
  "\<exists>a w1. AuthService_Register demo_auth demo_register demo_meta demo = (Inr a, w1)
   \<and> (case fst (AuthService_Login demo_auth \<lparr>lr_Email = ''DAVE@example.org'', lr_Password = ''password''\<rparr> demo_meta w1) of
        Inl e \<Rightarrow> error_kind e = Some KindInternal
      | Inr b \<Rightarrow> ar_User b = ar_User a)"
proof -
  let ?w3 = "(advance (advance demo))\<lparr>drawn := Suc 0\<rparr>"
  let ?d = "draft_user ''dave@example.org'' ''password'' ''dave_1''"
  have n: "TrimSpace (ToLower (rr_Email demo_register)) = ''dave@example.org''"
    "TrimSpace (rr_Nickname demo_register) = ''dave_1''"
    "TrimSpace (ToLower ''DAVE@example.org'') = ''dave@example.org''" by code_simp+
  have v: "validateCredentials ''dave@example.org'' ''dave_1'' (rr_Password demo_register) = Inr ()"
    "pg_text ''dave@example.org''" "pg_text ''dave_1''" by code_simp+
  have free: "find (\<lambda>u. ascii_lower (u_Email u) = ascii_lower ''dave@example.org'') (users (store demo)) = None"
    "find (\<lambda>u. ascii_lower (u_Nickname u) = ascii_lower ''dave_1'') (users (store demo)) = None" by code_simp+
  have h: "HashPassword (as_bcrypt demo_auth) (rr_Password demo_register) (advance (advance demo)) = (Inr ''password'', ?w3)"
    by (simp add: HashPassword_def demo_auth_def demo_bcrypt_def demo_register_def demo_world_def advance_def)
  have row: "user_texts_ok demo_dave" "user_widths_ok demo_dave" "u_ID demo_dave \<notin> set (user_ids demo_store)"
    "ascii_lower (u_Email demo_dave) \<notin> set (map (ascii_lower \<circ> u_Email) (users demo_store))" by code_simp+
  have stamped: "?d\<lparr>u_ID := ''00000000-0000-0000-0000-00000000f002'', u_CreatedAt := 8000, u_UpdatedAt := 8000,
      u_LastSeenAt := None, u_IsActive := True\<rparr> = demo_dave" by (simp add: demo_dave_def draft_user_def)
  have "calm ?w3" by simp
  then have cr: "User_Create ?d ?w3 = (Inr demo_dave, demo_registered)"
    using row stamped by (simp add: User_Create_def roundtrip_calm next_trip_def demo_trip_def last_digit_def
        advance_def insert_user_row_def demo_registered_def)
  have ses: "\<not> isl (fst (Session_Create (new_session (u_ID demo_dave) (hashRefreshToken demo_sha
            (EncodeToString (map (rand_src demo_registered (drawn demo_registered)) [0..<32]))) demo_meta
            (clock demo_registered + seconds 3600)) (demo_registered\<lparr>drawn := Suc (drawn demo_registered)\<rparr>)))"
    by code_simp
  have u: "u_ID demo_dave \<noteq> ''''" by (simp add: demo_dave_def)
  from demo_issue [OF u ses] obtain tk w1 where "issueTokens demo_auth (u_ID demo_dave) demo_meta demo_registered = (Inr tk, w1)" by blast
  then have reg: "AuthService_Register demo_auth demo_register demo_meta demo
      = (Inr \<lparr>ar_User = user_public demo_dave, ar_Tokens = tk\<rparr>, w1)"
    by (intro Register_calm [OF _ n(1,2) v free h cr]) (simp add: calm_def)
  have gen: "p \<noteq> '''' \<Longrightarrow> bc_Generate (as_bcrypt demo_auth) salt p cost = Inr g \<Longrightarrow>
      g \<noteq> '''' \<and> bc_Compare (as_bcrypt demo_auth) g p = None" for salt p cost g
    by (auto simp: demo_auth_def demo_bcrypt_def split: if_splits)
  let ?a = "\<lparr>ar_User = user_public demo_dave, ar_Tokens = tk\<rparr>"
  let ?login = "AuthService_Login demo_auth \<lparr>lr_Email = ''DAVE@example.org'', lr_Password = ''password''\<rparr> demo_meta w1"
  have "fst ?login = (case fst (issueTokens demo_auth (pu_ID (ar_User ?a)) demo_meta (advance w1)) of
         Inl e \<Rightarrow> Inl e | Inr tk \<Rightarrow> Inr \<lparr>ar_User = ar_User ?a, ar_Tokens = tk\<rparr>)
      \<and> (\<forall>e. fst ?login = Inl e \<longrightarrow> error_kind e = Some KindInternal)"
  proof (rule register_then_login [OF _ _ _ _ reg])
    show "domain_ok (store demo)" using demo_domain_ok by simp
    show "calm demo" by (simp add: calm_def)
    show "rely domain_ok later (net demo)" by (rule demo_rely)
    show "TrimSpace (ToLower (lr_Email \<lparr>lr_Email = ''DAVE@example.org'', lr_Password = ''password''\<rparr>))
        = TrimSpace (ToLower (rr_Email demo_register))" by (simp only: n LoginRequest.select_convs)
  qed (use gen in \<open>simp_all add: demo_register_def\<close>)
  then show ?thesis by (intro exI [of _ ?a] exI [of _ w1] conjI reg) (auto split: sum.splits)
qed

end
