(* ===== verification/HttpProps.thy ===== *)
theory HttpProps
  imports Router AuthProps
begin

text \<open>
  The HTTP server as a whole: it keeps the invariant of the store, protected endpoints need a valid
  token, the routes are unambiguous, errors have a fixed shape, and the rate limiter treats clients
  separately.
\<close>

section \<open>The server keeps the invariant\<close>

definition upholds :: "(World \<Rightarrow> bool) \<Rightarrow> handler \<Rightarrow> bool" where
  "upholds P h = (\<forall>r w. P w \<longrightarrow> P (snd (h r w)))"

lemma upholdsI: "(\<And>r w. P w \<Longrightarrow> P (snd (h r w))) \<Longrightarrow> upholds P h"
  by (simp add: upholds_def)

lemma respond_sound: "keeps (sound s0) svc \<Longrightarrow> sound s0 w \<Longrightarrow> sound s0 (snd (respond st enc svc w))"
  by (auto simp: respond_def dest!: keepsD split: prod.split sum.split)

lemma with_body_sound:
  "(\<And>b. sound s0 (snd (k b w))) \<Longrightarrow> sound s0 w \<Longrightarrow> sound s0 (snd (with_body decode k r w))"
  by (simp add: with_body_def split: sum.split)

lemma counted_auth_sound:
  assumes "\<And>b. keeps (sound s0) (svc b)" and "sound s0 w"
  shows "sound s0 (snd (counted_auth attempt dec st enc svc r w))"
proof -
  have w1: "sound s0 (snd (metric attempt w))" using assms(2) by simp
  have "sound s0 (snd (svc b (snd (metric attempt w))))" for b by (rule keepsD [OF assms(1) w1])
  with assms(2) show ?thesis
    by (simp add: counted_auth_def Let_def auth_failure_def split: prod.split sum.split) (metis snd_conv)
qed

lemma RequireBearerAuth_upholds: "upholds P h \<Longrightarrow> upholds P (RequireBearerAuth j s h)"
  by (simp add: upholds_def RequireBearerAuth_def Let_def split: sum.split)

lemma connect_upholds: "upholds (sound s0) (connect_handler h up p)"
  using sound_ws_connect by (auto simp: upholds_def connect_handler_def split: prod.split sum.split) (metis snd_conv)+

lemma auth_upholds:
  "upholds (sound s0) (Auth_Register s)" "upholds (sound s0) (Auth_Login s)" "upholds (sound s0) (Auth_Refresh s)"
  "upholds (sound s0) (Auth_Logout s)" "upholds (sound s0) Auth_LogoutAll"
  by (auto intro!: upholdsI counted_auth_sound with_body_sound respond_sound go_keep split: option.split
      simp: Auth_Register_def Auth_Login_def Auth_Refresh_def Auth_Logout_def Auth_LogoutAll_def)

lemma user_upholds:
  "upholds (sound s0) Users_Me" "upholds (sound s0) Users_PatchMe" "upholds (sound s0) Users_Search"
  "upholds (sound s0) Users_ByID"
  by (auto intro!: upholdsI with_body_sound respond_sound go_keep
      simp: Users_Me_def Users_PatchMe_def Users_Search_def Users_ByID_def)

lemma chat_upholds:
  "upholds (sound s0) (Chats_CreateDirect sha)" "upholds (sound s0) Chats_CreateGroup" "upholds (sound s0) Chats_List"
  "upholds (sound s0) Chats_Get" "upholds (sound s0) Chats_Members" "upholds (sound s0) Chats_AddMembers"
  "upholds (sound s0) Chats_RemoveMember"
  by (auto intro!: upholdsI with_body_sound respond_sound go_keep
      simp: Chats_CreateDirect_def Chats_CreateGroup_def Chats_List_def Chats_Get_def Chats_Members_def
        Chats_AddMembers_def Chats_RemoveMember_def)

lemma message_upholds:
  "upholds (sound s0) (Messages_ListByChat tp)" "upholds (sound s0) (Messages_CreateInChat m)"
  "upholds (sound s0) Messages_Get" "upholds (sound s0) (Messages_Patch m)" "upholds (sound s0) (Messages_Delete m)"
  "upholds (sound s0) (Messages_MarkRead m)" "upholds (sound s0) (WSTicket_Issue t)"
  by (auto intro!: upholdsI with_body_sound respond_sound go_keep split: option.split
      simp: Messages_ListByChat_def Messages_CreateInChat_def Messages_Get_def Messages_Patch_def
        Messages_Delete_def Messages_MarkRead_def WSTicket_Issue_def)

lemma plain_sound: "upholds (sound s0) h \<Longrightarrow> sound s0 w \<Longrightarrow> sound s0 (fst (snd (plain h r (w, l))))"
  by (auto simp: plain_def upholds_def split: prod.split) (metis snd_conv)

lemma limited_sound:
  "upholds (sound s0) h \<Longrightarrow> sound s0 w \<Longrightarrow> sound s0 (fst (snd (limited lib get put h r (w, l))))"
  by (auto simp: limited_def chainLimit_def upholds_def split: prod.split option.split bool.split) (metis snd_conv)+

lemma endpoint_sound: "sound s0 w \<Longrightarrow> sound s0 (fst (snd (endpoint_handler lib d up p e r (w, l))))"
  by (cases e)
    (auto intro!: plain_sound limited_sound RequireBearerAuth_upholds connect_upholds auth_upholds user_upholds
      chat_upholds message_upholds simp: upholds_def health_def docs_page_def openapi_page_def metrics_page_def)

lemma mux_handler_sound: "sound s0 w \<Longrightarrow> sound s0 (fst (snd (mux_handler lib d up p segs r (w, l))))"
  by (simp add: mux_handler_def endpoint_sound split: mux_result.split)

lemma Chain_world:
  fixes r0 segs
  defines "r \<equiv> r0\<lparr>hr_Pattern := recorded_pattern (hr_Method r0) segs\<rparr>"
  shows "\<exists>w1 w2. w1 = w\<lparr>met := met w1, drawn := drawn w1\<rparr>
     \<and> w2 = fst (snd (mux_handler lib d up p segs r (w1, l)))
     \<and> fst (snd (Chain lib d up p segs r0 (w, l))) = w2\<lparr>met := met (fst (snd (Chain lib d up p segs r0 (w, l))))\<rparr>
     \<and> rp_Status (fst (Chain lib d up p segs r0 (w, l))) = rp_Status (fst (mux_handler lib d up p segs r (w1, l)))
     \<and> snd (snd (Chain lib d up p segs r0 (w, l))) = snd (snd (mux_handler lib d up p segs r (w1, l)))"
  by (rule exI [of _ "(\<lambda>v. if hr_Header r ''X-Request-ID'' = '''' then v\<lparr>drawn := Suc (drawn v)\<rparr> else v)
        (snd (metric (\<lambda>m. m\<lparr>HTTPInflight := HTTPInflight m + 1\<rparr>) w))"])
    (simp add: Chain_def r_def [symmetric] HTTPMiddleware_def Logging_def Recovery_def metric_def Let_def split: prod.split)

lemma Chain_sound: "sound s0 w \<Longrightarrow> sound s0 (fst (snd (Chain lib d up p segs r (w, l))))"
proof -
  assume w: "sound s0 w"
  obtain w1 w2 r' where c: "w1 = w\<lparr>met := met w1, drawn := drawn w1\<rparr>"
    "w2 = fst (snd (mux_handler lib d up p segs r' (w1, l)))"
    "fst (snd (Chain lib d up p segs r (w, l))) = w2\<lparr>met := met (fst (snd (Chain lib d up p segs r (w, l))))\<rparr>"
    using Chain_world by metis
  have "sound s0 w1" using w c(1) by (metis holds_simps(1,3))
  then have "sound s0 w2" unfolding c(2) by (rule mux_handler_sound)
  then show ?thesis using c(3) by (metis holds_simps(1))
qed

text \<open>A run of the server over HTTP requests, each with its path, its upgrade result and a client reference.\<close>

fun serve_http ::
  "'l RateLib \<Rightarrow> Deps \<Rightarrow> (string list \<times> (HttpResponse + unit) \<times> client_ref \<times> HttpRequest) list \<Rightarrow>
     World \<times> 'l Limits \<Rightarrow> World \<times> 'l Limits" where
  "serve_http lib d [] st = st"
| "serve_http lib d ((segs, up, p, r) # reqs) st = serve_http lib d reqs (snd (Chain lib d up p segs r st))"

text \<open>
  The HTTP server keeps the invariant: after any sequence of HTTP requests, to any paths with any
  headers and bodies, whatever fails and whatever other clients do, the constraints on the store hold and
  the store has only evolved as allowed: no message, outbox row or session is lost or altered otherwise.
\<close>

lemma http_server_invariant:
  assumes "domain_ok (store w)" and "rely domain_ok later (net w)"
  shows "domain_ok (store (fst (serve_http lib d reqs (w, l))))
    \<and> later (store w) (store (fst (serve_http lib d reqs (w, l))))"
proof -
  have "sound s0 (fst (serve_http lib d reqs (w, l)))" if "sound s0 w" for s0 w
    using that
  proof (induction reqs arbitrary: w l)
    case (Cons q reqs)
    obtain segs up p r where q: "q = (segs, up, p, r)" using prod_cases4 by blast
    obtain resp w1 l1 where "Chain lib d up p segs r (w, l) = (resp, w1, l1)" using prod_cases3 by blast
    moreover from this have "sound s0 w1" using Chain_sound [OF Cons.prems] by (metis fst_conv snd_conv)
    ultimately show ?case using q Cons.IH by simp
  qed simp
  from this [OF sound_start [OF assms]] show ?thesis by (simp add: holds_def)
qed

definition demo_rate :: "int RateLib" where
  "demo_rate = \<lparr>rt_NewLimiter = (\<lambda>rpm burst. burst), rt_Allow = (\<lambda>b _. (0 < b, b - 1))\<rparr>"

definition demo_deps :: Deps where
  "demo_deps = app_deps demo_sha demo_jwt demo_bcrypt (\<lambda>_ _. None)
     (zeroConfig\<lparr>cf_JWT := as_cfg demo_auth\<rparr>)"

definition demo_request :: "string \<Rightarrow> string \<Rightarrow> HttpRequest" where
  "demo_request m authz =
     \<lparr>hr_Method = m, hr_Pattern = '''', hr_Path = '''', hr_PathValue = (\<lambda>_. ''''), hr_Query = (\<lambda>_. ''''),
      hr_Header = (\<lambda>n. if n = ''Authorization'' then authz else ''''), hr_RemoteAddr = ''10.0.0.1:80'',
      hr_Body = ((ReadEOF, 0), (ReadEOF, 0)), hr_UserID = None\<rparr>"

section \<open>Protected endpoints\<close>

definition public_endpoints :: "Endpoint list" where
  "public_endpoints = [EOpenAPI, EDocs, EHealth, EMetrics, ERegister, ELogin, ERefresh, ELogout, EWSConnect]"

text \<open>The request carries no token that the server accepts.\<close>

definition unauthenticated :: "Deps \<Rightarrow> HttpRequest \<Rightarrow> time \<Rightarrow> bool" where
  "unauthenticated d r now =
     (let raw = bearerToken (hr_Header r ''Authorization'')
      in raw = '''' \<or> isl (ParseAccessToken (as_jwt (dp_Auth d)) (dp_Secret d) raw now))"

lemma RequireBearerAuth_refuses:
  assumes "unauthenticated d r (clock w)"
  shows "\<exists>m. RequireBearerAuth (as_jwt (dp_Auth d)) (dp_Secret d) h r w = (WriteError (Some (Unauthorized m)), w)"
  using assms by (auto simp: unauthenticated_def RequireBearerAuth_def Let_def split: sum.split)

lemma status_unauthorized: "rp_Status (WriteError (Some (Unauthorized m))) = 401"
  by (simp add: WriteError_def writeAPIError_def WriteJSON_def HTTPStatus_kind As_def apperr_defs)

definition refused :: "World \<Rightarrow> HttpResponse \<times> World \<times> 'x \<Rightarrow> bool" where
  "refused w out = (rp_Status (fst out) \<in> {401, 429} \<and> fst (snd out) = w)"

lemma protected_plain:
  "unauthenticated d r (clock w) \<Longrightarrow>
     refused w (plain (RequireBearerAuth (as_jwt (dp_Auth d)) (dp_Secret d) h) r (w, l))"
  using RequireBearerAuth_refuses [of d r w h] status_unauthorized by (auto simp: refused_def plain_def)

lemma protected_limited:
  "unauthenticated d r (clock w) \<Longrightarrow>
     refused w (limited lib get put (RequireBearerAuth (as_jwt (dp_Auth d)) (dp_Secret d) h) r (w, l))"
  using RequireBearerAuth_refuses [of d r w h] status_unauthorized
  by (auto simp: refused_def limited_def chainLimit_def rate_limited_def WriteJSON_def
      split: option.split prod.split bool.split)

lemma protected_endpoint:
  assumes "unauthenticated d r (clock w)" and "e \<notin> set public_endpoints"
  shows "refused w (endpoint_handler lib d up p e r (w, l))"
  using assms(2) protected_plain [OF assms(1)] protected_limited [OF assms(1)]
  by (cases e) (simp_all add: public_endpoints_def)

text \<open>
  C32: protected endpoints need a token.  A request that the mux directs to any endpoint but the documents,
  health, metrics, register, login, refresh, logout and the WebSocket upgrade, and that has no bearer token the
  server accepts, is answered 401, or 429 by a rate limiter, and the store and the connections stay as they are.
\<close>

theorem protected_endpoints_need_token:
  assumes "mux (hr_Method r) segs = Found e vals" and "e \<notin> set public_endpoints"
    and "unauthenticated d r (clock w)"
  shows "rp_Status (fst (Chain lib d up p segs r (w, l))) \<in> {401, 429}
    \<and> store (fst (snd (Chain lib d up p segs r (w, l)))) = store w
    \<and> hub (fst (snd (Chain lib d up p segs r (w, l)))) = hub w"
proof -
  let ?q = "r\<lparr>hr_Pattern := recorded_pattern (hr_Method r) segs\<rparr>"
  obtain w1 w2 where c: "w1 = w\<lparr>met := met w1, drawn := drawn w1\<rparr>"
    "w2 = fst (snd (mux_handler lib d up p segs ?q (w1, l)))"
    "fst (snd (Chain lib d up p segs r (w, l))) = w2\<lparr>met := met (fst (snd (Chain lib d up p segs r (w, l))))\<rparr>"
    "rp_Status (fst (Chain lib d up p segs r (w, l))) = rp_Status (fst (mux_handler lib d up p segs ?q (w1, l)))"
    using Chain_world by metis
  let ?r = "?q\<lparr>hr_PathValue := (\<lambda>n. case map_of vals n of None \<Rightarrow> '''' | Some x \<Rightarrow> x)\<rparr>"
  have same: "clock w1 = clock w" "store w1 = store w" "hub w1 = hub w" by (subst c(1), simp)+
  have "unauthenticated d ?r (clock w1)" using assms(3) same by (simp add: unauthenticated_def)
  then have out: "refused w1 (mux_handler lib d up p segs ?q (w1, l))"
    using protected_endpoint [OF _ assms(2)] assms(1) by (simp add: mux_handler_def)
  then have "w2 = w1" by (simp add: c(2) refused_def)
  moreover have "store (w2\<lparr>met := m\<rparr>) = store w2" "hub (w2\<lparr>met := m\<rparr>) = hub w2" for m by simp_all
  ultimately show ?thesis using out same c(3,4) unfolding refused_def by metis
qed

theorem protected_endpoints_need_token_witness:
  "rp_Status (fst (Chain demo_rate demo_deps (Inr ()) 0 [''chats'', team, ''messages'']
       (demo_request ''POST'' ''Bearer forged'') (demo, app_limits zeroConfig))) \<in> {401, 429}
   \<and> store (fst (snd (Chain demo_rate demo_deps (Inr ()) 0 [''chats'', team, ''messages'']
       (demo_request ''POST'' ''Bearer forged'') (demo, app_limits zeroConfig)))) = demo_store"
proof -
  let ?r = "demo_request ''POST'' ''Bearer forged''"
  have "mux (hr_Method ?r) [''chats'', team, ''messages''] = Found ECreateMessage [(''chat_id'', team)]"
    "ECreateMessage \<notin> set public_endpoints" "unauthenticated demo_deps ?r (clock demo)"
    by code_simp+
  from protected_endpoints_need_token [OF this, of demo_rate "Inr ()" 0 "app_limits zeroConfig"] show ?thesis by simp
qed

section \<open>Routes\<close>

text \<open>Whether some path is matched by both patterns.\<close>

fun compatible :: "segment \<Rightarrow> segment \<Rightarrow> bool" where
  "compatible (Lit a) (Lit b) = (a = b)"
| "compatible _ _ = True"

definition overlap :: "segment list \<Rightarrow> segment list \<Rightarrow> bool" where
  "overlap = list_all2 compatible"

lemma seg_match_overlap: "seg_match ps xs \<Longrightarrow> seg_match qs xs \<Longrightarrow> overlap ps qs"
proof (induction ps xs arbitrary: qs rule: seg_match.induct)
  case 1
  then show ?case by (cases qs) (auto simp: overlap_def elim: seg_match.elims)
next
  case (2 a ps x xs)
  then show ?case by (cases qs rule: list.exhaust; cases "hd qs") (auto simp: overlap_def)
next
  case (3 v ps x xs)
  then show ?case by (cases qs rule: list.exhaust; cases "hd qs") (auto simp: overlap_def)
qed simp_all

lemma routes_apart:
  "list_all (\<lambda>(m, ps, e). list_all (\<lambda>(n, qs, f). m = n \<longrightarrow> overlap ps qs \<longrightarrow> wilds ps = wilds qs \<longrightarrow> e = f) routes) routes"
  by code_simp

lemma method_match_eq: "method_match a m \<Longrightarrow> method_match b m \<Longrightarrow> (a, p, e) \<in> set routes \<Longrightarrow> (b, q, f) \<in> set routes \<Longrightarrow> a = b"
proof -
  have "list_all (\<lambda>(a, _). a \<noteq> ''HEAD'') routes" by code_simp
  then show "method_match a m \<Longrightarrow> method_match b m \<Longrightarrow> (a, p, e) \<in> set routes \<Longrightarrow> (b, q, f) \<in> set routes \<Longrightarrow> a = b"
    by (auto simp: method_match_def list_all_iff)
qed

text \<open>
  The routes are unambiguous.  When two routes accept the same method and path, they lead to the same endpoint or one
  has fewer wildcards, so which endpoint serves a request does not depend on the order of registration.
\<close>

lemma routes_unambiguous:
  assumes "(a, ps, e) \<in> set (matching m segs)" and "(b, qs, f) \<in> set (matching m segs)" and "wilds ps = wilds qs"
  shows "e = f"
proof -
  have a: "(a, ps, e) \<in> set routes" "method_match a m" "seg_match ps segs"
    and b: "(b, qs, f) \<in> set routes" "method_match b m" "seg_match qs segs"
    using assms(1,2) by (simp_all add: matching_def)
  have "a = b" by (rule method_match_eq [OF a(2) b(2) a(1) b(1)])
  moreover have "overlap ps qs" by (rule seg_match_overlap [OF a(3) b(3)])
  ultimately show ?thesis using routes_apart a(1) b(1) assms(3) unfolding list_all_iff by fast
qed

section \<open>Errors\<close>

text \<open>
  What a client learns of an error.  The status and the code of the response are those of the error's kind, the message
  and the details are the ones the service gave, and the cause does not show: an error that is not one of the program's own,
  from the database or a library, gives one fixed response with status 500.
\<close>

lemma error_responses:
  "WriteError (Some (AppError k m d c)) = WriteJSON (kind_HTTPStatus k) (api_error (kind_string k) m d)
   \<and> (error_kind e = None \<longrightarrow> WriteError (Some e) = WriteJSON 500 (api_error ''internal'' ''internal server error'' None))
   \<and> (error_kind e = Some k \<longrightarrow> rp_Status (WriteError (Some e)) = kind_HTTPStatus k)
   \<and> (kind_HTTPStatus k = kind_HTTPStatus k' \<longrightarrow> k = k') \<and> (kind_string k = kind_string k' \<longrightarrow> k = k')"
  by (cases e; cases k; cases k') (simp_all add: WriteError_def writeAPIError_def As_def HTTPStatus_def WriteJSON_def)

section \<open>Rate limits\<close>

text \<open>The decisions of a limiter on a sequence of requests, and of one bucket on a sequence of instants.\<close>

fun limiter_run :: "'l RateLib \<Rightarrow> (string \<times> time) list \<Rightarrow> 'l IPRateLimiter \<Rightarrow> (string \<times> bool) list" where
  "limiter_run lib [] l = []"
| "limiter_run lib ((ip, t) # reqs) l =
     (case limiter_allow lib ip t l of (ok, l') \<Rightarrow> (ip, ok) # limiter_run lib reqs l')"

fun bucket_run :: "'l RateLib \<Rightarrow> time list \<Rightarrow> 'l \<Rightarrow> bool list" where
  "bucket_run lib [] b = []"
| "bucket_run lib (t # ts) b = (case rt_Allow lib b t of (ok, b') \<Rightarrow> ok # bucket_run lib ts b')"

definition bucket_of :: "'l RateLib \<Rightarrow> string \<Rightarrow> 'l IPRateLimiter \<Rightarrow> 'l" where
  "bucket_of lib ip l =
     (case map_of (il_byIP l) ip of None \<Rightarrow> rt_NewLimiter lib (il_rpm l) (il_burst l) | Some e \<Rightarrow> le_lim e)"

lemma map_of_set_entry: "map_of (set_entry ip e es) = (map_of es)(ip \<mapsto> e)"
proof
  fix k
  have "map_of (filter (\<lambda>kv. fst kv \<noteq> ip) es) k = (if k = ip then None else map_of es k)"
    by (induction es) auto
  then show "map_of (set_entry ip e es) k = ((map_of es)(ip \<mapsto> e)) k"
    by (simp add: set_entry_def map_add_def split: option.split)
qed

lemma keys_set_entry:
  "distinct (map fst es) \<Longrightarrow> distinct (map fst (set_entry ip e es))"
  "fst ` set (set_entry ip e es) = insert ip (fst ` set es)"
proof -
  show "distinct (map fst es) \<Longrightarrow> distinct (map fst (set_entry ip e es))"
    by (auto simp: set_entry_def distinct_map_filter)
  show "fst ` set (set_entry ip e es) = insert ip (fst ` set es)"
    by (auto simp: set_entry_def image_iff)
qed

text \<open>While at most 2048 clients are on record nothing is swept.\<close>

lemma limiter_allow_step:
  assumes "distinct (map fst (il_byIP l))" and "length (il_byIP l) \<le> max_clients"
    and "limiter_allow lib ip t l = (ok, l')"
  shows "rt_Allow lib (bucket_of lib ip l) t = (ok, bucket_of lib ip l')"
    and "ip' \<noteq> ip \<Longrightarrow> bucket_of lib ip' l' = bucket_of lib ip' l"
    and "distinct (map fst (il_byIP l')) \<and> fst ` set (il_byIP l') = insert ip (fst ` set (il_byIP l))"
proof -
  obtain b where b: "rt_Allow lib (bucket_of lib ip l) t = (ok, b)"
    and l': "l' = l\<lparr>il_byIP := set_entry ip \<lparr>le_lim = b, le_last = t\<rparr>
      (set_entry ip \<lparr>le_lim = bucket_of lib ip l, le_last = t\<rparr> (il_byIP l))\<rparr>"
    using assms(2,3)
    by (auto simp: limiter_allow_def getLimiter_def sweep_def Let_def bucket_of_def [symmetric] split: prod.splits)
  show "rt_Allow lib (bucket_of lib ip l) t = (ok, bucket_of lib ip l')"
    using b by (simp add: l') (simp add: bucket_of_def map_of_set_entry)
  show "ip' \<noteq> ip \<Longrightarrow> bucket_of lib ip' l' = bucket_of lib ip' l"
    by (simp add: l') (simp add: bucket_of_def map_of_set_entry split: option.split)
  show "distinct (map fst (il_byIP l')) \<and> fst ` set (il_byIP l') = insert ip (fst ` set (il_byIP l))"
    using assms(1) by (simp add: l' keys_set_entry)
qed

text \<open>
  C35: the rate limiter is one token bucket per client.  As long as at most 2048 clients are seen, the decisions on the
  requests of a client are those a bucket of its own would take at those instants, whatever other clients do.
\<close>

theorem limiter_isolates_clients:
  assumes "NewIPRateLimiter name rpm burst = Some l" and "card (fst ` set reqs) \<le> max_clients"
  shows "map snd (filter (\<lambda>d. fst d = ip) (limiter_run lib reqs l))
    = bucket_run lib (map snd (filter (\<lambda>q. fst q = ip) reqs)) (rt_NewLimiter lib (il_rpm l) (il_burst l))"
proof -
  have run: "map snd (filter (\<lambda>d. fst d = ip) (limiter_run lib reqs l))
      = bucket_run lib (map snd (filter (\<lambda>q. fst q = ip) reqs)) (bucket_of lib ip l)"
    if "distinct (map fst (il_byIP l))" "card (fst ` set (il_byIP l) \<union> fst ` set reqs) \<le> max_clients" for reqs l
    using that
  proof (induction reqs arbitrary: l)
    case (Cons q reqs)
    obtain i t where q: "q = (i, t)" by fastforce
    obtain ok l' where step: "limiter_allow lib i t l = (ok, l')" by fastforce
    have "card (fst ` set (il_byIP l)) \<le> card (fst ` set (il_byIP l) \<union> fst ` set (q # reqs))"
      by (rule card_mono) auto
    moreover have "card (fst ` set (il_byIP l)) = length (il_byIP l)"
      using distinct_card [OF Cons.prems(1)] by simp
    ultimately have "length (il_byIP l) \<le> max_clients" using Cons.prems(2) by linarith
    note s = limiter_allow_step [OF Cons.prems(1) this step]
    have "card (fst ` set (il_byIP l') \<union> fst ` set reqs) \<le> max_clients"
      using Cons.prems(2) s(3) q by simp
    then show ?case using Cons.IH [of l'] s q step by (cases "i = ip") auto
  qed simp
  have "il_byIP l = []" using assms(1) by (auto simp: NewIPRateLimiter_def split: if_splits)
  with run [of l reqs] assms(2) show ?thesis by (simp add: bucket_of_def)
qed

theorem limiter_isolates_clients_witness:
  "\<exists>l. NewIPRateLimiter ''login'' 3 1 = Some l
     \<and> map snd (filter (\<lambda>d. fst d = ''b'') (limiter_run demo_rate [(''a'', 1), (''a'', 2), (''b'', 3), (''b'', 4)] l))
       = [True, False]"
proof -
  let ?l = "\<lparr>il_name = ''login'', il_rpm = 3, il_burst = 1, il_byIP = []\<rparr> :: int IPRateLimiter"
  have l: "NewIPRateLimiter ''login'' 3 1 = Some ?l" by (simp add: NewIPRateLimiter_def)
  have few: "card (fst ` set [(''a'', 1 :: int), (''a'', 2), (''b'', 3), (''b'', 4)]) \<le> max_clients"
    by (simp add: max_clients_def)
  show ?thesis
    using l limiter_isolates_clients [OF l few, of "''b''" demo_rate] by (simp add: demo_rate_def)
qed

section \<open>Configuration\<close>

text \<open>
  C36: what a loaded configuration guarantees.  When \<^verbatim>\<open>Load\<close> succeeds, whatever the file and the environment hold, the
  signing secret has at least 16 characters, both token lifetimes are positive and the refresh token lives at
  least as long as the access token, every rate limiter is on with a burst between 1 and 60, the bearer check uses the
  secret tokens are signed with, and Kafka, if enabled, has a broker text and a topic.
\<close>

theorem loaded_config_is_safe:
  assumes "Load env readFile yamlUnmarshal = Inr c"
  shows "16 \<le> length (TrimSpace (jc_Secret (cf_JWT c)))
    \<and> 0 < jc_AccessTTLSeconds (cf_JWT c) \<and> jc_AccessTTLSeconds (cf_JWT c) \<le> jc_RefreshTTLSeconds (cf_JWT c)
    \<and> (\<forall>l \<in> {lm_Register (app_limits c), lm_Login (app_limits c), lm_MessageSend (app_limits c),
               lm_WSConnect (app_limits c)}. \<exists>x. l = Some x \<and> 1 \<le> il_burst x \<and> il_burst x \<le> 60)
    \<and> dp_Secret (app_deps sha j b tp c) = TrimSpace (jc_Secret (as_cfg (dp_Auth (app_deps sha j b tp c))))
    \<and> (kc_Enabled (cf_Kafka c) \<longrightarrow> TrimSpace (kc_Brokers (cf_Kafka c)) \<noteq> '''' \<and> TrimSpace (kc_Topic (cf_Kafka c)) \<noteq> '''')"
proof -
  from assms obtain c0 where c: "c = applyObservabilityDefaults (applyKafkaDefaults (applyRateLimitDefaults c0))"
    and v: "Config_Validate c = None"
    by (auto simp: Load_def Let_def split: sum.splits option.splits)
  have jwt: "Validate_jwt (cf_JWT c) = None"
    and br: "kc_Enabled (cf_Kafka c) \<Longrightarrow> TrimSpace (kc_Brokers (cf_Kafka c)) \<noteq> ''''"
    using v by (auto simp: Config_Validate_def split: if_splits option.splits)
  have j: "16 \<le> length (TrimSpace (jc_Secret (cf_JWT c)))" "0 < jc_AccessTTLSeconds (cf_JWT c)"
    "jc_AccessTTLSeconds (cf_JWT c) \<le> jc_RefreshTTLSeconds (cf_JWT c)"
    using jwt by (auto simp: Validate_jwt_def split: if_splits)
  have r: "0 < rl_LoginPerMinute (cf_RateLimit c)" "0 < rl_RegisterPerMinute (cf_RateLimit c)"
    "0 < rl_MessageSendPerMinute (cf_RateLimit c)" "0 < rl_WSConnectPerMinute (cf_RateLimit c)"
    by (simp_all add: c applyObservabilityDefaults_def applyKafkaDefaults_def applyRateLimitDefaults_def positive_or_def)
  have "TrimSpace ''goflow.domain.events'' \<noteq> ''''" by code_simp
  then have topic: "TrimSpace (kc_Topic (cf_Kafka c)) \<noteq> ''''"
    by (simp add: c applyObservabilityDefaults_def applyKafkaDefaults_def nonblank_or_def)
  have lims: "\<forall>l \<in> {lm_Register (app_limits c), lm_Login (app_limits c), lm_MessageSend (app_limits c),
               lm_WSConnect (app_limits c)}. \<exists>x. l = Some x \<and> 1 \<le> il_burst x \<and> il_burst x \<le> 60"
    using r by (simp add: app_limits_def NewIPRateLimiter_def default_burst_def Let_def)
  show ?thesis using j lims br topic by (simp add: app_deps_def Let_def)
qed

definition demo_env :: environment where
  "demo_env n =
     (case map_of [(''HTTP_PORT'', ''8080''), (''POSTGRES_DSN'', ''postgres://db''), (''REDIS_ADDR'', ''redis:6379''),
        (''JWT_SECRET'', '' 0123456789abcdef ''), (''JWT_ACCESS_TTL_SECONDS'', ''900''),
        (''JWT_REFRESH_TTL_SECONDS'', ''3600''), (''KAFKA_ENABLED'', ''True''), (''KAFKA_BROKERS'', ''a:1,b:2'')] n of
      None \<Rightarrow> '''' | Some v \<Rightarrow> v)"

theorem loaded_config_is_safe_witness:
  "\<exists>c. Load demo_env (\<lambda>_. FileNotExist) (\<lambda>_ c. Inr c) = Inr c
     \<and> kc_Enabled (cf_Kafka c) \<and> TrimSpace (kc_Topic (cf_Kafka c)) \<noteq> ''''"
proof -
  have "case Load demo_env (\<lambda>_. FileNotExist) (\<lambda>_ c. Inr c) of Inl _ \<Rightarrow> False | Inr c \<Rightarrow> kc_Enabled (cf_Kafka c)"
    by code_simp
  then obtain c where "Load demo_env (\<lambda>_. FileNotExist) (\<lambda>_ c. Inr c) = Inr c" "kc_Enabled (cf_Kafka c)"
    by (auto split: sum.splits)
  then show ?thesis using loaded_config_is_safe by blast
qed

end
