(* ===== verification/StartProps.thy ===== *)
theory StartProps
  imports Startup MigrationProps HttpProps
begin

text \<open>
  Start and shutdown of the process: what holds when the application begins to serve, and how long a shutdown takes and
  what it leaves behind.
\<close>

section \<open>Metrics\<close>

lemma MustRegister_ok: "distinct ns \<Longrightarrow> set ns \<inter> set reg = {} \<Longrightarrow> MustRegister reg ns = Some (reg @ ns)"
  by (induction ns arbitrary: reg) auto

text \<open>The names of the application's collectors differ, so \<^verbatim>\<open>metrics.New\<close> panics only if the library has taken one of them.\<close>

lemma metrics_New_registers: "set (map fst collectors) \<inter> set std = {} \<Longrightarrow> metrics_New std = Some zero_M"
proof -
  have "distinct (map fst collectors)" by code_simp
  then show "set (map fst collectors) \<inter> set std = {} \<Longrightarrow> metrics_New std = Some zero_M"
    by (simp add: metrics_New_def MustRegister_ok)
qed

lemma metrics_New_zero: "metrics_New std = Some m \<Longrightarrow> m = zero_M"
  by (simp add: metrics_New_def split: option.splits)

section \<open>Container and application\<close>

definition full_container :: "M \<Rightarrow> Config \<Rightarrow> Logger \<Rightarrow> Container" where
  "full_container m cfg log =
     \<lparr>ct_Config = Some cfg, ct_Logger = Some log, ct_Metrics = Some m, ct_Pool = Some (), ct_Redis = Some (),
      ct_Users = Some (), ct_Chats = Some (), ct_Messages = Some (), ct_Sessions = Some (),
      ct_MessagesWriter = Some (), ct_Outbox = Some (),
      ct_Presence = Some (), ct_Typing = Some (), ct_PubSub = Some (), ct_WSTicket = Some ()\<rparr>"

lemma loaded_has_redis:
  assumes "Load env readFile yamlUnmarshal = Inr c"
  shows "TrimSpace (rd_Addr (cf_Redis c)) \<noteq> ''''"
proof -
  have "Config_Validate c = None"
    using assms by (auto simp: Load_def Let_def split: sum.splits option.splits)
  then show ?thesis by (auto simp: Config_Validate_def split: if_splits)
qed

lemma NewContainer_full:
  assumes "TrimSpace (rd_Addr (cf_Redis cfg)) \<noteq> ''''" and "NewContainer m cfg (Some log) (Some ()) w = (Inr c, w')"
  shows "c = full_container m cfg log \<and> roundtrip redis_Ping (w\<lparr>met := Some m\<rparr>) = (Inr (), w')"
  using assms by (auto simp: NewContainer_def full_container_def Let_def elim!: call_Inr_cases)

lemma full_wiring:
  "app_wiring lb cfg (full_container m cfg log) =
    \<lparr>wi_Metrics = Some m, wi_Auth = Some (dp_Auth (app_deps (li_sha256 lb) (li_jwt lb) (li_bcrypt lb) tp cfg)),
     wi_Users = Some (), wi_Chats = Some (),
     wi_Messages = Some (dp_Messages (app_deps (li_sha256 lb) (li_jwt lb) (li_bcrypt lb) tp cfg)),
     wi_WS = Some (dp_WS (app_deps (li_sha256 lb) (li_jwt lb) (li_bcrypt lb) tp cfg)),
     wi_WSTicket = dp_WSTicket (app_deps (li_sha256 lb) (li_jwt lb) (li_bcrypt lb) tp cfg)\<rparr>"
  by (simp add: app_wiring_def full_container_def app_deps_def app_messages_def app_presence_def app_broadcaster_def Let_def)

text \<open>With every service present, the routes registered are the routes of \<open>Router\<close>.\<close>

lemma all_routes_registered:
  assumes "wi_Metrics d \<noteq> None" "wi_Auth d \<noteq> None" "wi_Users d \<noteq> None" "wi_Chats d \<noteq> None"
    "wi_Messages d \<noteq> None" "wi_WS d \<noteq> None" "wi_WSTicket d \<noteq> None"
  shows "Register_routes d = routes"
  using assms by (simp add: Register_routes_def docs_Register_def only_if_def routes_def)

lemma drawn_same: "\<exists>n. w = w\<lparr>drawn := n\<rparr>"
  by (rule exI [of _ "drawn w"]) simp

lemma outbox_tasks_run:
  "\<exists>ts n. outbox_tasks cfg w =
     (Inr (RunRelay (app_relay (kc_Enabled (cf_Kafka cfg)) (kc_Brokers (cf_Kafka cfg)) (kc_Topic (cf_Kafka cfg))) # ts),
      w\<lparr>drawn := n\<rparr>)"
  by (auto simp: outbox_tasks_def Let_def kafkaWSFanoutConsumerGroup_def call_def uuid_NewString_def drawn_same)

lemma App_New_full:
  assumes "App_New lb (Some (full_container m cfg log)) w = (Inr a, w')"
  shows "app_Wiring a = app_wiring lb cfg (full_container m cfg log) \<and> app_Limits a = app_limits cfg
    \<and> app_Hub a \<and> app_Producer a = app_producer cfg
    \<and> RunRelay (app_relay (kc_Enabled (cf_Kafka cfg)) (kc_Brokers (cf_Kafka cfg)) (kc_Topic (cf_Kafka cfg)))
        \<in> set (app_Tasks a)
    \<and> RunRedisRelay \<lparr>bc_pub = True\<rparr> \<in> set (app_Tasks a)
    \<and> store w' = store w \<and> met w' = met w \<and> hub w' = NewHub True"
proof -
  let ?c = "full_container m cfg log" let ?w = "w\<lparr>hub := NewHub True\<rparr>"
  obtain ts n where ts: "outbox_tasks cfg ?w =
     (Inr (RunRelay (app_relay (kc_Enabled (cf_Kafka cfg)) (kc_Brokers (cf_Kafka cfg)) (kc_Topic (cf_Kafka cfg))) # ts),
      ?w\<lparr>drawn := n\<rparr>)"
    using outbox_tasks_run by blast
  have c: "ct_Config ?c = Some cfg" "ct_Logger ?c = Some log" "app_messages ?c \<noteq> None" "ct_Chats ?c \<noteq> None" "ct_Outbox ?c \<noteq> None"
    "ct_PubSub ?c \<noteq> None" "ct_Metrics ?c \<noteq> None" "app_broadcaster ?c = \<lparr>bc_pub = True\<rparr>"
    by (simp_all add: full_container_def app_messages_def app_broadcaster_def)
  show ?thesis using assms ts c by (auto simp: App_New_def Let_def only_if_def call_def)
qed

section \<open>Start\<close>

lemma start_cases:
  assumes "start ev w = (Inr a, w')"
  obtains cfg w1 w2 where "Load (ev_env ev) (ev_readFile ev) (ev_yaml ev) = Inr cfg"
    and "(if rc_RunMigrationsOnStartup (cf_Runtime cfg) then Up (ev_fs ev) (ev_ddl ev) (Some ()) else ret ()) w = (Inr (), w1)"
    and "roundtrip redis_Ping (w1\<lparr>met := Some zero_M\<rparr>) = (Inr (), w2)"
    and "App_New (ev_libs ev) (Some (full_container zero_M cfg (logger_New (Some cfg)))) w2 = (Inr a, w')"
proof -
  from assms obtain cfg w1 m c w2 where load: "Load (ev_env ev) (ev_readFile ev) (ev_yaml ev) = Inr cfg"
    and up: "(if rc_RunMigrationsOnStartup (cf_Runtime cfg) then Up (ev_fs ev) (ev_ddl ev) (Some ()) else ret ()) w = (Inr (), w1)"
    and m: "metrics_New (li_metrics (ev_libs ev)) = Some m"
    and c: "NewContainer m cfg (Some (logger_New (Some cfg))) (Some ()) w1 = (Inr c, w2)"
    and new: "App_New (ev_libs ev) (Some c) w2 = (Inr a, w')"
    unfolding start_def by (simp split: sum.splits prod.splits option.splits cong: if_cong)
  show thesis
    using that [OF load up] NewContainer_full [OF loaded_has_redis [OF load] c] new metrics_New_zero [OF m] by simp
qed

lemma redis_Ping_reads: "reads_only redis_Ping"
  by (simp add: reads_only_def redis_Ping_def)

lemma migrated_stays:
  assumes "holds (schema_ok fs names) schema_grows s0 w" and "stamped (store w) = names"
    and "roundtrip redis_Ping (w\<lparr>met := m\<rparr>) = (r, w')"
  shows "stamped (store w') = names"
proof -
  have "holds (schema_ok fs names) schema_grows (store w) (w\<lparr>met := m\<rparr>)"
    using schema.holds_restart [OF assms(1)] by simp
  then have "holds (schema_ok fs names) schema_grows (store w) w'"
    using keepsD [OF schema.keeps_roundtrip [OF schema.reads_only_keeps [OF redis_Ping_reads]]] assms(3) by (metis snd_conv)
  then have "prefix names (stamped (store w'))" "prefix (stamped (store w')) names"
    using assms(2) by (simp_all add: holds_def schema_ok_def schema_grows_def)
  then show ?thesis by (simp add: prefix_order.antisym)
qed

text \<open>Nothing stops a start on a calm network with a valid configuration and scripts that run.\<close>

lemma NewContainer_calm:
  assumes "TrimSpace (rd_Addr (cf_Redis cfg)) \<noteq> ''''" and "calm w"
  shows "\<exists>w'. NewContainer m cfg (Some log) (Some ()) w = (Inr (full_container m cfg log), w')"
  using assms by (simp add: NewContainer_def Let_def roundtrip_calm redis_Ping_def call_def full_container_def)

lemma App_New_runs: "\<exists>a w'. App_New lb (Some (full_container m cfg log)) w = (Inr a, w')"
proof -
  let ?c = "full_container m cfg log" let ?w = "w\<lparr>hub := NewHub True\<rparr>"
  obtain ts n where "outbox_tasks cfg ?w =
     (Inr (RunRelay (app_relay (kc_Enabled (cf_Kafka cfg)) (kc_Brokers (cf_Kafka cfg)) (kc_Topic (cf_Kafka cfg))) # ts),
      ?w\<lparr>drawn := n\<rparr>)"
    using outbox_tasks_run by blast
  moreover have "ct_Config ?c = Some cfg" "ct_Logger ?c = Some log" "app_messages ?c \<noteq> None" "ct_Chats ?c \<noteq> None"
    "ct_Outbox ?c \<noteq> None" "ct_Metrics ?c \<noteq> None"
    by (simp_all add: full_container_def app_messages_def)
  ultimately show ?thesis by (auto simp: App_New_def Let_def call_def)
qed

lemma start_calm:
  assumes "calm w" and load: "Load (ev_env ev) (ev_readFile ev) (ev_yaml ev) = Inr cfg"
    and "\<not> isl (NewPool (ev_pgx ev) (pc_DSN (cf_Postgres cfg)))" and "set (map fst collectors) \<inter> set (li_metrics (ev_libs ev)) = {}"
    and "fs_ReadDir (ev_fs ev) = Inr entries" and "distinct (map fst entries)"
    and "schema_ok (ev_fs ev) (sql_names entries) (store w)" and "scripts_run (ev_fs ev) (ev_ddl ev) (sql_names entries)"
  shows "\<exists>a w'. start ev w = (Inr (a :: 'l App), w')"
proof -
  obtain w1 where up: "(if rc_RunMigrationsOnStartup (cf_Runtime cfg) then Up (ev_fs ev) (ev_ddl ev) (Some ()) else ret ()) w = (Inr (), w1)"
    and "calm w1"
    using assms(1) by (cases "rc_RunMigrationsOnStartup (cf_Runtime cfg)")
      (auto intro: Up_calm [OF assms(1,5,6,7,8)])
  obtain w2 where c: "NewContainer zero_M cfg (Some (logger_New (Some cfg))) (Some ()) w1 =
      (Inr (full_container zero_M cfg (logger_New (Some cfg))), w2)"
    using NewContainer_calm [OF loaded_has_redis [OF load] \<open>calm w1\<close>] by blast
  obtain a :: "'l App" and w3 where "App_New (ev_libs ev) (Some (full_container zero_M cfg (logger_New (Some cfg)))) w2 = (Inr a, w3)"
    using App_New_runs by blast
  with up c show ?thesis
    using load assms(3) metrics_New_registers [OF assms(4)]
    by (cases "NewPool (ev_pgx ev) (pc_DSN (cf_Postgres cfg))") (simp_all add: start_def)
qed

text \<open>
  C33: when the program serves, everything it needs is in place.  If start-up reaches the call of \<^verbatim>\<open>Run\<close>, then the configuration was
  loaded and validated; with migrations on, all of them have been applied; every route of the API is registered, on services
  that are built from this configuration; the rate limiters are those of the configuration; the outbox relay and the Redis subscription run; and
  the hub and the metrics are empty.  Any failure on the way ends the process with exit code 1 or 2 instead.
\<close>

theorem start_is_complete:
  assumes "start ev w = (Inr a, w')"
    and "fs_ReadDir (ev_fs ev) = Inr entries" and "distinct (map fst entries)"
    and "schema_ok (ev_fs ev) (sql_names entries) (store w)"
    and "rely (schema_ok (ev_fs ev) (sql_names entries)) schema_grows (net w)"
  shows "\<exists>cfg d. Load (ev_env ev) (ev_readFile ev) (ev_yaml ev) = Inr cfg
    \<and> (rc_RunMigrationsOnStartup (cf_Runtime cfg) \<longrightarrow> stamped (store w') = sql_names entries)
    \<and> Register_routes (app_Wiring a) = routes
    \<and> d = app_deps (li_sha256 (ev_libs ev)) (li_jwt (ev_libs ev)) (li_bcrypt (ev_libs ev)) (li_TimeParse (ev_libs ev)) cfg
    \<and> wi_Auth (app_Wiring a) = Some (dp_Auth d) \<and> wi_Messages (app_Wiring a) = Some (dp_Messages d)
    \<and> wi_WS (app_Wiring a) = Some (dp_WS d) \<and> wi_WSTicket (app_Wiring a) = dp_WSTicket d
    \<and> app_Limits a = app_limits cfg
    \<and> RunRelay (app_relay (kc_Enabled (cf_Kafka cfg)) (kc_Brokers (cf_Kafka cfg)) (kc_Topic (cf_Kafka cfg)))
        \<in> set (app_Tasks a)
    \<and> RunRedisRelay \<lparr>bc_pub = True\<rparr> \<in> set (app_Tasks a)
    \<and> hub w' = NewHub True \<and> met w' = Some zero_M"
proof -
  let ?n = "sql_names entries" let ?H = "holds (schema_ok (ev_fs ev) (sql_names entries)) schema_grows"
  obtain cfg w1 w2 where load: "Load (ev_env ev) (ev_readFile ev) (ev_yaml ev) = Inr cfg"
    and up: "(if rc_RunMigrationsOnStartup (cf_Runtime cfg) then Up (ev_fs ev) (ev_ddl ev) (Some ()) else ret ()) w = (Inr (), w1)"
    and ping: "roundtrip redis_Ping (w1\<lparr>met := Some zero_M\<rparr>) = (Inr (), w2)"
    and new: "App_New (ev_libs ev) (Some (full_container zero_M cfg (logger_New (Some cfg)))) w2 = (Inr a, w')"
    using assms(1) by (rule start_cases)
  note app = App_New_full [OF new]
  have "stamped (store w2) = ?n" if "rc_RunMigrationsOnStartup (cf_Runtime cfg)"
    using Up_keeps [OF assms(2-5), of "ev_ddl ev"] up that migrated_stays [OF _ _ ping, of "ev_fs ev" ?n "store w"] by simp
  moreover have "met w2 = Some zero_M" using ping roundtrip_fields(3) [of redis_Ping "w1\<lparr>met := Some zero_M\<rparr>"] by simp
  ultimately show ?thesis
    using load app
    by (auto simp: all_routes_registered
        full_wiring [where tp = "li_TimeParse (ev_libs ev)"] app_deps_def Let_def)
qed

definition demo_environment :: Environment where
  "demo_environment =
     \<lparr>ev_env = demo_env(''RUN_MIGRATIONS_ON_STARTUP'' := ''true''), ev_readFile = (\<lambda>_. FileNotExist), ev_yaml = (\<lambda>_ c. Inr c),
      ev_pgx = \<lparr>px_ParseConfig = (\<lambda>_. Inr ()), px_NewWithConfig = (\<lambda>_. Inr ())\<rparr>, ev_fs = demo_fs, ev_ddl = demo_ddl,
      ev_libs = \<lparr>li_sha256 = demo_sha, li_jwt = demo_jwt, li_bcrypt = demo_bcrypt, li_TimeParse = (\<lambda>_ _. None),
        li_metrics = [''go_goroutines'', ''process_open_fds'']\<rparr>\<rparr>"

lemma demo_environment_loads:
  "\<exists>cfg. Load (ev_env demo_environment) (ev_readFile demo_environment) (ev_yaml demo_environment) = Inr cfg
     \<and> rc_RunMigrationsOnStartup (cf_Runtime cfg)"
proof -
  have "case Load (ev_env demo_environment) (ev_readFile demo_environment) (ev_yaml demo_environment) of
      Inl _ \<Rightarrow> False | Inr cfg \<Rightarrow> rc_RunMigrationsOnStartup (cf_Runtime cfg)"
    by code_simp
  then show ?thesis by (simp split: sum.splits)
qed

lemma demo_starts: "\<exists>a w'. start demo_environment demo = (Inr (a :: int App), w')"
proof -
  obtain cfg where load: "Load (ev_env demo_environment) (ev_readFile demo_environment) (ev_yaml demo_environment) = Inr cfg"
    using demo_environment_loads by blast
  have fs: "ev_fs demo_environment = demo_fs" "ev_ddl demo_environment = demo_ddl" by (simp_all add: demo_environment_def)
  have std: "set (map fst collectors) \<inter> set (li_metrics (ev_libs demo_environment)) = {}" by code_simp
  show ?thesis
    using start_calm [OF _ load _ std, of demo demo_entries] demo_migration fs
    by (auto simp: calm_def NewPool_def demo_environment_def)
qed

theorem start_is_complete_witness:
  "\<exists>a w'. start demo_environment demo = (Inr (a :: int App), w') \<and> stamped (store w') = demo_files
     \<and> Register_routes (app_Wiring a) = routes"
proof -
  obtain a w' where st: "start demo_environment demo = (Inr (a :: int App), w')" using demo_starts by blast
  have "ev_fs demo_environment = demo_fs" by (simp add: demo_environment_def)
  then show ?thesis
    using start_is_complete [OF st, of demo_entries] st demo_migration demo_environment_loads by auto
qed

section \<open>Shutdown\<close>

lemma wait_for_bound: "0 \<le> limit \<Longrightarrow> wait_for limit t = (b, d) \<Longrightarrow> 0 \<le> d \<and> d \<le> limit"
  by (auto simp: wait_for_def split: option.splits if_splits)

lemma http_Shutdown_bound: "0 \<le> limit \<Longrightarrow> http_Shutdown limit re = (r, d) \<Longrightarrow> 0 \<le> d \<and> d \<le> limit"
  by (auto simp: http_Shutdown_def split: prod.splits bool.splits option.splits dest: wait_for_bound)

lemma CloseAll_closed: "registered h u p \<Longrightarrow> hub_heap (CloseAll h) p = Some c \<Longrightarrow> \<not> cl_open c"
  by (auto simp: CloseAll_def registered_def ran_def split: if_splits)

lemma registered_CloseAll: "registered (CloseAll h) u p = registered h u p"
  by (simp add: registered_def CloseAll_def)

text \<open>
  C30: a shutdown ends in bounded time.  After a signal \<^verbatim>\<open>Run\<close> returns within 27 seconds (12 for the workers and 15 for open
  requests) and the time that closing the Kafka writer takes, even if a worker or a request never ends; only a writer whose \<^verbatim>\<open>Close\<close> never
  returns can hold it.  When the server starts to drain, every connection that is then registered is closed, whatever the
  other goroutines have done meanwhile (a connection that registers later is not).  \<^verbatim>\<open>Run\<close> reports no error exactly if no requests were cut off,
  the listeners closed without an error and the server ended as asked.
\<close>

theorem shutdown_is_bounded:
  assumes "re_First re = Signalled" and "App_Run a re during w = (r, acts, w')" and "app_Hub a"
  shows "(r = None \<longleftrightarrow> app_Producer a \<noteq> None \<and> re_Close re = None)
    \<and> (r \<noteq> None \<longrightarrow>
        clock (during Serving w) \<le> clock w'
        \<and> clock w' \<le> clock (during Serving w) + 27 * Second
            + (case (app_Producer a, re_Close re) of (Some _, Some n) \<Rightarrow> int n | _ \<Rightarrow> 0)
        \<and> (\<exists>v. hub w' = hub (during Draining v)
            \<and> registered (hub v) = registered (hub (during Stopping (during Serving w)))
            \<and> (\<forall>u p c. registered (hub v) u p \<longrightarrow> hub_heap (hub v) p = Some c \<longrightarrow> \<not> cl_open c))
        \<and> (r = Some (Inr ()) \<longleftrightarrow> (\<exists>n. re_Drained re = Some n \<and> int n \<le> 15 * Second) \<and> re_Listeners re = None
            \<and> serve_result (re_ListenEnd re) = Inr ()))"
proof -
  let ?w = "during Serving w" let ?w1 = "during Stopping ?w"
  obtain f d where wf: "wait_for (12 * Second) (re_Workers re) = (f, d)" by fastforce
  obtain sh d2 where sd: "http_Shutdown (15 * Second) re = (sh, d2)" by fastforce
  have b: "0 \<le> d" "d \<le> 12 * Second" "0 \<le> d2" "d2 \<le> 15 * Second"
    using wait_for_bound [OF _ wf] http_Shutdown_bound [OF _ sd] by (simp_all add: Second_def)
  have sh: "(sh = Inr ()) = ((\<exists>n. re_Drained re = Some n \<and> int n \<le> 15 * Second) \<and> re_Listeners re = None)"
    using sd by (auto simp: http_Shutdown_def wait_for_def split: option.splits if_splits)
  show ?thesis
  proof (cases "app_Producer a \<noteq> None \<and> re_Close re = None")
    case True
    then show ?thesis using assms wf by (auto simp: App_Run_def Producer_Close_def Let_def)
  next
    case False
    define n where "n = (case (app_Producer a, re_Close re) of (Some _, Some n) \<Rightarrow> n | _ \<Rightarrow> 0)"
    have n: "(if app_Producer a \<noteq> None then Producer_Close (app_Producer a) (re_Close re) else Some 0) = Some n"
      using False by (auto simp: n_def Producer_Close_def)
    define v where "v = ?w1\<lparr>clock := clock ?w + d + int n, hub := CloseAll (hub ?w1)\<rparr>"
    have w': "w' = (during Draining v)\<lparr>clock := clock v + d2\<rparr>" and ne: "r \<noteq> None"
      and r: "(r = Some (Inr ())) = (sh = Inr () \<and> serve_result (re_ListenEnd re) = Inr ())"
      using assms wf sd n by (auto simp: App_Run_def Let_def v_def split: sum.splits)
    have closed: "\<not> cl_open c" if "registered (hub v) u p" "hub_heap (hub v) p = Some c" for u p c
      using that CloseAll_closed by (auto simp: registered_CloseAll v_def)
    have "registered (hub v) = registered (hub ?w1)" by (simp add: v_def registered_CloseAll fun_eq_iff)
    moreover have "hub w' = hub (during Draining v)" "clock w' = clock ?w + d + int n + d2" by (simp_all add: w' v_def)
    moreover have "(case (app_Producer a, re_Close re) of (Some _, Some n) \<Rightarrow> int n | _ \<Rightarrow> 0) = int n"
      by (simp add: n_def split: option.split)
    ultimately show ?thesis using False ne b closed r sh by auto
  qed
qed

text \<open>A worker that never returns, with one connection open.\<close>

definition demo_app :: "int App" where
  "demo_app =
     \<lparr>app_Addr = '':8080'',
      app_Wiring = app_wiring (ev_libs demo_environment) zeroConfig (full_container zero_M zeroConfig (logger_New None)),
      app_Limits = app_limits zeroConfig, app_Hub = True, app_Producer = None, app_Tasks = []\<rparr>"

definition demo_stuck :: RunEnv where
  "demo_stuck =
     \<lparr>re_First = Signalled, re_Workers = None, re_Close = None, re_Drained = Some 1000, re_Listeners = None,
      re_ListenEnd = Some ErrServerClosed\<rparr>"

theorem shutdown_is_bounded_witness:
  "fst (App_Run demo_app demo_stuck (\<lambda>_ v. v) (demo\<lparr>hub := Register 0 (newClient alice) (NewHub True)\<rparr>)) = Some (Inr ())
   \<and> clock (snd (snd (App_Run demo_app demo_stuck (\<lambda>_ v. v) (demo\<lparr>hub := Register 0 (newClient alice) (NewHub True)\<rparr>))))
       \<le> 5000 + 27 * Second"
proof -
  let ?w = "demo\<lparr>hub := Register 0 (newClient alice) (NewHub True)\<rparr>"
  obtain r acts w' where run: "App_Run demo_app demo_stuck (\<lambda>_ v. v) ?w = (r, acts, w')" by (metis prod_cases3)
  have "re_First demo_stuck = Signalled" "app_Hub demo_app" "app_Producer demo_app = None" "re_Drained demo_stuck = Some 1000"
    "re_Listeners demo_stuck = None" "serve_result (re_ListenEnd demo_stuck) = Inr ()"
    by (simp_all add: demo_stuck_def demo_app_def serve_result_def ErrServerClosed_def)
  then show ?thesis using shutdown_is_bounded [OF _ run] run by (simp add: Second_def)
qed

text \<open>
  A connection that is upgraded while the server drains is still open when \<^verbatim>\<open>Run\<close> returns.
\<close>

lemma late_connection_stays_open:
  assumes "re_First re = Signalled" and "app_Hub a" and "app_Producer a = None"
    and "App_Run a re (\<lambda>ph v. if ph = Draining then v\<lparr>hub := Register p (newClient u) (hub v)\<rparr> else v) w = (r, acts, w')"
  shows "registered (hub w') u p \<and> hub_heap (hub w') p = Some (newClient u)"
proof -
  obtain f d where "wait_for (12 * Second) (re_Workers re) = (f, d)" by fastforce
  moreover obtain sh d2 where "http_Shutdown (15 * Second) re = (sh, d2)" by fastforce
  ultimately have "hub w' = Register p (newClient u) (CloseAll (hub w))"
    using assms by (auto simp: App_Run_def Let_def split: sum.splits)
  then show ?thesis by (simp add: registered_Register) (simp add: Register_def newClient_def Let_def)
qed

end
