(* ===== verification/ProcessLife.thy ===== *)
theory ProcessLife
  imports StartProps
begin

text \<open>
  The life of the process from \<^verbatim>\<open>main\<close> to its exit: start-up with its migrations, serving, in which requests, WebSocket
  frames and the background tasks of \<^verbatim>\<open>app.New\<close> interleave, and shutdown.  The invariant of the store holds throughout.
\<close>

section \<open>Serving\<close>

text \<open>What reaches a background task: ticks of the timer, results of reading from Kafka, messages of the Redis subscription.\<close>

datatype TaskInput = Ticks nat | Reads "(err + RawMessage) list" | Delivers "(string \<times> RawMessage) list"

fun task_step :: "Task \<Rightarrow> TaskInput \<Rightarrow> World \<Rightarrow> World" where
  "task_step (RunRelay r) (Ticks n) w = snd (relay_Run n r w)"
| "task_step (RunConsumer c) (Reads ms) w = snd (consumer_Run (Some c) ms w)"
| "task_step (RunRedisRelay _) (Delivers ms) w = snd (SubscribeChatEvents ms w)"
| "task_step _ _ w = w"

text \<open>
  The states an application can come to while it runs, from the state and the limiters at the beginning of a phase: requests, background
  tasks, frames that are read and written, and connections that end.
\<close>

inductive serving :: "'l RateLib \<Rightarrow> Deps \<Rightarrow> 'l App \<Rightarrow> World \<Rightarrow> World \<times> 'l Limits \<Rightarrow> bool" for lib d a w0 where
  begins: "serving lib d a w0 (w0, l)"
| request: "serving lib d a w0 st \<Longrightarrow> serving lib d a w0 (snd (Chain lib d up p segs r st))"
| task: "serving lib d a w0 (w, l) \<Longrightarrow> t \<in> set (app_Tasks a) \<Longrightarrow> serving lib d a w0 (task_step t i w, l)"
| frame: "serving lib d a w0 (w, l) \<Longrightarrow> serving lib d a w0 (snd (read_frame (wh_proc (dp_WS d)) p u m w), l)"
| closed: "serving lib d a w0 (w, l) \<Longrightarrow> serving lib d a w0 (read_end (wh_presence (dp_WS d)) p u w, l)"
| written: "serving lib d a w0 (w, l) \<Longrightarrow> serving lib d a w0 (w\<lparr>hub := snd (writePump p wakes (hub w))\<rparr>, l)"

lemma task_step_sound: "sound s0 w \<Longrightarrow> sound s0 (task_step t i w)"
  by (cases "(t, i, w)" rule: task_step.cases) (simp_all add: go_keep keepsD)

lemma serving_sound: "serving lib d a w0 st \<Longrightarrow> sound s0 w0 \<Longrightarrow> sound s0 (fst st)"
proof (induction rule: serving.induct)
  case (request st up p segs r)
  then show ?case using Chain_sound [of s0 "fst st" lib d up p segs r "snd st"] by simp
qed (simp_all add: task_step_sound sound_read_frame sound_read_end)

section \<open>Start-up and shutdown\<close>

lemma schema_fields [simp]:
  "in_chat (s\<lparr>schema_migrations := x\<rparr>) = in_chat s" "in_chat (s\<lparr>ddl_log := y\<rparr>) = in_chat s"
  "role_ok (s\<lparr>schema_migrations := x\<rparr>) = role_ok s" "role_ok (s\<lparr>ddl_log := y\<rparr>) = role_ok s"
  by (simp_all add: in_chat_def role_ok_def fun_eq_iff split: ChatMemberRole.split)

lemma domain_ok_schema [simp]:
  "domain_ok (s\<lparr>schema_migrations := x\<rparr>) = domain_ok s" "domain_ok (s\<lparr>ddl_log := y\<rparr>) = domain_ok s"
  by (simp_all add: domain_ok_def tables_defs links_ok_def outbox_complete_def member_fk_def
      message_fk_def chat_ids_def user_ids_def message_ids_def live_direct_keys_def)

lemma later_schema [simp]: "later s (s\<lparr>schema_migrations := x\<rparr>)" "later s (s\<lparr>ddl_log := y\<rparr>)"
  by (simp_all add: later_def grows_refl)

lemma migration_stmts_keep:
  "stmt_keeps domain_ok later bootstrap_stmt" "stmt_keeps domain_ok later (check_version_stmt name)"
  "stmt_keeps domain_ok later (script_stmt ddl body)" "stmt_keeps domain_ok later (stamp_stmt name)"
  by (auto intro!: stmt_keepsI simp: bootstrap_stmt_def check_version_stmt_def script_stmt_def stamp_stmt_def evo.G_refl
      split: option.split)

lemma keeps_apply_migration [go_keep]: "keeps (sound s0) (apply_migration ddl name body)"
proof (rule keepsI, subst apply_migration_transaction, rule keepsD, rule evo.keeps_transaction_stepwise)
  show "keeps (sound s) (migration_body ddl name body t)" for t s
    unfolding migration_body_def
    by (intro go_keep evo.keeps_tx_stmt) (use migration_stmts_keep in \<open>auto simp: stmt_keeps_def\<close>)
qed simp_all

lemma keeps_migrate_files [go_keep]: "keeps (sound s0) (migrate_files fs ddl names)"
proof (induction names)
  case (Cons name names)
  show ?case
    unfolding migrate_files.simps by (intro go_keep evo.keeps_roundtrip migration_stmts_keep Cons.IH)
qed (simp add: keeps_ret)

lemma keeps_Up [go_keep]: "keeps (sound s0) (Up fs ddl pool)"
  unfolding Up_def by (intro go_keep evo.keeps_roundtrip migration_stmts_keep)

lemma keeps_NewContainer: "keeps (sound s0) (NewContainer m cfg log pool)"
proof (rule keepsI)
  fix w
  assume "sound s0 w"
  then have w: "sound s0 (w\<lparr>met := Some m\<rparr>)" by simp
  have "keeps (sound s0) (call (roundtrip redis_Ping) (\<lambda>e. raise (ErrText (''redis ping: '' @ error_text e))) (\<lambda>_. ret c))" for c :: Container
    by (intro go_keep evo.keeps_roundtrip evo.reads_only_keeps redis_Ping_reads)
  from keepsD [OF this w] w show "sound s0 (snd (NewContainer m cfg log pool w))"
    by (simp add: NewContainer_def Let_def ret_def)
qed

lemma keeps_outbox_tasks [go_keep]: "keeps (sound s0) (outbox_tasks cfg)"
  unfolding outbox_tasks_def kafkaWSFanoutConsumerGroup_def Let_def by (intro go_keep)

lemma keeps_App_New: "keeps (sound s0) (App_New lb co)"
proof -
  have hub: "keeps (sound s0) (\<lambda>w. (Inr (), w\<lparr>hub := h\<rparr>))" for h by (simp add: keeps_def)
  have new: "keeps (sound s0) (case (x, y) of (Some c, Some z) \<Rightarrow> f c z | _ \<Rightarrow> raise e)"
    if "\<And>c z. keeps (sound s0) (f c z)" for x :: "Config option" and y :: "Logger option" and f e
    using that by (auto intro: keeps_raise split: option.split)
  show ?thesis unfolding App_New_def Let_def by (intro go_keep hub new)
qed

lemma keeps_run: "keeps P f \<Longrightarrow> P w \<Longrightarrow> f w = (r, w') \<Longrightarrow> P w'"
  by (metis keepsD snd_conv)

lemma start_sound:
  assumes "sound s0 w" and "start ev w = (r :: nat + 'a App, w')"
  shows "sound s0 w'"
proof -
  have up: "sound s0 w1" if "(if b then Up fs ddl pool else ret ()) w = (x, w1)" for b fs ddl pool x w1
    by (rule keeps_run [where f = "if b then Up fs ddl pool else ret ()" and P = "sound s0", OF _ assms(1) that]) (simp add: go_keep)
  have c: "sound s0 w1 \<Longrightarrow> NewContainer m cfg log pool w1 = (x, w2) \<Longrightarrow> sound s0 w2" for m cfg log pool w1 x w2
    by (rule keeps_run [OF keeps_NewContainer])
  have a: "sound s0 w1 \<Longrightarrow> (App_New lb co w1 :: (err + 'a App) \<times> World) = (x, w2) \<Longrightarrow> sound s0 w2" for lb co w1 x w2
    by (rule keeps_run [OF keeps_App_New])
  show ?thesis
    using assms unfolding start_def
    by (auto split: sum.splits prod.splits option.splits dest!: up dest: c a)
qed

lemma App_Run_sound:
  assumes "sound s0 w" and during: "\<And>ph v. sound s0 v \<Longrightarrow> sound s0 (during ph v)"
  shows "sound s0 (snd (snd (App_Run a re during w)))"
proof -
  have "sound s0 (during Serving w)" "sound s0 (during Stopping (during Serving w))" using assms by blast+
  moreover have "sound s0 (v\<lparr>clock := t\<rparr>) = sound s0 v" "sound s0 (v\<lparr>hub := h\<rparr>) = sound s0 v" for v t h
    by (simp_all add: holds_def)
  ultimately show ?thesis
    by (auto simp: App_Run_def Let_def Producer_Close_def intro!: during
        split: FirstEvent.split prod.split sum.split option.split)
qed

text \<open>
  C5: the invariant holds over the whole life of the process.  From the first statement of \<^verbatim>\<open>main\<close> to its exit, with or without
  migrations, whatever requests, frames, ticks, Kafka and Redis messages arrive in whatever order, whatever fails and
  however the process ends, the constraints on the store hold and the store has only evolved as allowed: no message, outbox row or
  session is lost or altered otherwise.
\<close>

theorem process_keeps_invariant:
  fixes lib :: "'l RateLib"
  assumes "domain_ok (store w)" and "rely domain_ok later (net w)"
    and "\<And>a ph v. \<exists>l. serving lib d a v (srv a ph v, l)"
  shows "domain_ok (store (snd (main ev re srv w))) \<and> later (store w) (store (snd (main ev re srv w)))"
proof -
  let ?ok = "sound (store w)"
  obtain r w1 where st: "(start ev w :: (nat + 'l App) \<times> World) = (r, w1)" by fastforce
  have w1: "?ok w1" by (rule start_sound [OF sound_start [OF assms(1,2)] st])
  have "?ok (snd (main ev re srv w))"
  proof (cases r)
    case (Inr a)
    have "?ok (srv a ph v)" if "?ok v" for ph v
    proof -
      obtain l where "serving lib d a v (srv a ph v, l)" using assms(3) by blast
      from serving_sound [OF this that] show ?thesis by simp
    qed
    from App_Run_sound [OF w1, where a = a and re = re and during = "srv a", OF this] show ?thesis
      using Inr st by (auto simp: main_def split: sum.split prod.split option.split)
  qed (use st w1 in \<open>simp add: main_def\<close>)
  then show ?thesis by (simp add: holds_def)
qed

text \<open>
  A process that migrates, starts, answers one request in each phase, and is stopped by a signal while a worker hangs.
\<close>

definition demo_serve :: "int App \<Rightarrow> Phase \<Rightarrow> World \<Rightarrow> World" where
  "demo_serve a ph v =
     fst (snd (Chain demo_rate demo_deps (Inr ()) 0 [''auth'', ''login''] (demo_request ''POST'' []) (v, app_Limits a)))"

theorem process_keeps_invariant_witness:
  "fst (main demo_environment (demo_stuck\<lparr>re_Close := Some 5\<rparr>) demo_serve demo) = Some 0
   \<and> domain_ok (store (snd (main demo_environment (demo_stuck\<lparr>re_Close := Some 5\<rparr>) demo_serve demo)))"
proof
  obtain a w1 where "start demo_environment demo = (Inr (a :: int App), w1)" using demo_starts by blast
  then show "fst (main demo_environment (demo_stuck\<lparr>re_Close := Some 5\<rparr>) demo_serve demo) = Some 0"
    by (cases "app_Producer a") (simp_all add: main_def App_Run_def Producer_Close_def demo_stuck_def http_Shutdown_def wait_for_def serve_result_def ErrServerClosed_def
        Second_def Let_def)
  have "\<exists>l. serving demo_rate demo_deps a v (demo_serve a ph v, l)" for a ph v
    using serving.request [OF serving.begins [of demo_rate demo_deps a v "app_Limits a"]] unfolding demo_serve_def by (metis prod.collapse)
  then show "domain_ok (store (snd (main demo_environment (demo_stuck\<lparr>re_Close := Some 5\<rparr>) demo_serve demo)))"
    using process_keeps_invariant [OF _ demo_rely, of "\<lambda>_. Delivered" demo_rate demo_deps demo_serve] demo_domain_ok by simp
qed

end
