(* ===== verification/SqlRows.thy ===== *)
theory SqlRows
  imports UserRepo SessionRepo
begin

text \<open>
  Rows on the wire: the column lists of the statements in \<^verbatim>\<open>backend/internal/repository/postgres\<close>, the functions \<^verbatim>\<open>scan...\<close> that
  read a row of driver values into a record, and the arguments the INSERT statements bind to their placeholders.

  The other theories take a row of a table to be the record itself.  Here this is justified: every statement delivers the columns in the
  order in which its scan function reads them, and every INSERT puts each field into the column of that name.
\<close>

section \<open>Driver values\<close>

datatype SqlValue = Null | Text string | Timestamp time | Boolean bool | Integer int | Jsonb RawMessage

definition nullable :: "('a \<Rightarrow> SqlValue) \<Rightarrow> 'a option \<Rightarrow> SqlValue" where
  "nullable f x = (case x of None \<Rightarrow> Null | Some v \<Rightarrow> f v)"

text \<open>
  What \<^verbatim>\<open>Scan\<close> stores into a destination of a given type: \<open>None\<close> is its error, for NULL into a destination that is no pointer
  and for a value of another type.
\<close>

fun to_string :: "SqlValue \<Rightarrow> string option" where
  "to_string (Text s) = Some s" | "to_string _ = None"

fun to_time :: "SqlValue \<Rightarrow> time option" where
  "to_time (Timestamp t) = Some t" | "to_time _ = None"

fun to_bool :: "SqlValue \<Rightarrow> bool option" where
  "to_bool (Boolean b) = Some b" | "to_bool _ = None"

fun to_int :: "SqlValue \<Rightarrow> int option" where
  "to_int (Integer n) = Some n" | "to_int _ = None"

fun to_raw :: "SqlValue \<Rightarrow> RawMessage option" where
  "to_raw (Jsonb j) = Some j" | "to_raw _ = None"

definition to_ptr :: "(SqlValue \<Rightarrow> 'a option) \<Rightarrow> SqlValue \<Rightarrow> 'a option option" where
  "to_ptr f v = (if v = Null then Some None else map_option Some (f v))"

text \<open>
  A string that the code converts to an enumeration (\<^verbatim>\<open>domain.ChatType(typ)\<close>).  The check constraint of the column admits the names of the
  enumeration only, so no other string is read.
\<close>

definition to_enum :: "('e \<Rightarrow> string) \<Rightarrow> 'e list \<Rightarrow> SqlValue \<Rightarrow> 'e option" where
  "to_enum name es v = (case to_string v of None \<Rightarrow> None | Some s \<Rightarrow> find (\<lambda>e. name e = s) es)"

definition to_chat_type :: "SqlValue \<Rightarrow> ChatType option" where
  "to_chat_type = to_enum chat_type_string [ChatTypeDirect, ChatTypeGroup]"

definition to_role :: "SqlValue \<Rightarrow> ChatMemberRole option" where
  "to_role = to_enum role_string [ChatMemberRoleOwner, ChatMemberRoleAdmin, ChatMemberRoleMember]"

definition to_message_type :: "SqlValue \<Rightarrow> MessageType option" where
  "to_message_type =
     to_enum message_type_string [MessageTypeText, MessageTypeImage, MessageTypeFile, MessageTypeSystem]"

text \<open>\<^verbatim>\<open>row.Scan\<close>: one destination after the other; the numbers of columns and destinations have to agree.\<close>

definition dest :: "(SqlValue \<Rightarrow> 'a option) \<Rightarrow> ('a \<Rightarrow> SqlValue list \<Rightarrow> err + 'b) \<Rightarrow> SqlValue list \<Rightarrow> err + 'b" where
  "dest f k vs =
     (case vs of
        [] \<Rightarrow> Inl (ErrText ''number of field descriptions must equal number of destinations'')
      | v # rest \<Rightarrow> (case f v of None \<Rightarrow> Inl (ErrText ''cannot scan'') | Some x \<Rightarrow> k x rest))"

definition scanned :: "'b \<Rightarrow> SqlValue list \<Rightarrow> err + 'b" where
  "scanned x vs =
     (if vs = [] then Inr x else Inl (ErrText ''number of field descriptions must equal number of destinations''))"

section \<open>Scan functions\<close>

definition scanUser :: "SqlValue list \<Rightarrow> err + User" where
  "scanUser =
     dest to_string (\<lambda>id. dest to_string (\<lambda>email. dest to_string (\<lambda>hash. dest to_string (\<lambda>nickname.
     dest (to_ptr to_string) (\<lambda>firstName. dest (to_ptr to_string) (\<lambda>lastName. dest (to_ptr to_string) (\<lambda>avatarURL.
     dest to_time (\<lambda>createdAt. dest to_time (\<lambda>updatedAt. dest (to_ptr to_time) (\<lambda>lastSeenAt. dest to_bool (\<lambda>isActive.
     scanned \<lparr>u_ID = id, u_Email = email, u_PasswordHash = hash, u_Nickname = nickname, u_FirstName = firstName,
              u_LastName = lastName, u_AvatarURL = avatarURL, u_CreatedAt = createdAt, u_UpdatedAt = updatedAt,
              u_LastSeenAt = lastSeenAt, u_IsActive = isActive\<rparr>)))))))))))"

definition scanUserSearch :: "SqlValue list \<Rightarrow> err + User" where
  "scanUserSearch =
     dest to_string (\<lambda>id. dest to_string (\<lambda>email. dest to_string (\<lambda>nickname.
     dest (to_ptr to_string) (\<lambda>firstName. dest (to_ptr to_string) (\<lambda>lastName. dest (to_ptr to_string) (\<lambda>avatarURL.
     dest to_time (\<lambda>createdAt. dest to_time (\<lambda>updatedAt. dest (to_ptr to_time) (\<lambda>lastSeenAt. dest to_bool (\<lambda>isActive.
     scanned \<lparr>u_ID = id, u_Email = email, u_PasswordHash = '''', u_Nickname = nickname, u_FirstName = firstName,
              u_LastName = lastName, u_AvatarURL = avatarURL, u_CreatedAt = createdAt, u_UpdatedAt = updatedAt,
              u_LastSeenAt = lastSeenAt, u_IsActive = isActive\<rparr>))))))))))"

text \<open>The eleven destinations that \<^verbatim>\<open>scanChat\<close> and \<^verbatim>\<open>scanChatListRow\<close> have in common.\<close>

definition dest_chat :: "(Chat \<Rightarrow> SqlValue list \<Rightarrow> err + 'b) \<Rightarrow> SqlValue list \<Rightarrow> err + 'b" where
  "dest_chat k =
     dest to_string (\<lambda>id. dest to_chat_type (\<lambda>typ. dest (to_ptr to_string) (\<lambda>title. dest (to_ptr to_string) (\<lambda>avatarURL.
     dest (to_ptr to_string) (\<lambda>createdBy. dest to_time (\<lambda>createdAt. dest to_time (\<lambda>updatedAt.
     dest (to_ptr to_string) (\<lambda>lastMsg. dest (to_ptr to_time) (\<lambda>lastMessageAt. dest to_bool (\<lambda>isDeleted.
     dest (to_ptr to_string) (\<lambda>directKey.
     k \<lparr>c_ID = id, c_Type = typ, c_Title = title, c_AvatarURL = avatarURL, c_CreatedBy = createdBy,
        c_CreatedAt = createdAt, c_UpdatedAt = updatedAt, c_LastMessageID = lastMsg, c_LastMessageAt = lastMessageAt,
        c_IsDeleted = isDeleted, c_DirectKey = directKey\<rparr>)))))))))))"

definition scanChat :: "SqlValue list \<Rightarrow> err + Chat" where
  "scanChat = dest_chat scanned"

definition scanSummary :: "SqlValue list \<Rightarrow> err + ChatListRow" where
  "scanSummary =
     dest_chat (\<lambda>c. dest (to_ptr to_string) (\<lambda>previewText. dest (to_ptr to_message_type) (\<lambda>previewType.
     dest (to_ptr to_string) (\<lambda>previewSender. dest (to_ptr to_time) (\<lambda>previewAt. dest to_int (\<lambda>unread.
     scanned \<lparr>clr_Chat = c, clr_LastPreviewText = previewText, clr_LastPreviewType = previewType,
              clr_LastPreviewSender = previewSender, clr_LastPreviewAt = previewAt, clr_UnreadCount = unread\<rparr>))))))"

definition scanChatMember :: "SqlValue list \<Rightarrow> err + ChatMember" where
  "scanChatMember =
     dest to_string (\<lambda>chatID. dest to_string (\<lambda>userID. dest to_role (\<lambda>role. dest to_time (\<lambda>joinedAt.
     dest (to_ptr to_string) (\<lambda>lastRead. dest (to_ptr to_time) (\<lambda>lastReadAt.
     dest to_bool (\<lambda>isMuted. dest to_bool (\<lambda>isArchived. dest to_bool (\<lambda>isPinned.
     scanned \<lparr>cm_ChatID = chatID, cm_UserID = userID, cm_Role = role, cm_JoinedAt = joinedAt,
              cm_LastReadMessageID = lastRead, cm_LastReadAt = lastReadAt, cm_IsMuted = isMuted,
              cm_IsArchived = isArchived, cm_IsPinned = isPinned\<rparr>)))))))))"

definition scanMessage :: "SqlValue list \<Rightarrow> err + Message" where
  "scanMessage =
     dest to_string (\<lambda>id. dest to_string (\<lambda>chatID. dest to_string (\<lambda>senderID. dest to_message_type (\<lambda>typ.
     dest (to_ptr to_string) (\<lambda>text. dest (to_ptr to_string) (\<lambda>replyID.
     dest to_time (\<lambda>createdAt. dest to_time (\<lambda>updatedAt. dest (to_ptr to_time) (\<lambda>deletedAt.
     scanned \<lparr>m_ID = id, m_ChatID = chatID, m_SenderID = senderID, m_Type = typ, m_Text = text, m_ReplyToID = replyID,
              m_CreatedAt = createdAt, m_UpdatedAt = updatedAt, m_DeletedAt = deletedAt\<rparr>)))))))))"

definition scanSession :: "SqlValue list \<Rightarrow> err + RefreshSession" where
  "scanSession =
     dest to_string (\<lambda>id. dest to_string (\<lambda>userID. dest to_string (\<lambda>hash. dest (to_ptr to_string) (\<lambda>userAgent.
     dest (to_ptr to_string) (\<lambda>ipAddress. dest to_time (\<lambda>expiresAt. dest to_time (\<lambda>createdAt.
     dest (to_ptr to_time) (\<lambda>revokedAt.
     scanned \<lparr>rs_ID = id, rs_UserID = userID, rs_TokenHash = hash, rs_UserAgent = userAgent, rs_IPAddress = ipAddress,
              rs_ExpiresAt = expiresAt, rs_CreatedAt = createdAt, rs_RevokedAt = revokedAt\<rparr>))))))))"

text \<open>The scan in the loop of \<^verbatim>\<open>FetchPending\<close>.\<close>

definition scanOutboxRow :: "SqlValue list \<Rightarrow> err + OutboxRow" where
  "scanOutboxRow =
     dest to_int (\<lambda>id. dest to_string (\<lambda>eventID. dest to_string (\<lambda>eventType. dest to_string (\<lambda>aggregateType.
     dest to_string (\<lambda>aggregateID. dest (to_ptr to_string) (\<lambda>chatID. dest to_time (\<lambda>occurredAt. dest to_int (\<lambda>version.
     dest to_raw (\<lambda>payload.
     scanned \<lparr>r_ID = id, r_EventID = eventID, r_EventType = eventType, r_AggregateType = aggregateType,
              r_AggregateID = aggregateID, r_ChatID = chatID, r_OccurredAt = occurredAt, r_Version = version,
              r_Payload = payload\<rparr>)))))))))"

section \<open>Tables\<close>

text \<open>The value of a column of a row, by its name in \<^verbatim>\<open>migration/*.sql\<close>.\<close>

definition column :: "(string \<times> SqlValue) list \<Rightarrow> string \<Rightarrow> SqlValue" where
  "column row name = (case map_of row name of None \<Rightarrow> Null | Some v \<Rightarrow> v)"

definition user_columns :: "User \<Rightarrow> (string \<times> SqlValue) list" where
  "user_columns u =
     [(''id'', Text (u_ID u)), (''email'', Text (u_Email u)), (''password_hash'', Text (u_PasswordHash u)),
      (''nickname'', Text (u_Nickname u)), (''first_name'', nullable Text (u_FirstName u)),
      (''last_name'', nullable Text (u_LastName u)), (''avatar_url'', nullable Text (u_AvatarURL u)),
      (''created_at'', Timestamp (u_CreatedAt u)), (''updated_at'', Timestamp (u_UpdatedAt u)),
      (''last_seen_at'', nullable Timestamp (u_LastSeenAt u)), (''is_active'', Boolean (u_IsActive u))]"

definition chat_columns :: "Chat \<Rightarrow> (string \<times> SqlValue) list" where
  "chat_columns c =
     [(''id'', Text (c_ID c)), (''type'', Text (chat_type_string (c_Type c))), (''title'', nullable Text (c_Title c)),
      (''avatar_url'', nullable Text (c_AvatarURL c)), (''created_by'', nullable Text (c_CreatedBy c)),
      (''created_at'', Timestamp (c_CreatedAt c)), (''updated_at'', Timestamp (c_UpdatedAt c)),
      (''last_message_id'', nullable Text (c_LastMessageID c)),
      (''last_message_at'', nullable Timestamp (c_LastMessageAt c)), (''is_deleted'', Boolean (c_IsDeleted c)),
      (''direct_key'', nullable Text (c_DirectKey c))]"

definition member_columns :: "ChatMember \<Rightarrow> (string \<times> SqlValue) list" where
  "member_columns m =
     [(''chat_id'', Text (cm_ChatID m)), (''user_id'', Text (cm_UserID m)), (''role'', Text (role_string (cm_Role m))),
      (''joined_at'', Timestamp (cm_JoinedAt m)), (''last_read_message_id'', nullable Text (cm_LastReadMessageID m)),
      (''last_read_at'', nullable Timestamp (cm_LastReadAt m)), (''is_muted'', Boolean (cm_IsMuted m)),
      (''is_archived'', Boolean (cm_IsArchived m)), (''is_pinned'', Boolean (cm_IsPinned m))]"

definition message_columns :: "Message \<Rightarrow> (string \<times> SqlValue) list" where
  "message_columns m =
     [(''id'', Text (m_ID m)), (''chat_id'', Text (m_ChatID m)), (''sender_id'', Text (m_SenderID m)),
      (''type'', Text (message_type_string (m_Type m))), (''text'', nullable Text (m_Text m)),
      (''reply_to_id'', nullable Text (m_ReplyToID m)), (''created_at'', Timestamp (m_CreatedAt m)),
      (''updated_at'', Timestamp (m_UpdatedAt m)), (''deleted_at'', nullable Timestamp (m_DeletedAt m))]"

definition session_columns :: "RefreshSession \<Rightarrow> (string \<times> SqlValue) list" where
  "session_columns s =
     [(''id'', Text (rs_ID s)), (''user_id'', Text (rs_UserID s)), (''token_hash'', Text (rs_TokenHash s)),
      (''user_agent'', nullable Text (rs_UserAgent s)), (''ip_address'', nullable Text (rs_IPAddress s)),
      (''expires_at'', Timestamp (rs_ExpiresAt s)), (''created_at'', Timestamp (rs_CreatedAt s)),
      (''revoked_at'', nullable Timestamp (rs_RevokedAt s))]"

definition outbox_columns :: "OutboxRec \<Rightarrow> (string \<times> SqlValue) list" where
  "outbox_columns r =
     [(''id'', Integer (r_ID r)), (''event_id'', Text (r_EventID r)), (''event_type'', Text (r_EventType r)),
      (''aggregate_type'', Text (r_AggregateType r)), (''aggregate_id'', Text (r_AggregateID r)),
      (''chat_id'', nullable Text (r_ChatID r)), (''occurred_at'', Timestamp (r_OccurredAt r)),
      (''version'', Integer (r_Version r)), (''payload'', Jsonb (r_Payload r)),
      (''published_at'', nullable Timestamp (r_PublishedAt r)), (''created_at'', Timestamp (r_CreatedAt r))]"

text \<open>The columns of a table with an alias, and those of a table that a LEFT JOIN may not match.\<close>

definition aliased :: "string \<Rightarrow> (string \<times> SqlValue) list \<Rightarrow> (string \<times> SqlValue) list" where
  "aliased t row = map (\<lambda>(c, v). (t @ ''.'' @ c, v)) row"

definition left_joined :: "('r \<Rightarrow> (string \<times> SqlValue) list) \<Rightarrow> 'r option \<Rightarrow> (string \<times> SqlValue) list" where
  "left_joined cols r = (case r of None \<Rightarrow> [] | Some x \<Rightarrow> cols x)"

definition summary_columns :: "Chat \<Rightarrow> Message option \<Rightarrow> int \<Rightarrow> (string \<times> SqlValue) list" where
  "summary_columns c lm unread =
     aliased ''c'' (chat_columns c) @ aliased ''lm'' (left_joined message_columns lm) @ [(''unread_count'', Integer unread)]"

section \<open>Columns that the statements deliver\<close>

definition User_Create_returning :: "string list" where
  "User_Create_returning =
     [''id'', ''email'', ''password_hash'', ''nickname'', ''first_name'', ''last_name'', ''avatar_url'',
      ''created_at'', ''updated_at'', ''last_seen_at'', ''is_active'']"

definition User_GetByID_select :: "string list" where
  "User_GetByID_select =
     [''id'', ''email'', ''password_hash'', ''nickname'', ''first_name'', ''last_name'', ''avatar_url'',
      ''created_at'', ''updated_at'', ''last_seen_at'', ''is_active'']"

definition User_GetByEmail_select :: "string list" where
  "User_GetByEmail_select =
     [''id'', ''email'', ''password_hash'', ''nickname'', ''first_name'', ''last_name'', ''avatar_url'',
      ''created_at'', ''updated_at'', ''last_seen_at'', ''is_active'']"

definition User_GetByNickname_select :: "string list" where
  "User_GetByNickname_select =
     [''id'', ''email'', ''password_hash'', ''nickname'', ''first_name'', ''last_name'', ''avatar_url'',
      ''created_at'', ''updated_at'', ''last_seen_at'', ''is_active'']"

definition User_Search_select :: "string list" where
  "User_Search_select =
     [''id'', ''email'', ''nickname'', ''first_name'', ''last_name'', ''avatar_url'', ''created_at'', ''updated_at'',
      ''last_seen_at'', ''is_active'']"

definition CreateChat_returning :: "string list" where
  "CreateChat_returning =
     [''id'', ''type'', ''title'', ''avatar_url'', ''created_by'', ''created_at'', ''updated_at'',
      ''last_message_id'', ''last_message_at'', ''is_deleted'', ''direct_key'']"

definition Chat_GetByID_select :: "string list" where
  "Chat_GetByID_select =
     [''id'', ''type'', ''title'', ''avatar_url'', ''created_by'', ''created_at'', ''updated_at'',
      ''last_message_id'', ''last_message_at'', ''is_deleted'', ''direct_key'']"

definition GetDirectByKey_select :: "string list" where
  "GetDirectByKey_select =
     [''id'', ''type'', ''title'', ''avatar_url'', ''created_by'', ''created_at'', ''updated_at'',
      ''last_message_id'', ''last_message_at'', ''is_deleted'', ''direct_key'']"

definition GetUserChats_select :: "string list" where
  "GetUserChats_select =
     [''c.id'', ''c.type'', ''c.title'', ''c.avatar_url'', ''c.created_by'', ''c.created_at'', ''c.updated_at'',
      ''c.last_message_id'', ''c.last_message_at'', ''c.is_deleted'', ''c.direct_key'']"

definition insertChat_returning :: "string list" where
  "insertChat_returning =
     [''id'', ''type'', ''title'', ''avatar_url'', ''created_by'', ''created_at'', ''updated_at'',
      ''last_message_id'', ''last_message_at'', ''is_deleted'', ''direct_key'']"

definition ListUserChatsSummary_select :: "string list" where
  "ListUserChatsSummary_select =
     [''c.id'', ''c.type'', ''c.title'', ''c.avatar_url'', ''c.created_by'', ''c.created_at'', ''c.updated_at'',
      ''c.last_message_id'', ''c.last_message_at'', ''c.is_deleted'', ''c.direct_key'', ''lm.text'', ''lm.type'',
      ''lm.sender_id'', ''lm.created_at'', ''unread_count'']"

definition CreateMember_returning :: "string list" where
  "CreateMember_returning =
     [''chat_id'', ''user_id'', ''role'', ''joined_at'', ''last_read_message_id'', ''last_read_at'', ''is_muted'',
      ''is_archived'', ''is_pinned'']"

definition FindMembership_select :: "string list" where
  "FindMembership_select =
     [''chat_id'', ''user_id'', ''role'', ''joined_at'', ''last_read_message_id'', ''last_read_at'', ''is_muted'',
      ''is_archived'', ''is_pinned'']"

definition GetChatMembers_select :: "string list" where
  "GetChatMembers_select =
     [''chat_id'', ''user_id'', ''role'', ''joined_at'', ''last_read_message_id'', ''last_read_at'', ''is_muted'',
      ''is_archived'', ''is_pinned'']"

definition Message_Create_returning :: "string list" where
  "Message_Create_returning =
     [''id'', ''chat_id'', ''sender_id'', ''type'', ''text'', ''reply_to_id'', ''created_at'', ''updated_at'',
      ''deleted_at'']"

definition Message_GetByID_select :: "string list" where
  "Message_GetByID_select =
     [''id'', ''chat_id'', ''sender_id'', ''type'', ''text'', ''reply_to_id'', ''created_at'', ''updated_at'',
      ''deleted_at'']"

definition GetChatMessages_select :: "string list" where
  "GetChatMessages_select =
     [''m.id'', ''m.chat_id'', ''m.sender_id'', ''m.type'', ''m.text'', ''m.reply_to_id'', ''m.created_at'',
      ''m.updated_at'', ''m.deleted_at'']"

definition insMsg_returning :: "string list" where
  "insMsg_returning =
     [''id'', ''chat_id'', ''sender_id'', ''type'', ''text'', ''reply_to_id'', ''created_at'', ''updated_at'',
      ''deleted_at'']"

definition updated_message_select :: "string list" where
  "updated_message_select =
     [''id'', ''chat_id'', ''sender_id'', ''type'', ''text'', ''reply_to_id'', ''created_at'', ''updated_at'',
      ''deleted_at'']"

definition Session_Create_returning :: "string list" where
  "Session_Create_returning =
     [''id'', ''user_id'', ''token_hash'', ''user_agent'', ''ip_address'', ''expires_at'', ''created_at'',
      ''revoked_at'']"

definition GetByTokenHash_select :: "string list" where
  "GetByTokenHash_select =
     [''id'', ''user_id'', ''token_hash'', ''user_agent'', ''ip_address'', ''expires_at'', ''created_at'',
      ''revoked_at'']"

definition RotateRefresh_returning :: "string list" where
  "RotateRefresh_returning =
     [''id'', ''user_id'', ''token_hash'', ''user_agent'', ''ip_address'', ''expires_at'', ''created_at'',
      ''revoked_at'']"

definition FetchPending_select :: "string list" where
  "FetchPending_select =
     [''id'', ''event_id'', ''event_type'', ''aggregate_type'', ''aggregate_id'', ''chat_id'', ''occurred_at'',
      ''version'', ''payload'']"


section \<open>Arguments of the INSERT statements\<close>

text \<open>
  An INSERT has a list of columns, one or more tuples of expressions (a placeholder \<^verbatim>\<open>$n\<close> or a literal; casts are left out), and
  the arguments of the call; \<^verbatim>\<open>$n\<close> stands for the n-th argument.
\<close>

datatype SqlExpr = Param nat | Literal SqlValue

record Insert =
  in_Columns :: "string list"
  in_Tuples :: "SqlExpr list list"
  in_Args :: "SqlValue list"

definition bind_arg :: "SqlValue list \<Rightarrow> SqlExpr \<Rightarrow> SqlValue option" where
  "bind_arg args e =
     (case e of
        Literal v \<Rightarrow> Some v
      | Param n \<Rightarrow> if 1 \<le> n \<and> n \<le> length args then Some (args ! (n - 1)) else None)"

definition inserted :: "Insert \<Rightarrow> (string \<times> SqlValue option) list list" where
  "inserted q = map (\<lambda>t. zip (in_Columns q) (map (bind_arg (in_Args q)) t)) (in_Tuples q)"

definition User_Create_insert :: "User \<Rightarrow> Insert" where
  "User_Create_insert u =
     \<lparr>in_Columns = [''email'', ''password_hash'', ''nickname'', ''first_name'', ''last_name'', ''avatar_url''],
      in_Tuples = [[Param 1, Param 2, Param 3, Param 4, Param 5, Param 6]],
      in_Args = [Text (u_Email u), Text (u_PasswordHash u), Text (u_Nickname u), nullable Text (u_FirstName u),
                 nullable Text (u_LastName u), nullable Text (u_AvatarURL u)]\<rparr>"

definition CreateChat_insert :: "Chat \<Rightarrow> Insert" where
  "CreateChat_insert c =
     \<lparr>in_Columns = [''type'', ''title'', ''avatar_url'', ''created_by'', ''direct_key''],
      in_Tuples = [[Param 1, Param 2, Param 3, Param 4, Param 5]],
      in_Args = [Text (chat_type_string (c_Type c)), nullable Text (c_Title c), nullable Text (c_AvatarURL c),
                 nullable Text (c_CreatedBy c), nullable Text (c_DirectKey c)]\<rparr>"

definition CreateMember_insert :: "ChatMember \<Rightarrow> Insert" where
  "CreateMember_insert m =
     \<lparr>in_Columns = [''chat_id'', ''user_id'', ''role'', ''last_read_message_id'', ''last_read_at'', ''is_muted'',
                    ''is_archived'', ''is_pinned''],
      in_Tuples = [[Param 1, Param 2, Param 3, Param 4, Param 5, Param 6, Param 7, Param 8]],
      in_Args = [Text (cm_ChatID m), Text (cm_UserID m), Text (role_string (cm_Role m)),
                 nullable Text (cm_LastReadMessageID m), nullable Timestamp (cm_LastReadAt m), Boolean (cm_IsMuted m),
                 Boolean (cm_IsArchived m), Boolean (cm_IsPinned m)]\<rparr>"

text \<open>The loop of \<^verbatim>\<open>AddMembers\<close>, which numbers its placeholders from \<open>argPos\<close> on.\<close>

fun add_tuples :: "nat \<Rightarrow> AddChatMember list \<Rightarrow> SqlExpr list list \<times> SqlValue list" where
  "add_tuples argPos [] = ([], [])"
| "add_tuples argPos (m # ms) =
     (case add_tuples (argPos + 2) ms of (tuples, args) \<Rightarrow>
       ([Param 1, Param argPos, Param (argPos + 1)] # tuples,
        [Text (acm_UserID m), Text (role_string (acm_Role m))] @ args))"

definition AddMembers_insert :: "ID \<Rightarrow> AddChatMember list \<Rightarrow> Insert" where
  "AddMembers_insert chatID members =
     (case add_tuples 2 members of (tuples, args) \<Rightarrow>
       \<lparr>in_Columns = [''chat_id'', ''user_id'', ''role''], in_Tuples = tuples, in_Args = Text chatID # args\<rparr>)"

text \<open>The three statements of \<^verbatim>\<open>CreateGroupWithMembers\<close>.\<close>

definition insertChat_insert :: "string \<Rightarrow> string option \<Rightarrow> ID \<Rightarrow> Insert" where
  "insertChat_insert title avatarURL creator =
     \<lparr>in_Columns = [''type'', ''title'', ''avatar_url'', ''created_by'', ''direct_key''],
      in_Tuples = [[Literal (Text ''group''), Param 1, Param 2, Param 3, Literal Null]],
      in_Args = [Text title, nullable Text avatarURL, Text creator]\<rparr>"

definition insOwner_insert :: "ID \<Rightarrow> ID \<Rightarrow> Insert" where
  "insOwner_insert chatID creator =
     \<lparr>in_Columns = [''chat_id'', ''user_id'', ''role'', ''last_read_message_id'', ''last_read_at'', ''is_muted'',
                    ''is_archived'', ''is_pinned''],
      in_Tuples = [[Param 1, Param 2, Literal (Text ''owner''), Literal Null, Literal Null, Literal (Boolean False),
                    Literal (Boolean False), Literal (Boolean False)]],
      in_Args = [Text chatID, Text creator]\<rparr>"

fun group_tuples :: "nat \<Rightarrow> ID list \<Rightarrow> SqlExpr list list \<times> SqlValue list" where
  "group_tuples argPos [] = ([], [])"
| "group_tuples argPos (uid # uids) =
     (case group_tuples (argPos + 1) uids of (tuples, args) \<Rightarrow>
       ([Param 1, Param argPos, Literal (Text ''member'')] # tuples, Text uid # args))"

definition group_members_insert :: "ID \<Rightarrow> ID list \<Rightarrow> Insert" where
  "group_members_insert chatID toAdd =
     (case group_tuples 2 toAdd of (tuples, args) \<Rightarrow>
       \<lparr>in_Columns = [''chat_id'', ''user_id'', ''role''], in_Tuples = tuples, in_Args = Text chatID # args\<rparr>)"

definition Message_Create_insert :: "Message \<Rightarrow> Insert" where
  "Message_Create_insert m =
     \<lparr>in_Columns = [''chat_id'', ''sender_id'', ''type'', ''text'', ''reply_to_id''],
      in_Tuples = [[Param 1, Param 2, Param 3, Param 4, Param 5]],
      in_Args = [Text (m_ChatID m), Text (m_SenderID m), Text (message_type_string (m_Type m)), nullable Text (m_Text m),
                 nullable Text (m_ReplyToID m)]\<rparr>"

definition insMsg_insert :: "Message \<Rightarrow> Insert" where
  "insMsg_insert m =
     \<lparr>in_Columns = [''chat_id'', ''sender_id'', ''type'', ''text'', ''reply_to_id''],
      in_Tuples = [[Param 1, Param 2, Param 3, Param 4, Param 5]],
      in_Args = [Text (m_ChatID m), Text (m_SenderID m), Text (message_type_string (m_Type m)), nullable Text (m_Text m),
                 nullable Text (m_ReplyToID m)]\<rparr>"

definition Session_Create_insert :: "RefreshSession \<Rightarrow> Insert" where
  "Session_Create_insert s =
     \<lparr>in_Columns = [''user_id'', ''token_hash'', ''user_agent'', ''ip_address'', ''expires_at''],
      in_Tuples = [[Param 1, Param 2, Param 3, Param 4, Param 5]],
      in_Args = [Text (rs_UserID s), Text (rs_TokenHash s), nullable Text (rs_UserAgent s), nullable Text (rs_IPAddress s),
                 Timestamp (rs_ExpiresAt s)]\<rparr>"

definition RotateRefresh_insert :: "RefreshSession \<Rightarrow> Insert" where
  "RotateRefresh_insert s =
     \<lparr>in_Columns = [''user_id'', ''token_hash'', ''user_agent'', ''ip_address'', ''expires_at''],
      in_Tuples = [[Param 1, Param 2, Param 3, Param 4, Param 5]],
      in_Args = [Text (rs_UserID s), Text (rs_TokenHash s), nullable Text (rs_UserAgent s), nullable Text (rs_IPAddress s),
                 Timestamp (rs_ExpiresAt s)]\<rparr>"

definition insertOutboxTx_insert :: "OutboxEnqueue \<Rightarrow> Insert" where
  "insertOutboxTx_insert ob =
     \<lparr>in_Columns = [''event_id'', ''event_type'', ''aggregate_type'', ''aggregate_id'', ''chat_id'', ''occurred_at'',
                    ''version'', ''payload''],
      in_Tuples = [[Param 1, Param 2, Param 3, Param 4, Param 5, Param 6, Param 7, Param 8]],
      in_Args = [Text (ob_EventID ob), Text (ob_EventType ob), Text (ob_AggregateType ob), Text (ob_AggregateID ob),
                 nullable Text (ob_ChatID ob), Timestamp (ob_OccurredAt ob), Integer (ob_Version ob),
                 Jsonb (if raw_empty (ob_Payload ob) then RawJSON (JObj []) else ob_Payload ob)]\<rparr>"

section \<open>Statements and rows agree\<close>

lemma to_ptr_simps [simp]: "to_ptr f Null = Some None" "v \<noteq> Null \<Longrightarrow> to_ptr f v = map_option Some (f v)"
  by (simp_all add: to_ptr_def)

lemma to_ptr_nullable [simp]:
  "to_ptr to_string (nullable Text s) = Some s" "to_ptr to_time (nullable Timestamp t) = Some t"
  by (cases s; simp add: nullable_def) (cases t; simp add: nullable_def)

lemma to_chat_type_name [simp]: "to_chat_type (Text (chat_type_string ct)) = Some ct"
  by (cases ct) (simp_all add: to_chat_type_def to_enum_def)

lemma to_role_name [simp]: "to_role (Text (role_string r)) = Some r"
  by (cases r) (simp_all add: to_role_def to_enum_def)

lemma to_message_type_name [simp]: "to_message_type (Text (message_type_string mt)) = Some mt"
  by (cases mt) (simp_all add: to_message_type_def to_enum_def)

lemma dest_Cons [simp]: "f v = Some x \<Longrightarrow> dest f k (v # vs) = k x vs"
  by (simp add: dest_def)

lemma scanned_Nil [simp]: "scanned x [] = Inr x"
  by (simp add: scanned_def)

text \<open>The rows that a statement reads back, for every statement that uses the scan function.\<close>

definition reads_back :: "(SqlValue list \<Rightarrow> err + 'a) \<Rightarrow> (string \<times> SqlValue) list \<Rightarrow> 'a \<Rightarrow> string list list \<Rightarrow> bool" where
  "reads_back scan row x qs = list_all (\<lambda>q. scan (map (column row) q) = Inr x) qs"

lemma users_read_back:
  "reads_back scanUser (user_columns u) u
     [User_Create_returning, User_GetByID_select, User_GetByEmail_select, User_GetByNickname_select]"
  "reads_back scanUserSearch (user_columns u) (scanUserSearchRow u) [User_Search_select]"
  by (simp_all add: reads_back_def user_columns_def column_def scanUser_def scanUserSearch_def scanUserSearchRow_def
      User_Create_returning_def User_GetByID_select_def User_GetByEmail_select_def User_GetByNickname_select_def
      User_Search_select_def)

lemma chats_read_back:
  "reads_back scanChat (chat_columns c) c
     [CreateChat_returning, Chat_GetByID_select, GetDirectByKey_select, insertChat_returning]"
  "reads_back scanChat (aliased ''c'' (chat_columns c)) c [GetUserChats_select]"
  by (simp_all add: reads_back_def chat_columns_def aliased_def column_def scanChat_def dest_chat_def
      CreateChat_returning_def Chat_GetByID_select_def GetDirectByKey_select_def insertChat_returning_def
      GetUserChats_select_def)

lemma summary_reads_back:
  "reads_back scanSummary (summary_columns c lm n) (scanChatListRow c lm n) [ListUserChatsSummary_select]"
proof (cases lm)
  case None
  then show ?thesis
    by (simp add: reads_back_def summary_columns_def left_joined_def chat_columns_def aliased_def column_def scanSummary_def
        dest_chat_def scanChatListRow_def ListUserChatsSummary_select_def)
next
  case (Some m)
  then show ?thesis
    by (simp add: reads_back_def summary_columns_def left_joined_def chat_columns_def message_columns_def aliased_def column_def
        scanSummary_def dest_chat_def scanChatListRow_def ListUserChatsSummary_select_def)
qed

lemma members_read_back:
  "reads_back scanChatMember (member_columns cm) cm
     [CreateMember_returning, FindMembership_select, GetChatMembers_select]"
  by (simp add: reads_back_def member_columns_def column_def scanChatMember_def CreateMember_returning_def
      FindMembership_select_def GetChatMembers_select_def)

lemma messages_read_back:
  "reads_back scanMessage (message_columns m) m
     [Message_Create_returning, Message_GetByID_select, insMsg_returning, updated_message_select]"
  "reads_back scanMessage (aliased ''m'' (message_columns m)) m [GetChatMessages_select]"
  by (simp_all add: reads_back_def message_columns_def aliased_def column_def scanMessage_def Message_Create_returning_def
      Message_GetByID_select_def insMsg_returning_def updated_message_select_def GetChatMessages_select_def)

lemma sessions_read_back:
  "reads_back scanSession (session_columns s) s [Session_Create_returning, GetByTokenHash_select, RotateRefresh_returning]"
  by (simp add: reads_back_def session_columns_def column_def scanSession_def Session_Create_returning_def
      GetByTokenHash_select_def RotateRefresh_returning_def)

lemma outbox_reads_back:
  "reads_back scanOutboxRow (outbox_columns r) (OutboxRow.truncate r) [FetchPending_select]"
  by (simp add: reads_back_def outbox_columns_def column_def scanOutboxRow_def FetchPending_select_def OutboxRow.defs)

text \<open>
  An INSERT of one row puts into each of its columns the value that the row has there, as a column keeps it: \<^verbatim>\<open>timestamptz\<close> has
  microseconds.
\<close>

definition column_in :: "SqlValue \<Rightarrow> SqlValue" where
  "column_in v = (case v of Timestamp t \<Rightarrow> Timestamp (pg_timestamptz t) | _ \<Rightarrow> v)"

definition stores :: "Insert \<Rightarrow> (string \<times> SqlValue) list \<Rightarrow> bool" where
  "stores q row =
     (map (map (map_prod id (map_option column_in))) (inserted q) = [map (\<lambda>c. (c, Some (column_in (column row c)))) (in_Columns q)])"

lemma column_in_Timestamp [simp]:
  "column_in (Timestamp t) = Timestamp (pg_timestamptz t)" "pg_timestamptz (pg_timestamptz t) = pg_timestamptz t"
  by (simp_all add: column_in_def pg_timestamptz_def)

lemmas insert_defs = stores_def inserted_def bind_arg_def column_def

lemma single_inserts:
  "stores (User_Create_insert u) (user_columns u)"
  "stores (CreateChat_insert c) (chat_columns c)"
  "stores (CreateMember_insert cm) (member_columns cm)"
  "stores (Message_Create_insert m) (message_columns m)"
  "stores (insMsg_insert m) (message_columns m)"
  "stores (Session_Create_insert s) (session_columns s)"
  "stores (RotateRefresh_insert s) (session_columns s)"
  by (simp_all add: insert_defs User_Create_insert_def user_columns_def CreateChat_insert_def chat_columns_def
      CreateMember_insert_def member_columns_def Message_Create_insert_def insMsg_insert_def message_columns_def
      Session_Create_insert_def RotateRefresh_insert_def session_columns_def)

lemma group_inserts:
  "stores (insertChat_insert title avatar creator)
     (chat_columns (new_chat_row ChatTypeGroup (Some title) avatar (Some creator) None now uid))"
  "stores (insOwner_insert cid creator) (member_columns (new_member_row cid creator ChatMemberRoleOwner now))"
  by (simp_all add: insert_defs insertChat_insert_def chat_columns_def new_chat_row_def nullable_def insOwner_insert_def
      member_columns_def new_member_row_def)

lemma outbox_insert:
  "jsonb_in (ob_Payload ob) = Some payload \<Longrightarrow>
     stores (insertOutboxTx_insert ob) (outbox_columns (outbox_record ob (ob_EventID ob) (ob_ChatID ob) payload now i))"
  by (auto simp: insert_defs insertOutboxTx_insert_def outbox_columns_def outbox_record_def jsonb_in_def
      split: if_splits RawMessage.splits)

text \<open>The placeholders of the generated statements: the tuples built from position \<open>Suc (length pre)\<close> on refer to arguments behind \<open>pre\<close>.\<close>

lemma bind_arg_Param:
  "bind_arg (x # pre @ y # args) (Param 1) = Some x"
  "n = length pre + 2 \<Longrightarrow> bind_arg (x # pre @ y # args) (Param n) = Some y"
  by (simp_all add: bind_arg_def nth_append)

lemma add_tuples_bind:
  "add_tuples (length pre + 2) ms = (tuples, args) \<Longrightarrow>
     map (map (bind_arg (x # pre @ args))) tuples =
       map (\<lambda>m. [Some x, Some (Text (acm_UserID m)), Some (Text (role_string (acm_Role m)))]) ms"
proof (induction ms arbitrary: pre tuples args)
  case (Cons m ms)
  let ?u = "Text (acm_UserID m)" and ?r = "Text (role_string (acm_Role m))"
  obtain ts as where rest: "add_tuples (length (pre @ [?u, ?r]) + 2) ms = (ts, as)" by fastforce
  then have t: "tuples = [Param 1, Param (length pre + 2), Param (length pre + 3)] # ts" "args = ?u # ?r # as"
    using Cons.prems by (simp_all add: eval_nat_numeral)
  show ?case
    using Cons.IH [OF rest] bind_arg_Param(1) [of x pre ?u "?r # as"] bind_arg_Param(2) [of _ pre x ?u "?r # as"]
      bind_arg_Param(2) [of _ "pre @ [?u]" x ?r as]
    by (simp add: t eval_nat_numeral)
qed simp

lemma group_tuples_bind:
  "group_tuples (length pre + 2) us = (tuples, args) \<Longrightarrow>
     map (map (bind_arg (x # pre @ args))) tuples = map (\<lambda>u. [Some x, Some (Text u), Some (Text ''member'')]) us"
proof (induction us arbitrary: pre tuples args)
  case (Cons u us)
  obtain ts as where rest: "group_tuples (length (pre @ [Text u]) + 2) us = (ts, as)" by fastforce
  then have t: "tuples = [Param 1, Param (length pre + 2), Literal (Text ''member'')] # ts" "args = Text u # as"
    using Cons.prems by (simp_all add: eval_nat_numeral)
  have "bind_arg vs (Literal v) = Some v" for vs v by (simp add: bind_arg_def)
  then show ?case
    using Cons.IH [OF rest] bind_arg_Param(1) [of x pre "Text u" as] bind_arg_Param(2) [of _ pre x "Text u" as] by (simp add: t)
qed simp

text \<open>The rows of an INSERT into \<^verbatim>\<open>chat_members\<close> that names the chat, the user and the role.\<close>

definition bulk_row :: "ID \<Rightarrow> AddChatMember \<Rightarrow> (string \<times> SqlValue option) list" where
  "bulk_row chatID m =
     [(''chat_id'', Some (Text chatID)), (''user_id'', Some (Text (acm_UserID m))),
      (''role'', Some (Text (role_string (acm_Role m))))]"

lemma bulk_inserts:
  "inserted (AddMembers_insert cid ms) = map (bulk_row cid) ms"
  "inserted (group_members_insert cid us) = map (\<lambda>u. bulk_row cid \<lparr>acm_UserID = u, acm_Role = ChatMemberRoleMember\<rparr>) us"
proof -
  have rows: "inserted q = map (zip (in_Columns q)) (map (map (bind_arg (in_Args q))) (in_Tuples q))" for q :: Insert
    by (simp add: inserted_def)
  obtain ts as where "add_tuples 2 ms = (ts, as)" by fastforce
  moreover from this have "map (map (bind_arg (Text cid # as))) ts =
      map (\<lambda>m. [Some (Text cid), Some (Text (acm_UserID m)), Some (Text (role_string (acm_Role m)))]) ms"
    using add_tuples_bind [of "[]" ms ts as "Text cid"] by (simp add: numeral_2_eq_2)
  ultimately show "inserted (AddMembers_insert cid ms) = map (bulk_row cid) ms"
    by (simp add: rows AddMembers_insert_def bulk_row_def del: map_map) (simp add: bulk_row_def)
  obtain ts as where "group_tuples 2 us = (ts, as)" by fastforce
  moreover from this have "map (map (bind_arg (Text cid # as))) ts = map (\<lambda>u. [Some (Text cid), Some (Text u), Some (Text ''member'')]) us"
    using group_tuples_bind [of "[]" us ts as "Text cid"] by (simp add: numeral_2_eq_2)
  ultimately show "inserted (group_members_insert cid us) =
      map (\<lambda>u. bulk_row cid \<lparr>acm_UserID = u, acm_Role = ChatMemberRoleMember\<rparr>) us"
    by (simp add: rows group_members_insert_def bulk_row_def del: map_map) (simp add: bulk_row_def)
qed

text \<open>
  C17: statements and records agree.  Every SELECT and RETURNING of the repositories lists its columns such that the scan
  function of the statement rebuilds the row (without the password hash in a search, and with the joined message, if there is one, in the
  chat list), NULL becoming a nil pointer; every INSERT binds each field to the column of that name; and the generated multi-row
  statements, whose placeholders are numbered by a running position, insert exactly the members given, for any number of them.
\<close>

theorem statements_match_rows:
  "reads_back scanUser (user_columns u) u
     [User_Create_returning, User_GetByID_select, User_GetByEmail_select, User_GetByNickname_select]
   \<and> reads_back scanUserSearch (user_columns u) (scanUserSearchRow u) [User_Search_select]
   \<and> reads_back scanChat (chat_columns c) c [CreateChat_returning, Chat_GetByID_select, GetDirectByKey_select, insertChat_returning]
   \<and> reads_back scanChat (aliased ''c'' (chat_columns c)) c [GetUserChats_select]
   \<and> reads_back scanSummary (summary_columns c lm n) (scanChatListRow c lm n) [ListUserChatsSummary_select]
   \<and> reads_back scanChatMember (member_columns cm) cm [CreateMember_returning, FindMembership_select, GetChatMembers_select]
   \<and> reads_back scanMessage (message_columns m) m
        [Message_Create_returning, Message_GetByID_select, insMsg_returning, updated_message_select]
   \<and> reads_back scanMessage (aliased ''m'' (message_columns m)) m [GetChatMessages_select]
   \<and> reads_back scanSession (session_columns s) s [Session_Create_returning, GetByTokenHash_select, RotateRefresh_returning]
   \<and> reads_back scanOutboxRow (outbox_columns r) (OutboxRow.truncate r) [FetchPending_select]
   \<and> stores (User_Create_insert u) (user_columns u) \<and> stores (CreateChat_insert c) (chat_columns c)
   \<and> stores (CreateMember_insert cm) (member_columns cm) \<and> stores (Message_Create_insert m) (message_columns m)
   \<and> stores (insMsg_insert m) (message_columns m) \<and> stores (Session_Create_insert s) (session_columns s)
   \<and> stores (RotateRefresh_insert s) (session_columns s)
   \<and> stores (insertChat_insert title avatar creator)
        (chat_columns (new_chat_row ChatTypeGroup (Some title) avatar (Some creator) None now uid))
   \<and> stores (insOwner_insert cid creator) (member_columns (new_member_row cid creator ChatMemberRoleOwner now))
   \<and> (jsonb_in (ob_Payload ob) = Some payload \<longrightarrow>
        stores (insertOutboxTx_insert ob) (outbox_columns (outbox_record ob (ob_EventID ob) (ob_ChatID ob) payload now i)))
   \<and> inserted (AddMembers_insert cid ms) = map (bulk_row cid) ms
   \<and> inserted (group_members_insert cid us) = map (\<lambda>v. bulk_row cid \<lparr>acm_UserID = v, acm_Role = ChatMemberRoleMember\<rparr>) us"
  by (intro conjI impI users_read_back chats_read_back summary_reads_back members_read_back messages_read_back
      sessions_read_back outbox_reads_back single_inserts group_inserts outbox_insert bulk_inserts)

text \<open>An event of no chat with an empty payload, and two members added at once.\<close>

definition demo_enqueue :: OutboxEnqueue where
  "demo_enqueue =
     \<lparr>ob_EventID = ''e1'', ob_EventType = EventMessageCreated, ob_AggregateType = ''message'', ob_AggregateID = ''m1'',
      ob_ChatID = None, ob_OccurredAt = 7, ob_Version = 1, ob_Payload = RawNil\<rparr>"

theorem statements_match_rows_witness:
  "jsonb_in (ob_Payload demo_enqueue) = Some (RawJSON (JObj []))
   \<and> stores (insertOutboxTx_insert demo_enqueue)
        (outbox_columns (outbox_record demo_enqueue ''e1'' None (RawJSON (JObj [])) 9 1))
   \<and> inserted (AddMembers_insert ''c'' [\<lparr>acm_UserID = ''a'', acm_Role = ChatMemberRoleOwner\<rparr>,
                                       \<lparr>acm_UserID = ''b'', acm_Role = ChatMemberRoleMember\<rparr>])
      = [[(''chat_id'', Some (Text ''c'')), (''user_id'', Some (Text ''a'')), (''role'', Some (Text ''owner''))],
         [(''chat_id'', Some (Text ''c'')), (''user_id'', Some (Text ''b'')), (''role'', Some (Text ''member''))]]"
proof -
  have "jsonb_in (ob_Payload demo_enqueue) = Some (RawJSON (JObj []))" "ob_EventID demo_enqueue = ''e1''" "ob_ChatID demo_enqueue = None"
    by (simp_all add: demo_enqueue_def jsonb_in_def raw_empty_def)
  then show ?thesis
    using statements_match_rows [where ob = demo_enqueue and payload = "RawJSON (JObj [])" and now = 9 and i = 1 and cid = "''c''"
      and ms = "[\<lparr>acm_UserID = ''a'', acm_Role = ChatMemberRoleOwner\<rparr>, \<lparr>acm_UserID = ''b'', acm_Role = ChatMemberRoleMember\<rparr>]"]
    by (simp add: bulk_row_def)
qed

end
