(* ===== verification/KeepAlive.thy ===== *)
theory KeepAlive
  imports WsConn Demo
begin

text \<open>
  The deadlines of a WebSocket connection: a peer that answers the pings stays connected, and a peer that has fallen silent is
  dropped in bounded time.  Both hold as far as the read loop keeps up with the frames that arrive, since it handles a message before it
  reads on.
\<close>

section \<open>Frames in time\<close>

definition pong_times :: "Arrival list \<Rightarrow> time list" where
  "pong_times frames = map fr_Time (filter (\<lambda>a. fr_Frame a = PongFrame) frames)"

text \<open>A connection that does not end by itself, with frames within the limit.\<close>

definition within_limit :: "Arrival list \<Rightarrow> bool" where
  "within_limit frames =
     list_all (\<lambda>a. case fr_Frame a of TextFrame _ n \<Rightarrow> n \<le> maxMessageSize | PongFrame \<Rightarrow> True | ConnEnd \<Rightarrow> False) frames"

text \<open>Each of the times is at most \<open>d\<close> after the one before it, the first after \<open>s\<close>.\<close>

fun gaps_ok :: "int \<Rightarrow> time \<Rightarrow> time list \<Rightarrow> bool" where
  "gaps_ok d s [] = True"
| "gaps_ok d s (t # ts) = (t \<le> s + d \<and> gaps_ok d t ts)"

text \<open>The loop keeps up: it is done with a frame at most \<open>B\<close> after the frame has arrived.\<close>

definition responsive :: "int \<Rightarrow> (time \<times> time) list \<Rightarrow> bool" where
  "responsive B log = list_all (\<lambda>(t, done). done \<le> t + B) log"

lemma pong_times_simps [simp]:
  "pong_times [] = []" "pong_times (a # frames) = (if fr_Frame a = PongFrame then [fr_Time a] else []) @ pong_times frames"
  "pong_times (xs @ ys) = pong_times xs @ pong_times ys"
  by (simp_all add: pong_times_def)

lemma within_limit_simps [simp]:
  "within_limit []"
  "within_limit (a # frames) =
     ((case fr_Frame a of TextFrame _ n \<Rightarrow> n \<le> maxMessageSize | PongFrame \<Rightarrow> True | ConnEnd \<Rightarrow> False) \<and> within_limit frames)"
  by (simp_all add: within_limit_def)

lemma responsive_simps [simp]:
  "responsive B []" "responsive B ((t, d) # log) = (d \<le> t + B \<and> responsive B log)"
  by (simp_all add: responsive_def)

lemma pongWait_pos: "0 < pongWait"
  by (simp add: pongWait_def Second_def)

text \<open>One more frame has been read: what the loop went on with.\<close>

lemma conn_reads_Cons:
  assumes "conn_reads proc p u deadline filled (a # frames) w = (log, out, w')" and "log \<noteq> []"
  obtains deadline' filled' w1 log1 out1 where "conn_reads proc p u deadline' filled' frames w1 = (log1, out1, w')"
    and "log = (fr_Time a, clock w1) # log1"
    and "filled' = filled \<and> fr_Time a \<le> filled \<or> filled' = max (clock w) (fr_Time a) \<and> filled' \<le> deadline"
    and "fr_Frame a = PongFrame \<and> deadline' = clock w1 + pongWait \<and> clock w1 = max (clock w) (fr_Time a)
      \<or> fr_Frame a \<noteq> PongFrame \<and> deadline' = deadline"
  using assms by (fastforce simp: Let_def split: if_splits InFrame.splits prod.splits)

text \<open>Or the loop has ended before that.\<close>

lemma conn_reads_end:
  assumes "conn_reads proc p u deadline filled (a # frames) w = (log, out, w')" and "log = []"
  shows "clock w' = max (clock w) deadline \<and> deadline < max (clock w) (fr_Time a)
    \<or> clock w' = max (clock w) (fr_Time a) \<and> \<not> within_limit [a] \<and> (clock w' \<le> deadline \<or> fr_Time a \<le> filled)"
  using assms by (auto simp: Let_def split: if_splits InFrame.splits prod.splits)

lemma read_in_order: "conn_reads proc p u deadline filled frames w = (log, out, w') \<Longrightarrow>
    map fst log = map fr_Time (take (length log) frames)"
proof (induction frames arbitrary: deadline filled w log out)
  case (Cons a frames)
  show ?case
  proof (cases "log = []")
    case False
    from conn_reads_Cons [OF Cons.prems this] show ?thesis using Cons.IH by (metis fst_conv length_Cons list.simps(9) take_Suc_Cons)
  qed simp
qed simp

section \<open>Silent peers\<close>

lemma conn_drops:
  "conn_reads proc p u deadline filled frames w = (log, out, w') \<Longrightarrow> responsive B log \<Longrightarrow> 0 \<le> B \<Longrightarrow>
     \<forall>t \<in> set (pong_times frames). t \<le> T \<Longrightarrow> deadline \<le> T + B + pongWait \<Longrightarrow> filled \<le> T + B + pongWait \<Longrightarrow>
     clock w \<le> T + 2 * B + pongWait \<Longrightarrow> clock w' \<le> T + 2 * B + pongWait"
proof (induction frames arbitrary: deadline filled w log out)
  case (Cons a frames)
  show ?case
  proof (cases "log = []")
    case True
    show ?thesis using conn_reads_end [OF Cons.prems(1) True] Cons.prems(3,5-7) by (elim disjE) auto
  next
    case False
    from Cons.prems(1) False obtain deadline' filled' w1 log1 out1 where
      nxt: "conn_reads proc p u deadline' filled' frames w1 = (log1, out1, w')" "log = (fr_Time a, clock w1) # log1"
      and f: "filled' = filled \<and> fr_Time a \<le> filled \<or> filled' = max (clock w) (fr_Time a) \<and> filled' \<le> deadline"
      and d: "fr_Frame a = PongFrame \<and> deadline' = clock w1 + pongWait \<and> clock w1 = max (clock w) (fr_Time a)
        \<or> fr_Frame a \<noteq> PongFrame \<and> deadline' = deadline"
      by (rule conn_reads_Cons)
    have "filled' \<le> T + B + pongWait" "fr_Time a \<le> T + B + pongWait" using f Cons.prems(5,6) by auto
    moreover have "clock w1 \<le> fr_Time a + B" "responsive B log1" using Cons.prems(2) nxt(2) by simp_all
    moreover have "deadline' \<le> T + B + pongWait" using d Cons.prems(4,5) \<open>clock w1 \<le> fr_Time a + B\<close> by auto
    ultimately show ?thesis using Cons.IH [OF nxt(1)] Cons.prems(3,4) by simp
  qed
qed auto

section \<open>Peers that answer\<close>

lemma conn_end_after:
  "conn_reads proc p u deadline filled frames w = (log, out, w') \<Longrightarrow> within_limit frames \<Longrightarrow>
     \<forall>a \<in> set frames. s \<le> fr_Time a \<Longrightarrow> s + pongWait \<le> deadline \<Longrightarrow> s + pongWait \<le> clock w'"
proof (induction frames arbitrary: deadline filled w log out)
  case (Cons a frames)
  show ?case
  proof (cases "log = []")
    case True
    show ?thesis using conn_reads_end [OF Cons.prems(1) True] Cons.prems(2,4) by auto
  next
    case False
    from Cons.prems(1) False obtain deadline' filled' w1 log1 out1 where
      nxt: "conn_reads proc p u deadline' filled' frames w1 = (log1, out1, w')"
      and "fr_Frame a = PongFrame \<and> deadline' = clock w1 + pongWait \<and> clock w1 = max (clock w) (fr_Time a)
        \<or> fr_Frame a \<noteq> PongFrame \<and> deadline' = deadline"
      by (rule conn_reads_Cons)
    then have "s + pongWait \<le> deadline'" using Cons.prems(3,4) by auto
    then show ?thesis using Cons.IH [OF nxt(1)] Cons.prems(2,3) by simp
  qed
qed auto

text \<open>The frame that a waiting peer sent first is no later than its next pong, so it comes in time.\<close>

lemma first_in_time:
  assumes "sorted (map fr_Time (x # ys))" and "gaps_ok d s (pong_times (x # ys))" and "pong_times (x # ys) \<noteq> []"
  shows "fr_Time x \<le> s + d"
proof -
  obtain t ts where t: "pong_times (x # ys) = t # ts" using assms(3) by (cases "pong_times (x # ys)") auto
  then have "t \<in> set (pong_times (x # ys))" by simp
  then have "t \<in> set (map fr_Time (x # ys))" by (auto simp: pong_times_def split: if_splits)
  then show ?thesis using assms(1,2) t by auto
qed

lemma read_if_in_time:
  assumes "conn_reads proc p u deadline filled (a # frames) w = (log, out, w')" and "within_limit [a]"
    and "clock w \<le> fr_Time a + B" and "0 \<le> B" and "fr_Time a + B \<le> deadline"
  shows "log \<noteq> []"
  using conn_reads_end [OF assms(1)] assms(2-5) by (auto simp: max_def split: if_splits)

lemma conn_alive:
  "conn_reads proc p u deadline filled (pre @ a # post) w = (log, out, w') \<Longrightarrow> fr_Frame a = PongFrame \<Longrightarrow>
     sorted (map fr_Time (pre @ a # post)) \<Longrightarrow> within_limit pre \<Longrightarrow> responsive B log \<Longrightarrow> 0 \<le> B \<Longrightarrow>
     \<forall>x \<in> set (pre @ [a]). clock w \<le> fr_Time x + B \<Longrightarrow> s + pongWait \<le> deadline \<Longrightarrow>
     gaps_ok (pongWait - B) s (pong_times (pre @ [a])) \<Longrightarrow>
     length pre < length log \<and> (within_limit post \<longrightarrow> fr_Time a + pongWait \<le> clock w')"
proof (induction pre arbitrary: s deadline filled w log out)
  case Nil
  then have r: "conn_reads proc p u deadline filled (a # post) w = (log, out, w')" by simp
  have "log \<noteq> []" by (rule read_if_in_time [OF r, where B = B]) (use Nil in simp_all)
  from r this obtain deadline' filled' w1 log1 out1 where
    nxt: "conn_reads proc p u deadline' filled' post w1 = (log1, out1, w')"
    and "fr_Frame a = PongFrame \<and> deadline' = clock w1 + pongWait \<and> clock w1 = max (clock w) (fr_Time a)
      \<or> fr_Frame a \<noteq> PongFrame \<and> deadline' = deadline"
    by (rule conn_reads_Cons)
  then have "fr_Time a + pongWait \<le> deadline'" using Nil.prems(2) by auto
  then have "within_limit post \<longrightarrow> fr_Time a + pongWait \<le> clock w'"
    using conn_end_after [OF nxt, of "fr_Time a"] Nil.prems(3) by simp
  with \<open>log \<noteq> []\<close> show ?case by simp
next
  case (Cons x pre)
  have r: "conn_reads proc p u deadline filled (x # pre @ a # post) w = (log, out, w')" using Cons.prems(1) by simp
  have "fr_Time x \<le> s + (pongWait - B)"
    by (rule first_in_time [of x "pre @ [a]"]) (use Cons.prems(2,3,9) in \<open>auto simp: sorted_append\<close>)
  then have "log \<noteq> []" by (intro read_if_in_time [OF r, where B = B]) (use Cons.prems in \<open>simp_all add: within_limit_def\<close>)
  with r obtain deadline' filled' w1 log1 out1 where
    nxt: "conn_reads proc p u deadline' filled' (pre @ a # post) w1 = (log1, out1, w')" "log = (fr_Time x, clock w1) # log1"
    and d: "fr_Frame x = PongFrame \<and> deadline' = clock w1 + pongWait \<and> clock w1 = max (clock w) (fr_Time x)
      \<or> fr_Frame x \<noteq> PongFrame \<and> deadline' = deadline"
    by (rule conn_reads_Cons)
  define s' where "s' = (if fr_Frame x = PongFrame then fr_Time x else s)"
  have "s' + pongWait \<le> deadline'" using d Cons.prems(8) by (auto simp: s'_def)
  moreover have "gaps_ok (pongWait - B) s' (pong_times (pre @ [a]))" using Cons.prems(9) by (auto simp: s'_def split: if_splits)
  moreover have "clock w1 \<le> fr_Time x + B" "responsive B log1" using Cons.prems(5) nxt(2) by simp_all
  moreover have "\<forall>y \<in> set (pre @ [a]). clock w1 \<le> fr_Time y + B"
  proof
    fix y
    assume "y \<in> set (pre @ [a])"
    then have "fr_Time x \<le> fr_Time y" using Cons.prems(3) by auto
    then show "clock w1 \<le> fr_Time y + B" using \<open>clock w1 \<le> fr_Time x + B\<close> by simp
  qed
  ultimately show ?case using Cons.IH [OF nxt(1)] Cons.prems(2-4,6) nxt(2) by simp
qed

text \<open>
  Pings that are sent at most \<open>late\<close> after they are due, and are answered within \<open>latency\<close>, give pongs that come in time, as far as
  lateness, latency and the delay of the read loop add up to no more than the six seconds between \<^verbatim>\<open>pingPeriod\<close> and \<^verbatim>\<open>pongWait\<close>.
\<close>

lemma answered_pings:
  assumes "late + latency + B \<le> pongWait - pingPeriod"
  shows "list_all2 (\<lambda>ping pong. ping \<le> pong \<and> pong \<le> ping + latency) pings pongs \<Longrightarrow> gaps_ok (pingPeriod + late) s pings \<Longrightarrow>
     s \<le> s' \<Longrightarrow> gaps_ok (pongWait - B) s' pongs"
proof (induction pings pongs arbitrary: s s' rule: list_all2_induct)
  case (Cons ping pings pong pongs)
  then show ?case using Cons.IH [of ping pong] assms by auto
qed simp

section \<open>Keep-alive\<close>

text \<open>The write pump sends what is queued in the order of the queue.\<close>

lemma writePump_in_order:
  "hub_heap h p = Some c \<Longrightarrow>
     writePump p (replicate (length (cl_send c)) (FrameReady, True)) h
       = (map WroteText (cl_send c), h\<lparr>hub_heap := (hub_heap h)(p \<mapsto> c\<lparr>cl_send := []\<rparr>)\<rparr>)"
proof (induction "cl_send c" arbitrary: c h)
  case Nil
  then have "c\<lparr>cl_send := []\<rparr> = c" by (cases c) simp
  then have "(hub_heap h)(p \<mapsto> c\<lparr>cl_send := []\<rparr>) = hub_heap h" using Nil.prems by (simp only: fun_upd_idem)
  then have same: "h\<lparr>hub_heap := (hub_heap h)(p \<mapsto> c\<lparr>cl_send := []\<rparr>)\<rparr> = h" by (simp only:) simp
  show ?case unfolding same using Nil.hyps [symmetric] by simp
next
  case (Cons b q)
  let ?c = "c\<lparr>cl_send := q\<rparr>" let ?h = "h\<lparr>hub_heap := (hub_heap h)(p \<mapsto> ?c)\<rparr>"
  have "write_round FrameReady True p h = (([WroteText b], True), ?h)"
    using Cons.prems Cons.hyps(2) [symmetric] by (simp add: write_round_def)
  moreover have "writePump p (replicate (length q) (FrameReady, True)) ?h
      = (map WroteText q, h\<lparr>hub_heap := (hub_heap h)(p \<mapsto> c\<lparr>cl_send := []\<rparr>)\<rparr>)"
    using Cons.hyps(1) [of ?c ?h] by simp
  ultimately show ?case using Cons.hyps(2) [symmetric] by simp
qed

text \<open>
  C31: the keep-alive of a connection, when the read loop is done with each frame it reads at most \<open>B\<close> after its arrival.  Frames are read in the order
  of their arrival.  A connection ends at most 60 seconds and twice that delay after the last pong of its peer has arrived.  While no two
  successive pongs are further apart than 60 seconds less that delay (nor the first from the start), no frame is too large and the connection is not
  closed, every frame up to the last of these pongs is read, and the connection lasts for 60 seconds after it.
\<close>

theorem keepalive:
  assumes "sorted (map fr_Time frames)" and "\<forall>a \<in> set frames. clock w \<le> fr_Time a" and "0 \<le> B" and "responsive B log"
    and "serve_conn proc presence p u frames w = (log, end, out, w')"
  shows "map fst log = map fr_Time (take (length log) frames)
    \<and> (\<forall>T \<ge> clock w. (\<forall>t \<in> set (pong_times frames). t \<le> T) \<longrightarrow> end \<le> T + pongWait + 2 * B)
    \<and> (\<forall>pre a post. frames = pre @ a # post \<and> fr_Frame a = PongFrame \<and> within_limit pre
          \<and> gaps_ok (pongWait - B) (clock w) (pong_times (pre @ [a])) \<longrightarrow>
        length pre < length log \<and> (within_limit post \<longrightarrow> fr_Time a + pongWait \<le> end))"
proof -
  obtain w1 where r: "conn_reads proc p u (clock w + pongWait) (clock w) frames w = (log, out, w1)" and e: "end = clock w1"
    using assms(5) by (auto simp: serve_conn_def split: prod.splits)
  have "end \<le> T + pongWait + 2 * B" if "clock w \<le> T" "\<forall>t \<in> set (pong_times frames). t \<le> T" for T
    using conn_drops [OF r assms(4,3) that(2)] that(1) assms(3) pongWait_pos by (simp add: e)
  moreover have "length pre < length log \<and> (within_limit post \<longrightarrow> fr_Time a + pongWait \<le> end)"
    if "frames = pre @ a # post" "fr_Frame a = PongFrame" "within_limit pre"
      "gaps_ok (pongWait - B) (clock w) (pong_times (pre @ [a]))" for pre a post
    unfolding e by (rule conn_alive [OF r [unfolded that(1)] that(2) _ that(3) assms(4,3) _ _ that(4)])
      (use assms(1-3) that(1) in \<open>auto intro: order_trans add_increasing2\<close>)
  ultimately show ?thesis using read_in_order [OF r] by blast
qed

text \<open>Two pongs in time, and then silence.\<close>

definition demo_proc :: WSService where
  "demo_proc = \<lparr>wss_msgs = \<lparr>ms_writer = True\<rparr>, wss_typing = None, wss_presence = None, wss_bc = \<lparr>bc_pub = False\<rparr>\<rparr>"

definition demo_frames :: "Arrival list" where
  "demo_frames =
     [\<lparr>fr_Time = 55 * Second, fr_Buffered = False, fr_Frame = PongFrame\<rparr>,
      \<lparr>fr_Time = 110 * Second, fr_Buffered = False, fr_Frame = PongFrame\<rparr>,
      \<lparr>fr_Time = 200 * Second, fr_Buffered = True, fr_Frame = TextFrame (RawJSON JNull) 4\<rparr>]"

theorem keepalive_witness:
  "\<exists>log end out w'. serve_conn demo_proc None 0 alice demo_frames (demo\<lparr>clock := 0\<rparr>) = (log, end, out, w')
     \<and> length log = 2 \<and> end = 170 * Second"
proof -
  let ?w = "demo\<lparr>clock := 0\<rparr>"
  obtain log e out w' where s: "serve_conn demo_proc None 0 alice demo_frames ?w = (log, e, out, w')" by (metis prod_cases4)
  then have log: "log = [(55 * Second, 55 * Second), (110 * Second, 110 * Second)]"
    by (auto simp: serve_conn_def demo_frames_def Second_def pongWait_def maxMessageSize_def)
  have pre: "sorted (map fr_Time demo_frames)" "\<forall>a \<in> set demo_frames. clock ?w \<le> fr_Time a" "responsive 0 log"
    by (simp_all add: demo_frames_def Second_def log)
  note k = keepalive [OF pre(1,2) order_refl pre(3) s]
  have "demo_frames = take 1 demo_frames @ demo_frames ! 1 # drop 2 demo_frames \<and> fr_Frame (demo_frames ! 1) = PongFrame
      \<and> within_limit (take 1 demo_frames) \<and> gaps_ok (pongWait - 0) (clock ?w) (pong_times (take 1 demo_frames @ [demo_frames ! 1]))"
    "within_limit (drop 2 demo_frames)" "fr_Time (demo_frames ! 1) = 110 * Second" "\<forall>t \<in> set (pong_times demo_frames). t \<le> 110 * Second"
    by (simp_all add: demo_frames_def pongWait_def Second_def maxMessageSize_def)
  with k have "110 * Second + pongWait \<le> e" "e \<le> 110 * Second + pongWait + 2 * 0" by (metis, simp add: Second_def)
  then show ?thesis using s log by (auto simp: pongWait_def)
qed

end
