(* ===== verification/LocalView.thy ===== *)
theory LocalView
  imports HttpProps Startup
begin

text \<open>
  What the handlers of HTTP requests leave alone.  They act on the world through round trips, transactions, random numbers and
  counters of their own, so any view of the process that depends on none of these, such as the registry of connections or the metrics of the HTTP
  server, is the same afterwards.
\<close>

section \<open>Views\<close>

text \<open>The metrics that the middleware alone changes.\<close>

definition http_metrics ::
  "M \<Rightarrow> (string \<times> string \<times> string \<Rightarrow> nat) \<times> (string \<times> string \<times> string \<Rightarrow> int list) \<times> int" where
  "http_metrics m = (HTTPRequests m, HTTPDuration m, HTTPInflight m)"

locale local_view =
  fixes view :: "World \<Rightarrow> 'v"
  assumes view_store: "view (w\<lparr>store := s\<rparr>) = view w"
    and view_trip: "view (w\<lparr>clock := c, trips := n\<rparr>) = view w"
    and view_drawn: "view (w\<lparr>drawn := n\<rparr>) = view w"
    and view_metric: "(\<And>m. http_metrics (f m) = http_metrics m) \<Longrightarrow> view (w\<lparr>met := map_option f (met w)\<rparr>) = view w"
begin

lemma view_steps [simp]:
  "view (advance w) = view w" "view (interfere w) = view w" "view (rollback s w) = view w"
  "view (snd (deliver f w rs)) = view w"
  by (simp_all add: advance_def interfere_def rollback_def deliver_def view_store view_trip split: fate.split)

lemma same_roundtrip [go_keep]: "keeps (\<lambda>w. view w = v) (roundtrip st)"
  by (simp add: keeps_def roundtrip_def Let_def)

lemma same_tx_stmt [go_keep]: "keeps (\<lambda>w. view w = v) (tx_stmt t st)"
  by (simp add: keeps_def tx_stmt_def)

lemma same_transaction [go_keep]:
  assumes "\<And>t. keeps (\<lambda>w. view w = v) (body t)"
  shows "keeps (\<lambda>w. view w = v) (transaction body)"
proof (rule keepsI)
  fix w
  assume w: "view w = v"
  let ?w = "advance (interfere w)"
  have "view (snd (body (clock ?w) ?w)) = v" using keepsD [OF assms, of ?w "clock ?w"] w by simp
  then show "view (snd (transaction body w)) = v"
    using w by (auto simp: transaction_eq commit_def Let_def split: sum.split prod.split fate.split)
qed

lemma same_draw [go_keep]: "keeps (\<lambda>w. view w = v) uuid_NewString" "keeps (\<lambda>w. view w = v) (rand_Read n)"
  by (simp_all add: keeps_def uuid_NewString_def rand_Read_def view_drawn)

lemma same_metric: "(\<And>m. http_metrics (f m) = http_metrics m) \<Longrightarrow> keeps (\<lambda>w. view w = v) (metric f)"
  by (simp add: keeps_def metric_def view_metric)

lemma same_counters [go_keep]:
  "keeps (\<lambda>w. view w = v) (metric (\<lambda>m. m\<lparr>OutboxCreated := OutboxCreated m + 1\<rparr>))"
  "keeps (\<lambda>w. view w = v) (metric (\<lambda>m. m\<lparr>MessagesCreate := MessagesCreate m + 1\<rparr>))"
  "keeps (\<lambda>w. view w = v) (metric (\<lambda>m. m\<lparr>MessagesUpdate := MessagesUpdate m + 1\<rparr>))"
  "keeps (\<lambda>w. view w = v) (metric (\<lambda>m. m\<lparr>MessagesDelete := MessagesDelete m + 1\<rparr>))"
  "keeps (\<lambda>w. view w = v) (metric (\<lambda>m. m\<lparr>MessagesReadRc := MessagesReadRc m + 1\<rparr>))"
  by (rule same_metric, simp add: http_metrics_def)+

section \<open>Repositories\<close>

lemma same_user_repo [go_keep]:
  "keeps (\<lambda>w. view w = v) (User_Create u)" "keeps (\<lambda>w. view w = v) (User_GetByID i)"
  "keeps (\<lambda>w. view w = v) (User_GetByEmail email)" "keeps (\<lambda>w. view w = v) (User_GetByNickname nick)"
  "keeps (\<lambda>w. view w = v) (User_Search query page)" "keeps (\<lambda>w. view w = v) (UpdateProfile p)"
  unfolding User_Create_def User_GetByID_def User_GetByEmail_def User_GetByNickname_def User_Search_def UpdateProfile_def Let_def
  by (intro go_keep)+

lemma same_session_repo [go_keep]:
  "keeps (\<lambda>w. view w = v) (Session_Create s)" "keeps (\<lambda>w. view w = v) (GetByTokenHash h)"
  "keeps (\<lambda>w. view w = v) (Revoke i)" "keeps (\<lambda>w. view w = v) (RevokeAllByUser u)"
  "keeps (\<lambda>w. view w = v) (RotateRefresh h s)"
  unfolding Session_Create_def GetByTokenHash_def Revoke_def RevokeAllByUser_def RotateRefresh_def rotate_body_def Let_def
  by (intro go_keep)+

lemma same_chat_repo [go_keep]:
  "keeps (\<lambda>w. view w = v) (CreateChat c)" "keeps (\<lambda>w. view w = v) (Chat_GetByID i)"
  "keeps (\<lambda>w. view w = v) (GetDirectByKey key)" "keeps (\<lambda>w. view w = v) (ListUserChatsSummary u page)"
  "keeps (\<lambda>w. view w = v) (FindMembership i u)" "keeps (\<lambda>w. view w = v) (GetChatMembers i)"
  "keeps (\<lambda>w. view w = v) (AddMembers i ms)" "keeps (\<lambda>w. view w = v) (RemoveMember i u)"
  "keeps (\<lambda>w. view w = v) (CreateGroupWithMembers title avatar creator others)"
  unfolding CreateChat_def Chat_GetByID_def GetDirectByKey_def ListUserChatsSummary_def FindMembership_def GetChatMembers_def
    AddMembers_def RemoveMember_def CreateGroupWithMembers_def group_body_def Let_def
  by (intro go_keep)+

lemma same_message_repo [go_keep]:
  "keeps (\<lambda>w. view w = v) (Message_GetByID i)" "keeps (\<lambda>w. view w = v) (GetChatMessages i opts)"
  "keeps (\<lambda>w. view w = v) (CreateMessageWithOutbox m ob)"
  "keeps (\<lambda>w. view w = v) (UpdateMessageTextWithOutbox c i text ob)"
  "keeps (\<lambda>w. view w = v) (SoftDeleteMessageWithOutbox c i ob)"
  "keeps (\<lambda>w. view w = v) (UpdateMemberReadWithOutbox c u i ob)"
  unfolding Message_GetByID_def GetChatMessages_def CreateMessageWithOutbox_def UpdateMessageTextWithOutbox_def
    SoftDeleteMessageWithOutbox_def UpdateMemberReadWithOutbox_def commitOutboxObs_def create_body_def update_text_body_def
    soft_delete_body_def read_body_def insertOutboxTx_def Let_def
  by (intro go_keep)+

section \<open>Services\<close>

lemma same_tokens [go_keep]:
  "keeps (\<lambda>w. view w = v) (HashPassword b pw)" "keeps (\<lambda>w. view w = v) newRefreshPlain"
  "keeps (\<lambda>w. view w = v) (issueTokens s u meta)"
  unfolding issueTokens_def newRefreshPlain_def Let_def
  by (simp add: keeps_def HashPassword_def view_drawn) (intro go_keep)+

lemma same_auth_service [go_keep]:
  "keeps (\<lambda>w. view w = v) (AuthService_Register s req meta)" "keeps (\<lambda>w. view w = v) (AuthService_Login s lreq meta)"
  "keeps (\<lambda>w. view w = v) (AuthService_Refresh s raw meta)" "keeps (\<lambda>w. view w = v) (AuthService_Logout s raw)"
  "keeps (\<lambda>w. view w = v) (AuthService_LogoutAll u)"
  unfolding AuthService_Register_def AuthService_Login_def AuthService_Refresh_def AuthService_Logout_def
    AuthService_LogoutAll_def Let_def
  by (intro go_keep)+

lemma same_user_service [go_keep]:
  "keeps (\<lambda>w. view w = v) (Me u)" "keeps (\<lambda>w. view w = v) (UpdateMe u preq)"
  "keeps (\<lambda>w. view w = v) (UserService_Search q limit offset)" "keeps (\<lambda>w. view w = v) (UserService_GetByID raw)"
  unfolding Me_def UpdateMe_def patch_nickname_def UserService_Search_def UserService_GetByID_def Let_def
  by (intro go_keep)+

lemma same_message_helpers [go_keep]:
  "keeps (\<lambda>w. view w = v) (requireChatMember c u)" "keeps (\<lambda>w. view w = v) (resolveReply c r)"
  "keeps (\<lambda>w. view w = v) (outboxForMessageCreated m)" "keeps (\<lambda>w. view w = v) (outboxForMessageUpdated m text)"
  "keeps (\<lambda>w. view w = v) (outboxForMessageDeleted m)" "keeps (\<lambda>w. view w = v) (outboxForReadReceipt c u i)"
  unfolding requireChatMember_def resolveReply_def outboxForMessageCreated_def outboxForMessageUpdated_def
    outboxForMessageDeleted_def outboxForReadReceipt_def newOutboxEventID_def Let_def
  by (intro go_keep)+

lemma same_message_service [go_keep]:
  "keeps (\<lambda>w. view w = v) (ListByChat tp actor c limit before)" "keeps (\<lambda>w. view w = v) (MessageService_Get actor i)"
  "keeps (\<lambda>w. view w = v) (MessageService_Create svc actor c req)"
  "keeps (\<lambda>w. view w = v) (MessageService_Patch svc actor i preq)"
  "keeps (\<lambda>w. view w = v) (MessageService_Delete svc actor i)" "keeps (\<lambda>w. view w = v) (MessageService_MarkRead svc actor i)"
  unfolding ListByChat_def MessageService_Get_def MessageService_Create_def MessageService_Patch_def MessageService_Delete_def
    MessageService_MarkRead_def Let_def split_def
  by (intro go_keep)+

lemma same_chat_helpers [go_keep]:
  "keeps (\<lambda>w. view w = v) (requireMember c u)" "keeps (\<lambda>w. view w = v) (requireMemberShip c u)"
  unfolding requireMember_def requireMemberShip_def by (intro go_keep)+

lemma same_direct_attempts [go_keep]: "keeps (\<lambda>w. view w = v) (direct_attempts n actor peer key)"
  by (induction n) (simp_all, intro go_keep)

lemma same_group_members [go_keep]: "keeps (\<lambda>w. view w = v) (group_members actor seen raws)"
  by (induction actor seen raws rule: group_members.induct) (auto simp: Let_def intro!: go_keep)

lemma same_added_members [go_keep]: "keeps (\<lambda>w. view w = v) (added_members seen raws)"
  by (induction seen raws rule: added_members.induct) (auto simp: Let_def intro!: go_keep)

lemma same_chat_service [go_keep]:
  "keeps (\<lambda>w. view w = v) (CreateDirect sha actor dreq)" "keeps (\<lambda>w. view w = v) (CreateGroup actor greq)"
  "keeps (\<lambda>w. view w = v) (ListMine actor limit offset)" "keeps (\<lambda>w. view w = v) (ChatService_Get actor c)"
  "keeps (\<lambda>w. view w = v) (Members actor c)" "keeps (\<lambda>w. view w = v) (ChatService_AddMembers actor c areq)"
  "keeps (\<lambda>w. view w = v) (ChatService_RemoveMember actor c target)"
  unfolding CreateDirect_def CreateGroup_def ListMine_def ChatService_Get_def Members_def ChatService_AddMembers_def
    ChatService_RemoveMember_def Let_def split_def
  by (intro go_keep)+

lemma same_tickets [go_keep]:
  "keeps (\<lambda>w. view w = v) (WSTicketService_Issue svc u)" "keeps (\<lambda>w. view w = v) (Ticket_Consume st raw)"
  unfolding WSTicketService_Issue_def Ticket_Issue_def Ticket_Consume_def Let_def by (intro go_keep)+

section \<open>Handlers\<close>

lemma same_respond: "keeps (\<lambda>w. view w = v) svc \<Longrightarrow> view w = v \<Longrightarrow> view (snd (respond st enc svc w)) = v"
  by (auto simp: respond_def dest!: keepsD split: prod.split sum.split)

lemma same_with_body: "(\<And>b. view (snd (k b w)) = v) \<Longrightarrow> view w = v \<Longrightarrow> view (snd (with_body decode k r w)) = v"
  by (simp add: with_body_def split: sum.split)

lemma same_auth_failure [simp]: "view (auth_failure reason w) = view w"
  by (simp add: auth_failure_def metric_def view_metric http_metrics_def)

lemma same_counted_auth:
  assumes "\<And>b. keeps (\<lambda>w. view w = v) (svc b)" and "\<And>m. http_metrics (attempt m) = http_metrics m" and "view w = v"
  shows "view (snd (counted_auth attempt dec st enc svc r w)) = v"
proof -
  have w1: "view (snd (metric attempt w)) = v" using assms(2,3) by (simp add: metric_def view_metric)
  have "view (snd (svc b (snd (metric attempt w)))) = v" for b by (rule keepsD [OF assms(1) w1])
  with w1 show ?thesis
    by (simp add: counted_auth_def Let_def split: prod.split sum.split) (metis snd_conv)
qed

lemma same_auth_handlers:
  "upholds (\<lambda>w. view w = v) (Auth_Register s)" "upholds (\<lambda>w. view w = v) (Auth_Login s)"
  "upholds (\<lambda>w. view w = v) (Auth_Refresh s)" "upholds (\<lambda>w. view w = v) (Auth_Logout s)"
  "upholds (\<lambda>w. view w = v) Auth_LogoutAll"
  by (auto intro!: upholdsI same_counted_auth same_with_body same_respond go_keep split: option.split
      simp: Auth_Register_def Auth_Login_def Auth_Refresh_def Auth_Logout_def Auth_LogoutAll_def http_metrics_def)

lemma same_user_handlers:
  "upholds (\<lambda>w. view w = v) Users_Me" "upholds (\<lambda>w. view w = v) Users_PatchMe" "upholds (\<lambda>w. view w = v) Users_Search"
  "upholds (\<lambda>w. view w = v) Users_ByID"
  by (auto intro!: upholdsI same_with_body same_respond go_keep
      simp: Users_Me_def Users_PatchMe_def Users_Search_def Users_ByID_def)

lemma same_chat_handlers:
  "upholds (\<lambda>w. view w = v) (Chats_CreateDirect sha)" "upholds (\<lambda>w. view w = v) Chats_CreateGroup"
  "upholds (\<lambda>w. view w = v) Chats_List" "upholds (\<lambda>w. view w = v) Chats_Get" "upholds (\<lambda>w. view w = v) Chats_Members"
  "upholds (\<lambda>w. view w = v) Chats_AddMembers" "upholds (\<lambda>w. view w = v) Chats_RemoveMember"
  by (auto intro!: upholdsI same_with_body same_respond go_keep
      simp: Chats_CreateDirect_def Chats_CreateGroup_def Chats_List_def Chats_Get_def Chats_Members_def
        Chats_AddMembers_def Chats_RemoveMember_def)

lemma same_message_handlers:
  "upholds (\<lambda>w. view w = v) (Messages_ListByChat tp)" "upholds (\<lambda>w. view w = v) (Messages_CreateInChat m)"
  "upholds (\<lambda>w. view w = v) Messages_Get" "upholds (\<lambda>w. view w = v) (Messages_Patch m)"
  "upholds (\<lambda>w. view w = v) (Messages_Delete m)" "upholds (\<lambda>w. view w = v) (Messages_MarkRead m)"
  "upholds (\<lambda>w. view w = v) (WSTicket_Issue t)"
  by (auto intro!: upholdsI same_with_body same_respond go_keep split: option.split
      simp: Messages_ListByChat_def Messages_CreateInChat_def Messages_Get_def Messages_Patch_def
        Messages_Delete_def Messages_MarkRead_def WSTicket_Issue_def)

lemma same_presence [go_keep]: "keeps (\<lambda>w. view w = v) (Connected ps u)" "keeps (\<lambda>w. view w = v) (Disconnected ps u)"
  unfolding Connected_def Disconnected_def SetOnline_def SetOffline_def Presence_SetOnline_def Presence_SetOffline_def
  by (intro go_keep)+

text \<open>An upgrade that fails leaves the view as it is, and a successful one leaves it if it does not show the registry.\<close>

lemma same_connect:
  assumes "isl upgrade \<or> (\<forall>w h. view (w\<lparr>hub := h\<rparr>) = view w)"
  shows "upholds (\<lambda>w. view w = v) (connect_handler h upgrade p)"
proof (rule upholdsI)
  fix r :: HttpRequest and w
  assume w: "view w = v"
  then have "view (snd (Ticket_Consume (wh_tickets h) (TrimSpace (hr_Query r ''ticket'')) w)) = v"
    by (rule keepsD [OF same_tickets(2)])
  moreover have "view (snd (metric (\<lambda>m. m\<lparr>WSErrors := bump k (WSErrors m)\<rparr>) w1)) = view w1" for k w1
    by (simp add: metric_def view_metric http_metrics_def)
  moreover have "view (snd ((case ps of None \<Rightarrow> ret () | Some s \<Rightarrow> Connected (Some s) u) w1)) = view w1" for ps u w1
    by (rule keepsD [of "\<lambda>w. view w = view w1"], intro go_keep) simp
  ultimately show "view (snd (connect_handler h upgrade p r w)) = v"
    using w assms by (auto simp: connect_handler_def ws_connect_def Let_def split: prod.splits sum.splits if_splits)
qed

lemma same_plain: "upholds (\<lambda>w. view w = v) h \<Longrightarrow> view w = v \<Longrightarrow> view (fst (snd (plain h r (w, l)))) = v"
  by (auto simp: plain_def upholds_def split: prod.split) (metis snd_conv)

lemma same_limited:
  "upholds (\<lambda>w. view w = v) h \<Longrightarrow> view w = v \<Longrightarrow> view (fst (snd (limited lib get put h r (w, l)))) = v"
  by (auto simp: limited_def chainLimit_def upholds_def split: prod.split option.split bool.split) (metis snd_conv)+

lemma same_endpoint:
  "e = EWSConnect \<longrightarrow> upholds (\<lambda>w. view w = v) (connect_handler (dp_WS d) up p) \<Longrightarrow> view w = v \<Longrightarrow>
     view (fst (snd (endpoint_handler lib d up p e r (w, l)))) = v"
  by (cases e)
    (auto intro!: same_plain same_limited RequireBearerAuth_upholds same_auth_handlers same_user_handlers same_chat_handlers
      same_message_handlers simp: upholds_def health_def docs_page_def openapi_page_def metrics_page_def)

lemma same_mux:
  "upholds (\<lambda>w. view w = v) (connect_handler (dp_WS d) up p) \<Longrightarrow> view w = v \<Longrightarrow>
     view (fst (snd (mux_handler lib d up p segs r (w, l)))) = v"
  by (simp add: mux_handler_def same_endpoint split: mux_result.split)

end

interpretation hub_view: local_view hub
  by unfold_locales simp_all

interpretation http_view: local_view "\<lambda>w. map_option http_metrics (met w)"
  by unfold_locales (auto simp: option.map_comp comp_def cong: option.map_cong)

section \<open>Metrics of the server\<close>

text \<open>The label of a request that got the status \<open>st\<close>.\<close>

definition request_label :: "string list \<Rightarrow> HttpRequest \<Rightarrow> nat \<Rightarrow> string \<times> string \<times> string" where
  "request_label segs r st =
     (let q = r\<lparr>hr_Pattern := recorded_pattern (hr_Method r) segs\<rparr>
      in (hr_Method r, if routePattern q = ''unmatched'' then stripHighCardinalityPath (hr_Path r) else routePattern q, statusClass st))"

text \<open>
  C25: requests are accounted for exactly.  Every request that is not taken over as a WebSocket, whatever its route and however it ends, is counted once
  under its method, route and status class, contributes one observation, of the time it took, to the histogram under the same label, and leaves
  the gauge of requests in flight and all other counts as they were.
\<close>

theorem requests_accounted:
  assumes "met w = Some m" and "isl up" and "Chain lib d up p segs r (w, l) = (resp, w', l')"
  shows "\<exists>m'. met w' = Some m' \<and> HTTPInflight m' = HTTPInflight m
    \<and> HTTPRequests m' = bump (request_label segs r (recorded_status resp)) (HTTPRequests m)
    \<and> HTTPDuration m' = observe (request_label segs r (recorded_status resp)) (clock w' - clock w) (HTTPDuration m)"
proof -
  let ?q = "r\<lparr>hr_Pattern := recorded_pattern (hr_Method r) segs\<rparr>"
  let ?m1 = "m\<lparr>HTTPInflight := HTTPInflight m + 1\<rparr>"
  define w1 where "w1 = (if hr_Header ?q ''X-Request-ID'' = '''' then w\<lparr>met := Some ?m1, drawn := Suc (drawn w)\<rparr> else w\<lparr>met := Some ?m1\<rparr>)"
  obtain resp2 w2 l2 where mux: "mux_handler lib d up p segs ?q (w1, l) = (resp2, w2, l2)" by (metis prod_cases3)
  have "map_option http_metrics (met w2) = map_option http_metrics (met w1)"
    using http_view.same_mux [OF http_view.same_connect, where up = up and d = d and p = p and w = w1 and lib = lib
        and segs = segs and r = ?q and l = l] mux by simp
  then obtain m2 where m2: "met w2 = Some m2" "http_metrics m2 = http_metrics ?m1"
    by (auto simp: w1_def split: if_splits)
  have "w' = w2\<lparr>met := Some (m2\<lparr>HTTPRequests := bump (request_label segs r (recorded_status resp2)) (HTTPRequests m2),
        HTTPDuration := observe (request_label segs r (recorded_status resp2)) (clock w2 - clock w) (HTTPDuration m2),
        HTTPInflight := HTTPInflight m2 - 1\<rparr>)\<rparr>" "recorded_status resp = recorded_status resp2"
    using assms(1,3) mux m2(1)
    by (auto simp: Chain_def HTTPMiddleware_def Logging_def Recovery_def metric_def Let_def w1_def request_label_def recorded_status_def
        split: if_splits)
  then show ?thesis using m2(2) by (simp add: http_metrics_def)
qed

theorem requests_accounted_witness:
  "\<exists>m'. met (fst (snd (Chain demo_rate demo_deps (Inl (http_Error ''Bad Request'' 400)) 0 [''health''] (demo_request ''GET'' '''')
          (demo\<lparr>met := Some zero_M\<rparr>, app_limits zeroConfig)))) = Some m' \<and> HTTPInflight m' = 0"
proof -
  let ?w = "demo\<lparr>met := Some zero_M\<rparr>" let ?up = "Inl (http_Error ''Bad Request'' 400) :: HttpResponse + unit"
  have m: "met ?w = Some zero_M" by simp
  obtain resp w' l' where c: "Chain demo_rate demo_deps ?up 0 [''health''] (demo_request ''GET'' '''') (?w, app_limits zeroConfig)
      = (resp, w', l')" by (metis prod_cases3)
  show ?thesis using requests_accounted [OF m _ c] c by (auto simp: zero_M_def)
qed

end
