(* ===== verification/Upgrade.thy ===== *)
theory Upgrade
  imports LocalView WsProps
begin

text \<open>
  The upgrade to a WebSocket seen through the middleware.  \<^verbatim>\<open>Upgrade\<close> takes the connection over with the optional method
  \<^verbatim>\<open>Hijack\<close> of the response writer; the middleware of \<^verbatim>\<open>backend/internal/transport/http/middleware/logging.go\<close> and
  \<^verbatim>\<open>backend/internal/observability/metrics/metrics.go\<close> passes on a writer of its own.
\<close>

section \<open>Response writers\<close>

text \<open>
  The writer of \<^verbatim>\<open>net/http\<close>, and \<^verbatim>\<open>statusRecorder\<close> around a writer.  The recorder embeds the interface \<^verbatim>\<open>http.ResponseWriter\<close>, so
  its methods are those of the interface (\<^verbatim>\<open>Header\<close>, \<^verbatim>\<open>Write\<close>, \<^verbatim>\<open>WriteHeader\<close>), whatever else the writer inside can do;
  it has neither \<^verbatim>\<open>Hijack\<close> nor \<^verbatim>\<open>Unwrap\<close>.
\<close>

datatype ResponseWriter = ServerWriter | StatusRecorder ResponseWriter

fun has_Hijack :: "ResponseWriter \<Rightarrow> bool" where
  "has_Hijack ServerWriter = True"
| "has_Hijack (StatusRecorder _) = False"

fun Unwrap_writer :: "ResponseWriter \<Rightarrow> ResponseWriter option" where
  "Unwrap_writer ServerWriter = None"
| "Unwrap_writer (StatusRecorder _) = None"

text \<open>\<^verbatim>\<open>http.ResponseController\<close>: the method itself, or that of the writer it unwraps to.\<close>

definition can_hijack :: "ResponseWriter \<Rightarrow> bool" where
  "can_hijack w = (has_Hijack w \<or> (case Unwrap_writer w of None \<Rightarrow> False | Some v \<Rightarrow> has_Hijack v))"

text \<open>The writer that each middleware hands to the next handler, with and without metrics and logger.\<close>

definition HTTPMiddleware_writer :: "bool \<Rightarrow> ResponseWriter \<Rightarrow> ResponseWriter" where
  "HTTPMiddleware_writer withMetrics w = (if withMetrics then StatusRecorder w else w)"

definition Logging_writer :: "bool \<Rightarrow> ResponseWriter \<Rightarrow> ResponseWriter" where
  "Logging_writer withLogger w = (if withLogger then StatusRecorder w else w)"

definition Chain_writer :: "bool \<Rightarrow> bool \<Rightarrow> ResponseWriter \<Rightarrow> ResponseWriter" where
  "Chain_writer withLogger withMetrics w = Logging_writer withLogger (HTTPMiddleware_writer withMetrics w)"

text \<open>
  What the documentation of the WebSocket library says of \<^verbatim>\<open>Upgrade\<close>: it takes the connection over from the writer, so without a writer that can be
  hijacked it fails; and when it fails, it replies with an HTTP error response.
\<close>

definition needs_hijack :: "(ResponseWriter \<Rightarrow> HttpRequest \<Rightarrow> HttpResponse + unit) \<Rightarrow> bool" where
  "needs_hijack upgrade = (\<forall>w r. \<not> can_hijack w \<longrightarrow> isl (upgrade w r))"

definition replies_error :: "(ResponseWriter \<Rightarrow> HttpRequest \<Rightarrow> HttpResponse + unit) \<Rightarrow> bool" where
  "replies_error upgrade = (\<forall>w r resp. upgrade w r = Inl resp \<longrightarrow> 400 \<le> rp_Status resp)"

text \<open>A server that has a logger and metrics, over a sequence of requests.\<close>

definition serve_upgrading ::
  "'l RateLib \<Rightarrow> Deps \<Rightarrow> (ResponseWriter \<Rightarrow> HttpRequest \<Rightarrow> HttpResponse + unit) \<Rightarrow> (string list \<times> client_ref \<times> HttpRequest) list \<Rightarrow>
     World \<times> 'l Limits \<Rightarrow> World \<times> 'l Limits" where
  "serve_upgrading lib d upgrade reqs =
     serve_http lib d (map (\<lambda>(segs, p, r). (segs, upgrade (Chain_writer True True ServerWriter) r, p, r)) reqs)"

section \<open>No connection through the middleware\<close>

lemma Chain_writer_hides_Hijack: "\<not> can_hijack (Chain_writer True withMetrics w)"
  by (simp add: Chain_writer_def Logging_writer_def can_hijack_def)

lemma Chain_failed_upgrade:
  assumes "isl up"
  shows "hub (fst (snd (Chain lib d up p segs r (w, l)))) = hub w"
proof -
  obtain w1 w2 r' where c: "w1 = w\<lparr>met := met w1, drawn := drawn w1\<rparr>"
    "w2 = fst (snd (mux_handler lib d up p segs r' (w1, l)))"
    "fst (snd (Chain lib d up p segs r (w, l))) = w2\<lparr>met := met (fst (snd (Chain lib d up p segs r (w, l))))\<rparr>"
    using Chain_world by metis
  have "hub w1 = hub w" by (subst c(1)) simp
  then have "hub w2 = hub w"
    unfolding c(2) by (intro hub_view.same_mux hub_view.same_connect) (simp_all add: assms)
  moreover have "hub (w2\<lparr>met := m\<rparr>) = hub w2" for m by simp
  ultimately show ?thesis using c(3) by metis
qed

lemma connect_refusal:
  "up = Inl lr \<Longrightarrow> rp_Status (fst (connect_handler h up p r w)) \<in> {401, 403, 503, rp_Status lr}"
  by (auto simp: connect_handler_def ws_connect_def Let_def http_Error_def split: prod.splits sum.splits)

lemma limited_refusal:
  "(\<And>r w. rp_Status (fst (h r w)) \<in> S) \<Longrightarrow> rp_Status (fst (limited lib get put h r st)) \<in> insert 429 S"
  by (auto simp: limited_def chainLimit_def rate_limited_def WriteJSON_def split: prod.split option.split bool.split)
    (metis fst_conv)+

lemma mux_refusal:
  assumes "up = Inl lr" and "mux (hr_Method r) segs = Found EWSConnect vals"
  shows "rp_Status (fst (mux_handler lib d up p segs r st)) \<in> {429, 401, 403, 503, rp_Status lr}"
  using assms(2) limited_refusal [of "connect_handler (dp_WS d) up p", OF connect_refusal [OF assms(1)]]
  by (simp add: mux_handler_def)

text \<open>
  C34: no WebSocket connection can be opened through the server as it is put together.  The recorders of the logging and the metrics
  middleware hide the method that \<^verbatim>\<open>Upgrade\<close> needs, so every request to \<^verbatim>\<open>/ws/connect\<close> is answered with an error, with a valid ticket as well
  as without: the handler's 401, 403 or 503, the limiter's 429, or the library's own error response.  After any sequence of requests the registry
  of connections is as it was.
\<close>

theorem middleware_blocks_websockets:
  assumes "needs_hijack upgrade" and "replies_error upgrade"
  shows "hub (fst (serve_upgrading lib d upgrade reqs (w, l))) = hub w
    \<and> (mux (hr_Method r) segs = Found EWSConnect vals \<longrightarrow>
        (\<exists>lr. upgrade (Chain_writer True True ServerWriter) r = Inl lr \<and> 400 \<le> rp_Status lr
           \<and> rp_Status (fst (Chain lib d (upgrade (Chain_writer True True ServerWriter) r) p segs r (w, l)))
               \<in> {401, 403, 429, 503, rp_Status lr}))"
proof (intro conjI impI)
  have up: "isl (upgrade (Chain_writer True True ServerWriter) r)" for r
    using assms(1) Chain_writer_hides_Hijack by (simp add: needs_hijack_def)
  show "hub (fst (serve_upgrading lib d upgrade reqs (w, l))) = hub w"
  proof (induction reqs arbitrary: w l)
    case (Cons q reqs)
    obtain segs p r where q: "q = (segs, p, r)" using prod_cases3 by blast
    let ?c = "Chain lib d (upgrade (Chain_writer True True ServerWriter) r) p segs r (w, l)"
    have "hub (fst (snd ?c)) = hub w" by (rule Chain_failed_upgrade [OF up])
    then show ?case using Cons.IH [of "fst (snd ?c)" "snd (snd ?c)"] by (simp add: serve_upgrading_def q)
  qed (simp add: serve_upgrading_def)
  assume m: "mux (hr_Method r) segs = Found EWSConnect vals"
  let ?u = "upgrade (Chain_writer True True ServerWriter) r"
  let ?q = "r\<lparr>hr_Pattern := recorded_pattern (hr_Method r) segs\<rparr>"
  obtain lr where lr: "?u = Inl lr" using up [of r] by (cases ?u) auto
  then have "400 \<le> rp_Status lr" using assms(2) by (auto simp: replies_error_def)
  moreover obtain w1 where
    "rp_Status (fst (Chain lib d ?u p segs r (w, l))) = rp_Status (fst (mux_handler lib d ?u p segs ?q (w1, l)))"
    using Chain_world by metis
  moreover have "rp_Status (fst (mux_handler lib d ?u p segs ?q (w1, l))) \<in> {401, 403, 429, 503, rp_Status lr}"
    using m mux_refusal [OF lr, where r = ?q and segs = segs and vals = vals and lib = lib and d = d and p = p and st = "(w1, l)"]
    by auto
  ultimately show "\<exists>lr. ?u = Inl lr \<and> 400 \<le> rp_Status lr
      \<and> rp_Status (fst (Chain lib d ?u p segs r (w, l))) \<in> {401, 403, 429, 503, rp_Status lr}"
    using lr by auto
qed

text \<open>A library that checks the handshake and then upgrades exactly the writers it can hijack.\<close>

definition demo_upgrade :: "ResponseWriter \<Rightarrow> HttpRequest \<Rightarrow> HttpResponse + unit" where
  "demo_upgrade w r =
     (if hr_Header r ''Connection'' \<noteq> ''Upgrade'' then Inl (http_Error ''Bad Request'' 400)
      else if can_hijack w then Inr () else Inl (http_Error ''Internal Server Error'' 500))"

theorem middleware_blocks_websockets_witness:
  "needs_hijack demo_upgrade \<and> replies_error demo_upgrade
   \<and> (\<exists>lr. demo_upgrade (Chain_writer True True ServerWriter) (demo_connect '''') = Inl lr
        \<and> rp_Status (fst (Chain demo_rate demo_deps (Inl lr) 0 [''ws'', ''connect''] (demo_connect '''')
            (demo_ticket_world, app_limits zeroConfig))) \<in> {401, 403, 429, 503, rp_Status lr})"
proof (intro conjI)
  show nh: "needs_hijack demo_upgrade" by (simp add: needs_hijack_def demo_upgrade_def)
  show re: "replies_error demo_upgrade" by (simp add: replies_error_def demo_upgrade_def http_Error_def)
  have "mux (hr_Method (demo_connect '''')) [''ws'', ''connect''] = Found EWSConnect []" by code_simp
  then show "\<exists>lr. demo_upgrade (Chain_writer True True ServerWriter) (demo_connect '''') = Inl lr
      \<and> rp_Status (fst (Chain demo_rate demo_deps (Inl lr) 0 [''ws'', ''connect''] (demo_connect '''')
            (demo_ticket_world, app_limits zeroConfig))) \<in> {401, 403, 429, 503, rp_Status lr}"
    using middleware_blocks_websockets [OF nh re, where lib = demo_rate and d = demo_deps and r = "demo_connect ''''"
        and segs = "[''ws'', ''connect'']" and vals = "[]" and p = 0 and w = demo_ticket_world and l = "app_limits zeroConfig"]
    by metis
qed

section \<open>Presence with several connections\<close>

text \<open>
  When one of two connections of a user ends, the user counts as offline, although the other connection is still registered.
\<close>

lemma presence_lost_with_open_connection:
  assumes "calm w" and "u \<noteq> ''''" and "registered (hub w) u q" and "p \<noteq> q"
  defines "w' \<equiv> read_end (Some \<lparr>ps_repo = Some ()\<rparr>) p u w"
  shows "registered (hub w') u q \<and> fst (IsOnline (Some \<lparr>ps_repo = Some ()\<rparr>) u w') = Inr False"
proof -
  define w1 where "w1 = snd (Disconnected (Some \<lparr>ps_repo = Some ()\<rparr>) u w)"
  have w1: "calm w1" "redis_kv (store w1) (presenceKey u) = None"
    using assms(1,2)
    by (simp_all add: w1_def Disconnected_def SetOffline_def Presence_SetOffline_def ignore_def roundtrip_calm redis_DEL_def ret_def)
  have "hub w1 = hub w" unfolding w1_def by (rule keepsD [OF hub_view.same_presence(2) refl])
  moreover have w': "w' = w1\<lparr>hub := Unregister p (newClient u) (hub w1)\<rparr>" by (simp add: w'_def w1_def read_end_def Let_def)
  moreover have "calm w'" using w1(1) by (simp add: w' calm_def quiet_def reliable_def)
  ultimately show ?thesis
    using assms(2-4) w1(2)
    by (simp add: registered_Unregister IsOnline_def Presence_IsOnline_def call_def roundtrip_calm redis_EXISTS_def
        redis_get_def ret_def)
qed

end
