(* ===== verification/Patterns.thy ===== *)
theory Patterns
  imports AuthService MessageService ChatService UserService
begin

text \<open>
  The regular expressions that the services compile, as regular expressions, and their equality with the tests that the
  other theories use.  All of them are anchored at both ends and are sequences of repeated ASCII classes, so that matching bytes and matching
  UTF-8 characters agree: a byte outside ASCII is in none of the classes.
\<close>

section \<open>Sequences of repeated classes\<close>

text \<open>\<^verbatim>\<open>[class]{lo,hi}\<close>; \<^verbatim>\<open>+\<close> and \<^verbatim>\<open>{lo,}\<close> have no upper bound.\<close>

datatype re_piece = Rep "char \<Rightarrow> bool" nat "nat option"

fun piece_match :: "re_piece \<Rightarrow> string \<Rightarrow> bool" where
  "piece_match (Rep cls lo hi) s =
     (lo \<le> length s \<and> (case hi of None \<Rightarrow> True | Some n \<Rightarrow> length s \<le> n) \<and> list_all cls s)"

text \<open>\<^verbatim>\<open>MatchString\<close> of an anchored expression: some way to cut the text matches piece by piece.\<close>

fun MatchString :: "re_piece list \<Rightarrow> string \<Rightarrow> bool" where
  "MatchString [] s = (s = [])"
| "MatchString (p # ps) s =
     list_ex (\<lambda>k. piece_match p (take k s) \<and> MatchString ps (drop k s)) [0 ..< Suc (length s)]"

abbreviation exactly :: "(char \<Rightarrow> bool) \<Rightarrow> nat \<Rightarrow> re_piece" where
  "exactly cls n \<equiv> Rep cls n (Some n)"

abbreviation literal :: "char \<Rightarrow> re_piece" where
  "literal c \<equiv> exactly (\<lambda>x. x = c) (Suc 0)"

text \<open>\<^verbatim>\<open>^[a-zA-Z0-9_]{3,32}$\<close>\<close>

definition nickname_re :: "re_piece list" where
  "nickname_re = [Rep (\<lambda>c. is_letter c \<or> is_digit c \<or> c = CHR ''_'') 3 (Some 32)]"

text \<open>\<^verbatim>\<open>^[a-zA-Z0-9._%+\-]+@[a-zA-Z0-9.\-]+\.[a-zA-Z]{2,}$\<close>\<close>

definition email_re :: "re_piece list" where
  "email_re =
     [Rep email_local 1 None, literal (CHR ''@''), Rep email_domain 1 None, literal (CHR ''.''), Rep is_letter 2 None]"

text \<open>\<^verbatim>\<open>^[0-9a-fA-F]{8}-[0-9a-fA-F]{4}-[0-9a-fA-F]{4}-[0-9a-fA-F]{4}-[0-9a-fA-F]{12}$\<close>\<close>

definition uuid_re :: "re_piece list" where
  "uuid_re =
     [exactly is_hex 8, literal (CHR ''-''), exactly is_hex 4, literal (CHR ''-''), exactly is_hex 4, literal (CHR ''-''),
      exactly is_hex 4, literal (CHR ''-''), exactly is_hex 12]"

section \<open>Cutting a text\<close>

lemma MatchString_Cons:
  "MatchString (p # ps) s \<longleftrightarrow> (\<exists>u v. s = u @ v \<and> piece_match p u \<and> MatchString ps v)"
proof
  assume "MatchString (p # ps) s"
  then obtain k where "piece_match p (take k s)" "MatchString ps (drop k s)" unfolding MatchString.simps list_ex_iff by blast
  then show "\<exists>u v. s = u @ v \<and> piece_match p u \<and> MatchString ps v" by (metis append_take_drop_id)
next
  assume "\<exists>u v. s = u @ v \<and> piece_match p u \<and> MatchString ps v"
  then obtain u v where s: "s = u @ v" "piece_match p u" "MatchString ps v" by blast
  then have "length u \<in> set [0 ..< Suc (length s)]" by simp
  with s show "MatchString (p # ps) s" unfolding MatchString.simps list_ex_iff by (intro bexI [of _ "length u"]) simp_all
qed

declare MatchString.simps(2) [simp del]

lemma MatchString_last [simp]: "MatchString [p] s = piece_match p s"
  by (simp only: MatchString_Cons) simp

lemma MatchString_literal [simp]:
  "MatchString (literal c # ps) s = (case s of [] \<Rightarrow> False | x # r \<Rightarrow> x = c \<and> MatchString ps r)"
proof (cases s)
  case (Cons x r)
  have "piece_match (literal c) u = (u = [c])" for u by (cases u) (auto simp: le_Suc_eq)
  with Cons show ?thesis unfolding MatchString_Cons by auto
qed (simp add: MatchString_Cons)

lemma MatchString_exactly:
  "MatchString (exactly cls n # ps) s =
     (length (take n s) = n \<and> list_all cls (take n s) \<and> MatchString ps (drop n s))"
  unfolding MatchString_Cons
proof
  assume r: "length (take n s) = n \<and> list_all cls (take n s) \<and> MatchString ps (drop n s)"
  then show "\<exists>u v. s = u @ v \<and> piece_match (exactly cls n) u \<and> MatchString ps v"
    by (intro exI [of _ "take n s"] exI [of _ "drop n s"]) simp
qed auto

lemma exactly_last: "MatchString [exactly cls n] s = (length s = n \<and> list_all cls s)"
  by auto

section \<open>The tests of the services\<close>

lemma nickname_pattern_re: "nickname_pattern s = MatchString nickname_re s"
  by (simp add: nickname_pattern_def nickname_re_def)

lemma hex_groups_re:
  "hex_groups (n # m # ns) s =
     (length (take n s) = n \<and> list_all is_hex (take n s) \<and>
      (case drop n s of [] \<Rightarrow> False | c # r \<Rightarrow> c = CHR ''-'' \<and> hex_groups (m # ns) r))"
  by simp

lemmas group_re = MatchString_exactly [of is_hex _ "literal c # ps" for c ps]

lemma uuid_pattern_re: "uuid_pattern s = MatchString uuid_re s"
  by (simp only: uuid_pattern_def uuid_re_def hex_groups_re group_re MatchString_literal hex_groups.simps(2) exactly_last)

lemma list_all_not: "list_all P s \<Longrightarrow> \<not> P c \<Longrightarrow> \<forall>x \<in> set s. x \<noteq> c"
  by (auto simp: list_all_iff)

lemma email_classes: "\<not> email_local (CHR ''@'')" "\<not> is_letter (CHR ''.'')"
  by code_simp+

lemma cut_at:
  assumes "\<forall>x \<in> set u. x \<noteq> c"
  shows "takeWhile (\<lambda>x. x \<noteq> c) (u @ c # v) = u" "dropWhile (\<lambda>x. x \<noteq> c) (u @ c # v) = c # v"
  using assms by simp_all

lemma dropWhile_sep: "dropWhile (\<lambda>x. x \<noteq> c) s = y # v \<Longrightarrow> s = takeWhile (\<lambda>x. x \<noteq> c) s @ c # v"
  by (induction s) (auto split: if_splits)

lemma MatchString_plus:
  "MatchString (Rep cls (Suc 0) None # literal c # ps) s \<longleftrightarrow>
     (\<exists>u v. s = u @ c # v \<and> u \<noteq> [] \<and> list_all cls u \<and> MatchString ps v)"
proof -
  have "piece_match (Rep cls (Suc 0) None) u = (u \<noteq> [] \<and> list_all cls u)" for u by (simp add: Suc_le_eq)
  moreover have "MatchString (literal c # ps) r = (\<exists>v. r = c # v \<and> MatchString ps v)" for r by (cases r) auto
  ultimately show ?thesis unfolding MatchString_Cons [of "Rep cls (Suc 0) None"] by blast
qed

lemma email_re_iff:
  "MatchString email_re s \<longleftrightarrow>
     (\<exists>u d t. s = u @ CHR ''@'' # d @ CHR ''.'' # t \<and> u \<noteq> [] \<and> list_all email_local u
        \<and> d \<noteq> [] \<and> list_all email_domain d \<and> 2 \<le> length t \<and> list_all is_letter t)"
  unfolding email_re_def One_nat_def MatchString_plus MatchString_last piece_match.simps option.case by auto

lemma email_pattern_re: "email_pattern s = MatchString email_re s"
proof
  assume e: "email_pattern s"
  let ?h = "rev (drop 1 (dropWhile (\<lambda>c. c \<noteq> CHR ''@'') s))"
  obtain y dom where dom: "dropWhile (\<lambda>c. c \<noteq> CHR ''.'') ?h = y # dom" "dom \<noteq> []" "list_all email_domain dom"
  proof (cases "dropWhile (\<lambda>c. c \<noteq> CHR ''.'') ?h")
    case Nil
    then show thesis using e unfolding email_pattern_def Let_def Nil by simp
  next
    case (Cons y dom)
    then show thesis using e that [of y dom] unfolding email_pattern_def Let_def Cons by (auto simp: Suc_le_eq)
  qed
  obtain z host where host: "dropWhile (\<lambda>c. c \<noteq> CHR ''@'') s = z # host"
    using dom(1) by (cases "dropWhile (\<lambda>c. c \<noteq> CHR ''@'') s") auto
  have "s = takeWhile (\<lambda>c. c \<noteq> CHR ''@'') s @ CHR ''@'' # host" by (rule dropWhile_sep [OF host])
  moreover have "rev host = takeWhile (\<lambda>c. c \<noteq> CHR ''.'') ?h @ CHR ''.'' # dom"
    using dropWhile_sep [OF dom(1)] host by simp
  then have "host = rev dom @ CHR ''.'' # rev (takeWhile (\<lambda>c. c \<noteq> CHR ''.'') ?h)"
    by (metis rev_swap rev_append rev.simps(2) append_assoc append_Cons append_Nil)
  ultimately show "MatchString email_re s"
    unfolding email_re_iff using e dom(2,3) unfolding email_pattern_def Let_def
    by (intro exI [of _ "takeWhile (\<lambda>c. c \<noteq> CHR ''@'') s"] exI [of _ "rev dom"]
        exI [of _ "rev (takeWhile (\<lambda>c. c \<noteq> CHR ''.'') ?h)"]) (simp add: list_all_rev)
next
  assume "MatchString email_re s"
  then obtain u d t where s: "s = u @ CHR ''@'' # d @ CHR ''.'' # t" "u \<noteq> []" "list_all email_local u"
    "d \<noteq> []" "list_all email_domain d" "2 \<le> length t" "list_all is_letter t" unfolding email_re_iff by blast
  have u: "\<forall>x \<in> set u. x \<noteq> CHR ''@''" by (rule list_all_not [OF s(3) email_classes(1)])
  have t: "\<forall>x \<in> set (rev t). x \<noteq> CHR ''.''" using list_all_not [OF s(7) email_classes(2)] by simp
  have "rev (drop 1 (dropWhile (\<lambda>c. c \<noteq> CHR ''@'') s)) = rev t @ CHR ''.'' # rev d"
    using cut_at(2) [OF u] by (simp add: s(1))
  then show "email_pattern s"
    using s(2-7) cut_at(1) [OF u] cut_at [OF t]
    by (simp add: email_pattern_def Let_def s(1) list_all_rev Suc_le_eq)
qed

text \<open>Each compiled expression accepts exactly the texts its test in the model accepts.\<close>

lemma compiled_patterns:
  "nicknameRe s = MatchString nickname_re s" "userNicknameRe s = MatchString nickname_re s"
  "emailRe s = MatchString email_re s" "userUUIDRe s = MatchString uuid_re s"
  "chatUUIDRe s = MatchString uuid_re s" "msgUUIDRe s = MatchString uuid_re s"
  by (simp_all add: nicknameRe_def userNicknameRe_def emailRe_def userUUIDRe_def chatUUIDRe_def msgUUIDRe_def
      nickname_pattern_re email_pattern_re uuid_pattern_re)

end
