(* ===== verification/Spec2Isabelle.thy ===== *)
theory Spec2Isabelle
  imports WriterProps History DirectChat RelayProps WsProps ProcessLife SqlRows KeepAlive Upgrade Patterns
begin

text \<open>
  A verification development of the GoFlow messenger backend (\<^verbatim>\<open>src/backend\<close>).

  \<^bold>\<open>The program.\<close>  One Go process serves an HTTP API and WebSocket connections.  Services (authentication,
  users, chats, messages, WebSocket events) check a request and call repositories on PostgreSQL; a message, its edit,
  its deletion or a read mark is written in one transaction with a row of the table \<^verbatim>\<open>outbox_events\<close>.  A relay polls the
  outbox every 200 ms and hands each row to Kafka, or to the local broadcaster if Kafka is off; a consumer reads the
  topic and fans events out to the connections of the chat's members.  Redis keeps presence, typing indicators
  and connection tickets with a time to live, and carries events between processes.  \<^verbatim>\<open>main\<close> loads the configuration, migrates the
  schema, builds the container and the application, and runs it until a signal or a failure of the server.

  \<^bold>\<open>How it is modelled.\<close>  An operation is a function \<^verbatim>\<open>World => (err + 'a) * World\<close> (type \<open>go\<close> of \<open>GoIO\<close>), composed with
  \<open>call\<close> (\<^verbatim>\<open>x, err := m; if err != nil\<close>), \<open>ignore\<close> (\<^verbatim>\<open>_ = m\<close>), \<open>ret\<close> and \<open>raise\<close>.  The world holds the store (the tables with
  their rows, Redis, the Kafka topic), the clock, the hub of connections, the metrics, and the network: for every round trip a delay,
  what other clients do to the store before it, the identifier the database would draw, and its fate (delivered,
  request lost, reply lost).  Theorems quantify over the network, so they hold under every schedule of faults and
  interleaving of other clients at the granularity of statements and transactions; \<open>rely\<close> states what other clients keep, and
  \<open>calm\<close> is the special case of no faults and no interference.  A transaction sees one snapshot, and is rolled
  back on an error or a lost commit request.  Errors are values of type \<open>err\<close>; a nil pointer or interface is \<open>None\<close>.
  Strings are lists of bytes, time is in nanoseconds, and integers whose overflow matters are kept within 64 bits (\<open>int64\<close>).

  \<^bold>\<open>Theories and sources\<close> (below \<^verbatim>\<open>backend/internal\<close>).
  \<^item> \<open>GoLib\<close>, \<open>GoText\<close>, \<open>Json\<close>, \<open>JsonIn\<close>: what the code uses of the Go library (\<^verbatim>\<open>strings\<close>, \<^verbatim>\<open>strconv\<close>, \<^verbatim>\<open>net\<close>, \<^verbatim>\<open>encoding/hex\<close>,
    \<^verbatim>\<open>encoding/json\<close>, the regular expressions) and the envelope of WebSocket frames.
  \<^item> \<open>AppErr\<close> (\<^verbatim>\<open>pkg/errors\<close>), \<open>Domain\<close> (\<^verbatim>\<open>domain\<close>, \<^verbatim>\<open>dto\<close>, the parameter types of \<^verbatim>\<open>repository\<close>), \<open>Schema\<close> (the constraints of \<^verbatim>\<open>migration/*.sql\<close>).
  \<^item> \<open>ChatRepo\<close>, \<open>MessageRepo\<close> (with the message writer and the outbox), \<open>UserRepo\<close>, \<open>SessionRepo\<close> (\<^verbatim>\<open>repository/postgres\<close>); \<open>Ephemeral\<close>
    (\<^verbatim>\<open>repository/redis\<close>, the presence and ticket services).
  \<^item> \<open>MessageService\<close>, \<open>ChatService\<close>, \<open>AuthService\<close>, \<open>UserService\<close>, \<open>WsService\<close> (\<^verbatim>\<open>service\<close>, \<^verbatim>\<open>pkg/auth\<close>).
  \<^item> \<open>Hub\<close>, \<open>Broadcast\<close>, \<open>WsConn\<close> (\<^verbatim>\<open>transport/ws\<close>); \<open>Relay\<close> (\<^verbatim>\<open>worker\<close>, \<^verbatim>\<open>kafka\<close>).
  \<^item> \<open>Config\<close> (\<^verbatim>\<open>config\<close>), \<open>HttpCore\<close> and \<open>RateLimit\<close> (\<^verbatim>\<open>pkg/response\<close>, \<^verbatim>\<open>pkg/validator\<close>, \<^verbatim>\<open>transport/http/middleware\<close>,
    \<^verbatim>\<open>observability/metrics\<close>), \<open>Handlers\<close> (\<^verbatim>\<open>transport/http/handler\<close>), \<open>Router\<close> (\<^verbatim>\<open>transport/http/router.go\<close>, \<^verbatim>\<open>transport/http/docs\<close>, the wiring in
    \<^verbatim>\<open>app/app.go\<close>), \<open>Upgrade\<close> (the response writers of the middleware).
  \<^item> \<open>Migration\<close> (\<^verbatim>\<open>migration\<close>), \<open>Startup\<close> (\<^verbatim>\<open>app\<close>, \<^verbatim>\<open>pkg/logger\<close>, \<^verbatim>\<open>repository/postgres/pool.go\<close>, the construction of the metrics, and
    \<^verbatim>\<open>cmd/app/main.go\<close>).

  \<^bold>\<open>What is shown.\<close>
  \<^item> \<open>Evolution\<close>, \<open>Guarantee\<close>, \<open>SessionGuarantee\<close>: every operation keeps the invariant \<open>domain_ok\<close> of the store and changes it
    only along \<open>later\<close>; the rule for round trips and transactions is the locale \<open>store_evolution\<close>, interpreted for this pair, in
    \<open>RelayProps\<close> for the invariant of the relay, and in \<open>MigrationProps\<close> for the state of the schema.
  \<^item> \<open>Writer\<close>, \<open>WriterProps\<close>: the transactional writes refine abstract operations on the store (locale \<open>atomic_op\<close>, interpreted for
    the four methods): all or nothing, under every fault.
  \<^item> \<open>System\<close>: the transition system of all requests; the invariant, the completeness of the outbox and the permanence of
    messages in every reachable state.
  \<^item> \<open>MessageProps\<close>, \<open>History\<close>, \<open>ChatProps\<close>, \<open>DirectChat\<close>: authorisation, paging, unread counts, membership rules, group creation, the
    one direct chat of a pair.
  \<^item> \<open>AuthProps\<close>: atomic rotation, single use of refresh tokens, what a login proves, what an accepted token proves,
    registration followed by login.
  \<^item> \<open>RelayProps\<close>: equality of the two ways of delivery, at-least-once, draining, the nil producer, the length of a tick.
  \<^item> \<open>HttpProps\<close>: the invariant through the whole HTTP server, protected endpoints, routes, error responses, rate limits, configuration.
  \<^item> \<open>WsProps\<close>: tickets, connecting, the registry of connections, fan-out.  \<open>KeepAlive\<close>: the read loop with its deadline and the time
    that handling takes, pings and pongs, the order of the write pump.
  \<^item> \<open>LocalView\<close>: which parts of the world services and handlers leave alone, proved once in the locale \<open>local_view\<close> and interpreted for the
    registry of connections and for the HTTP metrics; every request is counted and timed exactly once.  \<open>Upgrade\<close>: the middleware hides what an upgrade
    needs, so no connection can be opened through the assembled server (the properties of connections are those of the handler and the
    pumps themselves); presence with several connections.
  \<^item> \<open>Patterns\<close>: the compiled regular expressions accept exactly what the tests of the model accept.
  \<^item> \<open>MigrationProps\<close>: the scripts are applied in order and exactly once under every fault and with concurrent instances; progress and
    idempotence.  \<open>StartProps\<close>: what is in place when the program serves; the time a shutdown takes.  \<open>ProcessLife\<close>: the
    invariant from the start of \<^verbatim>\<open>main\<close> to the exit of the process.
  \<^item> \<open>SqlRows\<close>: the column lists of the SQL statements, the scan functions and the bound arguments, which agree, so that the other
    theories may take a row of a table to be the record itself.
  \<^item> \<open>Demo\<close> and the demonstration values in the theories of properties: a small store and network on which the theorems are instantiated.

  \<^bold>\<open>Bounds.\<close>  No operation needs fuel: loops are recursive over the data they walk.  The ticker loop of the relay, the loop of the Kafka
  consumer and the WebSocket pumps run until a signal or an I/O error, so they are modelled by the number of ticks, or the messages or
  frames read until then, and
  the properties hold for every such number; a tick itself is shown to be bounded.

  \<^bold>\<open>Parameters.\<close>  SHA-256, bcrypt, the JWT library, \<^verbatim>\<open>time.Parse\<close>, the token bucket of \<^verbatim>\<open>x/time/rate\<close>, the upgrade of the WebSocket library, the file system and the YAML
  decoder, pgx's connection pool, and the effect of a SQL script on the schema are arguments of the definitions that use them.  What a property relies on is a hypothesis of it, and its witness instantiates the
  parameter.

  \<^bold>\<open>Not modelled.\<close>  Log output; the page that the Prometheus library renders and the buckets of its histograms (an observation is a duration in
  nanoseconds); the text of the embedded file \<^verbatim>\<open>openapi.yaml\<close>;
  byte-level JSON (a JSON text is represented by the value it denotes, with the number of bytes read for the size limits); write deadlines, which show as
  failed writes; goroutine scheduling
  inside the process, which appears as tasks, ticks and frames, and as what the other goroutines do in each phase of \<^verbatim>\<open>Run\<close> (so a fan-out
  to the members of a chat is one step, and a limiter reads the clock once per request); cancellation of contexts, which shows only as the failure of a trip.
\<close>

end
